(* ===== verification/Blas_Prelude.thy ===== *)
theory Blas_Prelude
  imports Complex_Main "HOL-Library.Multiset" "HOL-Library.Sublist"
begin

text \<open>
  Shared vocabulary of the development: the Python string operations the
  generator \<^verbatim>\<open>gen_blas.py\<close> uses to build names and argument lists
  (\<^verbatim>\<open>', '.join\<close>, \<^verbatim>\<open>str.lower\<close>, \<^verbatim>\<open>str.upper\<close>), the C integer
  conversions the generated C performs when it forwards strides, and the
  generic list lemmas the component theories share.  The collection
  \<open>blas_defs\<close> gathers the definitions that evaluate the model on a
  concrete descriptor or array, so that witnesses are closed by
  \<open>simp add: blas_defs\<close>.
\<close>

named_theorems blas_defs "definitions unfolded when the model is evaluated on concrete inputs"

subsection \<open>Python string operations\<close>

text \<open>\<^verbatim>\<open>sep.join(xs)\<close>: the separator between consecutive elements only.\<close>

fun py_join :: "string \<Rightarrow> string list \<Rightarrow> string" where
  "py_join sep [] = []"
| "py_join sep [x] = x"
| "py_join sep (x # y # ys) = x @ sep @ py_join sep (y # ys)"

text \<open>\<^verbatim>\<open>str.lower\<close> and \<^verbatim>\<open>str.upper\<close> on the ASCII letters the names use.\<close>

definition lower_char :: "char \<Rightarrow> char" where
  "lower_char c =
     (let k = (of_char c :: nat) in if 65 \<le> k \<and> k \<le> 90 then char_of (k + 32) else c)"

definition upper_char :: "char \<Rightarrow> char" where
  "upper_char c =
     (let k = (of_char c :: nat) in if 97 \<le> k \<and> k \<le> 122 then char_of (k - 32) else c)"

definition py_lower :: "string \<Rightarrow> string" where
  "py_lower s = map lower_char s"

definition py_upper :: "string \<Rightarrow> string" where
  "py_upper s = map upper_char s"

declare lower_char_def [blas_defs] upper_char_def [blas_defs]
  py_lower_def [blas_defs] py_upper_def [blas_defs] char_of_def [blas_defs] bit_0 [blas_defs]

subsection \<open>C integer conversions\<close>

text \<open>
  \<^verbatim>\<open>size_t\<close> and \<^verbatim>\<open>ssize_t\<close> are 64 bits wide, \<^verbatim>\<open>int\<close> 32 bits.  Dividing
  an \<^verbatim>\<open>ssize_t\<close> by a \<^verbatim>\<open>size_t\<close> converts the signed operand to
  \<^verbatim>\<open>size_t\<close> (same rank, so the unsigned type wins); storing a \<^verbatim>\<open>size_t\<close>
  into an \<^verbatim>\<open>int\<close> parameter keeps the low 32 bits as two's complement.
\<close>

definition size_t_of_ssize :: "int \<Rightarrow> nat" where
  "size_t_of_ssize s = nat (s mod 2 ^ 64)"

definition c_int_of_size :: "nat \<Rightarrow> int" where
  "c_int_of_size v =
     (let w = int v mod 2 ^ 32 in if w < 2 ^ 31 then w else w - 2 ^ 32)"

lemma size_t_of_ssize_nonneg [simp]:
  "0 \<le> s \<Longrightarrow> s < 2 ^ 64 \<Longrightarrow> size_t_of_ssize s = nat s"
  by (simp add: size_t_of_ssize_def)

lemma size_t_of_ssize_neg:
  assumes "s < 0" and "- (2 ^ 64) \<le> s"
  shows "size_t_of_ssize s = nat (s + 2 ^ 64)"
proof -
  have "(s + 2 ^ 64) mod 2 ^ 64 = s + 2 ^ 64"
    using assms by (intro mod_pos_pos_trivial) simp_all
  then show ?thesis by (simp add: size_t_of_ssize_def)
qed

lemma c_int_of_size_small [simp]:
  "v < 2 ^ 31 \<Longrightarrow> c_int_of_size v = int v"
  by (simp add: c_int_of_size_def Let_def)

lemma c_int_of_size_range:
  "- (2 ^ 31) \<le> c_int_of_size v \<and> c_int_of_size v < 2 ^ 31"
proof -
  have "0 \<le> int v mod 2 ^ 32" and "int v mod 2 ^ 32 < 2 ^ 32"
    by simp_all
  then show ?thesis by (auto simp: c_int_of_size_def Let_def)
qed

text \<open>
  A \<^verbatim>\<open>ssize_t\<close> multiple of a power-of-two element size, divided as
  \<^verbatim>\<open>size_t\<close>, keeps the quotient modulo \<open>2 ^ 32\<close>; the \<^verbatim>\<open>int\<close>
  conversion then returns the representative in the 32-bit range.
\<close>

lemma c_int_of_size_int32:
  assumes "- (2 ^ 31) \<le> k" and "k < 2 ^ 31" and "int v mod 2 ^ 32 = k mod 2 ^ 32"
  shows "c_int_of_size v = k"
proof (cases "0 \<le> k")
  case True
  then show ?thesis using assms by (simp add: c_int_of_size_def Let_def)
next
  case False
  then have "(k + 2 ^ 32) mod 2 ^ 32 = k + 2 ^ 32"
    using assms(1) by (intro mod_pos_pos_trivial) simp_all
  then have "k mod 2 ^ 32 = k + 2 ^ 32" by simp
  then show ?thesis
    using assms False by (simp add: c_int_of_size_def Let_def)
qed

lemma size_t_div_pow2_mod:
  assumes "j \<le> 32"
  shows "int (size_t_of_ssize (k * 2 ^ j) div 2 ^ j) mod 2 ^ 32 = k mod 2 ^ 32"
proof -
  have split: "(2::int) ^ 64 = 2 ^ (64 - j) * 2 ^ j"
    using assms by (simp flip: power_add)
  have "(k * 2 ^ j) mod 2 ^ 64 = (k mod 2 ^ (64 - j)) * 2 ^ j"
    unfolding split by (rule mod_mult_mult2)
  then have "size_t_of_ssize (k * 2 ^ j) div 2 ^ j = nat (k mod 2 ^ (64 - j))"
    by (simp add: size_t_of_ssize_def nat_mult_distrib nat_power_eq)
  moreover have "(k mod 2 ^ (64 - j)) mod 2 ^ 32 = k mod 2 ^ 32"
    using assms by (intro mod_mod_cancel le_imp_power_dvd) simp
  ultimately show ?thesis by simp
qed

lemma inc_of_stride:
  "j \<le> 32 \<Longrightarrow> - (2 ^ 31) \<le> k \<Longrightarrow> k < 2 ^ 31
   \<Longrightarrow> c_int_of_size (size_t_of_ssize (k * 2 ^ j) div 2 ^ j) = k"
  using size_t_div_pow2_mod by (blast intro: c_int_of_size_int32)

subsection \<open>Lists\<close>

lemma list_ex_filter_iff: "list_ex P (filter Q xs) \<longleftrightarrow> (\<exists>x\<in>set xs. Q x \<and> P x)"
  by (auto simp: list_ex_iff)

lemma py_join_Cons_Cons [simp]:
  "xs \<noteq> [] \<Longrightarrow> py_join sep (x # xs) = x @ sep @ py_join sep xs"
  by (cases xs) simp_all

lemma subseq_set: "subseq xs ys \<Longrightarrow> set xs \<subseteq> set ys"
  by (auto elim: list_emb_set)

text \<open>Filtering a duplicate-free list by membership in one of its subsequences gives it back.\<close>

lemma filter_mem_subseq:
  "subseq cs ns \<Longrightarrow> distinct ns \<Longrightarrow> filter (\<lambda>x. x \<in> set cs) ns = cs"
proof (induction ns arbitrary: cs)
  case Nil
  then show ?case by (cases cs) simp_all
next
  case (Cons n ns)
  note IH = Cons.IH and sub = Cons.prems(1) and dist = Cons.prems(2)
  show ?case
  proof (cases "cs = [] \<or> hd cs \<noteq> n")
    case True
    then have "subseq cs ns" using sub by (cases cs) auto
    moreover have "n \<notin> set cs"
      using subseq_set [OF \<open>subseq cs ns\<close>] dist by auto
    ultimately show ?thesis using IH dist by simp
  next
    case False
    then obtain cs' where cs: "cs = n # cs'" by (cases cs) auto
    with sub dist have "subseq cs' ns" and "n \<notin> set ns" by simp_all
    then have "filter (\<lambda>x. x \<in> set cs') ns = cs'" using IH dist by simp
    moreover have "filter (\<lambda>x. x \<in> set cs) ns = filter (\<lambda>x. x \<in> set cs') ns"
      using \<open>n \<notin> set ns\<close> cs by (auto intro: filter_cong)
    ultimately show ?thesis using cs by simp
  qed
qed

end
