(* ===== verification/Blas_Desc.thy ===== *)
theory Blas_Desc
  imports Blas_Prelude
begin

text \<open>
  The declarative operation model of \<^verbatim>\<open>src/gen_blas.py\<close>: the type registry
  (class \<^verbatim>\<open>Dtype\<close> and its instances \<^verbatim>\<open>float\<close>, \<^verbatim>\<open>double\<close>), the
  argument model (class \<^verbatim>\<open>Argument\<close> and its subclasses \<^verbatim>\<open>scalar\<close>,
  \<^verbatim>\<open>size\<close>, \<^verbatim>\<open>inc\<close>, \<^verbatim>\<open>trans\<close>, \<^verbatim>\<open>matrix\<close>, \<^verbatim>\<open>vector\<close>), the
  operation descriptor (class \<^verbatim>\<open>BlasOp\<close> with its argument selections) and
  the table \<^verbatim>\<open>make_ops\<close>.  The per-operation code fragments
  (\<^verbatim>\<open>check_dims_gemv\<close>, \<^verbatim>\<open>setup_order_gemm\<close>, \<^verbatim>\<open>py_ensure_output_ger\<close>, ...)
  are named here by constructors; their meaning is given where they run, in
  \<open>Blas_Pipeline\<close>.  The renderers of the argument classes are in
  \<open>Blas_Emit\<close>.
\<close>

section \<open>Type registry\<close>

record dtype =
  dt_name :: string
  dt_c :: string

definition float :: dtype where
  "float = \<lparr>dt_name = ''float'', dt_c = ''s''\<rparr>"

definition double :: dtype where
  "double = \<lparr>dt_name = ''double'', dt_c = ''d''\<rparr>"

section \<open>Argument model\<close>

text \<open>
  The six argument classes.  \<^verbatim>\<open>type(arg) is scalar\<close> in the source tests the
  exact class; the classes have no further subclasses, so the class tag decides
  it.  \<^verbatim>\<open>isoutput\<close> exists only on array arguments; it is \<open>False\<close> on the
  others, where the source never reads it.
\<close>

datatype arg_class = ScalarC | SizeC | IncC | TransC | MatrixC | VectorC

record argument =
  arg_cls :: arg_class
  arg_name :: string
  arg_const :: bool
  arg_pydef :: "string option"
  arg_isoutput :: bool

definition scalar :: "string \<Rightarrow> string option \<Rightarrow> argument" where
  "scalar n d = \<lparr>arg_cls = ScalarC, arg_name = n, arg_const = False, arg_pydef = d,
                 arg_isoutput = False\<rparr>"

definition size_arg :: "string \<Rightarrow> argument" where
  "size_arg n = \<lparr>arg_cls = SizeC, arg_name = n, arg_const = False, arg_pydef = None,
                 arg_isoutput = False\<rparr>"

definition inc :: "string \<Rightarrow> argument" where
  "inc n = \<lparr>arg_cls = IncC, arg_name = n, arg_const = False, arg_pydef = None,
            arg_isoutput = False\<rparr>"

definition trans_arg :: "string \<Rightarrow> argument" where
  "trans_arg n = \<lparr>arg_cls = TransC, arg_name = n, arg_const = False, arg_pydef = None,
                  arg_isoutput = False\<rparr>"

text \<open>\<^verbatim>\<open>ArrayArg.__init__\<close>: an output array defaults to \<^verbatim>\<open>None\<close> in Python.\<close>

definition array_arg :: "arg_class \<Rightarrow> string \<Rightarrow> bool \<Rightarrow> argument" where
  "array_arg c n output =
     \<lparr>arg_cls = c, arg_name = n, arg_const = False,
      arg_pydef = (if output then Some ''None'' else None), arg_isoutput = output\<rparr>"

definition matrix :: "string \<Rightarrow> bool \<Rightarrow> argument" where
  "matrix n output = array_arg MatrixC n output"

definition vector :: "string \<Rightarrow> bool \<Rightarrow> argument" where
  "vector n output = array_arg VectorC n output"

definition ismatrix :: "argument \<Rightarrow> bool" where
  "ismatrix a \<longleftrightarrow> arg_cls a = MatrixC"

definition isarray :: "argument \<Rightarrow> bool" where
  "isarray a \<longleftrightarrow> arg_cls a = MatrixC \<or> arg_cls a = VectorC"

lemmas arg_ctor_defs [blas_defs] =
  scalar_def size_arg_def inc_def trans_arg_def array_arg_def matrix_def vector_def
  ismatrix_def isarray_def

section \<open>Operation descriptor\<close>

text \<open>
  The code fragments a descriptor carries, one constructor per fragment string
  of the source.
\<close>

datatype dims_frag = Check_dims_gemv | Check_dims_gemm | Check_dims_ger
datatype order_frag = Setup_order_gemv | Setup_order_gemm | Setup_order_ger
datatype ensure_frag = Py_ensure_output_gemv | Py_ensure_output_gemm | Py_ensure_output_ger

record blas_op =
  op_name :: string
  op_types :: "dtype list"
  op_arguments :: "argument list"
  op_check_dims :: dims_frag
  op_setup_order :: order_frag
  op_py_decls :: string
  op_py_ensure_output :: ensure_frag

definition has_order :: "blas_op \<Rightarrow> bool" where
  "has_order op \<longleftrightarrow> list_ex ismatrix (op_arguments op)"

definition args_per_class :: "blas_op \<Rightarrow> arg_class \<Rightarrow> argument list" where
  "args_per_class op c = filter (\<lambda>a. arg_cls a = c) (op_arguments op)"

definition matrix_args :: "blas_op \<Rightarrow> argument list" where
  "matrix_args op = filter ismatrix (op_arguments op)"

definition array_args :: "blas_op \<Rightarrow> argument list" where
  "array_args op = filter isarray (op_arguments op)"

definition size_args :: "blas_op \<Rightarrow> argument list" where
  "size_args op = args_per_class op SizeC"

definition simple_args :: "blas_op \<Rightarrow> argument list" where
  "simple_args op =
     filter (\<lambda>a. isarray a \<or> arg_cls a = ScalarC \<or> arg_cls a = TransC) (op_arguments op)"

definition py_args :: "blas_op \<Rightarrow> argument list" where
  "py_args op = filter (\<lambda>a. isarray a \<or> arg_cls a = ScalarC) (op_arguments op)"

lemmas op_sel_defs [blas_defs] =
  has_order_def args_per_class_def matrix_args_def array_args_def size_args_def
  simple_args_def py_args_def

section \<open>The operation table\<close>

text \<open>
  The module constants \<^verbatim>\<open>py_decls_<op>\<close>: the Cython declaration of the
  output's shape each Python function starts with.
\<close>

definition py_decls_gemv :: string where "py_decls_gemv = ''cdef size_t Yshp''"
definition py_decls_gemm :: string where "py_decls_gemm = ''cdef size_t[2] Cshp''"
definition py_decls_ger :: string where "py_decls_ger = ''cdef size_t[2] Ashp''"

definition make_ops :: "blas_op list" where
  "make_ops =
    [\<lparr>op_name = ''gemv'', op_types = [float, double],
      op_arguments =
        [trans_arg ''transA'', size_arg ''M'', size_arg ''N'', scalar ''alpha'' None,
         matrix ''A'' False, size_arg ''lda'', vector ''X'' False, inc ''incX'',
         scalar ''beta'' (Some ''0.0''), vector ''Y'' True, inc ''incY''],
      op_check_dims = Check_dims_gemv, op_setup_order = Setup_order_gemv,
      op_py_decls = py_decls_gemv, op_py_ensure_output = Py_ensure_output_gemv\<rparr>,
     \<lparr>op_name = ''gemm'', op_types = [float, double],
      op_arguments =
        [trans_arg ''transA'', trans_arg ''transB'', size_arg ''M'', size_arg ''N'',
         size_arg ''K'', scalar ''alpha'' None, matrix ''A'' False, size_arg ''lda'',
         matrix ''B'' False, size_arg ''ldb'', scalar ''beta'' None,
         matrix ''C'' True, size_arg ''ldc''],
      op_check_dims = Check_dims_gemm, op_setup_order = Setup_order_gemm,
      op_py_decls = py_decls_gemm, op_py_ensure_output = Py_ensure_output_gemm\<rparr>,
     \<lparr>op_name = ''ger'', op_types = [float, double],
      op_arguments =
        [size_arg ''M'', size_arg ''N'', scalar ''alpha'' None,
         vector ''X'' False, inc ''incX'', vector ''Y'' False, inc ''incY'',
         matrix ''A'' True, size_arg ''lda''],
      op_check_dims = Check_dims_ger, op_setup_order = Setup_order_ger,
      op_py_decls = py_decls_ger, op_py_ensure_output = Py_ensure_output_ger\<rparr>]"

text \<open>The three descriptors, named for the lemmas that are about one of them.\<close>

definition gemv_op :: blas_op where "gemv_op = make_ops ! 0"
definition gemm_op :: blas_op where "gemm_op = make_ops ! 1"
definition ger_op :: blas_op where "ger_op = make_ops ! 2"

declare make_ops_def [blas_defs] py_decls_gemv_def [blas_defs] py_decls_gemm_def [blas_defs]
  py_decls_ger_def [blas_defs] float_def [blas_defs] double_def [blas_defs]
  gemv_op_def [blas_defs] gemm_op_def [blas_defs] ger_op_def [blas_defs]

lemma make_ops_eq: "make_ops = [gemv_op, gemm_op, ger_op]"
  by (simp add: gemv_op_def gemm_op_def ger_op_def make_ops_def)

lemma ismatrix_isarray: "ismatrix a \<Longrightarrow> isarray a"
  by (simp add: ismatrix_def isarray_def)

end
