(* ===== verification/GpuArray.thy ===== *)
theory GpuArray
  imports Blas_Prelude
begin

text \<open>
  The array runtime the generated C calls into.  Its sources are not part of the
  generator (the header \<^verbatim>\<open>gpuarray/array.h\<close> and \<^verbatim>\<open>gpuarray/error.h\<close> live
  elsewhere), so the \<^verbatim>\<open>GpuArray\<close> struct, its flags, the element sizes and the
  contract of \<^verbatim>\<open>GpuArray_copy\<close> are modelled from the description of the
  runtime.  The enumerations \<^verbatim>\<open>cb_order\<close>, \<^verbatim>\<open>cb_side\<close>,
  \<^verbatim>\<open>cb_transpose\<close> and \<^verbatim>\<open>cb_uplo\<close> are the ones \<^verbatim>\<open>BUFFERBLAS_TMPL\<close>
  emits.  The external calls of the pipeline (copy, context
  and BLAS-table lookups, backend setup, the kernel itself) are the fields of the
  record \<open>runtime\<close>, so every theorem about the pipeline holds for every
  behaviour of the runtime, or for every behaviour meeting a stated contract.
  The last sections state how a BLAS entry addresses a matrix and a vector and
  what the packed layouts the flags promise give for two-dimensional and
  one-dimensional arrays.
\<close>

section \<open>Codes and enumerations\<close>

datatype ga_typecode = GA_FLOAT | GA_DOUBLE | GA_OTHER_TYPE nat

datatype ga_error =
    GA_NO_ERROR | GA_MEMORY_ERROR | GA_VALUE_ERROR | GA_INVALID_ERROR
  | GA_UNALIGNED_ERROR | GA_COPY_ERROR | GA_OTHER_ERROR nat

datatype ga_order = GA_ANY_ORDER | GA_C_ORDER | GA_F_ORDER

datatype cb_order = cb_row | cb_column

abbreviation cb_c :: cb_order where "cb_c \<equiv> cb_row"
abbreviation cb_fortran :: cb_order where "cb_fortran \<equiv> cb_column"

datatype cb_side = cb_left | cb_right

datatype cb_transpose = cb_no_trans | cb_trans | cb_conj_trans

datatype cb_uplo = cb_upper | cb_lower

section \<open>Arrays\<close>

text \<open>
  \<^verbatim>\<open>GpuArray\<close>: a buffer handle (\<^verbatim>\<open>data\<close>), a byte offset, the dimensions,
  the byte strides (\<^verbatim>\<open>ssize_t\<close>, so signed), the flag bits the pipeline tests
  and the element type.
\<close>

record gpuarray =
  ga_data :: nat
  ga_offset :: nat
  ga_nd :: nat
  ga_dimensions :: "nat list"
  ga_strides :: "int list"
  ga_c_contiguous :: bool
  ga_f_contiguous :: bool
  ga_aligned :: bool
  ga_typecode :: ga_typecode

definition GpuArray_ISONESEGMENT :: "gpuarray \<Rightarrow> bool" where
  "GpuArray_ISONESEGMENT a \<longleftrightarrow> ga_c_contiguous a \<or> ga_f_contiguous a"

definition gpuarray_get_elsize :: "ga_typecode \<Rightarrow> nat" where
  "gpuarray_get_elsize t = (case t of GA_FLOAT \<Rightarrow> 4 | GA_DOUBLE \<Rightarrow> 8 | GA_OTHER_TYPE n \<Rightarrow> n)"

subsection \<open>What the contiguity flags promise\<close>

text \<open>
  The byte distance of an element from the start of the array, and the
  distances a packed row-major (C) or column-major (Fortran) layout gives it.
  A flag is sound when the strides place every valid index where the packed
  layout would; dimensions of extent one leave their stride free, as in the
  runtime.
\<close>

definition elem_dist :: "int list \<Rightarrow> nat list \<Rightarrow> int" where
  "elem_dist strides idx = sum_list (map (\<lambda>(s, i). s * int i) (zip strides idx))"

definition lin_c :: "nat list \<Rightarrow> nat list \<Rightarrow> nat" where
  "lin_c ds idx = foldl (\<lambda>acc (d, i). acc * d + i) 0 (zip ds idx)"

definition lin_f :: "nat list \<Rightarrow> nat list \<Rightarrow> nat" where
  "lin_f ds idx = lin_c (rev ds) (rev idx)"

definition indices :: "nat list \<Rightarrow> nat list list" where
  "indices ds = product_lists (map (\<lambda>d. [0..<d]) ds)"

definition c_layout :: "gpuarray \<Rightarrow> bool" where
  "c_layout a \<longleftrightarrow>
     (\<forall>idx \<in> set (indices (ga_dimensions a)).
        elem_dist (ga_strides a) idx
          = int (gpuarray_get_elsize (ga_typecode a) * lin_c (ga_dimensions a) idx))"

definition f_layout :: "gpuarray \<Rightarrow> bool" where
  "f_layout a \<longleftrightarrow>
     (\<forall>idx \<in> set (indices (ga_dimensions a)).
        elem_dist (ga_strides a) idx
          = int (gpuarray_get_elsize (ga_typecode a) * lin_f (ga_dimensions a) idx))"

definition wf_gpuarray :: "gpuarray \<Rightarrow> bool" where
  "wf_gpuarray a \<longleftrightarrow>
     length (ga_dimensions a) = ga_nd a \<and> length (ga_strides a) = ga_nd a
     \<and> (ga_c_contiguous a \<longrightarrow> c_layout a) \<and> (ga_f_contiguous a \<longrightarrow> f_layout a)"

lemmas layout_defs [blas_defs] =
  GpuArray_ISONESEGMENT_def gpuarray_get_elsize_def elem_dist_def lin_c_def lin_f_def
  indices_def c_layout_def f_layout_def wf_gpuarray_def

section \<open>The backend interface and the runtime\<close>

text \<open>
  A value passed to a backend entry: one per C parameter group of
  \<^verbatim>\<open>format_blas_args\<close>.  A buffer is its handle and its offset in elements.
  Scalars are kept as reals: the \<^verbatim>\<open>(float)\<close> cast of the single-precision
  entry is not modelled.  An argument whose C variable was never assigned is
  \<open>None\<close>.
\<close>

datatype cval = VTrans cb_transpose | VSize nat | VScal real | VInc int | VBuf nat nat

record blas_call =
  bc_entry :: string
  bc_order :: "cb_order option"
  bc_args :: "cval option list"

text \<open>
  The external calls of \<^verbatim>\<open>GpuArray_r<op>\<close>, each returning the C error code
  and, where the C passes an out-parameter, the value written there:
  \<^verbatim>\<open>GpuArray_copy\<close>, the two \<^verbatim>\<open>property\<close> queries (the context of a buffer,
  the BLAS table of a context), \<^verbatim>\<open>blas->setup\<close> and the kernel entry.
\<close>

record runtime =
  rt_copy :: "gpuarray \<Rightarrow> ga_order \<Rightarrow> ga_error \<times> gpuarray"
  rt_ctx :: "nat \<Rightarrow> ga_error \<times> nat"
  rt_blas_ops :: "nat \<Rightarrow> ga_error \<times> nat"
  rt_setup :: "nat \<Rightarrow> ga_error"
  rt_kernel :: "blas_call \<Rightarrow> ga_error"

text \<open>
  An array whose offset and strides are whole elements, which is what the
  runtime's alignment flag, tested by the pipeline, stands for.
\<close>

definition elem_aligned :: "gpuarray \<Rightarrow> bool" where
  "elem_aligned x \<longleftrightarrow>
     gpuarray_get_elsize (ga_typecode x) dvd ga_offset x
     \<and> list_all (\<lambda>s. int (gpuarray_get_elsize (ga_typecode x)) dvd s) (ga_strides x)"

text \<open>
  What \<^verbatim>\<open>GpuArray_copy(&res, a, order)\<close> guarantees when it succeeds: a
  well-formed, aligned array of the same type and shape, one contiguous segment
  with non-negative strides, Fortran-ordered when asked for, in a freshly
  allocated buffer whose offset and strides are whole elements.
\<close>

definition copy_contract :: "runtime \<Rightarrow> bool" where
  "copy_contract rt \<longleftrightarrow>
     (\<forall>a ord. fst (rt_copy rt a ord) = GA_NO_ERROR \<longrightarrow>
        (let c = snd (rt_copy rt a ord) in
           wf_gpuarray c \<and> ga_typecode c = ga_typecode a \<and> ga_nd c = ga_nd a
           \<and> ga_dimensions c = ga_dimensions a \<and> ga_aligned c
           \<and> (\<forall>s \<in> set (ga_strides c). 0 \<le> s)
           \<and> GpuArray_ISONESEGMENT c \<and> (ord = GA_F_ORDER \<longrightarrow> ga_f_contiguous c)
           \<and> elem_aligned c))"

section \<open>The BLAS addressing contract\<close>

text \<open>
  How a BLAS entry addresses a matrix it is given as a buffer, a storage order
  and a leading dimension (the CBLAS convention, not part of the generator):
  element \<open>(i, j)\<close> lies \<open>i * ld + j\<close> elements from the start in row-major
  order and \<open>i + j * ld\<close> in column-major order; with a transpose flag the
  entry reads \<open>op(M)(i, j)\<close> as \<open>M(j, i)\<close>.  \<open>blas_view_ok x t ord ld t'\<close>
  says that the entry, given the buffer of \<open>x\<close> with \<open>ord\<close>, \<open>ld\<close> and flag
  \<open>t'\<close>, reads at every index of \<open>op(x)\<close> the byte the caller's flag \<open>t\<close>
  and the strides of \<open>x\<close> designate.
\<close>

definition blas_offset :: "cb_order \<Rightarrow> nat \<Rightarrow> nat \<Rightarrow> nat \<Rightarrow> nat" where
  "blas_offset ord ld i j = (if ord = cb_c then i * ld + j else i + j * ld)"

definition blas_elem :: "cb_order \<Rightarrow> nat \<Rightarrow> cb_transpose \<Rightarrow> nat \<Rightarrow> nat \<Rightarrow> nat" where
  "blas_elem ord ld t i j = (if t = cb_no_trans then blas_offset ord ld i j else blas_offset ord ld j i)"

definition logical_elem :: "gpuarray \<Rightarrow> cb_transpose \<Rightarrow> nat \<Rightarrow> nat \<Rightarrow> int" where
  "logical_elem x t i j =
     (if t = cb_no_trans then elem_dist (ga_strides x) [i, j] else elem_dist (ga_strides x) [j, i])"

definition in_op_shape :: "gpuarray \<Rightarrow> cb_transpose \<Rightarrow> nat \<Rightarrow> nat \<Rightarrow> bool" where
  "in_op_shape x t i j \<longleftrightarrow>
     (if t = cb_no_trans then i < ga_dimensions x ! 0 \<and> j < ga_dimensions x ! 1
      else j < ga_dimensions x ! 0 \<and> i < ga_dimensions x ! 1)"

definition blas_view_ok :: "gpuarray \<Rightarrow> cb_transpose \<Rightarrow> cb_order \<Rightarrow> nat \<Rightarrow> cb_transpose \<Rightarrow> bool" where
  "blas_view_ok x t ord ld t' \<longleftrightarrow>
     (\<forall>i j. in_op_shape x t i j \<longrightarrow>
        int (gpuarray_get_elsize (ga_typecode x)) * int (blas_elem ord ld t' i j) = logical_elem x t i j)"

text \<open>
  A vector is given as a buffer offset in elements and an increment: element
  \<open>i\<close> of \<open>n\<close> lies \<open>i * inc\<close> elements further for a non-negative
  increment and \<open>(n - 1 - i) * |inc|\<close> for a negative one (the vector is
  read from its end).  \<open>vec_view_ok e x off inc\<close> says that, with element
  size \<open>e\<close>, this reaches every element of \<open>x\<close> at the byte its offset and
  stride designate.
\<close>

definition blas_vec_index :: "nat \<Rightarrow> int \<Rightarrow> nat \<Rightarrow> int" where
  "blas_vec_index n inc i = (if 0 \<le> inc then int i * inc else int (n - 1 - i) * (- inc))"

definition vec_view_ok :: "nat \<Rightarrow> gpuarray \<Rightarrow> nat \<Rightarrow> int \<Rightarrow> bool" where
  "vec_view_ok e x off inc \<longleftrightarrow>
     (\<forall>i < hd (ga_dimensions x).
        int e * (int off + blas_vec_index (hd (ga_dimensions x)) inc i)
          = int (ga_offset x) + elem_dist (ga_strides x) [i])"

section \<open>Packed layouts of matrices\<close>

lemma indices_2d: "i < d0 \<Longrightarrow> j < d1 \<Longrightarrow> [i, j] \<in> set (indices [d0, d1])"
  by (auto simp: indices_def image_iff)

lemma layout_2d:
  assumes "ga_dimensions x = [d0, d1]" and "i < d0" and "j < d1"
  shows "c_layout x \<Longrightarrow> elem_dist (ga_strides x) [i, j] = int (gpuarray_get_elsize (ga_typecode x) * (i * d1 + j))"
    and "f_layout x \<Longrightarrow> elem_dist (ga_strides x) [i, j] = int (gpuarray_get_elsize (ga_typecode x) * (i + j * d0))"
  using indices_2d [OF assms(2,3)] assms(1)
  by (auto simp: c_layout_def f_layout_def lin_c_def lin_f_def)

lemma view_same:
  assumes "\<forall>i<d0. \<forall>j<d1. elem_dist (ga_strides x) [i, j]
              = int (gpuarray_get_elsize (ga_typecode x) * blas_offset ord l i j)"
    and "ga_dimensions x = [d0, d1]"
  shows "blas_view_ok x t ord l t"
  using assms by (auto simp: blas_view_ok_def in_op_shape_def blas_elem_def logical_elem_def)

section \<open>Packed layouts of vectors\<close>

text \<open>
  A vector has one stride; one that is a single segment and has two elements
  or more is packed, its stride one element; and a packed vector starting at a
  whole element is addressed by the BLAS convention with its offset in
  elements and its stride in elements as the increment.
\<close>

lemma wf_vector_strides:
  assumes "wf_gpuarray y" and "length (ga_dimensions y) = 1"
  obtains \<sigma> where "ga_strides y = [\<sigma>]"
proof -
  have "length (ga_strides y) = 1" using assms by (simp add: wf_gpuarray_def)
  then show ?thesis using that by (auto simp: length_Suc_conv)
qed

lemma vector_packed_stride:
  assumes "wf_gpuarray x" and "ga_dimensions x = [n]" and "1 < n" and "GpuArray_ISONESEGMENT x"
  shows "ga_strides x = [int (gpuarray_get_elsize (ga_typecode x))]"
proof -
  obtain s where s: "ga_strides x = [s]"
    using assms(1,2) by (auto elim: wf_vector_strides)
  have idx: "[1] \<in> set (indices (ga_dimensions x))"
    using assms(2,3) by (simp add: indices_def)
  have "c_layout x \<or> f_layout x"
    using assms(1,4) by (auto simp: wf_gpuarray_def GpuArray_ISONESEGMENT_def)
  then have "elem_dist (ga_strides x) [1] = int (gpuarray_get_elsize (ga_typecode x))"
    using idx assms(2) by (auto simp: c_layout_def f_layout_def lin_c_def lin_f_def)
  then show ?thesis using s by (simp add: elem_dist_def)
qed

lemma vec_view_stride:
  assumes "ga_dimensions x = [n]" and "ga_strides x = [\<sigma>]" and "e dvd ga_offset x"
    and "n \<le> 1 \<or> (0 \<le> k \<and> \<sigma> = k * int e)"
  shows "vec_view_ok e x (ga_offset x div e) k"
proof -
  have off: "int e * int (ga_offset x div e) = int (ga_offset x)"
    using assms(3) by (metis dvd_mult_div_cancel of_nat_mult)
  show ?thesis
    using assms(4)
  proof
    assume "n \<le> 1"
    show ?thesis unfolding vec_view_ok_def assms(1)
    proof (intro allI impI)
      fix i assume "i < hd [n]"
      then have "i = 0" "n = 1" using \<open>n \<le> 1\<close> by simp_all
      then show "int e * (int (ga_offset x div e) + blas_vec_index (hd [n]) k i)
                   = int (ga_offset x) + elem_dist (ga_strides x) [i]"
        using assms(2) off by (simp add: blas_vec_index_def elem_dist_def)
    qed
  next
    assume "0 \<le> k \<and> \<sigma> = k * int e"
    then show ?thesis using assms(1,2) off
      by (auto simp: vec_view_ok_def blas_vec_index_def elem_dist_def algebra_simps)
  qed
qed

lemma packed_vector_layout:
  assumes "ga_dimensions a = [n]" and "ga_strides a = [int (gpuarray_get_elsize (ga_typecode a))]"
  shows "c_layout a \<and> f_layout a"
  using assms by (auto simp: c_layout_def f_layout_def indices_def elem_dist_def lin_c_def lin_f_def)

end
