(* ===== verification/Blas_Pipeline.thy ===== *)
theory Blas_Pipeline
  imports Blas_Desc GpuArray
begin

text \<open>
  The validating and dispatching C function \<^verbatim>\<open>GpuArray_r<op>\<close> that
  \<^verbatim>\<open>ARRAYBLAS_TMPL\<close> stamps out once per descriptor, with the per-operation
  fragments \<^verbatim>\<open>check_dims_*\<close> and \<^verbatim>\<open>setup_order_*\<close> it splices in.  The
  function body is a sequence of statements over the C locals (record
  \<open>rstate\<close>); a statement continues (\<open>Next\<close>), jumps to the
  \<^verbatim>\<open>cleanup:\<close> label with an error code (\<open>Goto\<close>) or returns at once
  (\<open>Return\<close>), which skips the cleanup.  The events the function causes in the
  runtime (copies made, copies cleared, backend setup, the kernel call) are
  recorded in a trace.  The later sections prove what a run guarantees: the
  checks, the release of copies, progress and the invariant of the states;
  what the kernel call receives is the subject of \<open>Blas_Call\<close>.
\<close>

section \<open>Control flow and state\<close>

datatype 'a flow = Next 'a | Goto ga_error 'a | Return ga_error 'a

fun seq :: "('a \<Rightarrow> 'a flow) list \<Rightarrow> 'a \<Rightarrow> 'a flow" where
  "seq [] s = Next s"
| "seq (f # fs) s =
     (case f s of Next s' \<Rightarrow> seq fs s' | Goto e s' \<Rightarrow> Goto e s' | Return e s' \<Rightarrow> Return e s')"

datatype event = Ev_copy string | Ev_clear string | Ev_setup nat | Ev_call blas_call

text \<open>
  The parameters of \<^verbatim>\<open>GpuArray_r<op>\<close>: the arrays and transpose flags by
  their C names, the \<^verbatim>\<open>double\<close> scalars, and \<^verbatim>\<open>nocopy\<close>.
\<close>

record call_in =
  in_arrays :: "string \<Rightarrow> gpuarray"
  in_trans :: "string \<Rightarrow> cb_transpose"
  in_scalars :: "string \<Rightarrow> real"
  in_nocopy :: bool

text \<open>
  The locals: the array pointers \<^verbatim>\<open>Ap\<close>, \<^verbatim>\<open>Xp\<close>, ... (\<open>st_ptr\<close>), the
  names whose pointer was redirected to their fallback copy
  (\<^verbatim>\<open>Ap == &copyA\<close>), the \<^verbatim>\<open>size_t\<close> locals \<^verbatim>\<open>m, n, lda, ...\<close>
  (\<open>None\<close> until assigned), the transpose parameters (which
  \<^verbatim>\<open>setup_order_gemm\<close> overwrites), \<^verbatim>\<open>o\<close>, \<^verbatim>\<open>elsize\<close>, \<^verbatim>\<open>ctx\<close>.
\<close>

record rstate =
  st_ptr :: "string \<Rightarrow> gpuarray"
  st_copied :: "string list"
  st_size :: "string \<Rightarrow> nat option"
  st_trans :: "string \<Rightarrow> cb_transpose"
  st_order :: "cb_order option"
  st_elsize :: nat
  st_ctx :: nat
  st_trace :: "event list"

definition init_state :: "call_in \<Rightarrow> rstate" where
  "init_state ci =
     \<lparr>st_ptr = in_arrays ci, st_copied = [], st_size = Map.empty, st_trans = in_trans ci,
      st_order = None, st_elsize = 0, st_ctx = 0, st_trace = []\<rparr>"

text \<open>\<^verbatim>\<open>firsta = op.array_args()[0].name\<close>.\<close>

definition firsta :: "blas_op \<Rightarrow> string" where
  "firsta op = arg_name (hd (array_args op))"

definition dim :: "call_in \<Rightarrow> string \<Rightarrow> nat \<Rightarrow> nat" where
  "dim ci x i = ga_dimensions (in_arrays ci x) ! i"

section \<open>The checks before any allocation\<close>

definition check_typecode :: "blas_op \<Rightarrow> call_in \<Rightarrow> rstate \<Rightarrow> rstate flow" where
  "check_typecode op ci st =
     (let t = ga_typecode (in_arrays ci (firsta op)) in
      if t \<noteq> GA_FLOAT \<and> t \<noteq> GA_DOUBLE then Return GA_INVALID_ERROR st else Next st)"

definition ndcond :: "call_in \<Rightarrow> argument \<Rightarrow> bool" where
  "ndcond ci a \<longleftrightarrow>
     (if ismatrix a then ga_nd (in_arrays ci (arg_name a)) \<noteq> 2
      else ga_nd (in_arrays ci (arg_name a)) \<noteq> 1)"

definition typecond :: "call_in \<Rightarrow> string \<Rightarrow> argument \<Rightarrow> bool" where
  "typecond ci first a \<longleftrightarrow>
     ga_typecode (in_arrays ci (arg_name a)) \<noteq> ga_typecode (in_arrays ci first)"

definition aligncond :: "call_in \<Rightarrow> argument \<Rightarrow> bool" where
  "aligncond ci a \<longleftrightarrow> \<not> ga_aligned (in_arrays ci (arg_name a))"

definition check_nd_type :: "blas_op \<Rightarrow> call_in \<Rightarrow> rstate \<Rightarrow> rstate flow" where
  "check_nd_type op ci st =
     (if list_ex (ndcond ci) (array_args op) \<or> list_ex (typecond ci (firsta op)) (array_args op)
      then Return GA_VALUE_ERROR st else Next st)"

definition check_aligned :: "blas_op \<Rightarrow> call_in \<Rightarrow> rstate \<Rightarrow> rstate flow" where
  "check_aligned op ci st =
     (if list_ex (aligncond ci) (array_args op) then Return GA_UNALIGNED_ERROR st else Next st)"

text \<open>
  The three \<^verbatim>\<open>check_dims\<close> fragments.  They read the caller's arrays
  (\<^verbatim>\<open>A->dimensions\<close>, not \<^verbatim>\<open>Ap\<close>) and the transpose parameters, assign
  \<^verbatim>\<open>m\<close>, \<^verbatim>\<open>n\<close>, \<^verbatim>\<open>k\<close>, and return \<^verbatim>\<open>GA_VALUE_ERROR\<close> directly on a
  mismatch.  \<^verbatim>\<open>check_dims_gemv\<close> reassigns \<^verbatim>\<open>m, n\<close> to the untransposed
  extents of \<^verbatim>\<open>A\<close> after the check.
\<close>

definition set_sizes :: "(string \<times> nat) list \<Rightarrow> rstate \<Rightarrow> rstate" where
  "set_sizes kvs st = st\<lparr>st_size := (st_size st) ++ map_of (rev kvs)\<rparr>"

definition check_dims_gemv :: "call_in \<Rightarrow> rstate \<Rightarrow> rstate flow" where
  "check_dims_gemv ci st =
     (let (m, n) = (if st_trans st ''transA'' = cb_no_trans
                    then (dim ci ''A'' 0, dim ci ''A'' 1) else (dim ci ''A'' 1, dim ci ''A'' 0));
          st1 = set_sizes [(''m'', m), (''n'', n)] st
      in if dim ci ''Y'' 0 \<noteq> m \<or> dim ci ''X'' 0 \<noteq> n then Return GA_VALUE_ERROR st1
         else Next (set_sizes [(''m'', dim ci ''A'' 0), (''n'', dim ci ''A'' 1)] st1))"

definition check_dims_gemm :: "call_in \<Rightarrow> rstate \<Rightarrow> rstate flow" where
  "check_dims_gemm ci st =
     (let (m, k) = (if st_trans st ''transA'' = cb_no_trans
                    then (dim ci ''A'' 0, dim ci ''A'' 1) else (dim ci ''A'' 1, dim ci ''A'' 0));
          (n, kb) = (if st_trans st ''transB'' = cb_no_trans
                     then (dim ci ''B'' 1, dim ci ''B'' 0) else (dim ci ''B'' 0, dim ci ''B'' 1));
          st1 = set_sizes [(''m'', m), (''k'', k), (''n'', n)] st
      in if kb \<noteq> k then Return GA_VALUE_ERROR st1
         else if dim ci ''C'' 0 \<noteq> m \<or> dim ci ''C'' 1 \<noteq> n then Return GA_VALUE_ERROR st1
         else Next st1)"

definition check_dims_ger :: "call_in \<Rightarrow> rstate \<Rightarrow> rstate flow" where
  "check_dims_ger ci st =
     (let m = dim ci ''X'' 0; n = dim ci ''Y'' 0;
          st1 = set_sizes [(''m'', m), (''n'', n)] st
      in if dim ci ''A'' 0 \<noteq> m \<or> dim ci ''A'' 1 \<noteq> n then Return GA_VALUE_ERROR st1
         else Next st1)"

text \<open>\<^verbatim>\<open>${op.check_dims}\<close>: the descriptor's fragment spliced into the body.\<close>

fun check_dims :: "dims_frag \<Rightarrow> call_in \<Rightarrow> rstate \<Rightarrow> rstate flow" where
  "check_dims Check_dims_gemv = check_dims_gemv"
| "check_dims Check_dims_gemm = check_dims_gemm"
| "check_dims Check_dims_ger = check_dims_ger"

definition set_elsize :: "blas_op \<Rightarrow> call_in \<Rightarrow> rstate \<Rightarrow> rstate flow" where
  "set_elsize op ci st =
     Next (st\<lparr>st_elsize := gpuarray_get_elsize (ga_typecode (in_arrays ci (firsta op)))\<rparr>)"

section \<open>Contiguity fallback\<close>

text \<open>
  One iteration of the template's loop over \<^verbatim>\<open>op.array_args()\<close>: a matrix
  that is not one segment, or a vector with a negative stride, is rejected when
  it is an output, returned on at once under \<^verbatim>\<open>nocopy\<close>, and otherwise
  copied (Fortran order for a matrix, any order for a vector) with the pointer
  redirected to the copy.
\<close>

definition fallback_copy ::
  "runtime \<Rightarrow> call_in \<Rightarrow> argument \<Rightarrow> ga_order \<Rightarrow> rstate \<Rightarrow> rstate flow" where
  "fallback_copy rt ci a ord st =
     (if arg_isoutput a then Goto GA_VALUE_ERROR st
      else if in_nocopy ci then Return GA_COPY_ERROR st
      else (let (err, c) = rt_copy rt (in_arrays ci (arg_name a)) ord in
            if err \<noteq> GA_NO_ERROR then Goto err st
            else Next (st\<lparr>st_ptr := (st_ptr st)(arg_name a := c),
                          st_copied := st_copied st @ [arg_name a],
                          st_trace := st_trace st @ [Ev_copy (arg_name a)]\<rparr>)))"

definition ensure_contig :: "runtime \<Rightarrow> call_in \<Rightarrow> argument \<Rightarrow> rstate \<Rightarrow> rstate flow" where
  "ensure_contig rt ci a st =
     (let x = in_arrays ci (arg_name a) in
      if ismatrix a
      then (if \<not> GpuArray_ISONESEGMENT x then fallback_copy rt ci a GA_F_ORDER st else Next st)
      else (if hd (ga_strides x) < 0 then fallback_copy rt ci a GA_ANY_ORDER st else Next st))"

section \<open>Storage order\<close>

text \<open>
  The \<^verbatim>\<open>setup_order\<close> fragments, on the possibly copied pointers.  The
  order-defining matrix fixes \<^verbatim>\<open>o\<close> and its leading dimension; in
  \<^verbatim>\<open>setup_order_gemm\<close> the other matrices take their leading dimension from
  their own layout and have their transpose flag inverted when that layout
  disagrees with \<^verbatim>\<open>o\<close>.  The Fortran flag is tested first.
\<close>

definition order_from :: "string \<Rightarrow> string \<Rightarrow> rstate \<Rightarrow> rstate flow" where
  "order_from x ld st =
     (let p = st_ptr st x in
      if ga_f_contiguous p
      then Next ((set_sizes [(ld, ga_dimensions p ! 0)] st)\<lparr>st_order := Some cb_fortran\<rparr>)
      else if ga_c_contiguous p
      then Next ((set_sizes [(ld, ga_dimensions p ! 1)] st)\<lparr>st_order := Some cb_c\<rparr>)
      else Goto GA_VALUE_ERROR st)"

definition flip_trans :: "cb_transpose \<Rightarrow> cb_transpose" where
  "flip_trans t = (if t = cb_no_trans then cb_trans else cb_no_trans)"

definition flip_if :: "bool \<Rightarrow> string \<Rightarrow> rstate \<Rightarrow> rstate" where
  "flip_if b t st =
     (if b then st\<lparr>st_trans := (st_trans st)(t := flip_trans (st_trans st t))\<rparr> else st)"

definition order_follow :: "string \<Rightarrow> string \<Rightarrow> string \<Rightarrow> rstate \<Rightarrow> rstate flow" where
  "order_follow x t ld st =
     (let p = st_ptr st x in
      if ga_f_contiguous p
      then Next (flip_if (st_order st = Some cb_c) t (set_sizes [(ld, ga_dimensions p ! 0)] st))
      else if ga_c_contiguous p
      then Next (flip_if (st_order st = Some cb_fortran) t (set_sizes [(ld, ga_dimensions p ! 1)] st))
      else Goto GA_VALUE_ERROR st)"

definition setup_order_gemv :: "rstate \<Rightarrow> rstate flow" where
  "setup_order_gemv = order_from ''A'' ''lda''"

definition setup_order_gemm :: "rstate \<Rightarrow> rstate flow" where
  "setup_order_gemm =
     seq [order_from ''C'' ''ldc'', order_follow ''A'' ''transA'' ''lda'',
          order_follow ''B'' ''transB'' ''ldb'']"

definition setup_order_ger :: "rstate \<Rightarrow> rstate flow" where
  "setup_order_ger = order_from ''A'' ''lda''"

text \<open>\<^verbatim>\<open>${op.setup_order}\<close>.\<close>

fun setup_order :: "order_frag \<Rightarrow> rstate \<Rightarrow> rstate flow" where
  "setup_order Setup_order_gemv = setup_order_gemv"
| "setup_order Setup_order_gemm = setup_order_gemm"
| "setup_order Setup_order_ger = setup_order_ger"

section \<open>Backend lookup and invocation\<close>

definition get_ctx :: "blas_op \<Rightarrow> runtime \<Rightarrow> rstate \<Rightarrow> rstate flow" where
  "get_ctx op rt st =
     (let (err, c) = rt_ctx rt (ga_data (st_ptr st (firsta op))) in
      if err \<noteq> GA_NO_ERROR then Goto err st else Next (st\<lparr>st_ctx := c\<rparr>))"

definition get_blas_ops :: "runtime \<Rightarrow> rstate \<Rightarrow> rstate flow" where
  "get_blas_ops rt st =
     (let (err, _) = rt_blas_ops rt (st_ctx st) in
      if err \<noteq> GA_NO_ERROR then Goto err st else Next st)"

definition blas_setup :: "runtime \<Rightarrow> rstate \<Rightarrow> rstate flow" where
  "blas_setup rt st =
     (let err = rt_setup rt (st_ctx st);
          st' = st\<lparr>st_trace := st_trace st @ [Ev_setup (st_ctx st)]\<rparr>
      in if err \<noteq> GA_NO_ERROR then Goto err st' else Next st')"

text \<open>
  \<^verbatim>\<open>format_as_callarg\<close> of each argument class, evaluated in the C state:
  a scalar is the parameter, a size the local of the lower-cased name, an
  increment \<^verbatim>\<open>Xp->strides[0] / elsize\<close> for the array named by the last
  character of its name, an array its handle and its offset in elements.
\<close>

definition callarg :: "call_in \<Rightarrow> rstate \<Rightarrow> argument \<Rightarrow> cval option" where
  "callarg ci st a =
     (case arg_cls a of
        ScalarC \<Rightarrow> Some (VScal (in_scalars ci (arg_name a)))
      | SizeC \<Rightarrow> map_option VSize (st_size st (py_lower (arg_name a)))
      | IncC \<Rightarrow>
          Some (VInc (c_int_of_size
                  (size_t_of_ssize (hd (ga_strides (st_ptr st [last (arg_name a)])))
                   div st_elsize st)))
      | TransC \<Rightarrow> Some (VTrans (st_trans st (arg_name a)))
      | _ \<Rightarrow> (let p = st_ptr st (arg_name a) in
              Some (VBuf (ga_data p) (ga_offset p div st_elsize st))))"

text \<open>
  The element type of the first (possibly copied) array picks
  \<^verbatim>\<open>blas->s<op>\<close> or \<^verbatim>\<open>blas->d<op>\<close>; the call always passes \<^verbatim>\<open>o\<close>
  first.  The kernel's status is the function's result: control falls through
  to \<^verbatim>\<open>cleanup:\<close>.
\<close>

definition blas_call_of :: "blas_op \<Rightarrow> call_in \<Rightarrow> rstate \<Rightarrow> blas_call" where
  "blas_call_of op ci st =
     \<lparr>bc_entry = (if ga_typecode (st_ptr st (firsta op)) = GA_FLOAT then ''s'' else ''d'') @ op_name op,
      bc_order = st_order st,
      bc_args = map (callarg ci st) (op_arguments op)\<rparr>"

definition blas_invoke :: "blas_op \<Rightarrow> runtime \<Rightarrow> call_in \<Rightarrow> rstate \<Rightarrow> rstate flow" where
  "blas_invoke op rt ci st =
     (let c = blas_call_of op ci st
      in Goto (rt_kernel rt c) (st\<lparr>st_trace := st_trace st @ [Ev_call c]\<rparr>))"

section \<open>Cleanup and the whole function\<close>

definition clear_copy :: "rstate \<Rightarrow> argument \<Rightarrow> rstate" where
  "clear_copy st a =
     (if \<not> arg_isoutput a \<and> arg_name a \<in> set (st_copied st)
      then st\<lparr>st_trace := st_trace st @ [Ev_clear (arg_name a)]\<rparr> else st)"

definition cleanup :: "blas_op \<Rightarrow> rstate \<Rightarrow> rstate" where
  "cleanup op st = foldl clear_copy st (array_args op)"

fun finish :: "blas_op \<Rightarrow> rstate flow \<Rightarrow> ga_error \<times> rstate" where
  "finish op (Next st) = (GA_NO_ERROR, cleanup op st)"
| "finish op (Goto e st) = (e, cleanup op st)"
| "finish op (Return e st) = (e, st)"

text \<open>
  The body in the template's order: the checks that return directly, the
  contiguity loop over the array arguments, then order setup and dispatch,
  whose failures jump to \<^verbatim>\<open>cleanup:\<close>.
\<close>

definition pre_checks :: "blas_op \<Rightarrow> call_in \<Rightarrow> (rstate \<Rightarrow> rstate flow) list" where
  "pre_checks op ci =
     [check_typecode op ci, check_nd_type op ci, check_aligned op ci,
      check_dims (op_check_dims op) ci, set_elsize op ci]"

definition prepare_call :: "blas_op \<Rightarrow> runtime \<Rightarrow> (rstate \<Rightarrow> rstate flow) list" where
  "prepare_call op rt =
     [setup_order (op_setup_order op), get_ctx op rt, get_blas_ops rt, blas_setup rt]"

definition body :: "blas_op \<Rightarrow> runtime \<Rightarrow> call_in \<Rightarrow> (rstate \<Rightarrow> rstate flow) list" where
  "body op rt ci =
     pre_checks op ci @ map (ensure_contig rt ci) (array_args op) @ prepare_call op rt
     @ [blas_invoke op rt ci]"

definition GpuArray_r :: "blas_op \<Rightarrow> runtime \<Rightarrow> call_in \<Rightarrow> ga_error \<times> rstate" where
  "GpuArray_r op rt ci = finish op (seq (body op rt ci) (init_state ci))"

section \<open>Observations on runs\<close>

text \<open>
  Definitions used only to state and prove properties: the state a flow ends
  in, the names copied and cleared and the calls made along a trace, the input
  (non-output) array names, and the state in which the kernel is called.
\<close>

fun flow_state :: "'a flow \<Rightarrow> 'a" where
  "flow_state (Next s) = s" | "flow_state (Goto e s) = s" | "flow_state (Return e s) = s"

fun is_return :: "'a flow \<Rightarrow> bool" where
  "is_return (Return e s) = True" | "is_return _ = False"

fun copy_names :: "event list \<Rightarrow> string list" where
  "copy_names [] = []"
| "copy_names (Ev_copy x # tr) = x # copy_names tr"
| "copy_names (_ # tr) = copy_names tr"

fun clear_names :: "event list \<Rightarrow> string list" where
  "clear_names [] = []"
| "clear_names (Ev_clear x # tr) = x # clear_names tr"
| "clear_names (_ # tr) = clear_names tr"

fun calls_of :: "event list \<Rightarrow> blas_call list" where
  "calls_of [] = []"
| "calls_of (Ev_call c # tr) = c # calls_of tr"
| "calls_of (_ # tr) = calls_of tr"

definition input_names :: "blas_op \<Rightarrow> string list" where
  "input_names op = map arg_name (filter (\<lambda>a. \<not> arg_isoutput a) (array_args op))"

definition trace_frame :: "rstate \<Rightarrow> rstate \<Rightarrow> bool" where
  "trace_frame s s' \<longleftrightarrow> st_copied s' = st_copied s \<and> st_ptr s' = st_ptr s
     \<and> copy_names (st_trace s') = copy_names (st_trace s)
     \<and> clear_names (st_trace s') = clear_names (st_trace s)
     \<and> calls_of (st_trace s') = calls_of (st_trace s)"

definition body_inv :: "blas_op \<Rightarrow> call_in \<Rightarrow> rstate flow \<Rightarrow> bool" where
  "body_inv op ci r \<longleftrightarrow>
     copy_names (st_trace (flow_state r)) = st_copied (flow_state r)
     \<and> clear_names (st_trace (flow_state r)) = []
     \<and> calls_of (st_trace (flow_state r)) = []
     \<and> subseq (st_copied (flow_state r)) (input_names op)
     \<and> (is_return r \<longrightarrow> st_copied (flow_state r) = [])
     \<and> (in_nocopy ci \<longrightarrow> st_copied (flow_state r) = [])
     \<and> (\<forall>x. x \<notin> set (st_copied (flow_state r)) \<longrightarrow> st_ptr (flow_state r) x = in_arrays ci x)"

text \<open>
  The invariant of every state of a run: the copy events are the copied
  names, only input arrays are copied, only copied names are cleared, and a
  name not copied still points to the caller's array.
\<close>

definition run_inv :: "blas_op \<Rightarrow> call_in \<Rightarrow> rstate \<Rightarrow> bool" where
  "run_inv op ci s \<longleftrightarrow>
     copy_names (st_trace s) = st_copied s
     \<and> set (st_copied s) \<subseteq> set (input_names op)
     \<and> set (clear_names (st_trace s)) \<subseteq> set (st_copied s)
     \<and> (\<forall>x. x \<notin> set (st_copied s) \<longrightarrow> st_ptr s x = in_arrays ci x)"

text \<open>
  The buffer handle a backend call receives at the position of the array
  argument named \<open>x\<close>.
\<close>

definition kernel_buffer :: "blas_op \<Rightarrow> blas_call \<Rightarrow> string \<Rightarrow> nat option" where
  "kernel_buffer op c x =
     (case filter (\<lambda>(a, v). isarray a \<and> arg_name a = x) (zip (op_arguments op) (bc_args c)) of
        (_, Some (VBuf d _)) # _ \<Rightarrow> Some d
      | _ \<Rightarrow> None)"

definition reach_call :: "blas_op \<Rightarrow> runtime \<Rightarrow> call_in \<Rightarrow> rstate flow" where
  "reach_call op rt ci =
     seq (pre_checks op ci @ map (ensure_contig rt ci) (array_args op) @ prepare_call op rt)
         (init_state ci)"

section \<open>What the checks promise\<close>

text \<open>
  The dimension relations of the description's operation table, stated on the
  shapes of the caller's arrays after the requested transposition: \<open>op_dims\<close>
  is the shape of \<open>op(A)\<close>.  \<open>check_error\<close> is the error the checks
  before any allocation report, in the order the template performs them.
\<close>

definition op_dims :: "cb_transpose \<Rightarrow> nat \<times> nat \<Rightarrow> nat \<times> nat" where
  "op_dims t rc = (if t = cb_no_trans then rc else (snd rc, fst rc))"

definition mat_shape :: "call_in \<Rightarrow> string \<Rightarrow> nat \<times> nat" where
  "mat_shape ci x = (dim ci x 0, dim ci x 1)"

fun dims_spec :: "dims_frag \<Rightarrow> call_in \<Rightarrow> bool" where
  "dims_spec Check_dims_gemv ci \<longleftrightarrow>
     op_dims (in_trans ci ''transA'') (mat_shape ci ''A'') = (dim ci ''Y'' 0, dim ci ''X'' 0)"
| "dims_spec Check_dims_gemm ci \<longleftrightarrow>
     (let (m, k) = op_dims (in_trans ci ''transA'') (mat_shape ci ''A'');
          (kb, n) = op_dims (in_trans ci ''transB'') (mat_shape ci ''B'')
      in kb = k \<and> mat_shape ci ''C'' = (m, n))"
| "dims_spec Check_dims_ger ci \<longleftrightarrow>
     mat_shape ci ''A'' = (dim ci ''X'' 0, dim ci ''Y'' 0)"

definition check_error :: "blas_op \<Rightarrow> call_in \<Rightarrow> ga_error option" where
  "check_error op ci =
     (let t = ga_typecode (in_arrays ci (firsta op)) in
      if t \<noteq> GA_FLOAT \<and> t \<noteq> GA_DOUBLE then Some GA_INVALID_ERROR
      else if \<not> list_all (\<lambda>a. \<not> ndcond ci a \<and> \<not> typecond ci (firsta op) a) (array_args op)
      then Some GA_VALUE_ERROR
      else if \<not> list_all (\<lambda>a. ga_aligned (in_arrays ci (arg_name a))) (array_args op)
      then Some GA_UNALIGNED_ERROR
      else if \<not> dims_spec (op_check_dims op) ci then Some GA_VALUE_ERROR
      else None)"

text \<open>
  An array argument needs the fallback copy when it is a matrix that is not one
  segment or a vector with a negative stride; the copy is then made in the
  order the template asks for, and it succeeds when the argument is an input,
  copying is allowed and \<^verbatim>\<open>GpuArray_copy\<close> reports no error.  The
  matrices each \<^verbatim>\<open>setup_order\<close> fragment inspects are listed by
  \<open>order_mats\<close>.
\<close>

definition defective :: "call_in \<Rightarrow> argument \<Rightarrow> bool" where
  "defective ci a \<longleftrightarrow>
     (let x = in_arrays ci (arg_name a) in
      if ismatrix a then \<not> GpuArray_ISONESEGMENT x else hd (ga_strides x) < 0)"

definition copy_order :: "argument \<Rightarrow> ga_order" where
  "copy_order a = (if ismatrix a then GA_F_ORDER else GA_ANY_ORDER)"

definition copy_ok :: "runtime \<Rightarrow> call_in \<Rightarrow> argument \<Rightarrow> bool" where
  "copy_ok rt ci a \<longleftrightarrow>
     \<not> arg_isoutput a \<and> \<not> in_nocopy ci
     \<and> fst (rt_copy rt (in_arrays ci (arg_name a)) (copy_order a)) = GA_NO_ERROR"

fun order_mats :: "order_frag \<Rightarrow> string list" where
  "order_mats Setup_order_gemv = [''A'']"
| "order_mats Setup_order_gemm = [''C'', ''A'', ''B'']"
| "order_mats Setup_order_ger = [''A'']"

text \<open>
  The matrices each order fragment handles, with the local that receives its
  leading dimension and the transpose parameter the kernel reads it with
  (none for the order-defining output of \<^verbatim>\<open>gemm\<close> and for \<^verbatim>\<open>ger\<close>).
\<close>

fun order_roles :: "order_frag \<Rightarrow> (string \<times> string \<times> string option) list" where
  "order_roles Setup_order_gemv = [(''A'', ''lda'', Some ''transA'')]"
| "order_roles Setup_order_gemm =
     [(''C'', ''ldc'', None), (''A'', ''lda'', Some ''transA''), (''B'', ''ldb'', Some ''transB'')]"
| "order_roles Setup_order_ger = [(''A'', ''lda'', None)]"

definition role_trans :: "(string \<Rightarrow> cb_transpose) \<Rightarrow> string option \<Rightarrow> cb_transpose" where
  "role_trans tr r = (case r of None \<Rightarrow> cb_no_trans | Some t \<Rightarrow> tr t)"

definition mat2 :: "gpuarray \<Rightarrow> bool" where
  "mat2 p \<longleftrightarrow> wf_gpuarray p \<and> length (ga_dimensions p) = 2"

declare GpuArray_r_def [blas_defs] body_def [blas_defs] pre_checks_def [blas_defs]
  prepare_call_def [blas_defs] init_state_def [blas_defs] check_typecode_def [blas_defs]
  check_nd_type_def [blas_defs] check_aligned_def [blas_defs] ndcond_def [blas_defs]
  typecond_def [blas_defs] aligncond_def [blas_defs] set_elsize_def [blas_defs]
  callarg_def [blas_defs] blas_call_of_def [blas_defs] blas_invoke_def [blas_defs]
  cleanup_def [blas_defs] clear_copy_def [blas_defs] firsta_def [blas_defs] dim_def [blas_defs]
  set_sizes_def [blas_defs] flip_trans_def [blas_defs] flip_if_def [blas_defs]
  order_from_def [blas_defs] order_follow_def [blas_defs] ensure_contig_def [blas_defs]
  fallback_copy_def [blas_defs] get_ctx_def [blas_defs] get_blas_ops_def [blas_defs]
  blas_setup_def [blas_defs] check_dims_gemv_def [blas_defs] check_dims_gemm_def [blas_defs]
  check_dims_ger_def [blas_defs] setup_order_gemv_def [blas_defs] setup_order_gemm_def [blas_defs]
  setup_order_ger_def [blas_defs] check_error_def [blas_defs] op_dims_def [blas_defs]
  mat_shape_def [blas_defs] defective_def [blas_defs] copy_order_def [blas_defs]
  copy_ok_def [blas_defs]

section \<open>Lemmas on control flow\<close>

lemma copy_names_append [simp]: "copy_names (xs @ ys) = copy_names xs @ copy_names ys"
  by (induction xs rule: copy_names.induct) simp_all

lemma clear_names_append [simp]: "clear_names (xs @ ys) = clear_names xs @ clear_names ys"
  by (induction xs rule: clear_names.induct) simp_all

lemma calls_of_append [simp]: "calls_of (xs @ ys) = calls_of xs @ calls_of ys"
  by (induction xs rule: calls_of.induct) simp_all

lemma trace_names_map [simp]:
  "copy_names (map Ev_copy xs) = xs" "clear_names (map Ev_copy xs) = []"
  "calls_of (map Ev_copy xs) = []" "copy_names (map Ev_clear xs) = []"
  "clear_names (map Ev_clear xs) = xs" "calls_of (map Ev_clear xs) = []"
  by (induction xs) simp_all

lemma seq_append: "seq (fs @ gs) s = (case seq fs s of Next s' \<Rightarrow> seq gs s' | r \<Rightarrow> r)"
  by (induction fs arbitrary: s) (auto split: flow.split)

lemma seq_single: "seq [f] s = f s"
  by (cases "f s") simp_all

text \<open>A relation that every statement establishes between its start and end state
  holds between the start and end state of a sequence, if it is a preorder.\<close>

lemma seq_rel:
  assumes "\<And>f s. f \<in> set fs \<Longrightarrow> R s (flow_state (f s))" and "reflp R" and "transp R"
  shows "R s (flow_state (seq fs s))"
  using assms(1)
proof (induction fs arbitrary: s)
  case Nil
  then show ?case using assms(2) by (simp add: reflpD)
next
  case (Cons f fs)
  have step: "R s (flow_state (f s))" using Cons.prems by simp
  show ?case
  proof (cases "f s")
    case (Next s')
    have "R s' (flow_state (seq fs s'))" using Cons.IH Cons.prems by simp
    with step Next assms(3) show ?thesis by (auto dest: transpD)
  qed (use step in simp_all)
qed

lemma seq_no_return:
  assumes "\<And>f s. f \<in> set fs \<Longrightarrow> \<not> is_return (f s)"
  shows "\<not> is_return (seq fs s)"
  using assms
proof (induction fs arbitrary: s)
  case (Cons f fs)
  have "\<not> is_return (f s)" using Cons.prems by simp
  then show ?case using Cons by (cases "f s") simp_all
qed simp

lemma trace_frame_reflp: "reflp trace_frame"
  by (simp add: reflp_def trace_frame_def)

lemma trace_frame_transp: "transp trace_frame"
  by (simp add: transp_def trace_frame_def)

lemmas check_dims_defs = check_dims_gemv_def check_dims_gemm_def check_dims_ger_def

lemma check_dims_frame: "trace_frame st (flow_state (check_dims f ci st))"
  by (cases f) (simp_all add: check_dims_defs trace_frame_def Let_def set_sizes_def split: prod.split)

lemmas order_stmt_defs = order_from_def order_follow_def flip_if_def set_sizes_def

lemma setup_order_gemm_seq:
  "setup_order Setup_order_gemm st
   = seq [order_from ''C'' ''ldc'', order_follow ''A'' ''transA'' ''lda'',
          order_follow ''B'' ''transB'' ''ldb''] st"
  by (simp only: setup_order.simps setup_order_gemm_def)

lemma setup_order_frame: "trace_frame st (flow_state (setup_order f st))"
proof (cases f)
  case Setup_order_gemm
  have "trace_frame st (flow_state (seq [order_from ''C'' ''ldc'',
      order_follow ''A'' ''transA'' ''lda'', order_follow ''B'' ''transB'' ''ldb''] st))"
    by (rule seq_rel [OF _ trace_frame_reflp trace_frame_transp])
      (auto simp: trace_frame_def order_stmt_defs Let_def)
  then show ?thesis
    unfolding Setup_order_gemm setup_order_gemm_seq .
qed (simp_all add: setup_order_gemv_def setup_order_ger_def trace_frame_def order_from_def
    set_sizes_def Let_def)

lemma setup_order_no_return: "\<not> is_return (setup_order f st)"
proof (cases f)
  case Setup_order_gemm
  have "\<not> is_return (seq [order_from ''C'' ''ldc'',
      order_follow ''A'' ''transA'' ''lda'', order_follow ''B'' ''transB'' ''ldb''] st)"
    by (rule seq_no_return) (auto simp: order_from_def order_follow_def Let_def split: if_split_asm)
  then show ?thesis
    unfolding Setup_order_gemm setup_order_gemm_seq .
qed (simp_all add: setup_order_gemv_def setup_order_ger_def order_from_def Let_def)

lemma pre_checks_frame:
  "f \<in> set (pre_checks op ci) \<Longrightarrow> trace_frame s (flow_state (f s))"
  by (auto simp: pre_checks_def trace_frame_def check_typecode_def check_nd_type_def
      check_aligned_def set_elsize_def Let_def check_dims_frame [unfolded trace_frame_def])

lemma prepare_call_frame:
  "f \<in> set (prepare_call op rt) \<Longrightarrow> trace_frame s (flow_state (f s))"
  by (auto simp: prepare_call_def setup_order_frame [unfolded trace_frame_def] trace_frame_def
      get_ctx_def get_blas_ops_def blas_setup_def Let_def split: prod.split)

lemma prepare_call_no_return:
  "f \<in> set (prepare_call op rt) \<Longrightarrow> \<not> is_return (f s)"
  by (auto simp: prepare_call_def setup_order_no_return get_ctx_def get_blas_ops_def
      blas_setup_def Let_def split: prod.split_asm if_split_asm)

section \<open>The contiguity loop\<close>

text \<open>
  The loop copies a subsequence of the input arrays, in order, and records one
  copy event for each; it copies nothing under \<^verbatim>\<open>nocopy\<close>, and it
  returns directly only under \<^verbatim>\<open>nocopy\<close>.
\<close>

lemma contig_loop:
  "\<exists>cs. st_copied (flow_state (seq (map (ensure_contig rt ci) as) st)) = st_copied st @ cs
     \<and> st_trace (flow_state (seq (map (ensure_contig rt ci) as) st)) = st_trace st @ map Ev_copy cs
     \<and> subseq cs (map arg_name (filter (\<lambda>a. \<not> arg_isoutput a) as))
     \<and> (in_nocopy ci \<longrightarrow> cs = [])
     \<and> (is_return (seq (map (ensure_contig rt ci) as) st) \<longrightarrow> in_nocopy ci)
     \<and> (\<forall>x. x \<notin> set cs \<longrightarrow> st_ptr (flow_state (seq (map (ensure_contig rt ci) as) st)) x = st_ptr st x)"
proof (induction as arbitrary: st)
  case Nil
  then show ?case by simp
next
  case (Cons a as)
  show ?case
  proof (cases "ensure_contig rt ci a st")
    case (Next st')
    from Cons.IH [of st'] obtain cs where IH:
      "st_copied (flow_state (seq (map (ensure_contig rt ci) as) st')) = st_copied st' @ cs"
      "st_trace (flow_state (seq (map (ensure_contig rt ci) as) st')) = st_trace st' @ map Ev_copy cs"
      "subseq cs (map arg_name (filter (\<lambda>a. \<not> arg_isoutput a) as))"
      "in_nocopy ci \<longrightarrow> cs = []"
      "is_return (seq (map (ensure_contig rt ci) as) st') \<longrightarrow> in_nocopy ci"
      "\<forall>x. x \<notin> set cs \<longrightarrow> st_ptr (flow_state (seq (map (ensure_contig rt ci) as) st')) x = st_ptr st' x"
      by blast
    from Next consider "st' = st"
      | "st_copied st' = st_copied st @ [arg_name a]"
        "st_trace st' = st_trace st @ [Ev_copy (arg_name a)]"
        "\<not> arg_isoutput a" "\<not> in_nocopy ci"
        "\<forall>x. x \<noteq> arg_name a \<longrightarrow> st_ptr st' x = st_ptr st x"
      by (auto simp: ensure_contig_def fallback_copy_def Let_def split: if_splits prod.splits)
    then show ?thesis
    proof cases
      case 1
      with IH Next show ?thesis by (intro exI [of _ cs]) (auto intro: list_emb_Cons)
    next
      case 2
      with IH Next show ?thesis by (intro exI [of _ "arg_name a # cs"]) auto
    qed
  next
    case (Goto e st')
    then have "st' = st"
      by (auto simp: ensure_contig_def fallback_copy_def Let_def split: if_splits prod.splits)
    with Goto show ?thesis by (intro exI [of _ "[]"]) simp
  next
    case (Return e st')
    then have "st' = st" and "in_nocopy ci"
      by (auto simp: ensure_contig_def fallback_copy_def Let_def split: if_splits prod.splits)
    with Return show ?thesis by (intro exI [of _ "[]"]) simp
  qed
qed

section \<open>Cleanup and the shape of a run\<close>

lemma foldl_clear_copy:
  "st_copied (foldl clear_copy st as) = st_copied st
   \<and> st_trace (foldl clear_copy st as)
       = st_trace st @ map Ev_clear (filter (\<lambda>x. x \<in> set (st_copied st))
                                      (map arg_name (filter (\<lambda>a. \<not> arg_isoutput a) as)))"
  by (induction as arbitrary: st) (simp_all add: clear_copy_def)

lemma cleanup_trace:
  "st_trace (cleanup op st)
     = st_trace st @ map Ev_clear (filter (\<lambda>x. x \<in> set (st_copied st)) (input_names op))"
  by (simp add: cleanup_def input_names_def foldl_clear_copy)

text \<open>A run is the flow up to the kernel call, then the call, then the cleanup.\<close>

lemma GpuArray_r_unfold:
  "GpuArray_r op rt ci =
     (case reach_call op rt ci of
        Next s \<Rightarrow> (rt_kernel rt (blas_call_of op ci s),
                   cleanup op (s\<lparr>st_trace := st_trace s @ [Ev_call (blas_call_of op ci s)]\<rparr>))
      | Goto e s \<Rightarrow> (e, cleanup op s)
      | Return e s \<Rightarrow> (e, s))"
  unfolding GpuArray_r_def reach_call_def body_def
  by (simp only: append_assoc [symmetric] seq_append seq_single)
    (simp add: blas_invoke_def Let_def split: flow.split)

lemma reach_call_inv: "body_inv op ci (reach_call op rt ci)"
proof -
  let ?pre = "pre_checks op ci"
  let ?loop = "map (ensure_contig rt ci) (array_args op)"
  let ?prep = "prepare_call op rt"
  have pre: "trace_frame (init_state ci) (flow_state (seq ?pre (init_state ci)))"
    by (rule seq_rel [OF _ trace_frame_reflp trace_frame_transp], rule pre_checks_frame)
  show ?thesis
  proof (cases "seq ?pre (init_state ci)")
    case (Next s1)
    with pre have s1: "st_copied s1 = []" "copy_names (st_trace s1) = []"
        "clear_names (st_trace s1) = []" "calls_of (st_trace s1) = []" "st_ptr s1 = in_arrays ci"
      by (simp_all add: trace_frame_def init_state_def)
    obtain cs where cs: "st_copied (flow_state (seq ?loop s1)) = st_copied s1 @ cs"
      "st_trace (flow_state (seq ?loop s1)) = st_trace s1 @ map Ev_copy cs"
      "subseq cs (input_names op)" "in_nocopy ci \<longrightarrow> cs = []"
      "is_return (seq ?loop s1) \<longrightarrow> in_nocopy ci"
      "\<forall>x. x \<notin> set cs \<longrightarrow> st_ptr (flow_state (seq ?loop s1)) x = st_ptr s1 x"
      using contig_loop [of rt ci "array_args op" s1] unfolding input_names_def by blast
    show ?thesis
    proof (cases "seq ?loop s1")
      case (Next s2)
      have "trace_frame s2 (flow_state (seq ?prep s2))"
        by (rule seq_rel [OF _ trace_frame_reflp trace_frame_transp], rule prepare_call_frame)
      moreover have "\<not> is_return (seq ?prep s2)"
        by (rule seq_no_return, rule prepare_call_no_return)
      ultimately show ?thesis
        using Next \<open>seq ?pre (init_state ci) = Next s1\<close> s1 cs
        by (simp add: reach_call_def seq_append body_inv_def trace_frame_def)
    next
      case (Goto e s2)
      then show ?thesis
        using \<open>seq ?pre (init_state ci) = Next s1\<close> s1 cs
        by (simp add: reach_call_def seq_append body_inv_def)
    next
      case (Return e s2)
      then show ?thesis
        using \<open>seq ?pre (init_state ci) = Next s1\<close> s1 cs
        by (simp add: reach_call_def seq_append body_inv_def)
    qed
  next
    case (Goto e s1)
    with pre show ?thesis
      by (simp add: reach_call_def seq_append body_inv_def trace_frame_def init_state_def)
  next
    case (Return e s1)
    with pre show ?thesis
      by (simp add: reach_call_def seq_append body_inv_def trace_frame_def init_state_def)
  qed
qed

lemma GpuArray_r_trace_names:
  "copy_names (st_trace (snd (GpuArray_r op rt ci))) = st_copied (flow_state (reach_call op rt ci))
   \<and> clear_names (st_trace (snd (GpuArray_r op rt ci)))
       = (if is_return (reach_call op rt ci) then []
          else filter (\<lambda>x. x \<in> set (st_copied (flow_state (reach_call op rt ci)))) (input_names op))"
  using reach_call_inv [of op ci rt]
  by (cases "reach_call op rt ci") (simp_all add: GpuArray_r_unfold body_inv_def cleanup_trace)

lemma GpuArray_r_calls:
  "calls_of (st_trace (snd (GpuArray_r op rt ci)))
     = (case reach_call op rt ci of Next s \<Rightarrow> [blas_call_of op ci s] | _ \<Rightarrow> [])"
  using reach_call_inv [of op ci rt]
  by (cases "reach_call op rt ci") (simp_all add: GpuArray_r_unfold body_inv_def cleanup_trace)


section \<open>The checks implement their specification\<close>

lemma check_dims_result:
  assumes "st_trans st = in_trans ci"
  shows "(case check_dims f ci st of
            Next s \<Rightarrow> dims_spec f ci \<and> st_trace s = st_trace st \<and> st_copied s = st_copied st
                      \<and> st_ptr s = st_ptr st \<and> st_trans s = st_trans st \<and> st_order s = st_order st
          | Goto e s \<Rightarrow> False
          | Return e s \<Rightarrow> e = GA_VALUE_ERROR \<and> \<not> dims_spec f ci \<and> st_trace s = st_trace st)"
  using assms
  by (cases f) (auto simp: check_dims_defs op_dims_def mat_shape_def set_sizes_def Let_def
      split: if_splits prod.splits)

lemma pre_checks_result:
  "(case seq (pre_checks op ci) (init_state ci) of
      Next s \<Rightarrow> check_error op ci = None \<and> st_trace s = [] \<and> st_copied s = []
                \<and> st_ptr s = in_arrays ci \<and> st_trans s = in_trans ci \<and> st_order s = None
    | Goto e s \<Rightarrow> False
    | Return e s \<Rightarrow> check_error op ci = Some e \<and> st_trace s = [])"
proof -
  have tr: "st_trans (init_state ci) = in_trans ci" by (simp add: init_state_def)
  show ?thesis
    using check_dims_result [OF tr, of "op_check_dims op"]
    by (auto simp: pre_checks_def check_typecode_def check_nd_type_def check_aligned_def
        set_elsize_def check_error_def Let_def list_ex_iff list_all_iff aligncond_def init_state_def
        split: flow.splits)
qed

section \<open>Reaching the backend\<close>

text \<open>
  After the contiguity loop every matrix pointer is one segment: either the
  caller's array, which the loop found to be one, or a copy, which the copy
  contract makes one.  The order fragments therefore always succeed.
\<close>

lemma ensure_contig_eq:
  "ensure_contig rt ci a st =
     (if defective ci a then fallback_copy rt ci a (copy_order a) st else Next st)"
  by (simp add: ensure_contig_def defective_def copy_order_def Let_def)

lemma seq_Cons_Next:
  "seq (f # fs) s = Next s'' \<Longrightarrow> \<exists>s'. f s = Next s' \<and> seq fs s' = Next s''"
  by (cases "f s") simp_all

lemma seq_append_Next:
  "seq (fs @ gs) s = Next s'' \<Longrightarrow> \<exists>s'. seq fs s = Next s' \<and> seq gs s' = Next s''"
  by (cases "seq fs s") (simp_all add: seq_append)

lemma contig_loop_Next:
  assumes "seq (map (ensure_contig rt ci) as) s = Next s'"
  shows "st_order s' = st_order s \<and> st_trans s' = st_trans s \<and> st_size s' = st_size s
    \<and> (\<forall>a\<in>set as. defective ci a \<longrightarrow> copy_ok rt ci a)
    \<and> (\<forall>x. (\<forall>a\<in>set as. arg_name a = x \<longrightarrow> \<not> defective ci a) \<longrightarrow> st_ptr s' x = st_ptr s x)
    \<and> (\<forall>x. (\<exists>a\<in>set as. arg_name a = x \<and> defective ci a) \<longrightarrow>
          (\<exists>a\<in>set as. arg_name a = x \<and> defective ci a
             \<and> st_ptr s' x = snd (rt_copy rt (in_arrays ci x) (copy_order a))))"
  using assms
proof (induction as arbitrary: s)
  case Nil
  then show ?case by simp
next
  case (Cons a as)
  have "seq (ensure_contig rt ci a # map (ensure_contig rt ci) as) s = Next s'"
    using Cons.prems by (simp only: list.map)
  then obtain s1 where s1: "ensure_contig rt ci a s = Next s1"
    and rest: "seq (map (ensure_contig rt ci) as) s1 = Next s'"
    by (blast dest: seq_Cons_Next)
  note IH = Cons.IH [OF rest]
  show ?case
  proof (cases "defective ci a")
    case False
    with s1 have "s1 = s" by (simp add: ensure_contig_eq)
    with IH False show ?thesis by auto
  next
    case True
    with s1 have ok: "copy_ok rt ci a"
      and s1_eq: "s1 = s\<lparr>st_ptr := (st_ptr s)(arg_name a := snd (rt_copy rt (in_arrays ci (arg_name a)) (copy_order a))),
                     st_copied := st_copied s @ [arg_name a],
                     st_trace := st_trace s @ [Ev_copy (arg_name a)]\<rparr>"
      by (auto simp: ensure_contig_eq fallback_copy_def copy_ok_def split: if_splits prod.splits)
    show ?thesis
    proof (intro conjI allI impI)
      fix x
      assume "\<exists>b\<in>set (a # as). arg_name b = x \<and> defective ci b"
      show "\<exists>b\<in>set (a # as). arg_name b = x \<and> defective ci b
             \<and> st_ptr s' x = snd (rt_copy rt (in_arrays ci x) (copy_order b))"
      proof (cases "\<exists>b\<in>set as. arg_name b = x \<and> defective ci b")
        case True
        with IH show ?thesis by auto
      next
        case False
        with \<open>\<exists>b\<in>set (a # as). arg_name b = x \<and> defective ci b\<close> have "x = arg_name a" by auto
        with False IH s1_eq True show ?thesis by auto
      qed
    qed (use IH ok s1_eq True in auto)
  qed
qed

lemma contig_loop_progress:
  "(\<forall>a\<in>set as. defective ci a \<longrightarrow> copy_ok rt ci a)
   \<Longrightarrow> \<exists>s'. seq (map (ensure_contig rt ci) as) s = Next s'"
proof (induction as arbitrary: s)
  case (Cons a as)
  have "\<exists>s1. ensure_contig rt ci a s = Next s1"
    using Cons.prems by (auto simp: ensure_contig_eq fallback_copy_def copy_ok_def split: prod.split)
  then obtain s1 where "ensure_contig rt ci a s = Next s1" by blast
  moreover obtain s' where "seq (map (ensure_contig rt ci) as) s1 = Next s'"
    using Cons.IH Cons.prems by auto
  ultimately show ?case by simp
qed simp

lemma order_from_progress:
  "GpuArray_ISONESEGMENT (st_ptr st x) \<Longrightarrow>
   \<exists>s'. order_from x ld st = Next s' \<and> st_ptr s' = st_ptr st \<and> st_order s' \<noteq> None"
  by (auto simp: order_from_def GpuArray_ISONESEGMENT_def set_sizes_def Let_def)

lemma order_follow_progress:
  "GpuArray_ISONESEGMENT (st_ptr st x) \<Longrightarrow>
   \<exists>s'. order_follow x t ld st = Next s' \<and> st_ptr s' = st_ptr st \<and> st_order s' = st_order st"
  by (auto simp: order_follow_def GpuArray_ISONESEGMENT_def flip_if_def set_sizes_def Let_def)

lemma setup_order_progress:
  assumes "\<forall>x\<in>set (order_mats f). GpuArray_ISONESEGMENT (st_ptr st x)"
  shows "\<exists>s'. setup_order f st = Next s'"
proof (cases f)
  case Setup_order_gemv
  with assms have "GpuArray_ISONESEGMENT (st_ptr st ''A'')" by simp
  then obtain s' where "order_from ''A'' ''lda'' st = Next s'"
    using order_from_progress by blast
  with Setup_order_gemv show ?thesis by (simp add: setup_order_gemv_def)
next
  case Setup_order_ger
  with assms have "GpuArray_ISONESEGMENT (st_ptr st ''A'')" by simp
  then obtain s' where "order_from ''A'' ''lda'' st = Next s'"
    using order_from_progress by blast
  with Setup_order_ger show ?thesis by (simp add: setup_order_ger_def)
next
  case Setup_order_gemm
  with assms have seg: "GpuArray_ISONESEGMENT (st_ptr st ''C'')"
    "GpuArray_ISONESEGMENT (st_ptr st ''A'')" "GpuArray_ISONESEGMENT (st_ptr st ''B'')"
    by simp_all
  obtain s1 where s1: "order_from ''C'' ''ldc'' st = Next s1" "st_ptr s1 = st_ptr st"
    using order_from_progress [OF seg(1)] by blast
  obtain s2 where s2: "order_follow ''A'' ''transA'' ''lda'' s1 = Next s2" "st_ptr s2 = st_ptr st"
    using order_follow_progress [of s1 "''A''"] seg(2) s1(2) by auto
  obtain s3 where s3: "order_follow ''B'' ''transB'' ''ldb'' s2 = Next s3"
    using order_follow_progress [of s2 "''B''"] seg(3) s2(2) by auto
  show ?thesis
    by (simp add: Setup_order_gemm setup_order_gemm_def s1 s2 s3)
qed

lemma copy_contract_onesegment:
  "copy_contract rt \<Longrightarrow> fst (rt_copy rt a ord) = GA_NO_ERROR
   \<Longrightarrow> GpuArray_ISONESEGMENT (snd (rt_copy rt a ord))"
  by (simp add: copy_contract_def Let_def)

lemma loop_matrices_onesegment:
  assumes "copy_contract rt" "seq (map (ensure_contig rt ci) as) s = Next s'"
    "st_ptr s = in_arrays ci" "a \<in> set as" "ismatrix a"
  shows "GpuArray_ISONESEGMENT (st_ptr s' (arg_name a))"
proof (cases "\<exists>b\<in>set as. arg_name b = arg_name a \<and> defective ci b")
  case True
  with contig_loop_Next [OF assms(2)] obtain b where b: "b \<in> set as" "defective ci b"
    "arg_name b = arg_name a"
    "st_ptr s' (arg_name a) = snd (rt_copy rt (in_arrays ci (arg_name a)) (copy_order b))"
    by blast
  with contig_loop_Next [OF assms(2)] have "copy_ok rt ci b" by blast
  with b assms(1) show ?thesis by (simp add: copy_ok_def copy_contract_onesegment)
next
  case False
  with contig_loop_Next [OF assms(2)] assms(3) have "st_ptr s' (arg_name a) = in_arrays ci (arg_name a)"
    by auto
  moreover from False assms(4) have "\<not> defective ci a" by auto
  ultimately show ?thesis using assms(5) by (simp add: defective_def)
qed

lemma make_ops_order_mats:
  assumes "op \<in> set make_ops"
  shows "set (order_mats (op_setup_order op)) \<subseteq> set (map arg_name (matrix_args op))"
proof -
  have "set (order_mats (op_setup_order gemv_op)) \<subseteq> set (map arg_name (matrix_args gemv_op))"
    "set (order_mats (op_setup_order gemm_op)) \<subseteq> set (map arg_name (matrix_args gemm_op))"
    "set (order_mats (op_setup_order ger_op)) \<subseteq> set (map arg_name (matrix_args ger_op))"
    by (simp_all add: gemv_op_def gemm_op_def ger_op_def make_ops_def op_sel_defs arg_ctor_defs)
  moreover have "op = gemv_op \<or> op = gemm_op \<or> op = ger_op"
    using assms by (simp add: make_ops_eq)
  ultimately show ?thesis by blast
qed

lemma matrix_args_mem:
  "x \<in> set (map arg_name (matrix_args op))
   \<Longrightarrow> \<exists>a. a \<in> set (array_args op) \<and> ismatrix a \<and> arg_name a = x"
  by (auto simp: matrix_args_def array_args_def ismatrix_isarray)


section \<open>Properties of the validating function\<close>

lemma reach_call_progress:
  assumes "op \<in> set make_ops" and "copy_contract rt" and "check_error op ci = None"
    and "\<forall>a\<in>set (array_args op). defective ci a \<longrightarrow> copy_ok rt ci a"
    and "\<forall>d. fst (rt_ctx rt d) = GA_NO_ERROR" and "\<forall>c. fst (rt_blas_ops rt c) = GA_NO_ERROR"
    and "\<forall>c. rt_setup rt c = GA_NO_ERROR"
  shows "\<exists>s. reach_call op rt ci = Next s"
proof -
  obtain s1 where s1: "seq (pre_checks op ci) (init_state ci) = Next s1" "st_ptr s1 = in_arrays ci"
    using pre_checks_result [of op ci] assms(3) by (auto split: flow.splits)
  obtain s2 where s2: "seq (map (ensure_contig rt ci) (array_args op)) s1 = Next s2"
    using contig_loop_progress assms(4) by blast
  have "\<forall>x\<in>set (order_mats (op_setup_order op)). GpuArray_ISONESEGMENT (st_ptr s2 x)"
  proof
    fix x
    assume "x \<in> set (order_mats (op_setup_order op))"
    with make_ops_order_mats [OF assms(1)] obtain a where
      "a \<in> set (array_args op)" "ismatrix a" "arg_name a = x"
      using matrix_args_mem by blast
    with loop_matrices_onesegment [OF assms(2) s2 s1(2)]
    show "GpuArray_ISONESEGMENT (st_ptr s2 x)" by blast
  qed
  then obtain s3 where s3: "setup_order (op_setup_order op) s2 = Next s3"
    using setup_order_progress by blast
  have "\<exists>s4. seq (prepare_call op rt) s2 = Next s4"
    using s3 assms(5-7)
    by (simp add: prepare_call_def get_ctx_def get_blas_ops_def blas_setup_def Let_def
        prod.case_eq_if)
  then show ?thesis
    using s1 s2 by (auto simp: reach_call_def seq_append)
qed

lemma GpuArray_r_Next:
  assumes "reach_call op rt ci = Next s"
  shows "calls_of (st_trace (snd (GpuArray_r op rt ci))) = [blas_call_of op ci s]
         \<and> fst (GpuArray_r op rt ci) = rt_kernel rt (blas_call_of op ci s)"
  by (simp only: GpuArray_r_calls assms flow.case) (simp add: GpuArray_r_unfold assms)

text \<open>
  C1.  Progress: when every check passes, every needed fallback copy can be
  made, and the context and BLAS-table lookups and the backend setup succeed,
  \<^verbatim>\<open>GpuArray_r<op>\<close> calls exactly one backend entry and returns the
  kernel's status.  In particular the layout-error branch of the
  \<^verbatim>\<open>setup_order\<close> fragments is never taken for the table's operations.
\<close>

theorem GpuArray_r_progress:
  assumes "op \<in> set make_ops" and "copy_contract rt" and "check_error op ci = None"
    and "\<forall>a\<in>set (array_args op). defective ci a \<longrightarrow> copy_ok rt ci a"
    and "\<forall>d. fst (rt_ctx rt d) = GA_NO_ERROR" and "\<forall>c. fst (rt_blas_ops rt c) = GA_NO_ERROR"
    and "\<forall>c. rt_setup rt c = GA_NO_ERROR"
  shows "\<exists>c. calls_of (st_trace (snd (GpuArray_r op rt ci))) = [c]
             \<and> fst (GpuArray_r op rt ci) = rt_kernel rt c"
proof -
  obtain s where "reach_call op rt ci = Next s"
    using reach_call_progress [OF assms] by blast
  then show ?thesis using GpuArray_r_Next by blast
qed

text \<open>
  C2.  No leak: on every path, including every error path, each fallback copy
  the function makes is released exactly once before it returns.
\<close>

theorem GpuArray_r_no_leak:
  assumes "distinct (map arg_name (array_args op))"
  shows "mset (copy_names (st_trace (snd (GpuArray_r op rt ci))))
         = mset (clear_names (st_trace (snd (GpuArray_r op rt ci))))"
proof -
  let ?s = "flow_state (reach_call op rt ci)"
  have inv: "body_inv op ci (reach_call op rt ci)" by (rule reach_call_inv)
  have "distinct (input_names op)"
    using assms by (simp add: input_names_def distinct_map_filter)
  with inv have "filter (\<lambda>x. x \<in> set (st_copied ?s)) (input_names op) = st_copied ?s"
    by (simp add: body_inv_def filter_mem_subseq)
  with inv show ?thesis
    using GpuArray_r_trace_names [of op rt ci] by (auto simp: body_inv_def)
qed

text \<open>
  C3.  Errors before any allocation: when a check before the contiguity loop
  fails (element type, rank or type agreement, alignment, dimensions), the
  function returns that check's error code and has no effect on the runtime:
  no copy, no backend setup, no kernel call.
\<close>

theorem GpuArray_r_check_error:
  assumes "check_error op ci = Some e"
  shows "fst (GpuArray_r op rt ci) = e \<and> st_trace (snd (GpuArray_r op rt ci)) = []"
proof -
  from assms pre_checks_result [of op ci] obtain s where
    pre: "seq (pre_checks op ci) (init_state ci) = Return e s" "st_trace s = []"
    by (auto split: flow.splits)
  then have "reach_call op rt ci = Return e s"
    by (simp add: reach_call_def seq_append)
  with pre show ?thesis by (simp add: GpuArray_r_unfold)
qed

text \<open>
  The backend is called only on validated arguments: whenever the trace of
  a run contains a kernel call, all the checks passed, the dimension relations
  of the operation included.
\<close>

theorem GpuArray_r_call_checked:
  assumes "c \<in> set (calls_of (st_trace (snd (GpuArray_r op rt ci))))"
  shows "check_error op ci = None"
proof -
  from assms obtain s where "reach_call op rt ci = Next s"
    by (cases "reach_call op rt ci") (simp_all add: GpuArray_r_calls)
  then obtain s1 where "seq (pre_checks op ci) (init_state ci) = Next s1"
    by (auto simp: reach_call_def dest: seq_append_Next)
  with pre_checks_result [of op ci] show ?thesis by simp
qed

text \<open>
  C4.  With \<^verbatim>\<open>nocopy\<close> set the function never allocates a fallback copy,
  whatever its inputs and whatever the runtime does.
\<close>

theorem GpuArray_r_nocopy_no_alloc:
  assumes "in_nocopy ci"
  shows "copy_names (st_trace (snd (GpuArray_r op rt ci))) = []"
  using assms reach_call_inv [of op ci rt] GpuArray_r_trace_names [of op rt ci]
  by (simp add: body_inv_def)

section \<open>The buffers the kernel receives\<close>

lemma zip_map_self: "zip xs (map f xs) = map (\<lambda>x. (x, f x)) xs"
  by (induction xs) simp_all

lemma reach_call_ptr:
  assumes "x \<notin> set (input_names op)"
  shows "st_ptr (flow_state (reach_call op rt ci)) x = in_arrays ci x"
proof -
  have "subseq (st_copied (flow_state (reach_call op rt ci))) (input_names op)"
    using reach_call_inv [of op ci rt] by (simp add: body_inv_def)
  then have "x \<notin> set (st_copied (flow_state (reach_call op rt ci)))"
    using assms subseq_set by blast
  then show ?thesis using reach_call_inv [of op ci rt] by (simp add: body_inv_def)
qed

text \<open>
  An array that is not an input of the fallback copy (an output) reaches the
  kernel as the caller's own buffer.
\<close>

lemma output_buffer_passed:
  assumes "x \<notin> set (input_names op)" and "list_ex (\<lambda>a. isarray a \<and> arg_name a = x) (op_arguments op)"
    and "c \<in> set (calls_of (st_trace (snd (GpuArray_r op rt ci))))"
  shows "kernel_buffer op c x = Some (ga_data (in_arrays ci x))"
proof (cases "reach_call op rt ci")
  case (Next s)
  then have c: "c = blas_call_of op ci s" using assms(3) by (simp add: GpuArray_r_calls)
  have ptr: "st_ptr s x = in_arrays ci x" using reach_call_ptr [OF assms(1), of rt ci] Next by simp
  obtain a0 rest where f: "filter (\<lambda>a. isarray a \<and> arg_name a = x) (op_arguments op) = a0 # rest"
    using assms(2) by (cases "filter (\<lambda>a. isarray a \<and> arg_name a = x) (op_arguments op)")
      (auto simp: list_ex_iff filter_empty_conv)
  then have a0: "isarray a0" "arg_name a0 = x"
    by (metis (mono_tags, lifting) filter_eq_ConsD)+
  then have "callarg ci s a0 = Some (VBuf (ga_data (in_arrays ci x)) (ga_offset (in_arrays ci x) div st_elsize s))"
    using ptr by (auto simp: callarg_def isarray_def Let_def)
  moreover have "filter (\<lambda>(a, v). isarray a \<and> arg_name a = x) (zip (op_arguments op) (bc_args c))
      = map (\<lambda>a. (a, callarg ci s a)) (a0 # rest)"
    using f by (simp add: c blas_call_of_def zip_map_self filter_map comp_def)
  ultimately show ?thesis by (simp add: kernel_buffer_def)
qed (use assms(3) in \<open>simp_all add: GpuArray_r_calls\<close>)

section \<open>The state invariant of a run\<close>

lemma ensure_contig_cases:
  assumes "ensure_contig rt ci a st = r"
  obtains "flow_state r = st"
  | c where "flow_state r = st\<lparr>st_ptr := (st_ptr st)(arg_name a := c),
                               st_copied := st_copied st @ [arg_name a],
                               st_trace := st_trace st @ [Ev_copy (arg_name a)]\<rparr>"
      and "\<not> arg_isoutput a" and "\<not> in_nocopy ci" and "\<not> is_return r"
  using assms
  by (auto simp: ensure_contig_def fallback_copy_def Let_def split: if_splits prod.splits)

lemma run_inv_frame: "trace_frame s s' \<Longrightarrow> run_inv op ci s \<Longrightarrow> run_inv op ci s'"
  by (simp add: trace_frame_def run_inv_def)

lemma run_inv_step:
  assumes "f \<in> set (body op rt ci)" and "run_inv op ci s"
  shows "run_inv op ci (flow_state (f s))"
proof -
  consider "f \<in> set (pre_checks op ci)" | a where "a \<in> set (array_args op)" "f = ensure_contig rt ci a"
    | "f \<in> set (prepare_call op rt)" | "f = blas_invoke op rt ci"
    using assms(1) by (auto simp: body_def)
  then show ?thesis
  proof cases
    case 1
    then show ?thesis using assms(2) by (blast intro: run_inv_frame pre_checks_frame)
  next
    case (2 a)
    show ?thesis
    proof (rule ensure_contig_cases [OF refl, of rt ci a s])
      assume "flow_state (ensure_contig rt ci a s) = s"
      then show ?thesis using 2 assms(2) by simp
    next
      fix c
      assume st: "flow_state (ensure_contig rt ci a s) = s\<lparr>st_ptr := (st_ptr s)(arg_name a := c),
                    st_copied := st_copied s @ [arg_name a],
                    st_trace := st_trace s @ [Ev_copy (arg_name a)]\<rparr>"
        and out: "\<not> arg_isoutput a"
      have "arg_name a \<in> set (input_names op)" using 2(1) out by (auto simp: input_names_def)
      then show ?thesis using 2 st assms(2) by (auto simp: run_inv_def)
    qed
  next
    case 3
    then show ?thesis using assms(2) by (blast intro: run_inv_frame prepare_call_frame)
  next
    case 4
    then show ?thesis using assms(2) by (simp add: blas_invoke_def run_inv_def Let_def)
  qed
qed

lemma seq_prefix_inv:
  assumes "\<And>f s. f \<in> set fs \<Longrightarrow> P s \<Longrightarrow> P (flow_state (f s))" and "P s"
  shows "P (flow_state (seq (take n fs) s))"
proof -
  have "(\<lambda>s s'. P s \<longrightarrow> P s') s (flow_state (seq (take n fs) s))"
    by (rule seq_rel) (auto simp: reflp_def transp_def dest: in_set_takeD assms(1))
  then show ?thesis using assms(2) by simp
qed

lemma cleanup_state: "st_ptr (cleanup op st) = st_ptr st" "st_copied (cleanup op st) = st_copied st"
proof -
  have "st_ptr (foldl clear_copy st as) = st_ptr st" for as
    by (induction as arbitrary: st) (simp_all add: clear_copy_def)
  then show "st_ptr (cleanup op st) = st_ptr st" by (simp add: cleanup_def)
  show "st_copied (cleanup op st) = st_copied st" by (simp add: cleanup_def foldl_clear_copy)
qed

lemma run_inv_cleanup: "run_inv op ci st \<Longrightarrow> run_inv op ci (cleanup op st)"
  by (auto simp: run_inv_def cleanup_trace cleanup_state)

text \<open>
  C20.  The run invariant holds after every prefix of the statements of
  \<^verbatim>\<open>GpuArray_r<op>\<close>, whatever the runtime returns and wherever control
  leaves, and in the state the function returns, after the cleanup.
\<close>

theorem GpuArray_r_run_inv:
  "run_inv op ci (flow_state (seq (take n (body op rt ci)) (init_state ci)))
   \<and> run_inv op ci (snd (GpuArray_r op rt ci))"
proof
  have init: "run_inv op ci (init_state ci)" by (simp add: run_inv_def init_state_def)
  show "run_inv op ci (flow_state (seq (take n (body op rt ci)) (init_state ci)))"
    by (rule seq_prefix_inv [where P = "run_inv op ci" and fs = "body op rt ci"]) (simp_all add: run_inv_step init)
  have "run_inv op ci (flow_state (seq (take (length (body op rt ci)) (body op rt ci)) (init_state ci)))"
    by (rule seq_prefix_inv [where P = "run_inv op ci" and fs = "body op rt ci"]) (simp_all add: run_inv_step init)
  then have "run_inv op ci (flow_state (seq (body op rt ci) (init_state ci)))" by simp
  then show "run_inv op ci (snd (GpuArray_r op rt ci))"
    by (cases "seq (body op rt ci) (init_state ci)") (simp_all add: GpuArray_r_def run_inv_cleanup)
qed

end
