(* ===== verification/Blas_Call.thy ===== *)
theory Blas_Call
  imports Blas_Pipeline
begin

text \<open>
  What the backend entry receives when \<^verbatim>\<open>GpuArray_r<op>\<close> calls it: each
  matrix with an order, a leading dimension and a transpose flag under which
  the BLAS addressing reads the caller's matrix; every argument assigned; the
  increment \<^verbatim>\<open>Xp->strides[0] / elsize\<close> with its C conversions; and each
  vector as a buffer offset and an increment under which the BLAS vector
  convention reads the caller's vector.  The lemmas follow a run of the
  statements up to the call (\<open>reach_call\<close>) through its four stages.
\<close>

section \<open>The negotiated call addresses the caller\<close>

lemma reach_call_Next:
  assumes "reach_call op rt ci = Next s"
  obtains s1 s2 s3 where "seq (pre_checks op ci) (init_state ci) = Next s1"
    and "seq (map (ensure_contig rt ci) (array_args op)) s1 = Next s2"
    and "setup_order (op_setup_order op) s2 = Next s3"
    and "seq [get_ctx op rt, get_blas_ops rt, blas_setup rt] s3 = Next s"
  using assms unfolding reach_call_def prepare_call_def
  by (blast dest: seq_append_Next seq_Cons_Next)

lemma view_swapped:
  assumes "\<forall>i<d0. \<forall>j<d1. elem_dist (ga_strides x) [i, j]
              = int (gpuarray_get_elsize (ga_typecode x) * blas_offset ord l j i)"
    and "ga_dimensions x = [d0, d1]"
  shows "blas_view_ok x t ord l (flip_trans t)"
  using assms by (auto simp: blas_view_ok_def in_op_shape_def blas_elem_def logical_elem_def flip_trans_def)

lemma mat2_dims: "mat2 p \<Longrightarrow> \<exists>d0 d1. ga_dimensions p = [d0, d1]"
  by (auto simp: mat2_def length_Suc_conv numeral_2_eq_2)

lemma order_from_view:
  assumes step: "order_from x ld st = Next s'" and wf: "wf_gpuarray (st_ptr st x)"
    and dims: "ga_dimensions (st_ptr st x) = [d0, d1]"
  shows "st_ptr s' = st_ptr st \<and> st_trans s' = st_trans st
     \<and> (\<forall>k. k \<noteq> ld \<longrightarrow> st_size s' k = st_size st k)
     \<and> (\<exists>ord l. st_order s' = Some ord \<and> st_size s' ld = Some l
          \<and> (\<forall>t. blas_view_ok (st_ptr st x) t ord l t))"
proof -
  let ?p = "st_ptr st x"
  consider (F) "ga_f_contiguous ?p" | (C) "\<not> ga_f_contiguous ?p" "ga_c_contiguous ?p"
    using step by (auto simp: order_from_def Let_def split: if_splits)
  then show ?thesis
  proof cases
    case F
    then have "\<forall>i<d0. \<forall>j<d1. elem_dist (ga_strides ?p) [i, j]
                 = int (gpuarray_get_elsize (ga_typecode ?p) * blas_offset cb_fortran d0 i j)"
      using wf dims layout_2d(2) [OF dims] by (auto simp: wf_gpuarray_def blas_offset_def)
    then have "\<forall>t. blas_view_ok ?p t cb_fortran d0 t"
      using dims by (blast intro: view_same)
    with F step dims show ?thesis
      by (auto simp: order_from_def set_sizes_def Let_def)
  next
    case C
    then have "\<forall>i<d0. \<forall>j<d1. elem_dist (ga_strides ?p) [i, j]
                 = int (gpuarray_get_elsize (ga_typecode ?p) * blas_offset cb_c d1 i j)"
      using wf dims layout_2d(1) [OF dims] by (auto simp: wf_gpuarray_def blas_offset_def)
    then have "\<forall>t. blas_view_ok ?p t cb_c d1 t"
      using dims by (blast intro: view_same)
    with C step dims show ?thesis
      by (auto simp: order_from_def set_sizes_def Let_def)
  qed
qed

lemma order_follow_view:
  assumes step: "order_follow x t ld st = Next s'" and ord: "st_order st = Some ord"
    and wf: "wf_gpuarray (st_ptr st x)" and dims: "ga_dimensions (st_ptr st x) = [d0, d1]"
  shows "st_ptr s' = st_ptr st \<and> st_order s' = st_order st
     \<and> (\<forall>u. u \<noteq> t \<longrightarrow> st_trans s' u = st_trans st u)
     \<and> (\<forall>k. k \<noteq> ld \<longrightarrow> st_size s' k = st_size st k)
     \<and> (\<exists>l. st_size s' ld = Some l \<and> blas_view_ok (st_ptr st x) (st_trans st t) ord l (st_trans s' t))"
proof -
  let ?p = "st_ptr st x" and ?e = "gpuarray_get_elsize (ga_typecode (st_ptr st x))"
  consider (F) "ga_f_contiguous ?p" | (C) "\<not> ga_f_contiguous ?p" "ga_c_contiguous ?p"
    using step by (auto simp: order_follow_def Let_def split: if_splits)
  then show ?thesis
  proof cases
    case F
    have off: "\<forall>i<d0. \<forall>j<d1. elem_dist (ga_strides ?p) [i, j] = int (?e * (i + j * d0))"
      using F wf dims layout_2d(2) [OF dims] by (auto simp: wf_gpuarray_def)
    have "blas_view_ok ?p (st_trans st t) ord d0
            (if ord = cb_c then flip_trans (st_trans st t) else st_trans st t)"
    proof (cases ord)
      case cb_row
      with off have "\<forall>i<d0. \<forall>j<d1. elem_dist (ga_strides ?p) [i, j] = int (?e * blas_offset ord d0 j i)"
        by (simp add: blas_offset_def add.commute)
      with cb_row show ?thesis using dims by (simp add: view_swapped)
    next
      case cb_column
      with off have "\<forall>i<d0. \<forall>j<d1. elem_dist (ga_strides ?p) [i, j] = int (?e * blas_offset ord d0 i j)"
        by (simp add: blas_offset_def)
      with cb_column show ?thesis using dims by (simp add: view_same)
    qed
    with F step ord dims show ?thesis
      by (auto simp: order_follow_def flip_if_def set_sizes_def Let_def)
  next
    case C
    have off: "\<forall>i<d0. \<forall>j<d1. elem_dist (ga_strides ?p) [i, j] = int (?e * (i * d1 + j))"
      using C wf dims layout_2d(1) [OF dims] by (auto simp: wf_gpuarray_def)
    have "blas_view_ok ?p (st_trans st t) ord d1
            (if ord = cb_fortran then flip_trans (st_trans st t) else st_trans st t)"
    proof (cases ord)
      case cb_column
      with off have "\<forall>i<d0. \<forall>j<d1. elem_dist (ga_strides ?p) [i, j] = int (?e * blas_offset ord d1 j i)"
        by (simp add: blas_offset_def add.commute)
      with cb_column show ?thesis using dims by (simp add: view_swapped)
    next
      case cb_row
      with off have "\<forall>i<d0. \<forall>j<d1. elem_dist (ga_strides ?p) [i, j] = int (?e * blas_offset ord d1 i j)"
        by (simp add: blas_offset_def)
      with cb_row show ?thesis using dims by (simp add: view_same)
    qed
    with C step ord dims show ?thesis
      by (auto simp: order_follow_def flip_if_def set_sizes_def Let_def)
  qed
qed

lemma setup_order_view:
  assumes step: "setup_order f st = Next s'"
    and m: "\<forall>(x, ld, r) \<in> set (order_roles f). mat2 (st_ptr st x)"
  shows "st_ptr s' = st_ptr st \<and> (\<exists>ord. st_order s' = Some ord
     \<and> list_all (\<lambda>(x, ld, r). \<exists>l. st_size s' ld = Some l
          \<and> blas_view_ok (st_ptr st x) (role_trans (st_trans st) r) ord l (role_trans (st_trans s') r))
        (order_roles f))"
proof (cases f)
  case Setup_order_gemv
  with m have ma: "mat2 (st_ptr st ''A'')" by simp
  then obtain d0 d1 where "ga_dimensions (st_ptr st ''A'') = [d0, d1]" by (blast dest: mat2_dims)
  moreover have "wf_gpuarray (st_ptr st ''A'')" using ma by (simp add: mat2_def)
  ultimately show ?thesis using step Setup_order_gemv
      order_from_view [of "''A''" "''lda''" st s'] by (auto simp: setup_order_gemv_def role_trans_def)
next
  case Setup_order_ger
  with m have ma: "mat2 (st_ptr st ''A'')" by simp
  then obtain d0 d1 where "ga_dimensions (st_ptr st ''A'') = [d0, d1]" by (blast dest: mat2_dims)
  moreover have "wf_gpuarray (st_ptr st ''A'')" using ma by (simp add: mat2_def)
  ultimately show ?thesis using step Setup_order_ger
      order_from_view [of "''A''" "''lda''" st s'] by (auto simp: setup_order_ger_def role_trans_def)
next
  case Setup_order_gemm
  obtain c0 c1 a0 a1 b0 b1 where
    d: "ga_dimensions (st_ptr st ''C'') = [c0, c1]" "ga_dimensions (st_ptr st ''A'') = [a0, a1]"
       "ga_dimensions (st_ptr st ''B'') = [b0, b1]"
    using m Setup_order_gemm by (auto dest!: mat2_dims)
  have w: "wf_gpuarray (st_ptr st ''C'')" "wf_gpuarray (st_ptr st ''A'')" "wf_gpuarray (st_ptr st ''B'')"
    using m Setup_order_gemm by (auto simp: mat2_def)
  obtain s1 s2 where s1: "order_from ''C'' ''ldc'' st = Next s1"
    and s2: "order_follow ''A'' ''transA'' ''lda'' s1 = Next s2"
    and s3: "order_follow ''B'' ''transB'' ''ldb'' s2 = Next s'"
    using step Setup_order_gemm
    by (auto simp: setup_order_gemm_def split: flow.splits)
  note v1 = order_from_view [OF s1 w(1) d(1)]
  then obtain ord lc where o1: "st_order s1 = Some ord" "st_size s1 ''ldc'' = Some lc"
    "\<forall>t. blas_view_ok (st_ptr st ''C'') t ord lc t" by blast
  note v2 = order_follow_view [OF s2 o1(1), of a0 a1] v1 w(2) d(2)
  then obtain la where o2: "st_size s2 ''lda'' = Some la"
    "blas_view_ok (st_ptr st ''A'') (st_trans st ''transA'') ord la (st_trans s2 ''transA'')" by auto
  have o2': "st_order s2 = Some ord" using v2 o1 by simp
  note v3 = order_follow_view [OF s3 o2', of b0 b1] v2 v1 w(3) d(3)
  then obtain lb where o3: "st_size s' ''ldb'' = Some lb"
    "blas_view_ok (st_ptr st ''B'') (st_trans st ''transB'') ord lb (st_trans s' ''transB'')" by auto
  show ?thesis
    using Setup_order_gemm v1 v2 v3 o1 o2 o3 by (auto simp: role_trans_def)
qed

lemma order_roles_mats: "set (map fst (order_roles f)) = set (order_mats f)"
  by (cases f) auto

lemma check_error_nd:
  "check_error op ci = None \<Longrightarrow> a \<in> set (array_args op) \<Longrightarrow> ismatrix a
   \<Longrightarrow> ga_nd (in_arrays ci (arg_name a)) = 2"
  by (auto simp: check_error_def Let_def list_all_iff ndcond_def split: if_splits)

lemma loop_ptr_origin:
  assumes "seq (map (ensure_contig rt ci) as) s = Next s'" and "st_ptr s = in_arrays ci"
  shows "st_ptr s' x = in_arrays ci x
    \<or> (\<exists>ord. fst (rt_copy rt (in_arrays ci x) ord) = GA_NO_ERROR \<and> st_ptr s' x = snd (rt_copy rt (in_arrays ci x) ord))"
  using contig_loop_Next [OF assms(1)] assms(2) by (metis copy_ok_def)

lemma loop_ptr_mat2:
  assumes "copy_contract rt" and "seq (map (ensure_contig rt ci) as) s = Next s'"
    and "st_ptr s = in_arrays ci" and "wf_gpuarray (in_arrays ci x)" and "ga_nd (in_arrays ci x) = 2"
  shows "mat2 (st_ptr s' x)"
  using loop_ptr_origin [OF assms(2,3), of x] assms(1,4,5)
  by (auto simp: mat2_def wf_gpuarray_def copy_contract_def Let_def)

lemma backend_steps_keep:
  "seq [get_ctx op rt, get_blas_ops rt, blas_setup rt] st = Next s'
   \<Longrightarrow> st_ptr s' = st_ptr st \<and> st_order s' = st_order st \<and> st_size s' = st_size st
       \<and> st_trans s' = st_trans st"
  by (auto simp: get_ctx_def get_blas_ops_def blas_setup_def Let_def split: prod.splits if_splits)

text \<open>
  C23.  Refinement of the negotiated call: for the table's operations, with
  well-formed inputs and copies that meet their contract, whenever the kernel
  is called, every matrix the order fragment handles is described to it by the
  storage order, its leading dimension and its transpose flag so that the
  kernel reads, at every index of \<open>op(X)\<close>, the element of the caller's
  \<open>X\<close> under the transpose the caller asked for, including when the flag
  was inverted because the matrix's layout disagrees with the order.
\<close>

theorem negotiated_call_view:
  assumes ops: "op \<in> set make_ops" and cc: "copy_contract rt"
    and wf: "\<forall>a\<in>set (array_args op). wf_gpuarray (in_arrays ci (arg_name a))"
    and run: "reach_call op rt ci = Next s"
  shows "\<exists>ord. st_order s = Some ord
     \<and> list_all (\<lambda>(x, ld, r). \<exists>l. st_size s ld = Some l
          \<and> blas_view_ok (st_ptr s x) (role_trans (in_trans ci) r) ord l (role_trans (st_trans s) r))
        (order_roles (op_setup_order op))"
proof -
  obtain s1 s2 s3 where s1: "seq (pre_checks op ci) (init_state ci) = Next s1"
    and s2: "seq (map (ensure_contig rt ci) (array_args op)) s1 = Next s2"
    and s3: "setup_order (op_setup_order op) s2 = Next s3"
    and s4: "seq [get_ctx op rt, get_blas_ops rt, blas_setup rt] s3 = Next s"
    using run by (rule reach_call_Next)
  have p1: "check_error op ci = None" "st_ptr s1 = in_arrays ci" "st_trans s1 = in_trans ci"
    using pre_checks_result [of op ci] s1 by simp_all
  have t2: "st_trans s2 = in_trans ci"
    using contig_loop_Next [OF s2] p1(3) by simp
  have "\<forall>(x, ld, r) \<in> set (order_roles (op_setup_order op)). mat2 (st_ptr s2 x)"
  proof (clarify)
    fix x ld r
    assume "(x, ld, r) \<in> set (order_roles (op_setup_order op))"
    then have "x \<in> set (order_mats (op_setup_order op))"
      using order_roles_mats [of "op_setup_order op"] by force
    with make_ops_order_mats [OF ops] obtain a where
      a: "a \<in> set (array_args op)" "ismatrix a" "arg_name a = x"
      using matrix_args_mem by blast
    show "mat2 (st_ptr s2 x)"
      using loop_ptr_mat2 [OF cc s2 p1(2)] a wf check_error_nd [OF p1(1) a(1,2)] by blast
  qed
  from setup_order_view [OF s3 this] backend_steps_keep [OF s4] t2
  show ?thesis by simp
qed

section \<open>Every argument of the call is assigned\<close>

lemma st_size_set_sizes: "st_size (set_sizes kvs st) = st_size st ++ map_of (rev kvs)"
  by (simp add: set_sizes_def)

lemma check_dims_gemv_sizes: "check_dims_gemv ci st = Next s' \<Longrightarrow> {''m'', ''n''} \<subseteq> dom (st_size s')"
  by (auto simp: check_dims_gemv_def Let_def st_size_set_sizes split: if_splits)

lemma check_dims_ger_sizes: "check_dims_ger ci st = Next s' \<Longrightarrow> {''m'', ''n''} \<subseteq> dom (st_size s')"
  by (auto simp: check_dims_ger_def Let_def st_size_set_sizes split: if_splits)

lemma check_dims_gemm_sizes: "check_dims_gemm ci st = Next s' \<Longrightarrow> {''m'', ''n'', ''k''} \<subseteq> dom (st_size s')"
  by (auto simp: check_dims_gemm_def Let_def st_size_set_sizes split: if_splits prod.splits)

lemma order_from_sizes: "order_from x ld st = Next s' \<Longrightarrow> insert ld (dom (st_size st)) \<subseteq> dom (st_size s')"
  by (auto simp: order_from_def Let_def st_size_set_sizes split: if_splits)

lemma order_follow_sizes: "order_follow x t ld st = Next s' \<Longrightarrow> insert ld (dom (st_size st)) \<subseteq> dom (st_size s')"
  by (auto simp: order_follow_def flip_if_def Let_def st_size_set_sizes split: if_splits)

lemma check_dims_sizes:
  "check_dims f ci st = Next s' \<Longrightarrow>
   {''m'', ''n''} \<subseteq> dom (st_size s') \<and> (f = Check_dims_gemm \<longrightarrow> ''k'' \<in> dom (st_size s'))"
  by (cases f) (auto dest: check_dims_gemv_sizes check_dims_gemm_sizes check_dims_ger_sizes)

lemma pre_checks_last:
  assumes "seq (pre_checks op ci) st = Next s1"
  obtains s0 s0' where "check_dims (op_check_dims op) ci s0 = Next s0'"
    and "s1 = s0'\<lparr>st_elsize := gpuarray_get_elsize (ga_typecode (in_arrays ci (firsta op)))\<rparr>"
proof -
  have "pre_checks op ci = [check_typecode op ci, check_nd_type op ci, check_aligned op ci]
          @ [check_dims (op_check_dims op) ci, set_elsize op ci]"
    by (simp add: pre_checks_def)
  with assms obtain s0 where "seq [check_dims (op_check_dims op) ci, set_elsize op ci] s0 = Next s1"
    by (metis seq_append_Next)
  then show ?thesis using that
    by (cases "check_dims (op_check_dims op) ci s0") (simp_all add: set_elsize_def)
qed


lemma pre_checks_sizes:
  assumes "seq (pre_checks op ci) (init_state ci) = Next s1"
  shows "{''m'', ''n''} \<subseteq> dom (st_size s1) \<and> (op_check_dims op = Check_dims_gemm \<longrightarrow> ''k'' \<in> dom (st_size s1))"
proof -
  obtain s0 s0' where c: "check_dims (op_check_dims op) ci s0 = Next s0'"
    and "s1 = s0'\<lparr>st_elsize := gpuarray_get_elsize (ga_typecode (in_arrays ci (firsta op)))\<rparr>"
    using pre_checks_last [OF assms] by blast
  then have "st_size s1 = st_size s0'" by simp
  then show ?thesis using check_dims_sizes [OF c] by simp
qed

lemma setup_order_sizes:
  assumes "setup_order f st = Next s'"
  shows "dom (st_size st) \<subseteq> dom (st_size s') \<and> list_all (\<lambda>(x, ld, r). ld \<in> dom (st_size s')) (order_roles f)"
proof (cases f)
  case Setup_order_gemm
  then obtain s1 s2 where "order_from ''C'' ''ldc'' st = Next s1"
    "order_follow ''A'' ''transA'' ''lda'' s1 = Next s2" "order_follow ''B'' ''transB'' ''ldb'' s2 = Next s'"
    using assms by (auto simp: setup_order_gemm_def split: flow.splits)
  then have "insert ''ldc'' (dom (st_size st)) \<subseteq> dom (st_size s1)"
    "insert ''lda'' (dom (st_size s1)) \<subseteq> dom (st_size s2)" "insert ''ldb'' (dom (st_size s2)) \<subseteq> dom (st_size s')"
    by (blast dest: order_from_sizes order_follow_sizes)+
  then show ?thesis using Setup_order_gemm by (simp del: domIff) blast
qed (use assms in \<open>auto simp: setup_order_gemv_def setup_order_ger_def dest!: order_from_sizes\<close>)

lemma backend_steps_sizes:
  "seq [get_ctx op rt, get_blas_ops rt, blas_setup rt] st = Next s' \<Longrightarrow> st_size s' = st_size st"
  by (auto simp: get_ctx_def get_blas_ops_def blas_setup_def Let_def split: prod.splits if_splits)

text \<open>
  C24.  Definite assignment: for the table's operations, whenever the kernel
  is called, no argument of the call is an unassigned C local: the extents
  \<^verbatim>\<open>m\<close>, \<^verbatim>\<open>n\<close> (and \<^verbatim>\<open>k\<close>) come from the dimension fragment, each
  leading dimension from the order fragment, and no later statement removes
  them.
\<close>

theorem kernel_args_assigned:
  assumes ops: "op \<in> set make_ops" and run: "reach_call op rt ci = Next s"
  shows "list_all (\<lambda>v. v \<noteq> None) (bc_args (blas_call_of op ci s))"
proof -
  obtain s1 s2 s3 where s1: "seq (pre_checks op ci) (init_state ci) = Next s1"
    and s2: "seq (map (ensure_contig rt ci) (array_args op)) s1 = Next s2"
    and s3: "setup_order (op_setup_order op) s2 = Next s3"
    and s4: "seq [get_ctx op rt, get_blas_ops rt, blas_setup rt] s3 = Next s"
    using run by (rule reach_call_Next)
  have "st_size s2 = st_size s1" using contig_loop_Next [OF s2] by simp
  then have sz: "{''m'', ''n''} \<subseteq> dom (st_size s)"
    "op_check_dims op = Check_dims_gemm \<longrightarrow> ''k'' \<in> dom (st_size s)"
    "list_all (\<lambda>(x, ld, r). ld \<in> dom (st_size s)) (order_roles (op_setup_order op))"
    using pre_checks_sizes [OF s1] setup_order_sizes [OF s3] backend_steps_sizes [OF s4] by auto
  have "op = gemv_op \<or> op = gemm_op \<or> op = ger_op" using ops by (simp add: make_ops_eq)
  then show ?thesis
    using sz by (auto simp: blas_call_of_def callarg_def blas_defs Let_def simp del: domIff)
qed

section \<open>Increments passed to the kernel\<close>

lemma callarg_IncC:
  "arg_cls a = IncC \<Longrightarrow> callarg ci st a =
     Some (VInc (c_int_of_size (size_t_of_ssize (hd (ga_strides (st_ptr st [last (arg_name a)]))) div st_elsize st)))"
  by (simp add: callarg_def)

text \<open>
  C18.  The increment the kernel receives for a vector whose first stride is
  \<open>k\<close> elements is \<open>k\<close> itself, for every \<open>k\<close> in the range of a C
  \<^verbatim>\<open>int\<close> and every power-of-two element size up to \<open>2 ^ 32\<close>, although the
  code divides the signed stride as \<^verbatim>\<open>size_t\<close> and narrows the quotient
  to \<^verbatim>\<open>int\<close>.
\<close>

theorem callarg_inc:
  assumes "arg_cls a = IncC" and "st_elsize st = 2 ^ j" and "j \<le> 32"
    and "hd (ga_strides (st_ptr st [last (arg_name a)])) = k * 2 ^ j"
    and "- (2 ^ 31) \<le> k" and "k < 2 ^ 31"
  shows "callarg ci st a = Some (VInc k)"
proof -
  have "c_int_of_size (size_t_of_ssize (k * 2 ^ j) div 2 ^ j) = k"
    using assms(3,5,6) by (rule inc_of_stride)
  then show ?thesis using assms(1,2,4) by (simp add: callarg_IncC)
qed

text \<open>
  Beyond that range the narrowing wraps: a stride of \<open>k\<close> elements with
  \<open>2 ^ 31 \<le> k < 2 ^ 32\<close> becomes the increment \<open>k - 2 ^ 32\<close>.
\<close>

lemma callarg_inc_wrap:
  assumes "arg_cls a = IncC" and "st_elsize st = 2 ^ j" and "j \<le> 32"
    and "hd (ga_strides (st_ptr st [last (arg_name a)])) = k * 2 ^ j"
    and "2 ^ 31 \<le> k" and "k < 2 ^ 32"
  shows "callarg ci st a = Some (VInc (k - 2 ^ 32))"
proof -
  have "int (size_t_of_ssize (k * 2 ^ j) div 2 ^ j) mod 2 ^ 32 = (k - 2 ^ 32) mod 2 ^ 32"
    using size_t_div_pow2_mod [OF assms(3)] by simp
  then have "c_int_of_size (size_t_of_ssize (k * 2 ^ j) div 2 ^ j) = k - 2 ^ 32"
    using assms(5,6) by (intro c_int_of_size_int32) simp_all
  then show ?thesis using assms(1,2,4) by (simp add: callarg_IncC)
qed

section \<open>The vectors the kernel receives\<close>

text \<open>
  The element size the kernel is told is that of the first array, set after
  the checks and kept by every later statement; a vector's pointer after the
  contiguity loop is the caller's array (its stride is not negative) or a copy
  (packed, by the copy contract); the table pairs every increment with the
  vector named by its last character.
\<close>

lemma elsize_reflp: "reflp (\<lambda>s s'. st_elsize s' = st_elsize s)"
  by (simp add: reflp_def)

lemma elsize_transp: "transp (\<lambda>s s'. st_elsize s' = st_elsize s)"
  by (simp add: transp_def)

lemma setup_order_elsize: "st_elsize (flow_state (setup_order f st)) = st_elsize st"
proof (cases f)
  case Setup_order_gemm
  have "st_elsize (flow_state (seq [order_from ''C'' ''ldc'',
      order_follow ''A'' ''transA'' ''lda'', order_follow ''B'' ''transB'' ''ldb''] st)) = st_elsize st"
    by (rule seq_rel [OF _ elsize_reflp elsize_transp]) (auto simp: order_stmt_defs Let_def)
  then show ?thesis
    unfolding Setup_order_gemm setup_order_gemm_seq .
qed (simp_all add: setup_order_gemv_def setup_order_ger_def order_from_def set_sizes_def Let_def)

lemma ensure_contig_elsize: "st_elsize (flow_state (ensure_contig rt ci a s)) = st_elsize s"
  by (rule ensure_contig_cases [OF refl, of rt ci a s]) auto


lemma loop_prepare_elsize:
  "f \<in> set (map (ensure_contig rt ci) as @ prepare_call op rt)
   \<Longrightarrow> st_elsize (flow_state (f s)) = st_elsize s"
  by (auto simp: prepare_call_def setup_order_elsize get_ctx_def get_blas_ops_def blas_setup_def
      ensure_contig_elsize Let_def split: prod.split)

lemma reach_call_elsize:
  assumes "reach_call op rt ci = Next s"
  shows "st_elsize s = gpuarray_get_elsize (ga_typecode (in_arrays ci (firsta op)))"
proof -
  obtain s1 where s1: "seq (pre_checks op ci) (init_state ci) = Next s1"
    and s: "seq (map (ensure_contig rt ci) (array_args op) @ prepare_call op rt) s1 = Next s"
    using assms unfolding reach_call_def by (blast dest: seq_append_Next)
  have "st_elsize (flow_state (seq (map (ensure_contig rt ci) (array_args op) @ prepare_call op rt) s1))
          = st_elsize s1"
    by (rule seq_rel [OF _ elsize_reflp elsize_transp]) (rule loop_prepare_elsize)
  moreover obtain s0 s0' where "s1 = s0'\<lparr>st_elsize := gpuarray_get_elsize (ga_typecode (in_arrays ci (firsta op)))\<rparr>"
    using pre_checks_last [OF s1] by blast
  ultimately show ?thesis using s by simp
qed


lemma loop_ptr_cases:
  assumes loop: "seq (map (ensure_contig rt ci) as) s = Next s'" and ptr: "st_ptr s = in_arrays ci"
    and a: "a \<in> set as" and dist: "distinct (map arg_name as)"
  shows "(\<not> defective ci a \<and> st_ptr s' (arg_name a) = in_arrays ci (arg_name a))
    \<or> (defective ci a \<and> copy_ok rt ci a
        \<and> st_ptr s' (arg_name a) = snd (rt_copy rt (in_arrays ci (arg_name a)) (copy_order a)))"
proof -
  have uniq: "b = a" if "b \<in> set as" "arg_name b = arg_name a" for b
    using dist that a by (metis distinct_map inj_onD)
  note L = contig_loop_Next [OF loop]
  show ?thesis
  proof (cases "defective ci a")
    case True
    then obtain b where "b \<in> set as" "arg_name b = arg_name a"
      "st_ptr s' (arg_name a) = snd (rt_copy rt (in_arrays ci (arg_name a)) (copy_order b))"
      using L a by blast
    moreover have "copy_ok rt ci a" using L a True by blast
    ultimately show ?thesis using True uniq by blast
  next
    case False
    then have "\<forall>b\<in>set as. arg_name b = arg_name a \<longrightarrow> \<not> defective ci b" using uniq by blast
    then show ?thesis using L ptr False by auto
  qed
qed


lemma make_ops_distinct: "op \<in> set make_ops \<Longrightarrow> distinct (map arg_name (array_args op))"
  by (auto simp: make_ops_def op_sel_defs arg_ctor_defs)


lemma make_ops_inc_vector:
  assumes "op \<in> set make_ops" and "b \<in> set (args_per_class op IncC)"
  shows "\<exists>a. a \<in> set (array_args op) \<and> arg_cls a = VectorC \<and> arg_name a = [last (arg_name b)]"
proof -
  let ?P = "\<lambda>op. list_all (\<lambda>b. list_ex (\<lambda>a. arg_cls a = VectorC \<and> arg_name a = [last (arg_name b)])
              (array_args op)) (args_per_class op IncC)"
  have "?P gemv_op" "?P gemm_op" "?P ger_op" by (simp_all add: blas_defs)
  then have "?P op" using assms(1) unfolding make_ops_eq by auto
  then show ?thesis using assms(2) unfolding list_all_iff list_ex_iff by blast
qed

lemma check_error_vector:
  assumes "check_error op ci = None" and "a \<in> set (array_args op)" and "\<not> ismatrix a"
  shows "ga_nd (in_arrays ci (arg_name a)) = 1"
    and "ga_typecode (in_arrays ci (arg_name a)) = ga_typecode (in_arrays ci (firsta op))"
    and "ga_typecode (in_arrays ci (firsta op)) = GA_FLOAT \<or> ga_typecode (in_arrays ci (firsta op)) = GA_DOUBLE"
  using assms by (auto simp: check_error_def Let_def list_all_iff ndcond_def typecond_def split: if_splits)

lemma elsize_pow2:
  "t = GA_FLOAT \<or> t = GA_DOUBLE \<Longrightarrow> \<exists>j\<le>32. gpuarray_get_elsize t = 2 ^ j"
  by (auto simp: gpuarray_get_elsize_def intro: exI [of _ 2] exI [of _ 3])

lemma loop_vector_shape:
  assumes cc: "copy_contract rt" and loop: "seq (map (ensure_contig rt ci) as) s1 = Next s2"
    and ptr: "st_ptr s1 = in_arrays ci" and dist: "distinct (map arg_name as)"
    and a: "a \<in> set as" "\<not> ismatrix a"
    and x: "wf_gpuarray (in_arrays ci (arg_name a))" "elem_aligned (in_arrays ci (arg_name a))"
      "ga_dimensions (in_arrays ci (arg_name a)) = [n]"
      "hd (ga_strides (in_arrays ci (arg_name a))) < 2 ^ 31 * int e"
    and e: "e = gpuarray_get_elsize (ga_typecode (in_arrays ci (arg_name a)))" "0 < e"
  obtains \<sigma> where "ga_typecode (st_ptr s2 (arg_name a)) = ga_typecode (in_arrays ci (arg_name a))"
    "ga_dimensions (st_ptr s2 (arg_name a)) = [n]" "ga_strides (st_ptr s2 (arg_name a)) = [\<sigma>]"
    "e dvd ga_offset (st_ptr s2 (arg_name a))" "n \<le> 1 \<or> (0 \<le> \<sigma> \<and> \<sigma> < 2 ^ 31 * int e \<and> int e dvd \<sigma>)"
proof -
  let ?x = "in_arrays ci (arg_name a)" and ?p = "st_ptr s2 (arg_name a)"
  from loop_ptr_cases [OF loop ptr a(1) dist] show ?thesis
  proof (elim disjE conjE)
    assume "\<not> defective ci a" and p: "?p = ?x"
    then have "0 \<le> hd (ga_strides ?x)" using a(2) by (simp add: defective_def)
    moreover obtain \<sigma> where "ga_strides ?x = [\<sigma>]"
      using x(1,3) by (auto elim: wf_vector_strides)
    ultimately show ?thesis using that p x e by (auto simp: elem_aligned_def)
  next
    assume "copy_ok rt ci a" and p: "?p = snd (rt_copy rt ?x (copy_order a))"
    then have c: "wf_gpuarray ?p" "ga_typecode ?p = ga_typecode ?x" "ga_dimensions ?p = [n]"
      "GpuArray_ISONESEGMENT ?p" "elem_aligned ?p"
      using cc x(3) by (auto simp: copy_ok_def copy_contract_def Let_def)
    obtain \<sigma> where \<sigma>: "ga_strides ?p = [\<sigma>]"
      using c(1,3) by (auto elim: wf_vector_strides)
    have "n \<le> 1 \<or> \<sigma> = int e"
    proof (cases "n \<le> 1")
      case False
      then show ?thesis using vector_packed_stride [OF c(1,3) _ c(4)] \<sigma> c(2) e by simp
    qed simp
    then show ?thesis using that c \<sigma> e by (auto simp: elem_aligned_def)
  qed
qed

lemma vec_inc_view:
  assumes b: "arg_cls b = IncC" and p: "st_ptr s [last (arg_name b)] = p"
    and e: "st_elsize s = 2 ^ j" "j \<le> 32"
    and shape: "ga_dimensions p = [n]" "ga_strides p = [\<sigma>]" "2 ^ j dvd ga_offset p"
    and str: "n \<le> 1 \<or> (0 \<le> \<sigma> \<and> \<sigma> < 2 ^ 31 * 2 ^ j \<and> 2 ^ j dvd \<sigma>)"
  shows "\<exists>k. callarg ci s b = Some (VInc k) \<and> vec_view_ok (st_elsize s) p (ga_offset p div st_elsize s) k"
proof (cases "n \<le> 1")
  case True
  then show ?thesis
    using callarg_IncC [OF b] vec_view_stride [OF shape(1,2)] shape(3) e(1) by auto
next
  case False
  with str have \<sigma>: "0 \<le> \<sigma>" "\<sigma> < 2 ^ 31 * 2 ^ j" "2 ^ j dvd \<sigma>" by auto
  define k where "k = \<sigma> div 2 ^ j"
  have \<sigma>k: "\<sigma> = k * 2 ^ j" using \<sigma>(3) by (simp add: k_def)
  have k: "0 \<le> k" "k < 2 ^ 31"
    using \<sigma>(1,2) \<sigma>k by (simp_all add: zero_le_mult_iff mult_less_cancel_right)
  have "c_int_of_size (size_t_of_ssize (k * 2 ^ j) div 2 ^ j) = k"
    using e(2) _ k(2) by (rule inc_of_stride) (use k(1) in simp)
  then have "callarg ci s b = Some (VInc k)"
    using callarg_IncC [OF b] p shape(2) \<sigma>k e(1) by simp
  moreover have "vec_view_ok (st_elsize s) p (ga_offset p div st_elsize s) k"
    using vec_view_stride [OF shape(1,2)] shape(3) e(1) k(1) \<sigma>k by simp
  ultimately show ?thesis by blast
qed

text \<open>
  C25.  Refinement of the negotiated call for vectors: for the table's
  operations, with well-formed inputs whose offsets and strides are whole
  elements and whose vector strides are below \<open>2 ^ 31\<close> elements, and copies
  that meet their contract, whenever the kernel is called every increment
  argument is paired with the buffer argument of its vector, the element size
  is that vector's, and the buffer's offset in elements with the increment the
  kernel receives address, by the BLAS vector convention, every element of the
  vector the backend works on at the byte its offset and stride designate,
  including when a vector with a negative stride was replaced by a copy.
\<close>

theorem negotiated_vector_view:
  assumes ops: "op \<in> set make_ops" and cc: "copy_contract rt"
    and inp: "\<forall>a\<in>set (array_args op). wf_gpuarray (in_arrays ci (arg_name a))
                \<and> elem_aligned (in_arrays ci (arg_name a))"
    and small: "\<forall>a\<in>set (array_args op). \<not> ismatrix a \<longrightarrow> hd (ga_strides (in_arrays ci (arg_name a)))
                  < 2 ^ 31 * int (gpuarray_get_elsize (ga_typecode (in_arrays ci (arg_name a))))"
    and run: "reach_call op rt ci = Next s"
  shows "list_all (\<lambda>b. let p = st_ptr s [last (arg_name b)] in
           st_elsize s = gpuarray_get_elsize (ga_typecode p)
           \<and> (\<exists>a. a \<in> set (op_arguments op) \<and> arg_cls a = VectorC \<and> arg_name a = [last (arg_name b)]
                 \<and> callarg ci s a = Some (VBuf (ga_data p) (ga_offset p div st_elsize s)))
           \<and> (\<exists>k. callarg ci s b = Some (VInc k) \<and> vec_view_ok (st_elsize s) p (ga_offset p div st_elsize s) k))
         (args_per_class op IncC)"
  unfolding list_all_iff
proof (intro ballI)
  fix b assume b: "b \<in> set (args_per_class op IncC)"
  then have bI: "arg_cls b = IncC" by (simp add: args_per_class_def)
  obtain a where a: "a \<in> set (array_args op)" "arg_cls a = VectorC" "arg_name a = [last (arg_name b)]"
    using make_ops_inc_vector [OF ops b] by blast
  have am: "\<not> ismatrix a" using a(2) by (simp add: ismatrix_def)
  let ?x = "in_arrays ci (arg_name a)"
  obtain s1 s2 s3 where s1: "seq (pre_checks op ci) (init_state ci) = Next s1"
    and s2: "seq (map (ensure_contig rt ci) (array_args op)) s1 = Next s2"
    and s3: "setup_order (op_setup_order op) s2 = Next s3"
    and s4: "seq [get_ctx op rt, get_blas_ops rt, blas_setup rt] s3 = Next s"
    using run by (rule reach_call_Next)
  have p1: "check_error op ci = None" "st_ptr s1 = in_arrays ci"
    using pre_checks_result [of op ci] s1 by simp_all
  have ptr: "st_ptr s = st_ptr s2"
    using setup_order_frame [where f = "op_setup_order op" and st = s2] s3 backend_steps_keep [OF s4]
    by (simp add: trace_frame_def)
  note tc = check_error_vector [OF p1(1) a(1) am]
  obtain j where j: "j \<le> 32" "gpuarray_get_elsize (ga_typecode ?x) = 2 ^ j"
    using elsize_pow2 [OF tc(3)] tc(2) by auto
  have es: "st_elsize s = 2 ^ j" using reach_call_elsize [OF run] tc(2) j(2) by simp
  have wx: "wf_gpuarray ?x" "elem_aligned ?x" using inp a(1) by auto
  then obtain n where n: "ga_dimensions ?x = [n]"
    using tc(1) by (auto simp: wf_gpuarray_def length_Suc_conv)
  have sm: "hd (ga_strides ?x) < 2 ^ 31 * int (2 ^ j)" using small a(1) am j(2) by auto
  obtain \<sigma> where sh: "ga_typecode (st_ptr s2 (arg_name a)) = ga_typecode ?x"
      "ga_dimensions (st_ptr s2 (arg_name a)) = [n]" "ga_strides (st_ptr s2 (arg_name a)) = [\<sigma>]"
      "2 ^ j dvd ga_offset (st_ptr s2 (arg_name a))"
      "n \<le> 1 \<or> (0 \<le> \<sigma> \<and> \<sigma> < 2 ^ 31 * int (2 ^ j) \<and> int (2 ^ j) dvd \<sigma>)"
    using loop_vector_shape [OF cc s2 p1(2) make_ops_distinct [OF ops] a(1) am wx n sm j(2) [symmetric]]
    by auto
  have pb: "st_ptr s [last (arg_name b)] = st_ptr s2 (arg_name a)" using ptr a(3) by simp
  have "\<exists>k. callarg ci s b = Some (VInc k) \<and> vec_view_ok (st_elsize s) (st_ptr s2 (arg_name a))
          (ga_offset (st_ptr s2 (arg_name a)) div st_elsize s) k"
    using vec_inc_view [OF bI pb es j(1) sh(2,3,4)] sh(5) by simp
  moreover have "a \<in> set (op_arguments op)" using a(1) by (simp add: array_args_def)
  ultimately show "let p = st_ptr s [last (arg_name b)] in
           st_elsize s = gpuarray_get_elsize (ga_typecode p)
           \<and> (\<exists>a. a \<in> set (op_arguments op) \<and> arg_cls a = VectorC \<and> arg_name a = [last (arg_name b)]
                 \<and> callarg ci s a = Some (VBuf (ga_data p) (ga_offset p div st_elsize s)))
           \<and> (\<exists>k. callarg ci s b = Some (VInc k) \<and> vec_view_ok (st_elsize s) p (ga_offset p div st_elsize s) k)"
    using pb a(2,3) es sh(1) j(2) ptr by (auto simp: Let_def callarg_def)
qed

section \<open>Wide strides\<close>

lemma reach_call_uncopied_ptr:
  assumes ops: "op \<in> set make_ops" and run: "reach_call op rt ci = Next s"
    and a: "a \<in> set (array_args op)" and nd: "\<not> defective ci a"
  shows "st_ptr s (arg_name a) = in_arrays ci (arg_name a)"
proof -
  obtain s1 s2 s3 where s1: "seq (pre_checks op ci) (init_state ci) = Next s1"
    and s2: "seq (map (ensure_contig rt ci) (array_args op)) s1 = Next s2"
    and s3: "setup_order (op_setup_order op) s2 = Next s3"
    and s4: "seq [get_ctx op rt, get_blas_ops rt, blas_setup rt] s3 = Next s"
    using run by (rule reach_call_Next)
  have p1: "st_ptr s1 = in_arrays ci"
    using pre_checks_result [of op ci] s1 by simp
  have "st_ptr s = st_ptr s2"
    using setup_order_frame [where f = "op_setup_order op" and st = s2] s3 backend_steps_keep [OF s4]
    by (simp add: trace_frame_def)
  then show ?thesis
    using loop_ptr_cases [OF s2 p1 a make_ops_distinct [OF ops]] nd by simp
qed

text \<open>
  C19.  Nothing rejects a vector stride of \<open>2 ^ 31\<close> elements or more: for
  the table's operations, when every check passes and the backend's lookups
  and setup succeed, a vector whose stride is \<open>k\<close> elements with
  \<open>2 ^ 31 \<le> k < 2 ^ 32\<close> is passed in place (its stride is not negative),
  the kernel is called, and the increment argument of that vector reaches it
  as the negative \<open>k - 2 ^ 32\<close>, which the BLAS convention reads as a walk
  backwards from the other end.
\<close>

theorem kernel_inc_wraps:
  assumes ops: "op \<in> set make_ops" and cc: "copy_contract rt" and chk: "check_error op ci = None"
    and cp: "\<forall>a\<in>set (array_args op). defective ci a \<longrightarrow> copy_ok rt ci a"
    and rt: "\<forall>d. fst (rt_ctx rt d) = GA_NO_ERROR" "\<forall>c. fst (rt_blas_ops rt c) = GA_NO_ERROR"
      "\<forall>c. rt_setup rt c = GA_NO_ERROR"
    and b: "b \<in> set (args_per_class op IncC)"
    and str: "hd (ga_strides (in_arrays ci [last (arg_name b)]))
                = k * int (gpuarray_get_elsize (ga_typecode (in_arrays ci [last (arg_name b)])))"
    and k: "2 ^ 31 \<le> k" "k < 2 ^ 32"
  shows "\<exists>c. calls_of (st_trace (snd (GpuArray_r op rt ci))) = [c]
             \<and> fst (GpuArray_r op rt ci) = rt_kernel rt c
             \<and> (\<forall>i < length (op_arguments op). op_arguments op ! i = b \<longrightarrow> bc_args c ! i = Some (VInc (k - 2 ^ 32)))"
proof -
  obtain s where run: "reach_call op rt ci = Next s"
    using reach_call_progress [OF ops cc chk cp rt] by blast
  have bI: "arg_cls b = IncC" using b by (simp add: args_per_class_def)
  obtain a where a: "a \<in> set (array_args op)" "arg_cls a = VectorC" "arg_name a = [last (arg_name b)]"
    using make_ops_inc_vector [OF ops b] by blast
  have am: "\<not> ismatrix a" using a(2) by (simp add: ismatrix_def)
  note tc = check_error_vector [OF chk a(1) am]
  obtain j where j: "j \<le> 32" "gpuarray_get_elsize (ga_typecode (in_arrays ci (arg_name a))) = 2 ^ j"
    using elsize_pow2 [OF tc(3)] tc(2) by auto
  have es: "st_elsize s = 2 ^ j" using reach_call_elsize [OF run] tc(2) j(2) by simp
  have sk: "hd (ga_strides (in_arrays ci (arg_name a))) = k * 2 ^ j"
    using str a(3) j(2) by simp
  have "0 \<le> k * 2 ^ j" using k(1) by simp
  then have "\<not> defective ci a"
    using sk am by (simp add: defective_def)
  then have "st_ptr s [last (arg_name b)] = in_arrays ci (arg_name a)"
    using reach_call_uncopied_ptr [OF ops run a(1)] a(3) by simp
  then have "callarg ci s b = Some (VInc (k - 2 ^ 32))"
    using callarg_inc_wrap [OF bI es j(1) _ k] sk by simp
  then show ?thesis
    using GpuArray_r_Next [OF run] by (auto simp: blas_call_of_def)
qed

end
