(* ===== verification/Blas_Scenarios.thy ===== *)
theory Blas_Scenarios
  imports Blas_Call
begin

text \<open>
  Concrete calls of the generated \<^verbatim>\<open>GpuArray_r<op>\<close> functions, taken from
  the testable behaviours the description lists: a row-major matrix-vector
  product, a matrix product with a transposed operand, dimension errors, the
  storage-order correction, and a non-contiguous input with and without
  copying.  Every run is evaluated by the simplifier; the witnesses of the
  pipeline's theorems apply them to these inputs.
\<close>

section \<open>Inputs\<close>

definition mk_array :: "nat \<Rightarrow> nat list \<Rightarrow> int list \<Rightarrow> bool \<Rightarrow> bool \<Rightarrow> gpuarray" where
  "mk_array d ds ss c f =
     \<lparr>ga_data = d, ga_offset = 0, ga_nd = length ds, ga_dimensions = ds, ga_strides = ss,
      ga_c_contiguous = c, ga_f_contiguous = f, ga_aligned = True, ga_typecode = GA_FLOAT\<rparr>"

text \<open>A runtime whose lookups and kernel succeed and whose copies fail.\<close>

definition rt_ex :: runtime where
  "rt_ex = \<lparr>rt_copy = (\<lambda>a ord. (GA_MEMORY_ERROR, a)), rt_ctx = (\<lambda>d. (GA_NO_ERROR, 7)),
            rt_blas_ops = (\<lambda>c. (GA_NO_ERROR, 0)), rt_setup = (\<lambda>c. GA_NO_ERROR),
            rt_kernel = (\<lambda>c. GA_NO_ERROR)\<rparr>"

text \<open>The same runtime with a copy that yields a fresh Fortran-ordered matrix.\<close>

definition rt_copying :: runtime where
  "rt_copying = rt_ex\<lparr>rt_copy := (\<lambda>a ord.
      (GA_NO_ERROR, a\<lparr>ga_data := 100, ga_strides := [4, 4 * int (hd (ga_dimensions a))],
                      ga_c_contiguous := False, ga_f_contiguous := True\<rparr>))\<rparr>"

definition call_with ::
  "(string \<times> gpuarray) list \<Rightarrow> (string \<times> cb_transpose) list \<Rightarrow> bool \<Rightarrow> call_in" where
  "call_with arrs trs nocopy =
     \<lparr>in_arrays = (\<lambda>x. case map_of arrs x of Some a \<Rightarrow> a | None \<Rightarrow> mk_array 0 [] [] True True),
      in_trans = (\<lambda>x. case map_of trs x of Some t \<Rightarrow> t | None \<Rightarrow> cb_no_trans),
      in_scalars = (\<lambda>x. if x = ''alpha'' then 1 else 0), in_nocopy = nocopy\<rparr>"

text \<open>\<^verbatim>\<open>A\<close> of shape (3,4) stored row-major, \<^verbatim>\<open>X\<close> of length 4, \<^verbatim>\<open>Y\<close> of length 3.\<close>

definition gemv_in :: call_in where
  "gemv_in = call_with
     [(''A'', mk_array 1 [3, 4] [16, 4] True False), (''X'', mk_array 2 [4] [4] True True),
      (''Y'', mk_array 3 [3] [4] True True)] [] False"

text \<open>The same, with \<^verbatim>\<open>A\<close> a strided view that is not one segment.\<close>

definition gemv_strided_in :: "bool \<Rightarrow> call_in" where
  "gemv_strided_in nocopy = call_with
     [(''A'', mk_array 1 [3, 4] [32, 4] False False), (''X'', mk_array 2 [4] [4] True True),
      (''Y'', mk_array 3 [3] [4] True True)] [] nocopy"

text \<open>\<^verbatim>\<open>A\<close> (2,3), \<^verbatim>\<open>B\<close> (4,3) transposed, \<^verbatim>\<open>C\<close> (2,4), all row-major.\<close>

definition gemm_in :: call_in where
  "gemm_in = call_with
     [(''A'', mk_array 1 [2, 3] [12, 4] True False), (''B'', mk_array 2 [4, 3] [12, 4] True False),
      (''C'', mk_array 3 [2, 4] [16, 4] True False)] [(''transB'', cb_trans)] False"

text \<open>\<^verbatim>\<open>A\<close> (2,3), \<^verbatim>\<open>B\<close> (3,4), \<^verbatim>\<open>C\<close> (2,5): the outer dimension disagrees.\<close>

definition gemm_bad_in :: call_in where
  "gemm_bad_in = call_with
     [(''A'', mk_array 1 [2, 3] [12, 4] True False), (''B'', mk_array 2 [3, 4] [16, 4] True False),
      (''C'', mk_array 3 [2, 5] [20, 4] True False)] [] False"

text \<open>\<^verbatim>\<open>C\<close> (2,4) row-major, \<^verbatim>\<open>A\<close> (2,3) column-major, \<^verbatim>\<open>B\<close> (3,4) row-major.\<close>

definition gemm_mixed_in :: call_in where
  "gemm_mixed_in = call_with
     [(''A'', mk_array 1 [2, 3] [4, 8] False True), (''B'', mk_array 2 [3, 4] [16, 4] True False),
      (''C'', mk_array 3 [2, 4] [16, 4] True False)] [] False"

text \<open>\<^verbatim>\<open>X\<close> of length 5, \<^verbatim>\<open>Y\<close> of length 7, \<^verbatim>\<open>A\<close> (5,6).\<close>

definition ger_bad_in :: call_in where
  "ger_bad_in = call_with
     [(''X'', mk_array 1 [5] [4] True True), (''Y'', mk_array 2 [7] [4] True True),
      (''A'', mk_array 3 [5, 6] [24, 4] True False)] [] False"

text \<open>A strided \<^verbatim>\<open>A\<close> together with a \<^verbatim>\<open>Y\<close> of the wrong length, copying forbidden.\<close>

definition gemv_two_defects_in :: call_in where
  "gemv_two_defects_in = call_with
     [(''A'', mk_array 1 [3, 4] [32, 4] False False), (''X'', mk_array 2 [4] [4] True True),
      (''Y'', mk_array 3 [2] [4] True True)] [] True"

text \<open>
  \<^verbatim>\<open>A\<close> (3,2) row-major, \<^verbatim>\<open>X\<close> of length 2 viewed with a stride of
  \<open>2 ^ 31\<close> elements (\<open>2 ^ 33\<close> bytes), \<^verbatim>\<open>Y\<close> of length 3.
\<close>

definition gemv_wide_in :: call_in where
  "gemv_wide_in = call_with
     [(''A'', mk_array 1 [3, 2] [8, 4] True False), (''X'', mk_array 2 [2] [8589934592] False False),
      (''Y'', mk_array 3 [3] [4] True True)] [] False"

text \<open>
  A runtime whose copy succeeds for a vector only, into a fresh packed buffer,
  and a matrix-vector product whose \<^verbatim>\<open>X\<close> is read backwards with a stride
  of two elements.
\<close>

definition vec_pack_copy :: "gpuarray \<Rightarrow> ga_order \<Rightarrow> ga_error \<times> gpuarray" where
  "vec_pack_copy a ord =
     (if ga_nd a = 1 \<and> length (ga_dimensions a) = 1
      then (GA_NO_ERROR, a\<lparr>ga_data := 100, ga_offset := 0,
                           ga_strides := [int (gpuarray_get_elsize (ga_typecode a))],
                           ga_c_contiguous := True, ga_f_contiguous := True, ga_aligned := True\<rparr>)
      else (GA_COPY_ERROR, a))"

definition rt_vcopy :: runtime where
  "rt_vcopy = rt_ex\<lparr>rt_copy := vec_pack_copy\<rparr>"

definition gemv_negx_in :: call_in where
  "gemv_negx_in = call_with
     [(''A'', mk_array 1 [3, 4] [16, 4] True False), (''X'', mk_array 2 [4] [-8] False False),
      (''Y'', mk_array 3 [3] [4] True True)] [] False"

declare rt_vcopy_def [blas_defs] gemv_negx_in_def [blas_defs]
declare gemv_wide_in_def [blas_defs] gemv_two_defects_in_def [blas_defs] mk_array_def [blas_defs] rt_ex_def [blas_defs] rt_copying_def [blas_defs]
  call_with_def [blas_defs] gemv_in_def [blas_defs] gemv_strided_in_def [blas_defs]
  gemm_in_def [blas_defs] gemm_bad_in_def [blas_defs] gemm_mixed_in_def [blas_defs]
  ger_bad_in_def [blas_defs]

section \<open>Runs\<close>

text \<open>
  Matrix-vector product on a row-major (3,4) matrix: \<^verbatim>\<open>sgemv\<close> is
  called once with the row-major order, the untransposed extents 3 and 4,
  leading dimension 4 and unit increments, and the call succeeds.
\<close>

lemma gemv_row_major_run:
  "GpuArray_r gemv_op rt_ex gemv_in =
     (GA_NO_ERROR, snd (GpuArray_r gemv_op rt_ex gemv_in))
   \<and> st_trace (snd (GpuArray_r gemv_op rt_ex gemv_in)) =
     [Ev_setup 7, Ev_call \<lparr>bc_entry = ''sgemv'', bc_order = Some cb_c,
       bc_args = [Some (VTrans cb_no_trans), Some (VSize 3), Some (VSize 4), Some (VScal 1),
         Some (VBuf 1 0), Some (VSize 4), Some (VBuf 2 0), Some (VInc 1), Some (VScal 0),
         Some (VBuf 3 0), Some (VInc 1)]\<rparr>]"
  by (simp add: blas_defs Let_def)

text \<open>
  Matrix product of \<^verbatim>\<open>A\<close> (2,3) with the transpose of \<^verbatim>\<open>B\<close> (4,3)
  into \<^verbatim>\<open>C\<close> (2,4): the inner dimensions agree after transposition and
  \<^verbatim>\<open>sgemm\<close> receives M = 2, N = 4, K = 3.
\<close>

lemma gemm_trans_b_run:
  "fst (GpuArray_r gemm_op rt_ex gemm_in) = GA_NO_ERROR
   \<and> calls_of (st_trace (snd (GpuArray_r gemm_op rt_ex gemm_in))) =
     [\<lparr>bc_entry = ''sgemm'', bc_order = Some cb_c,
       bc_args = [Some (VTrans cb_no_trans), Some (VTrans cb_trans), Some (VSize 2), Some (VSize 4),
         Some (VSize 3), Some (VScal 1), Some (VBuf 1 0), Some (VSize 3), Some (VBuf 2 0),
         Some (VSize 3), Some (VScal 0), Some (VBuf 3 0), Some (VSize 4)]\<rparr>]"
  by (simp add: blas_defs Let_def)

text \<open>
  Matrix product with \<^verbatim>\<open>C\<close> of shape (2,5) for a (2,3) by (3,4)
  product fails with \<^verbatim>\<open>GA_VALUE_ERROR\<close> and no effect on the runtime.
\<close>

lemma gemm_dims_error_run:
  "GpuArray_r gemm_op rt_ex gemm_bad_in = (GA_VALUE_ERROR, snd (GpuArray_r gemm_op rt_ex gemm_bad_in))
   \<and> st_trace (snd (GpuArray_r gemm_op rt_ex gemm_bad_in)) = []"
  by (simp add: blas_defs Let_def)

text \<open>
  Rank-1 update with \<^verbatim>\<open>X\<close> of length 5, \<^verbatim>\<open>Y\<close> of length 7 and
  \<^verbatim>\<open>A\<close> of shape (5,6) fails with \<^verbatim>\<open>GA_VALUE_ERROR\<close>.
\<close>

lemma ger_dims_error_run:
  "fst (GpuArray_r ger_op rt_ex ger_bad_in) = GA_VALUE_ERROR
   \<and> st_trace (snd (GpuArray_r ger_op rt_ex ger_bad_in)) = []"
  by (simp add: blas_defs Let_def)

text \<open>
  Storage-order correction: with \<^verbatim>\<open>C\<close> row-major and \<^verbatim>\<open>A\<close>
  column-major, the backend receives the row-major order of \<^verbatim>\<open>C\<close>,
  \<^verbatim>\<open>transA\<close> inverted, and as \<^verbatim>\<open>lda\<close> the first extent of
  \<^verbatim>\<open>A\<close> (2), which is the distance between its columns.
\<close>

lemma gemm_mixed_order_run:
  "calls_of (st_trace (snd (GpuArray_r gemm_op rt_ex gemm_mixed_in))) =
     [\<lparr>bc_entry = ''sgemm'', bc_order = Some cb_c,
       bc_args = [Some (VTrans cb_trans), Some (VTrans cb_no_trans), Some (VSize 2), Some (VSize 4),
         Some (VSize 3), Some (VScal 1), Some (VBuf 1 0), Some (VSize 2), Some (VBuf 2 0),
         Some (VSize 4), Some (VScal 0), Some (VBuf 3 0), Some (VSize 4)]\<rparr>]"
  by (simp add: blas_defs Let_def)

text \<open>
  A non-contiguous input with copying disabled fails with
  \<^verbatim>\<open>GA_COPY_ERROR\<close> and allocates nothing.
\<close>

lemma gemv_nocopy_run:
  "GpuArray_r gemv_op rt_copying (gemv_strided_in True)
     = (GA_COPY_ERROR, snd (GpuArray_r gemv_op rt_copying (gemv_strided_in True)))
   \<and> st_trace (snd (GpuArray_r gemv_op rt_copying (gemv_strided_in True))) = []"
  by (simp add: blas_defs Let_def)

text \<open>
  A non-contiguous input with copying enabled is copied to Fortran order,
  the backend works on the copy (order column-major, leading dimension 3), the
  call succeeds, and the copy is cleared before the function returns.
\<close>

lemma gemv_copy_run:
  "fst (GpuArray_r gemv_op rt_copying (gemv_strided_in False)) = GA_NO_ERROR
   \<and> st_trace (snd (GpuArray_r gemv_op rt_copying (gemv_strided_in False))) =
     [Ev_copy ''A'', Ev_setup 7, Ev_call \<lparr>bc_entry = ''sgemv'', bc_order = Some cb_fortran,
       bc_args = [Some (VTrans cb_no_trans), Some (VSize 3), Some (VSize 4), Some (VScal 1),
         Some (VBuf 100 0), Some (VSize 3), Some (VBuf 2 0), Some (VInc 1), Some (VScal 0),
         Some (VBuf 3 0), Some (VInc 1)]\<rparr>, Ev_clear ''A'']"
  by (simp add: blas_defs Let_def)

text \<open>
  The dimension check precedes the contiguity fallback: with copying
  disabled, a strided \<^verbatim>\<open>A\<close> and a \<^verbatim>\<open>Y\<close> of the wrong length give
  \<^verbatim>\<open>GA_VALUE_ERROR\<close>, not \<^verbatim>\<open>GA_COPY_ERROR\<close>.
\<close>

lemma gemv_dims_before_copy_run:
  "fst (GpuArray_r gemv_op rt_copying gemv_two_defects_in) = GA_VALUE_ERROR
   \<and> st_trace (snd (GpuArray_r gemv_op rt_copying gemv_two_defects_in)) = []"
  by (simp add: blas_defs Let_def)

text \<open>
  A vector stride of \<open>2 ^ 31\<close> elements is not copied (it is not
  negative) and reaches \<^verbatim>\<open>sgemv\<close> as the increment \<open>-2 ^ 31\<close>: the
  kernel is called, and reports success, with the vector read backwards.
\<close>

lemma gemv_wide_stride_run:
  "GpuArray_r gemv_op rt_ex gemv_wide_in =
     (GA_NO_ERROR, snd (GpuArray_r gemv_op rt_ex gemv_wide_in))
   \<and> st_trace (snd (GpuArray_r gemv_op rt_ex gemv_wide_in)) =
     [Ev_setup 7, Ev_call \<lparr>bc_entry = ''sgemv'', bc_order = Some cb_c,
       bc_args = [Some (VTrans cb_no_trans), Some (VSize 3), Some (VSize 2), Some (VScal 1),
         Some (VBuf 1 0), Some (VSize 2), Some (VBuf 2 0), Some (VInc (- 2147483648)), Some (VScal 0),
         Some (VBuf 3 0), Some (VInc 1)]\<rparr>]"
  by (simp add: blas_defs Let_def c_int_of_size_def)

section \<open>Witnesses\<close>

theorem GpuArray_r_progress_witness:
  "gemv_op \<in> set make_ops \<and> copy_contract rt_ex \<and> check_error gemv_op gemv_in = None
   \<and> \<not> list_ex (defective gemv_in) (array_args gemv_op)
   \<and> (\<forall>d. fst (rt_ctx rt_ex d) = GA_NO_ERROR) \<and> (\<forall>c. fst (rt_blas_ops rt_ex c) = GA_NO_ERROR)
   \<and> (\<forall>c. rt_setup rt_ex c = GA_NO_ERROR)
   \<and> (\<exists>c. calls_of (st_trace (snd (GpuArray_r gemv_op rt_ex gemv_in))) = [c]
          \<and> fst (GpuArray_r gemv_op rt_ex gemv_in) = rt_kernel rt_ex c)"
proof -
  have h1: "gemv_op \<in> set make_ops" by (simp add: make_ops_eq)
  have h2: "copy_contract rt_ex" by (simp add: copy_contract_def rt_ex_def)
  have h3: "check_error gemv_op gemv_in = None" by (simp add: blas_defs Let_def)
  have h4': "\<not> list_ex (defective gemv_in) (array_args gemv_op)"
    by (simp add: blas_defs Let_def)
  then have h4: "\<forall>a\<in>set (array_args gemv_op). defective gemv_in a \<longrightarrow> copy_ok rt_ex gemv_in a"
    by (simp add: list_ex_iff)
  have h5: "\<forall>d. fst (rt_ctx rt_ex d) = GA_NO_ERROR" "\<forall>c. fst (rt_blas_ops rt_ex c) = GA_NO_ERROR"
    "\<forall>c. rt_setup rt_ex c = GA_NO_ERROR" by (simp_all add: rt_ex_def)
  show ?thesis using GpuArray_r_progress [OF h1 h2 h3 h4 h5] h1 h2 h3 h4' h5 by blast
qed

theorem GpuArray_r_no_leak_witness:
  "distinct (map arg_name (array_args gemv_op))
   \<and> mset (copy_names (st_trace (snd (GpuArray_r gemv_op rt_copying (gemv_strided_in False)))))
     = mset (clear_names (st_trace (snd (GpuArray_r gemv_op rt_copying (gemv_strided_in False)))))"
proof -
  have h: "distinct (map arg_name (array_args gemv_op))" by (simp add: blas_defs)
  show ?thesis using GpuArray_r_no_leak [OF h] h by blast
qed

theorem GpuArray_r_check_error_witness:
  "check_error gemm_op gemm_bad_in = Some GA_VALUE_ERROR
   \<and> fst (GpuArray_r gemm_op rt_ex gemm_bad_in) = GA_VALUE_ERROR
   \<and> st_trace (snd (GpuArray_r gemm_op rt_ex gemm_bad_in)) = []"
proof -
  have h: "check_error gemm_op gemm_bad_in = Some GA_VALUE_ERROR" by (simp add: blas_defs Let_def)
  show ?thesis using GpuArray_r_check_error [OF h] h by blast
qed

theorem GpuArray_r_call_checked_witness:
  "blas_call_of gemv_op gemv_in (flow_state (reach_call gemv_op rt_ex gemv_in))
     \<in> set (calls_of (st_trace (snd (GpuArray_r gemv_op rt_ex gemv_in))))
   \<and> check_error gemv_op gemv_in = None"
proof -
  have h: "blas_call_of gemv_op gemv_in (flow_state (reach_call gemv_op rt_ex gemv_in))
     \<in> set (calls_of (st_trace (snd (GpuArray_r gemv_op rt_ex gemv_in))))"
    by (simp add: blas_defs reach_call_def Let_def)
  show ?thesis using GpuArray_r_call_checked [OF h] h by blast
qed

theorem GpuArray_r_nocopy_no_alloc_witness:
  "in_nocopy (gemv_strided_in True)
   \<and> copy_names (st_trace (snd (GpuArray_r gemv_op rt_copying (gemv_strided_in True)))) = []"
proof -
  have h: "in_nocopy (gemv_strided_in True)" by (simp add: blas_defs)
  show ?thesis using GpuArray_r_nocopy_no_alloc [OF h] h by blast
qed

theorem callarg_inc_witness:
  "st_elsize (flow_state (reach_call gemv_op rt_ex gemv_in)) = 2 ^ 2
   \<and> hd (ga_strides (st_ptr (flow_state (reach_call gemv_op rt_ex gemv_in)) [last ''incX''])) = 1 * 2 ^ 2
   \<and> callarg gemv_in (flow_state (reach_call gemv_op rt_ex gemv_in)) (inc ''incX'') = Some (VInc 1)"
proof -
  have h: "arg_cls (inc ''incX'') = IncC" "(2::nat) \<le> 32" "- (2 ^ 31) \<le> (1::int)" "(1::int) < 2 ^ 31"
    by (simp_all add: blas_defs)
  have s: "st_elsize (flow_state (reach_call gemv_op rt_ex gemv_in)) = 2 ^ 2"
    "hd (ga_strides (st_ptr (flow_state (reach_call gemv_op rt_ex gemv_in)) [last ''incX''])) = 1 * 2 ^ 2"
    by (simp_all add: blas_defs reach_call_def Let_def)
  show ?thesis using callarg_inc [OF h(1) s(1) h(2) _ h(3,4)] s by (simp add: blas_defs)
qed

theorem kernel_inc_wraps_witness:
  "gemv_op \<in> set make_ops \<and> copy_contract rt_ex \<and> check_error gemv_op gemv_wide_in = None
   \<and> \<not> list_ex (defective gemv_wide_in) (array_args gemv_op)
   \<and> (\<forall>d. fst (rt_ctx rt_ex d) = GA_NO_ERROR) \<and> (\<forall>c. fst (rt_blas_ops rt_ex c) = GA_NO_ERROR)
   \<and> (\<forall>c. rt_setup rt_ex c = GA_NO_ERROR)
   \<and> inc ''incX'' \<in> set (args_per_class gemv_op IncC)
   \<and> hd (ga_strides (in_arrays gemv_wide_in [last (arg_name (inc ''incX''))]))
       = 2147483648 * int (gpuarray_get_elsize (ga_typecode (in_arrays gemv_wide_in [last (arg_name (inc ''incX''))])))
   \<and> (\<exists>c. calls_of (st_trace (snd (GpuArray_r gemv_op rt_ex gemv_wide_in))) = [c]
          \<and> fst (GpuArray_r gemv_op rt_ex gemv_wide_in) = rt_kernel rt_ex c
          \<and> bc_args c ! 7 = Some (VInc (- 2147483648)))"
proof -
  have h1: "gemv_op \<in> set make_ops" by (simp add: make_ops_eq)
  have h2: "copy_contract rt_ex" by (simp add: copy_contract_def rt_ex_def)
  have h3: "check_error gemv_op gemv_wide_in = None" by (simp add: blas_defs Let_def)
  have h4': "\<not> list_ex (defective gemv_wide_in) (array_args gemv_op)"
    by (simp add: blas_defs Let_def)
  then have h4: "\<forall>a\<in>set (array_args gemv_op). defective gemv_wide_in a \<longrightarrow> copy_ok rt_ex gemv_wide_in a"
    by (simp add: list_ex_iff)
  have h5: "\<forall>d. fst (rt_ctx rt_ex d) = GA_NO_ERROR" "\<forall>c. fst (rt_blas_ops rt_ex c) = GA_NO_ERROR"
    "\<forall>c. rt_setup rt_ex c = GA_NO_ERROR" by (simp_all add: rt_ex_def)
  have h6: "inc ''incX'' \<in> set (args_per_class gemv_op IncC)"
    by (simp add: blas_defs args_per_class_def)
  have h7: "hd (ga_strides (in_arrays gemv_wide_in [last (arg_name (inc ''incX''))]))
       = 2147483648 * int (gpuarray_get_elsize (ga_typecode (in_arrays gemv_wide_in [last (arg_name (inc ''incX''))])))"
    by (simp add: blas_defs)
  have h8: "2 ^ 31 \<le> (2147483648::int)" "(2147483648::int) < 2 ^ 32" by simp_all
  have i: "7 < length (op_arguments gemv_op)" "op_arguments gemv_op ! 7 = inc ''incX''"
    by (simp_all add: blas_defs)
  obtain c where c: "calls_of (st_trace (snd (GpuArray_r gemv_op rt_ex gemv_wide_in))) = [c]"
    "fst (GpuArray_r gemv_op rt_ex gemv_wide_in) = rt_kernel rt_ex c"
    "\<forall>i < length (op_arguments gemv_op). op_arguments gemv_op ! i = inc ''incX''
       \<longrightarrow> bc_args c ! i = Some (VInc (2147483648 - 2 ^ 32))"
    using kernel_inc_wraps [OF h1 h2 h3 h4 h5 h6 h7 h8] by blast
  have "bc_args c ! 7 = Some (VInc (- 2147483648))"
    using c(3) i by simp
  then show ?thesis using c(1,2) h1 h2 h3 h4' h5 h6 h7 by blast
qed

theorem negotiated_call_view_witness:
  "gemm_op \<in> set make_ops \<and> copy_contract rt_ex
   \<and> list_all (\<lambda>a. wf_gpuarray (in_arrays gemm_mixed_in (arg_name a))) (array_args gemm_op)
   \<and> reach_call gemm_op rt_ex gemm_mixed_in = Next (flow_state (reach_call gemm_op rt_ex gemm_mixed_in))
   \<and> in_trans gemm_mixed_in ''transA'' = cb_no_trans
   \<and> st_trans (flow_state (reach_call gemm_op rt_ex gemm_mixed_in)) ''transA'' = cb_trans
   \<and> (\<exists>ord. st_order (flow_state (reach_call gemm_op rt_ex gemm_mixed_in)) = Some ord
        \<and> list_all (\<lambda>(x, ld, r). \<exists>l. st_size (flow_state (reach_call gemm_op rt_ex gemm_mixed_in)) ld = Some l
             \<and> blas_view_ok (st_ptr (flow_state (reach_call gemm_op rt_ex gemm_mixed_in)) x)
                  (role_trans (in_trans gemm_mixed_in) r) ord l
                  (role_trans (st_trans (flow_state (reach_call gemm_op rt_ex gemm_mixed_in))) r))
           (order_roles (op_setup_order gemm_op)))"
proof -
  have h1: "gemm_op \<in> set make_ops" by (simp add: make_ops_eq)
  have h2: "copy_contract rt_ex" by (simp add: copy_contract_def rt_ex_def)
  have h3': "list_all (\<lambda>a. wf_gpuarray (in_arrays gemm_mixed_in (arg_name a))) (array_args gemm_op)"
    by (simp add: blas_defs)
  then have h3: "\<forall>a\<in>set (array_args gemm_op). wf_gpuarray (in_arrays gemm_mixed_in (arg_name a))"
    by (simp add: list_all_iff)
  have h4: "reach_call gemm_op rt_ex gemm_mixed_in = Next (flow_state (reach_call gemm_op rt_ex gemm_mixed_in))"
    "in_trans gemm_mixed_in ''transA'' = cb_no_trans"
    "st_trans (flow_state (reach_call gemm_op rt_ex gemm_mixed_in)) ''transA'' = cb_trans"
    by (simp_all add: blas_defs reach_call_def Let_def)
  show ?thesis using negotiated_call_view [OF h1 h2 h3 h4(1)] h1 h2 h3' h4 by simp
qed

theorem kernel_args_assigned_witness:
  "gemm_op \<in> set make_ops
   \<and> reach_call gemm_op rt_ex gemm_in = Next (flow_state (reach_call gemm_op rt_ex gemm_in))
   \<and> list_all (\<lambda>v. v \<noteq> None) (bc_args (blas_call_of gemm_op gemm_in (flow_state (reach_call gemm_op rt_ex gemm_in))))"
proof -
  have h: "gemm_op \<in> set make_ops" by (simp add: make_ops_eq)
  have r: "reach_call gemm_op rt_ex gemm_in = Next (flow_state (reach_call gemm_op rt_ex gemm_in))"
    by (simp add: blas_defs reach_call_def Let_def)
  show ?thesis using kernel_args_assigned [OF h r] h r by blast
qed

lemma copy_contract_rt_vcopy: "copy_contract rt_vcopy"
  unfolding copy_contract_def
proof (intro allI impI)
  fix a ord
  assume ok: "fst (rt_copy rt_vcopy a ord) = GA_NO_ERROR"
  then have one: "ga_nd a = 1" "length (ga_dimensions a) = 1"
    by (simp_all add: rt_vcopy_def vec_pack_copy_def split: if_splits)
  then obtain n where n: "ga_dimensions a = [n]" by (auto simp: length_Suc_conv)
  define c where "c = a\<lparr>ga_data := 100, ga_offset := 0,
                           ga_strides := [int (gpuarray_get_elsize (ga_typecode a))],
                           ga_c_contiguous := True, ga_f_contiguous := True, ga_aligned := True\<rparr>"
  have c: "snd (rt_copy rt_vcopy a ord) = c" using one by (simp add: rt_vcopy_def vec_pack_copy_def c_def)
  have "c_layout c \<and> f_layout c" by (rule packed_vector_layout) (simp_all add: c_def n)
  then show "let c = snd (rt_copy rt_vcopy a ord) in
          wf_gpuarray c \<and> ga_typecode c = ga_typecode a \<and> ga_nd c = ga_nd a
          \<and> ga_dimensions c = ga_dimensions a \<and> ga_aligned c \<and> (\<forall>s\<in>set (ga_strides c). 0 \<le> s)
          \<and> GpuArray_ISONESEGMENT c \<and> (ord = GA_F_ORDER \<longrightarrow> ga_f_contiguous c) \<and> elem_aligned c"
    using one n by (simp add: c c_def wf_gpuarray_def GpuArray_ISONESEGMENT_def elem_aligned_def)
qed

theorem negotiated_vector_view_witness:
  "gemv_op \<in> set make_ops \<and> copy_contract rt_vcopy
   \<and> list_all (\<lambda>a. wf_gpuarray (in_arrays gemv_negx_in (arg_name a))
        \<and> elem_aligned (in_arrays gemv_negx_in (arg_name a))) (array_args gemv_op)
   \<and> list_all (\<lambda>a. \<not> ismatrix a \<longrightarrow> hd (ga_strides (in_arrays gemv_negx_in (arg_name a)))
        < 2 ^ 31 * int (gpuarray_get_elsize (ga_typecode (in_arrays gemv_negx_in (arg_name a)))))
      (array_args gemv_op)
   \<and> reach_call gemv_op rt_vcopy gemv_negx_in = Next (flow_state (reach_call gemv_op rt_vcopy gemv_negx_in))
   \<and> st_copied (flow_state (reach_call gemv_op rt_vcopy gemv_negx_in)) = [''X'']
   \<and> callarg gemv_negx_in (flow_state (reach_call gemv_op rt_vcopy gemv_negx_in)) (inc ''incX'') = Some (VInc 1)
   \<and> list_all (\<lambda>b. let p = st_ptr (flow_state (reach_call gemv_op rt_vcopy gemv_negx_in)) [last (arg_name b)] in
        st_elsize (flow_state (reach_call gemv_op rt_vcopy gemv_negx_in)) = gpuarray_get_elsize (ga_typecode p)
        \<and> (\<exists>a. a \<in> set (op_arguments gemv_op) \<and> arg_cls a = VectorC \<and> arg_name a = [last (arg_name b)]
              \<and> callarg gemv_negx_in (flow_state (reach_call gemv_op rt_vcopy gemv_negx_in)) a
                  = Some (VBuf (ga_data p) (ga_offset p div st_elsize (flow_state (reach_call gemv_op rt_vcopy gemv_negx_in)))))
        \<and> (\<exists>k. callarg gemv_negx_in (flow_state (reach_call gemv_op rt_vcopy gemv_negx_in)) b = Some (VInc k)
              \<and> vec_view_ok (st_elsize (flow_state (reach_call gemv_op rt_vcopy gemv_negx_in))) p
                  (ga_offset p div st_elsize (flow_state (reach_call gemv_op rt_vcopy gemv_negx_in))) k))
      (args_per_class gemv_op IncC)"
proof -
  have h1: "gemv_op \<in> set make_ops" by (simp add: make_ops_eq)
  have h3': "list_all (\<lambda>a. wf_gpuarray (in_arrays gemv_negx_in (arg_name a))
        \<and> elem_aligned (in_arrays gemv_negx_in (arg_name a))) (array_args gemv_op)"
    "list_all (\<lambda>a. \<not> ismatrix a \<longrightarrow> hd (ga_strides (in_arrays gemv_negx_in (arg_name a)))
        < 2 ^ 31 * int (gpuarray_get_elsize (ga_typecode (in_arrays gemv_negx_in (arg_name a)))))
      (array_args gemv_op)"
    by (simp_all add: blas_defs elem_aligned_def)
  then have h3: "\<forall>a\<in>set (array_args gemv_op). wf_gpuarray (in_arrays gemv_negx_in (arg_name a))
        \<and> elem_aligned (in_arrays gemv_negx_in (arg_name a))"
    "\<forall>a\<in>set (array_args gemv_op). \<not> ismatrix a \<longrightarrow> hd (ga_strides (in_arrays gemv_negx_in (arg_name a)))
        < 2 ^ 31 * int (gpuarray_get_elsize (ga_typecode (in_arrays gemv_negx_in (arg_name a))))"
    by (simp_all add: list_all_iff)
  have h4: "reach_call gemv_op rt_vcopy gemv_negx_in = Next (flow_state (reach_call gemv_op rt_vcopy gemv_negx_in))"
    "st_copied (flow_state (reach_call gemv_op rt_vcopy gemv_negx_in)) = [''X'']"
    "callarg gemv_negx_in (flow_state (reach_call gemv_op rt_vcopy gemv_negx_in)) (inc ''incX'') = Some (VInc 1)"
    by (simp_all add: blas_defs reach_call_def vec_pack_copy_def callarg_def Let_def)
  show ?thesis
    using negotiated_vector_view [OF h1 copy_contract_rt_vcopy h3 h4(1)] h1 copy_contract_rt_vcopy h3' h4
    by simp
qed


end
