(* ===== verification/Blas_Binding.thy ===== *)
theory Blas_Binding
  imports Blas_Pipeline
begin

text \<open>
  The high-level Python binding \<^verbatim>\<open>def <op>(...)\<close> that
  \<^verbatim>\<open>BLAS_PYX_TMPL\<close> stamps out per descriptor (lines 707-743 of
  \<^verbatim>\<open>src/gen_blas.py\<close>), with the descriptor's output-inference fragment
  \<^verbatim>\<open>py_ensure_output_*\<close> and the wrapper \<^verbatim>\<open>pygpu_blas_r<op>\<close> it calls
  (lines 696-705), which calls the C function \<^verbatim>\<open>GpuArray_r<op>\<close> of
  \<open>Blas_Pipeline\<close> with \<^verbatim>\<open>nocopy = 0\<close>.  Python exceptions are a
  datatype; the body is a list of statements over the Python locals, each
  continuing or raising.  The allocation and copy functions of
  \<^verbatim>\<open>pygpu\<close> (\<^verbatim>\<open>pygpu_empty\<close>, \<^verbatim>\<open>pygpu_zeros\<close>,
  \<^verbatim>\<open>pygpu_copy\<close>) are fields of a runtime record, like the C runtime.
\<close>

section \<open>Exceptions, effects and state\<close>

datatype py_exc = TypeError string | ValueError string | GpuArrayException ga_error

datatype py_event =
    Py_empty string "nat list" | Py_zeros string "nat list" | Py_copy string
  | Py_call call_in ga_error "event list"

record py_runtime =
  pr_empty :: "nat list \<Rightarrow> ga_typecode \<Rightarrow> py_exc + gpuarray"
  pr_zeros :: "nat list \<Rightarrow> ga_typecode \<Rightarrow> py_exc + gpuarray"
  pr_copy :: "gpuarray \<Rightarrow> py_exc + gpuarray"
  pr_c :: runtime

text \<open>
  The arguments of a call: the arrays by their Python names (\<open>None\<close> for an
  omitted output), the \<^verbatim>\<open>double\<close> scalars, and the boolean options
  \<^verbatim>\<open>trans_a\<close>, \<^verbatim>\<open>overwrite_y\<close>, ... by name.
\<close>

record py_in =
  pi_arrays :: "string \<Rightarrow> gpuarray option"
  pi_scalars :: "string \<Rightarrow> real"
  pi_flags :: "string \<Rightarrow> bool"

text \<open>
  The locals of the body: the array variables, the boolean options (the
  fragments set \<^verbatim>\<open>overwrite_y = True\<close>), the \<^verbatim>\<open>cdef cb_transpose\<close>
  locals \<^verbatim>\<open>transA\<close>, \<^verbatim>\<open>transB\<close>, the shape local declared by
  \<^verbatim>\<open>py_decls\<close> (\<^verbatim>\<open>Yshp\<close>, \<^verbatim>\<open>Cshp\<close>, \<^verbatim>\<open>Ashp\<close>), and the effects
  so far.
\<close>

record pstate =
  ps_arrays :: "string \<Rightarrow> gpuarray option"
  ps_flags :: "string \<Rightarrow> bool"
  ps_trans :: "string \<Rightarrow> cb_transpose"
  ps_shp :: "nat list"
  ps_events :: "py_event list"

datatype 'a py_flow = PyOk 'a | PyRaise py_exc 'a

fun py_seq :: "('a \<Rightarrow> 'a py_flow) list \<Rightarrow> 'a \<Rightarrow> 'a py_flow" where
  "py_seq [] s = PyOk s"
| "py_seq (f # fs) s = (case f s of PyOk s' \<Rightarrow> py_seq fs s' | PyRaise e s' \<Rightarrow> PyRaise e s')"

text \<open>
  The \<^verbatim>\<open>cdef\<close> locals start unassigned; the body assigns each transpose
  local before reading it.  Reading an array variable that holds \<open>None\<close>
  dereferences \<^verbatim>\<open>None\<close> in the generated C, which has no defined result.
\<close>

definition py_init :: "py_in \<Rightarrow> pstate" where
  "py_init pin =
     \<lparr>ps_arrays = pi_arrays pin, ps_flags = pi_flags pin, ps_trans = (\<lambda>x. cb_no_trans),
      ps_shp = [], ps_events = []\<rparr>"

definition arr :: "pstate \<Rightarrow> string \<Rightarrow> gpuarray" where
  "arr ps x = (case ps_arrays ps x of Some a \<Rightarrow> a | None \<Rightarrow> undefined)"

section \<open>The statements of the body\<close>

text \<open>
  Lines 716-722: for each input matrix \<^verbatim>\<open>M\<close>,
  \<^verbatim>\<open>transM = cb_trans if trans_m else cb_no_trans\<close>.
\<close>

definition set_trans_local :: "argument \<Rightarrow> pstate \<Rightarrow> pstate py_flow" where
  "set_trans_local m ps =
     PyOk (ps\<lparr>ps_trans := (ps_trans ps)(''trans'' @ arg_name m :=
        (if ps_flags ps (''trans_'' @ py_lower (arg_name m)) then cb_trans else cb_no_trans))\<rparr>)"

definition trans_setup :: "blas_op \<Rightarrow> (pstate \<Rightarrow> pstate py_flow) list" where
  "trans_setup op = map set_trans_local (filter (\<lambda>m. \<not> arg_isoutput m) (matrix_args op))"

text \<open>
  Allocation of an omitted output by \<^verbatim>\<open>pygpu_empty\<close> or
  \<^verbatim>\<open>pygpu_zeros\<close>, then \<^verbatim>\<open>overwrite_x = True\<close>.
\<close>

definition alloc_output ::
  "(nat list \<Rightarrow> ga_typecode \<Rightarrow> py_exc + gpuarray) \<Rightarrow> (string \<Rightarrow> nat list \<Rightarrow> py_event)
   \<Rightarrow> string \<Rightarrow> ga_typecode \<Rightarrow> pstate \<Rightarrow> pstate py_flow" where
  "alloc_output alloc ev x tc ps =
     (case alloc (ps_shp ps) tc of
        Inl e \<Rightarrow> PyRaise e ps
      | Inr a \<Rightarrow> PyOk (ps\<lparr>ps_arrays := (ps_arrays ps)(x := Some a),
                         ps_flags := (ps_flags ps)(''overwrite_'' @ py_lower x := True),
                         ps_events := ps_events ps @ [ev x (ps_shp ps)]\<rparr>))"

definition py_ensure_output_gemv :: "py_runtime \<Rightarrow> py_in \<Rightarrow> pstate \<Rightarrow> pstate py_flow" where
  "py_ensure_output_gemv prt pin ps =
     (let a = arr ps ''A'' in
      if ga_nd a \<noteq> 2 then PyRaise (TypeError ''A is not a matrix'') ps
      else
        let ps1 = ps\<lparr>ps_shp := [if ps_trans ps ''transA'' = cb_no_trans
                                 then ga_dimensions a ! 0 else ga_dimensions a ! 1]\<rparr>
        in if ps_arrays ps1 ''Y'' = None
           then (if pi_scalars pin ''beta'' \<noteq> 0
                 then PyRaise (ValueError ''Y not provided and beta != 0'') ps1
                 else alloc_output (pr_empty prt) Py_empty ''Y'' (ga_typecode a) ps1)
           else PyOk ps1)"

definition py_ensure_output_gemm :: "py_runtime \<Rightarrow> py_in \<Rightarrow> pstate \<Rightarrow> pstate py_flow" where
  "py_ensure_output_gemm prt pin ps =
     (let a = arr ps ''A''; b = arr ps ''B'' in
      if ga_nd a \<noteq> 2 then PyRaise (TypeError ''A is not a matrix'') ps
      else if ga_nd b \<noteq> 2 then PyRaise (TypeError ''B is not a matrix'') ps
      else
        let ps1 = ps\<lparr>ps_shp := [if ps_trans ps ''transA'' = cb_no_trans
                                 then ga_dimensions a ! 0 else ga_dimensions a ! 1,
                                 if ps_trans ps ''transB'' = cb_no_trans
                                 then ga_dimensions b ! 1 else ga_dimensions b ! 0]\<rparr>
        in if ps_arrays ps1 ''C'' = None
           then (if pi_scalars pin ''beta'' \<noteq> 0
                 then PyRaise (ValueError ''C not provided and beta != 0'') ps1
                 else alloc_output (pr_empty prt) Py_empty ''C'' (ga_typecode a) ps1)
           else PyOk ps1)"

definition py_ensure_output_ger :: "py_runtime \<Rightarrow> py_in \<Rightarrow> pstate \<Rightarrow> pstate py_flow" where
  "py_ensure_output_ger prt pin ps =
     (if ps_arrays ps ''A'' = None
      then alloc_output (pr_zeros prt) Py_zeros ''A'' (ga_typecode (arr ps ''X''))
             (ps\<lparr>ps_shp := [ga_dimensions (arr ps ''X'') ! 0, ga_dimensions (arr ps ''Y'') ! 0]\<rparr>)
      else PyOk ps)"

text \<open>\<^verbatim>\<open>${op.py_ensure_output}\<close>.\<close>

fun py_ensure_output :: "ensure_frag \<Rightarrow> py_runtime \<Rightarrow> py_in \<Rightarrow> pstate \<Rightarrow> pstate py_flow" where
  "py_ensure_output Py_ensure_output_gemv = py_ensure_output_gemv"
| "py_ensure_output Py_ensure_output_gemm = py_ensure_output_gemm"
| "py_ensure_output Py_ensure_output_ger = py_ensure_output_ger"

text \<open>
  Lines 726-731: an output the caller supplied and did not allow to be
  overwritten is replaced by \<^verbatim>\<open>pygpu_copy(x, GA_ANY_ORDER)\<close>.
\<close>

definition copy_output :: "py_runtime \<Rightarrow> argument \<Rightarrow> pstate \<Rightarrow> pstate py_flow" where
  "copy_output prt a ps =
     (if ps_flags ps (''overwrite_'' @ py_lower (arg_name a)) then PyOk ps
      else (case pr_copy prt (arr ps (arg_name a)) of
              Inl e \<Rightarrow> PyRaise e ps
            | Inr c \<Rightarrow> PyOk (ps\<lparr>ps_arrays := (ps_arrays ps)(arg_name a := Some c),
                               ps_events := ps_events ps @ [Py_copy (arg_name a)]\<rparr>)))"

definition output_copies :: "py_runtime \<Rightarrow> blas_op \<Rightarrow> (pstate \<Rightarrow> pstate py_flow) list" where
  "output_copies prt op = map (copy_output prt) (filter arg_isoutput (array_args op))"

text \<open>
  Line 732 and the wrapper of lines 696-705: the C function receives the
  arrays' \<^verbatim>\<open>.ga\<close>, the transpose locals, the scalars and \<^verbatim>\<open>nocopy = 0\<close>;
  a status other than \<^verbatim>\<open>GA_NO_ERROR\<close> raises \<^verbatim>\<open>GpuArrayException\<close>.
\<close>

definition py_call_in :: "py_in \<Rightarrow> pstate \<Rightarrow> call_in" where
  "py_call_in pin ps =
     \<lparr>in_arrays = arr ps, in_trans = ps_trans ps, in_scalars = pi_scalars pin, in_nocopy = False\<rparr>"

definition pygpu_blas_r :: "blas_op \<Rightarrow> py_runtime \<Rightarrow> py_in \<Rightarrow> pstate \<Rightarrow> pstate py_flow" where
  "pygpu_blas_r op prt pin ps =
     (let ci = py_call_in pin ps; (err, st) = GpuArray_r op (pr_c prt) ci;
          ps' = ps\<lparr>ps_events := ps_events ps @ [Py_call ci err (st_trace st)]\<rparr>
      in if err \<noteq> GA_NO_ERROR then PyRaise (GpuArrayException err) ps' else PyOk ps')"

definition py_body :: "blas_op \<Rightarrow> py_runtime \<Rightarrow> py_in \<Rightarrow> (pstate \<Rightarrow> pstate py_flow) list" where
  "py_body op prt pin =
     trans_setup op @ [py_ensure_output (op_py_ensure_output op) prt pin]
     @ output_copies prt op @ [pygpu_blas_r op prt pin]"

text \<open>
  \<^verbatim>\<open>def <op>(...)\<close>: the raised exception, or the output arrays
  (\<^verbatim>\<open>return ${outa}\<close>), with the effects of the call.
\<close>

definition py_op :: "blas_op \<Rightarrow> py_runtime \<Rightarrow> py_in \<Rightarrow> (py_exc + gpuarray list) \<times> py_event list" where
  "py_op op prt pin =
     (case py_seq (py_body op prt pin) (py_init pin) of
        PyOk ps \<Rightarrow> (Inr (map (\<lambda>a. arr ps (arg_name a)) (filter arg_isoutput (array_args op))), ps_events ps)
      | PyRaise e ps \<Rightarrow> (Inl e, ps_events ps))"

fun py_state :: "'a py_flow \<Rightarrow> 'a" where
  "py_state (PyOk s) = s" | "py_state (PyRaise e s) = s"

fun py_calls :: "py_event list \<Rightarrow> (call_in \<times> ga_error \<times> event list) list" where
  "py_calls [] = []"
| "py_calls (Py_call ci e tr # evs) = (ci, e, tr) # py_calls evs"
| "py_calls (_ # evs) = py_calls evs"

section \<open>What the allocation functions promise\<close>

text \<open>
  A successful \<^verbatim>\<open>pygpu_empty\<close> or \<^verbatim>\<open>pygpu_zeros\<close> gives a
  well-formed, aligned, contiguous array of the requested shape and type with
  non-negative strides.
\<close>

definition alloc_ok :: "gpuarray \<Rightarrow> nat list \<Rightarrow> ga_typecode \<Rightarrow> bool" where
  "alloc_ok a ds tc \<longleftrightarrow>
     wf_gpuarray a \<and> ga_dimensions a = ds \<and> ga_nd a = length ds \<and> ga_typecode a = tc
     \<and> ga_aligned a \<and> GpuArray_ISONESEGMENT a \<and> list_all (\<lambda>s. 0 \<le> s) (ga_strides a)"

definition alloc_contract :: "py_runtime \<Rightarrow> bool" where
  "alloc_contract prt \<longleftrightarrow>
     (\<forall>ds tc. (case pr_empty prt ds tc of Inr a \<Rightarrow> alloc_ok a ds tc | Inl e \<Rightarrow> True)
             \<and> (case pr_zeros prt ds tc of Inr a \<Rightarrow> alloc_ok a ds tc | Inl e \<Rightarrow> True))"

text \<open>
  The dimension relation of each operation, split into the part about the
  output array and the part about the inputs alone.
\<close>

fun output_fits :: "dims_frag \<Rightarrow> call_in \<Rightarrow> bool" where
  "output_fits Check_dims_gemv ci \<longleftrightarrow>
     dim ci ''Y'' 0 = fst (op_dims (in_trans ci ''transA'') (mat_shape ci ''A''))"
| "output_fits Check_dims_gemm ci \<longleftrightarrow>
     mat_shape ci ''C'' = (fst (op_dims (in_trans ci ''transA'') (mat_shape ci ''A'')),
                           snd (op_dims (in_trans ci ''transB'') (mat_shape ci ''B'')))"
| "output_fits Check_dims_ger ci \<longleftrightarrow> mat_shape ci ''A'' = (dim ci ''X'' 0, dim ci ''Y'' 0)"

fun inputs_fit :: "dims_frag \<Rightarrow> call_in \<Rightarrow> bool" where
  "inputs_fit Check_dims_gemv ci \<longleftrightarrow>
     dim ci ''X'' 0 = snd (op_dims (in_trans ci ''transA'') (mat_shape ci ''A''))"
| "inputs_fit Check_dims_gemm ci \<longleftrightarrow>
     fst (op_dims (in_trans ci ''transB'') (mat_shape ci ''B''))
       = snd (op_dims (in_trans ci ''transA'') (mat_shape ci ''A''))"
| "inputs_fit Check_dims_ger ci \<longleftrightarrow> True"

text \<open>The output variable each fragment tests for \<^verbatim>\<open>None\<close>.\<close>

fun ensure_out :: "ensure_frag \<Rightarrow> string" where
  "ensure_out Py_ensure_output_gemv = ''Y''"
| "ensure_out Py_ensure_output_gemm = ''C''"
| "ensure_out Py_ensure_output_ger = ''A''"

text \<open>
  An output array passes, on its own, every check of \<^verbatim>\<open>GpuArray_r<op>\<close>
  that concerns it: rank, element type, alignment, contiguity, and its part of
  the dimension relation.
\<close>

definition output_passes :: "blas_op \<Rightarrow> call_in \<Rightarrow> argument \<Rightarrow> bool" where
  "output_passes op ci a \<longleftrightarrow>
     \<not> ndcond ci a \<and> \<not> typecond ci (firsta op) a \<and> ga_aligned (in_arrays ci (arg_name a))
     \<and> \<not> defective ci a \<and> (dims_spec (op_check_dims op) ci \<longleftrightarrow> inputs_fit (op_check_dims op) ci)"

section \<open>The description's contract for the output argument\<close>

text \<open>
  What the description (section 4.3, the pre-step of the high-level binding,
  and the output-shape column of the table in section 4.2) says happens to the
  output argument before the pipeline runs: an omitted output is allocated
  with the inferred shape (zero-filled for the rank-1 update), which requires
  \<^verbatim>\<open>beta = 0\<close> where the operation scales its output; a supplied output
  is copied unless the caller asked for it to be overwritten.  The requested
  transposition of a matrix is its \<^verbatim>\<open>trans_m\<close> option.
\<close>

definition spec_trans :: "py_in \<Rightarrow> string \<Rightarrow> cb_transpose" where
  "spec_trans pin m = (if pi_flags pin (''trans_'' @ py_lower m) then cb_trans else cb_no_trans)"

datatype prestep = Usage_error | Allocate "nat list" bool | Copy_output | In_place

fun needs_beta_zero :: "ensure_frag \<Rightarrow> bool" where
  "needs_beta_zero Py_ensure_output_ger = False"
| "needs_beta_zero _ = True"

fun zero_filled :: "ensure_frag \<Rightarrow> bool" where
  "zero_filled Py_ensure_output_ger = True"
| "zero_filled _ = False"

definition shape2 :: "gpuarray \<Rightarrow> nat \<times> nat" where
  "shape2 a = (ga_dimensions a ! 0, ga_dimensions a ! 1)"

fun spec_out_shape :: "ensure_frag \<Rightarrow> py_in \<Rightarrow> nat list" where
  "spec_out_shape Py_ensure_output_gemv pin =
     [fst (op_dims (spec_trans pin ''A'') (shape2 (the (pi_arrays pin ''A''))))]"
| "spec_out_shape Py_ensure_output_gemm pin =
     [fst (op_dims (spec_trans pin ''A'') (shape2 (the (pi_arrays pin ''A'')))),
      snd (op_dims (spec_trans pin ''B'') (shape2 (the (pi_arrays pin ''B''))))]"
| "spec_out_shape Py_ensure_output_ger pin =
     [ga_dimensions (the (pi_arrays pin ''X'')) ! 0, ga_dimensions (the (pi_arrays pin ''Y'')) ! 0]"

definition spec_prestep :: "blas_op \<Rightarrow> py_in \<Rightarrow> prestep" where
  "spec_prestep op pin =
     (let fr = op_py_ensure_output op; x = ensure_out fr in
      if pi_arrays pin x = None
      then (if needs_beta_zero fr \<and> pi_scalars pin ''beta'' \<noteq> 0 then Usage_error
            else Allocate (spec_out_shape fr pin) (zero_filled fr))
      else if pi_flags pin (''overwrite_'' @ py_lower x) then In_place else Copy_output)"

text \<open>
  The statements of the binding before the C call (\<open>py_prefix\<close>), and the
  abstraction of their run: the effect it had on the output, read off its
  events, or \<open>None\<close> when it ended in an exception the contract does not
  describe.
\<close>

definition py_prefix :: "blas_op \<Rightarrow> py_runtime \<Rightarrow> py_in \<Rightarrow> pstate py_flow" where
  "py_prefix op prt pin =
     py_seq (trans_setup op @ [py_ensure_output (op_py_ensure_output op) prt pin] @ output_copies prt op)
            (py_init pin)"

fun abs_prestep :: "pstate py_flow \<Rightarrow> prestep option" where
  "abs_prestep (PyRaise (ValueError m) ps) = (if ps_events ps = [] then Some Usage_error else None)"
| "abs_prestep (PyRaise e ps) = None"
| "abs_prestep (PyOk ps) =
     (case ps_events ps of
        [] \<Rightarrow> Some In_place
      | [Py_empty x shp] \<Rightarrow> Some (Allocate shp False)
      | [Py_zeros x shp] \<Rightarrow> Some (Allocate shp True)
      | [Py_copy x] \<Rightarrow> Some Copy_output
      | _ \<Rightarrow> None)"

text \<open>
  The contract's preconditions: the inputs are supplied (matrices of rank 2,
  which the fragments check with \<^verbatim>\<open>TypeError\<close>), and allocation and copy
  do not fail.
\<close>

definition inputs_given :: "blas_op \<Rightarrow> py_in \<Rightarrow> bool" where
  "inputs_given op pin \<longleftrightarrow>
     list_all (\<lambda>a. arg_isoutput a \<or> (\<exists>x. pi_arrays pin (arg_name a) = Some x \<and> (ismatrix a \<longrightarrow> ga_nd x = 2)))
       (array_args op)"

definition alloc_total :: "py_runtime \<Rightarrow> bool" where
  "alloc_total prt \<longleftrightarrow>
     (\<forall>ds tc. \<not> isl (pr_empty prt ds tc) \<and> \<not> isl (pr_zeros prt ds tc)) \<and> (\<forall>a. \<not> isl (pr_copy prt a))"

declare py_init_def [blas_defs] arr_def [blas_defs] set_trans_local_def [blas_defs]
  trans_setup_def [blas_defs] alloc_output_def [blas_defs] py_ensure_output_gemv_def [blas_defs]
  py_ensure_output_gemm_def [blas_defs] py_ensure_output_ger_def [blas_defs]
  copy_output_def [blas_defs] output_copies_def [blas_defs] py_call_in_def [blas_defs]
  pygpu_blas_r_def [blas_defs] py_body_def [blas_defs] py_op_def [blas_defs]
  alloc_ok_def [blas_defs] alloc_contract_def [blas_defs] output_passes_def [blas_defs]
  spec_trans_def [blas_defs] shape2_def [blas_defs] spec_prestep_def [blas_defs]
  py_prefix_def [blas_defs] inputs_given_def [blas_defs] alloc_total_def [blas_defs]

text \<open>The statements before the C call append effects but call nothing.\<close>

definition no_new_call :: "pstate \<Rightarrow> pstate \<Rightarrow> bool" where
  "no_new_call s s' \<longleftrightarrow> (\<exists>evs. ps_events s' = ps_events s @ evs \<and> py_calls evs = [])"

section \<open>Running the body\<close>

lemma py_seq_append:
  "py_seq (fs @ gs) s = (case py_seq fs s of PyOk s' \<Rightarrow> py_seq gs s' | r \<Rightarrow> r)"
  by (induction fs arbitrary: s) (auto split: py_flow.split)

lemma py_seq_single: "py_seq [f] s = f s"
  by (cases "f s") simp_all

lemma py_calls_append [simp]: "py_calls (xs @ ys) = py_calls xs @ py_calls ys"
  by (induction xs rule: py_calls.induct) simp_all

lemma py_seq_rel:
  assumes "\<And>f s. f \<in> set fs \<Longrightarrow> R s (py_state (f s))" and "reflp R" and "transp R"
  shows "R s (py_state (py_seq fs s))"
  using assms(1)
proof (induction fs arbitrary: s)
  case Nil
  then show ?case using assms(2) by (simp add: reflpD)
next
  case (Cons f fs)
  have step: "R s (py_state (f s))" using Cons.prems by simp
  show ?case
  proof (cases "f s")
    case (PyOk s')
    have "R s' (py_state (py_seq fs s'))" using Cons.IH Cons.prems by simp
    with step PyOk assms(3) show ?thesis by (auto dest: transpD)
  qed (use step in simp_all)
qed

lemma no_new_call_reflp: "reflp no_new_call"
  by (auto simp: reflp_def no_new_call_def intro: exI [of _ "[]"])

lemma no_new_call_transp: "transp no_new_call"
  by (auto simp: transp_def no_new_call_def)

lemma prefix_no_new_call:
  "f \<in> set (trans_setup op @ [py_ensure_output fr prt pin] @ output_copies prt op) \<Longrightarrow>
   no_new_call s (py_state (f s))"
proof -
  have ens: "no_new_call s (py_state (py_ensure_output fr prt pin s))"
    by (cases fr) (auto simp: no_new_call_def py_ensure_output_gemv_def py_ensure_output_gemm_def
        py_ensure_output_ger_def alloc_output_def Let_def split: sum.split)
  assume "f \<in> set (trans_setup op @ [py_ensure_output fr prt pin] @ output_copies prt op)"
  then show ?thesis
    using ens by (auto simp: trans_setup_def set_trans_local_def output_copies_def copy_output_def
        no_new_call_def split: sum.split intro: exI [of _ "[]"])
qed

lemma py_op_calls:
  "py_calls (snd (py_op op prt pin))
     = (case py_seq (trans_setup op @ [py_ensure_output (op_py_ensure_output op) prt pin]
                     @ output_copies prt op) (py_init pin) of
          PyOk ps \<Rightarrow> [(py_call_in pin ps, fst (GpuArray_r op (pr_c prt) (py_call_in pin ps)),
                      st_trace (snd (GpuArray_r op (pr_c prt) (py_call_in pin ps))))]
        | PyRaise e ps \<Rightarrow> [])"
proof -
  let ?pre = "trans_setup op @ [py_ensure_output (op_py_ensure_output op) prt pin] @ output_copies prt op"
  have "no_new_call (py_init pin) (py_state (py_seq ?pre (py_init pin)))"
    by (rule py_seq_rel [OF _ no_new_call_reflp no_new_call_transp], rule prefix_no_new_call)
  then have "py_calls (ps_events (py_state (py_seq ?pre (py_init pin)))) = []"
    by (auto simp: no_new_call_def py_init_def)
  then show ?thesis
    unfolding py_op_def py_body_def
    by (simp only: append_assoc [symmetric] py_seq_append py_seq_single)
       (auto simp: pygpu_blas_r_def Let_def split: py_flow.split prod.split)
qed

lemma py_op_prefix:
  "py_op op prt pin =
     (case py_seq (trans_setup op @ [py_ensure_output (op_py_ensure_output op) prt pin]
                   @ output_copies prt op) (py_init pin) of
        PyOk ps \<Rightarrow> (case pygpu_blas_r op prt pin ps of
                      PyOk ps' \<Rightarrow> (Inr (map (\<lambda>a. arr ps' (arg_name a)) (filter arg_isoutput (array_args op))),
                                   ps_events ps')
                    | PyRaise e ps' \<Rightarrow> (Inl e, ps_events ps'))
      | PyRaise e ps \<Rightarrow> (Inl e, ps_events ps))"
  unfolding py_op_def py_body_def
  by (simp only: append_assoc [symmetric] py_seq_append py_seq_single) (simp split: py_flow.split)

lemma gemv_op_stmts:
  "trans_setup gemv_op = [set_trans_local (matrix ''A'' False)]"
  "output_copies prt gemv_op = [copy_output prt (vector ''Y'' True)]"
  "op_py_ensure_output gemv_op = Py_ensure_output_gemv"
  "op_check_dims gemv_op = Check_dims_gemv"
  "input_names gemv_op = [''A'', ''X'']"
  "list_ex (\<lambda>b. isarray b \<and> arg_name b = ''Y'') (op_arguments gemv_op)"
  "filter arg_isoutput (array_args gemv_op) = [vector ''Y'' True]"
  by (simp_all add: trans_setup_def output_copies_def input_names_def gemv_op_def make_ops_def
      op_sel_defs arg_ctor_defs)

lemma gemm_op_stmts:
  "trans_setup gemm_op = [set_trans_local (matrix ''A'' False), set_trans_local (matrix ''B'' False)]"
  "output_copies prt gemm_op = [copy_output prt (matrix ''C'' True)]"
  "op_py_ensure_output gemm_op = Py_ensure_output_gemm"
  "op_check_dims gemm_op = Check_dims_gemm"
  "input_names gemm_op = [''A'', ''B'']"
  "list_ex (\<lambda>b. isarray b \<and> arg_name b = ''C'') (op_arguments gemm_op)"
  "filter arg_isoutput (array_args gemm_op) = [matrix ''C'' True]"
  by (simp_all add: trans_setup_def output_copies_def input_names_def gemm_op_def make_ops_def
      op_sel_defs arg_ctor_defs)

lemma ger_op_stmts:
  "trans_setup ger_op = []"
  "output_copies prt ger_op = [copy_output prt (matrix ''A'' True)]"
  "op_py_ensure_output ger_op = Py_ensure_output_ger"
  "op_check_dims ger_op = Check_dims_ger"
  "input_names ger_op = [''X'', ''Y'']"
  "list_ex (\<lambda>b. isarray b \<and> arg_name b = ''A'') (op_arguments ger_op)"
  "filter arg_isoutput (array_args ger_op) = [matrix ''A'' True]"
  by (simp_all add: trans_setup_def output_copies_def input_names_def ger_op_def make_ops_def
      op_sel_defs arg_ctor_defs)

lemma dims_spec_split: "dims_spec f ci \<longleftrightarrow> output_fits f ci \<and> inputs_fit f ci"
  by (cases f) (auto simp: op_dims_def Let_def split: prod.split)

text \<open>
  C14.  For every descriptor, once the binding calls \<^verbatim>\<open>GpuArray_r<op>\<close>,
  its result is that call's: the output arrays the C function received when it
  returned \<^verbatim>\<open>GA_NO_ERROR\<close>, and \<^verbatim>\<open>GpuArrayException\<close> with the C
  status otherwise.
\<close>

theorem py_calls_result:
  assumes "(ci, err, tr) \<in> set (py_calls (snd (py_op op prt pin)))"
  shows "fst (py_op op prt pin)
           = (if err = GA_NO_ERROR
              then Inr (map (\<lambda>a. in_arrays ci (arg_name a)) (filter arg_isoutput (array_args op)))
              else Inl (GpuArrayException err))"
proof (cases "py_seq (trans_setup op @ [py_ensure_output (op_py_ensure_output op) prt pin]
                      @ output_copies prt op) (py_init pin)")
  case (PyOk ps)
  then have "ci = py_call_in pin ps" "err = fst (GpuArray_r op (pr_c prt) ci)"
    using assms by (simp_all add: py_op_calls)
  then show ?thesis using PyOk
    by (simp add: py_op_prefix pygpu_blas_r_def py_call_in_def arr_def Let_def split: prod.split)
next
  case (PyRaise e ps)
  then show ?thesis using assms by (simp add: py_op_calls)
qed

lemma py_calls_prefix:
  assumes "(ci, err, tr) \<in> set (py_calls (snd (py_op op prt pin)))"
  shows "\<exists>ps. py_seq (trans_setup op @ [py_ensure_output (op_py_ensure_output op) prt pin]
                        @ output_copies prt op) (py_init pin) = PyOk ps
              \<and> ci = py_call_in pin ps \<and> err = fst (GpuArray_r op (pr_c prt) ci)
              \<and> tr = st_trace (snd (GpuArray_r op (pr_c prt) ci))"
proof (cases "py_seq (trans_setup op @ [py_ensure_output (op_py_ensure_output op) prt pin]
                      @ output_copies prt op) (py_init pin)")
  case (PyOk ps)
  then show ?thesis using assms by (simp add: py_op_calls)
next
  case (PyRaise e ps)
  then show ?thesis using assms by (simp add: py_op_calls)
qed

lemma py_seq_Cons_PyOk:
  "py_seq (f # fs) s = PyOk s' \<Longrightarrow> \<exists>s1. f s = PyOk s1 \<and> py_seq fs s1 = PyOk s'"
  by (cases "f s") simp_all

lemma py_lower_names [simp]:
  "py_lower ''A'' = ''a''" "py_lower ''B'' = ''b''" "py_lower ''C'' = ''c''"
  "py_lower ''X'' = ''x''" "py_lower ''Y'' = ''y''"
  by (simp_all add: py_lower_def lower_char_def char_of_def bit_0 Let_def)

lemma firsta_ops [simp]:
  "firsta gemv_op = ''A''" "firsta gemm_op = ''A''" "firsta ger_op = ''X''"
  by (simp_all add: firsta_def gemv_op_def gemm_op_def ger_op_def make_ops_def op_sel_defs arg_ctor_defs)

lemma alloc_contractD:
  "alloc_contract prt \<Longrightarrow> pr_empty prt ds tc = Inr a \<Longrightarrow> alloc_ok a ds tc"
  "alloc_contract prt \<Longrightarrow> pr_zeros prt ds tc = Inr a \<Longrightarrow> alloc_ok a ds tc"
  by (auto simp: alloc_contract_def dest!: spec [of _ ds] spec [of _ tc])

text \<open>What each output-inference fragment does when the output was omitted.\<close>

lemma ensure_gemv_alloc:
  assumes "py_ensure_output_gemv prt pin s = PyOk s'" and "ps_arrays s ''Y'' = None"
  shows "\<exists>y. pr_empty prt [fst (op_dims (ps_trans s ''transA'')
                               (ga_dimensions (arr s ''A'') ! 0, ga_dimensions (arr s ''A'') ! 1))]
                    (ga_typecode (arr s ''A'')) = Inr y
             \<and> ps_arrays s' = (ps_arrays s)(''Y'' := Some y) \<and> ps_flags s' ''overwrite_y''
             \<and> ps_trans s' = ps_trans s"
  using assms
  by (auto simp: py_ensure_output_gemv_def alloc_output_def op_dims_def Let_def
      split: if_splits sum.splits)

lemma ensure_gemm_alloc:
  assumes "py_ensure_output_gemm prt pin s = PyOk s'" and "ps_arrays s ''C'' = None"
  shows "\<exists>c. pr_empty prt [fst (op_dims (ps_trans s ''transA'')
                               (ga_dimensions (arr s ''A'') ! 0, ga_dimensions (arr s ''A'') ! 1)),
                          snd (op_dims (ps_trans s ''transB'')
                               (ga_dimensions (arr s ''B'') ! 0, ga_dimensions (arr s ''B'') ! 1))]
                    (ga_typecode (arr s ''A'')) = Inr c
             \<and> ps_arrays s' = (ps_arrays s)(''C'' := Some c) \<and> ps_flags s' ''overwrite_c''
             \<and> ps_trans s' = ps_trans s"
  using assms
  by (auto simp: py_ensure_output_gemm_def alloc_output_def op_dims_def Let_def
      split: if_splits sum.splits)

lemma ensure_ger_alloc:
  assumes "py_ensure_output_ger prt pin s = PyOk s'" and "ps_arrays s ''A'' = None"
  shows "\<exists>a. pr_zeros prt [ga_dimensions (arr s ''X'') ! 0, ga_dimensions (arr s ''Y'') ! 0]
                    (ga_typecode (arr s ''X'')) = Inr a
             \<and> ps_arrays s' = (ps_arrays s)(''A'' := Some a) \<and> ps_flags s' ''overwrite_a''
             \<and> ps_trans s' = ps_trans s
             \<and> ps_events s' = ps_events s @ [Py_zeros ''A'' [ga_dimensions (arr s ''X'') ! 0,
                                                             ga_dimensions (arr s ''Y'') ! 0]]"
  using assms
  by (auto simp: py_ensure_output_ger_def alloc_output_def Let_def split: if_splits sum.splits)

lemma copy_output_overwrite:
  "ps_flags s (''overwrite_'' @ py_lower (arg_name a)) \<Longrightarrow> copy_output prt a s = PyOk s"
  by (simp add: copy_output_def)

lemma py_seq_append_PyOk:
  "py_seq (fs @ gs) s = PyOk s' \<Longrightarrow> \<exists>s1. py_seq fs s = PyOk s1 \<and> py_seq gs s1 = PyOk s'"
  by (simp add: py_seq_append split: py_flow.split_asm)

lemma trans_setup_run: "\<exists>t. py_seq (trans_setup op) s = PyOk (s\<lparr>ps_trans := t\<rparr>)"
proof -
  have "\<exists>t. py_seq (map set_trans_local ms) s = PyOk (s\<lparr>ps_trans := t\<rparr>)" for ms
  proof (induction ms arbitrary: s)
    case Nil
    then show ?case by (intro exI [of _ "ps_trans s"]) simp
  next
    case (Cons m ms)
    obtain t where "py_seq (map set_trans_local ms) (py_state (set_trans_local m s))
                      = PyOk ((py_state (set_trans_local m s))\<lparr>ps_trans := t\<rparr>)"
      using Cons.IH by blast
    have "py_seq (map set_trans_local (m # ms)) s
            = py_seq (map set_trans_local ms) (py_state (set_trans_local m s))"
      by (simp add: set_trans_local_def)
    also have "\<dots> = PyOk ((py_state (set_trans_local m s))\<lparr>ps_trans := t\<rparr>)" by fact
    also have "\<dots> = PyOk (s\<lparr>ps_trans := t\<rparr>)" by (simp add: set_trans_local_def)
    finally show ?case by blast
  qed
  then show ?thesis by (simp add: trans_setup_def)
qed

lemma ensure_given:
  assumes "ps_arrays s (ensure_out fr) \<noteq> None" and "py_ensure_output fr prt pin s = PyOk s'"
  shows "ps_arrays s' = ps_arrays s \<and> ps_flags s' = ps_flags s \<and> ps_events s' = ps_events s"
  using assms
  by (cases fr) (auto simp: py_ensure_output_gemv_def py_ensure_output_gemm_def
      py_ensure_output_ger_def Let_def split: if_splits)

lemma make_ops_output:
  assumes "op \<in> set make_ops" and "a \<in> set (array_args op)" and "arg_isoutput a"
  shows "output_copies prt op = [copy_output prt a] \<and> arg_name a = ensure_out (op_py_ensure_output op)
         \<and> arg_name a \<notin> set (input_names op) \<and> list_ex (\<lambda>b. isarray b \<and> arg_name b = arg_name a) (op_arguments op)"
proof -
  have a: "a \<in> set (filter arg_isoutput (array_args op))" using assms(2,3) by simp
  consider "op = gemv_op" | "op = gemm_op" | "op = ger_op" using assms(1) by (auto simp: make_ops_eq)
  then show ?thesis
    by cases (use a in \<open>auto simp: gemv_op_stmts gemm_op_stmts ger_op_stmts matrix_def vector_def
        array_arg_def\<close>)
qed

section \<open>Outputs the binding allocates or copies\<close>

lemma alloc_ok_vector: "alloc_ok a [n] tc \<Longrightarrow> \<not> hd (ga_strides a) < 0"
  by (cases "ga_strides a") (auto simp: alloc_ok_def wf_gpuarray_def)

lemma gemv_allocated_output:
  assumes "alloc_contract prt" and "pi_arrays pin ''Y'' = None"
    and "(ci, err, tr) \<in> set (py_calls (snd (py_op gemv_op prt pin)))"
  shows "output_passes gemv_op ci (vector ''Y'' True)"
proof -
  obtain ps where pre: "py_seq [set_trans_local (matrix ''A'' False), py_ensure_output_gemv prt pin,
      copy_output prt (vector ''Y'' True)] (py_init pin) = PyOk ps" and ci: "ci = py_call_in pin ps"
    using py_calls_prefix [OF assms(3)] by (auto simp: gemv_op_stmts)
  from py_seq_Cons_PyOk [OF pre] obtain s1 where s1: "set_trans_local (matrix ''A'' False) (py_init pin) = PyOk s1"
    and r1: "py_seq [py_ensure_output_gemv prt pin, copy_output prt (vector ''Y'' True)] s1 = PyOk ps" by blast
  from py_seq_Cons_PyOk [OF r1] obtain s2 where s2: "py_ensure_output_gemv prt pin s1 = PyOk s2"
    and r2: "py_seq [copy_output prt (vector ''Y'' True)] s2 = PyOk ps" by blast
  from r2 have s3: "copy_output prt (vector ''Y'' True) s2 = PyOk ps" by (simp only: py_seq_single)
  have Y1: "ps_arrays s1 ''Y'' = None" using s1 assms(2) by (auto simp: set_trans_local_def py_init_def)
  obtain y where y: "pr_empty prt [fst (op_dims (ps_trans s1 ''transA'')
        (ga_dimensions (arr s1 ''A'') ! 0, ga_dimensions (arr s1 ''A'') ! 1))] (ga_typecode (arr s1 ''A'')) = Inr y"
    "ps_arrays s2 = (ps_arrays s1)(''Y'' := Some y)" "ps_flags s2 ''overwrite_y''" "ps_trans s2 = ps_trans s1"
    using ensure_gemv_alloc [OF s2 Y1] by blast
  have ps: "ps = s2" using s3 y(3) by (simp add: copy_output_def arg_ctor_defs)
  have ok: "alloc_ok y [fst (op_dims (ps_trans s1 ''transA'')
        (ga_dimensions (arr s1 ''A'') ! 0, ga_dimensions (arr s1 ''A'') ! 1))] (ga_typecode (arr s1 ''A''))"
    using alloc_contractD(1) [OF assms(1) y(1)] .
  have arrs: "in_arrays ci ''Y'' = y" "in_arrays ci ''A'' = arr s1 ''A''" "in_trans ci = ps_trans s1"
    using y(2,4) by (simp_all add: ci ps py_call_in_def arr_def)
  show ?thesis
    using ok alloc_ok_vector [OF ok] arrs
    by (simp add: output_passes_def ndcond_def typecond_def defective_def dims_spec_split dim_def
        mat_shape_def arg_ctor_defs alloc_ok_def gemv_op_stmts)
qed

lemma alloc_ok_matrix: "alloc_ok a [m, n] tc \<Longrightarrow> GpuArray_ISONESEGMENT a"
  by (simp add: alloc_ok_def)

lemma gemm_allocated_output:
  assumes "alloc_contract prt" and "pi_arrays pin ''C'' = None"
    and "(ci, err, tr) \<in> set (py_calls (snd (py_op gemm_op prt pin)))"
  shows "output_passes gemm_op ci (matrix ''C'' True)"
proof -
  obtain ps where pre: "py_seq [set_trans_local (matrix ''A'' False), set_trans_local (matrix ''B'' False),
      py_ensure_output_gemm prt pin, copy_output prt (matrix ''C'' True)] (py_init pin) = PyOk ps"
    and ci: "ci = py_call_in pin ps"
    using py_calls_prefix [OF assms(3)] by (auto simp: gemm_op_stmts)
  from py_seq_Cons_PyOk [OF pre] obtain s0 where s0: "set_trans_local (matrix ''A'' False) (py_init pin) = PyOk s0"
    and r0: "py_seq [set_trans_local (matrix ''B'' False), py_ensure_output_gemm prt pin,
                     copy_output prt (matrix ''C'' True)] s0 = PyOk ps" by blast
  from py_seq_Cons_PyOk [OF r0] obtain s1 where s1: "set_trans_local (matrix ''B'' False) s0 = PyOk s1"
    and r1: "py_seq [py_ensure_output_gemm prt pin, copy_output prt (matrix ''C'' True)] s1 = PyOk ps" by blast
  from py_seq_Cons_PyOk [OF r1] obtain s2 where s2: "py_ensure_output_gemm prt pin s1 = PyOk s2"
    and r2: "py_seq [copy_output prt (matrix ''C'' True)] s2 = PyOk ps" by blast
  from r2 have s3: "copy_output prt (matrix ''C'' True) s2 = PyOk ps" by (simp only: py_seq_single)
  have C1: "ps_arrays s1 ''C'' = None"
    using s0 s1 assms(2) by (auto simp: set_trans_local_def py_init_def)
  obtain c where c: "pr_empty prt [fst (op_dims (ps_trans s1 ''transA'')
        (ga_dimensions (arr s1 ''A'') ! 0, ga_dimensions (arr s1 ''A'') ! 1)),
        snd (op_dims (ps_trans s1 ''transB'')
        (ga_dimensions (arr s1 ''B'') ! 0, ga_dimensions (arr s1 ''B'') ! 1))] (ga_typecode (arr s1 ''A'')) = Inr c"
    "ps_arrays s2 = (ps_arrays s1)(''C'' := Some c)" "ps_flags s2 ''overwrite_c''" "ps_trans s2 = ps_trans s1"
    using ensure_gemm_alloc [OF s2 C1] by blast
  have ps: "ps = s2" using s3 c(3) by (simp add: copy_output_def arg_ctor_defs)
  note ok = alloc_contractD(1) [OF assms(1) c(1)]
  have arrs: "in_arrays ci ''C'' = c" "in_arrays ci ''A'' = arr s1 ''A''" "in_arrays ci ''B'' = arr s1 ''B''"
    "in_trans ci = ps_trans s1"
    using c(2,4) by (simp_all add: ci ps py_call_in_def arr_def)
  show ?thesis
    using ok alloc_ok_matrix [OF ok] arrs
    by (simp add: output_passes_def ndcond_def typecond_def defective_def dims_spec_split dim_def
        mat_shape_def arg_ctor_defs alloc_ok_def gemm_op_stmts op_dims_def)
qed

lemma ger_allocated_output:
  assumes "alloc_contract prt" and "pi_arrays pin ''A'' = None"
    and "(ci, err, tr) \<in> set (py_calls (snd (py_op ger_op prt pin)))"
  shows "output_passes ger_op ci (matrix ''A'' True)"
proof -
  obtain ps where pre: "py_seq [py_ensure_output_ger prt pin, copy_output prt (matrix ''A'' True)]
      (py_init pin) = PyOk ps" and ci: "ci = py_call_in pin ps"
    using py_calls_prefix [OF assms(3)] by (auto simp: ger_op_stmts)
  from py_seq_Cons_PyOk [OF pre] obtain s2 where s2: "py_ensure_output_ger prt pin (py_init pin) = PyOk s2"
    and r2: "py_seq [copy_output prt (matrix ''A'' True)] s2 = PyOk ps" by blast
  from r2 have s3: "copy_output prt (matrix ''A'' True) s2 = PyOk ps" by (simp only: py_seq_single)
  have A0: "ps_arrays (py_init pin) ''A'' = None" using assms(2) by (simp add: py_init_def)
  obtain a where a: "pr_zeros prt [ga_dimensions (arr (py_init pin) ''X'') ! 0, ga_dimensions (arr (py_init pin) ''Y'') ! 0]
        (ga_typecode (arr (py_init pin) ''X'')) = Inr a"
    "ps_arrays s2 = (ps_arrays (py_init pin))(''A'' := Some a)" "ps_flags s2 ''overwrite_a''"
    using ensure_ger_alloc [OF s2 A0] by blast
  have ps: "ps = s2" using s3 a(3) by (simp add: copy_output_def arg_ctor_defs)
  note ok = alloc_contractD(2) [OF assms(1) a(1)]
  have arrs: "in_arrays ci ''A'' = a" "in_arrays ci ''X'' = arr (py_init pin) ''X''"
    "in_arrays ci ''Y'' = arr (py_init pin) ''Y''"
    using a(2) by (simp_all add: ci ps py_call_in_def arr_def)
  show ?thesis
    using ok alloc_ok_matrix [OF ok] arrs
    by (simp add: output_passes_def ndcond_def typecond_def defective_def dims_spec_split dim_def
        mat_shape_def arg_ctor_defs alloc_ok_def ger_op_stmts)
qed

text \<open>
  C12.  An output the binding allocates never makes the C function fail: for
  every operation of the table, whenever the binding allocated an omitted
  output and went on to call \<^verbatim>\<open>GpuArray_r<op>\<close>, that output has the
  rank, element type, alignment and contiguity the C checks demand, and the
  operation's dimension relation holds exactly when its inputs agree among
  themselves, provided \<^verbatim>\<open>pygpu_empty\<close> and \<^verbatim>\<open>pygpu_zeros\<close> meet their
  contract.
\<close>

theorem py_op_allocated_output_ok:
  assumes "op \<in> set make_ops" and "alloc_contract prt"
    and "a \<in> set (array_args op)" and "arg_isoutput a" and "pi_arrays pin (arg_name a) = None"
    and "(ci, err, tr) \<in> set (py_calls (snd (py_op op prt pin)))"
  shows "output_passes op ci a"
proof -
  have a: "a \<in> set (filter arg_isoutput (array_args op))" using assms(3,4) by simp
  consider "op = gemv_op" | "op = gemm_op" | "op = ger_op" using assms(1) by (auto simp: make_ops_eq)
  then show ?thesis
  proof cases
    case 1
    then show ?thesis using a assms gemv_allocated_output by (auto simp: gemv_op_stmts arg_ctor_defs)
  next
    case 2
    then show ?thesis using a assms gemm_allocated_output by (auto simp: gemm_op_stmts arg_ctor_defs)
  next
    case 3
    then show ?thesis using a assms ger_allocated_output by (auto simp: ger_op_stmts arg_ctor_defs)
  qed
qed

lemma prefix_given_output:
  assumes "op \<in> set make_ops" and "a \<in> set (array_args op)" and "arg_isoutput a"
    and "pi_arrays pin (arg_name a) = Some y" and "\<not> pi_flags pin (''overwrite_'' @ py_lower (arg_name a))"
    and "py_seq (trans_setup op @ [py_ensure_output (op_py_ensure_output op) prt pin]
                 @ output_copies prt op) (py_init pin) = PyOk ps"
  shows "\<exists>c. pr_copy prt y = Inr c \<and> ps_arrays ps (arg_name a) = Some c"
proof -
  note out = make_ops_output [OF assms(1-3), of prt]
  obtain t where t: "py_seq (trans_setup op) (py_init pin) = PyOk ((py_init pin)\<lparr>ps_trans := t\<rparr>)"
    using trans_setup_run by blast
  let ?s1 = "(py_init pin)\<lparr>ps_trans := t\<rparr>"
  from py_seq_append_PyOk [OF assms(6)] t obtain s2 where
    r: "py_seq ([py_ensure_output (op_py_ensure_output op) prt pin] @ output_copies prt op) ?s1 = PyOk ps"
    by auto
  from py_seq_append_PyOk [OF r] obtain s2 where
    s2': "py_seq [py_ensure_output (op_py_ensure_output op) prt pin] ?s1 = PyOk s2"
    and r2': "py_seq (output_copies prt op) s2 = PyOk ps" by blast
  have s2: "py_ensure_output (op_py_ensure_output op) prt pin ?s1 = PyOk s2"
    using s2' by (simp only: py_seq_single)
  have r2: "copy_output prt a s2 = PyOk ps"
    using r2' out [THEN conjunct1] by (simp only: py_seq_single)
  have given: "ps_arrays ?s1 (ensure_out (op_py_ensure_output op)) \<noteq> None"
    using assms(4) out by (simp add: py_init_def)
  from ensure_given [OF given s2] have "ps_arrays s2 = ps_arrays ?s1" "ps_flags s2 = ps_flags ?s1" by simp_all
  then show ?thesis
    using r2 assms(4,5)
    by (auto simp: copy_output_def arr_def py_init_def split: sum.splits)
qed

text \<open>
  C13.  Copy before mutate: when the caller supplies an output and does not
  pass \<^verbatim>\<open>overwrite_x=True\<close>, the C function receives the result of
  \<^verbatim>\<open>pygpu_copy\<close> in its place, and every kernel call writes into the
  copy's buffer, never into the caller's.
\<close>

theorem py_op_copy_before_mutate:
  assumes "op \<in> set make_ops" and "a \<in> set (array_args op)" and "arg_isoutput a"
    and "pi_arrays pin (arg_name a) = Some y" and "\<not> pi_flags pin (''overwrite_'' @ py_lower (arg_name a))"
    and "(ci, err, tr) \<in> set (py_calls (snd (py_op op prt pin)))"
  shows "\<exists>c. pr_copy prt y = Inr c \<and> in_arrays ci (arg_name a) = c
             \<and> (\<forall>bc\<in>set (calls_of tr). kernel_buffer op bc (arg_name a) = Some (ga_data c))"
proof -
  obtain ps where pre: "py_seq (trans_setup op @ [py_ensure_output (op_py_ensure_output op) prt pin]
                        @ output_copies prt op) (py_init pin) = PyOk ps"
    and ci: "ci = py_call_in pin ps" and tr: "tr = st_trace (snd (GpuArray_r op (pr_c prt) ci))"
    using py_calls_prefix [OF assms(6)] by blast
  obtain c where c: "pr_copy prt y = Inr c" "ps_arrays ps (arg_name a) = Some c"
    using prefix_given_output [OF assms(1-5) pre] by blast
  have inc: "in_arrays ci (arg_name a) = c" using c(2) by (simp add: ci py_call_in_def arr_def)
  note out = make_ops_output [OF assms(1-3), of prt]
  have "kernel_buffer op bc (arg_name a) = Some (ga_data c)" if "bc \<in> set (calls_of tr)" for bc
  proof -
    have "kernel_buffer op bc (arg_name a) = Some (ga_data (in_arrays ci (arg_name a)))"
      by (rule output_buffer_passed) (use out that tr in auto)
    then show ?thesis using inc by simp
  qed
  then show ?thesis using c(1) inc by blast
qed

section \<open>The binding implements the contract\<close>

lemma trans_setup_effect:
  "\<exists>t. py_seq (trans_setup op) s = PyOk (s\<lparr>ps_trans := t\<rparr>)
       \<and> (\<forall>m\<in>set (matrix_args op). \<not> arg_isoutput m \<longrightarrow>
            t (''trans'' @ arg_name m)
              = (if ps_flags s (''trans_'' @ py_lower (arg_name m)) then cb_trans else cb_no_trans))"
proof -
  have "\<exists>t. py_seq (map set_trans_local ms) s = PyOk (s\<lparr>ps_trans := t\<rparr>)
          \<and> (\<forall>m\<in>set ms. t (''trans'' @ arg_name m)
                = (if ps_flags s (''trans_'' @ py_lower (arg_name m)) then cb_trans else cb_no_trans))" for ms
  proof (induction ms arbitrary: s rule: rev_induct)
    case Nil
    then show ?case by (intro exI [of _ "ps_trans s"]) simp
  next
    case (snoc m ms)
    obtain t where t: "py_seq (map set_trans_local ms) s = PyOk (s\<lparr>ps_trans := t\<rparr>)"
      "\<forall>m\<in>set ms. t (''trans'' @ arg_name m)
          = (if ps_flags s (''trans_'' @ py_lower (arg_name m)) then cb_trans else cb_no_trans)"
      using snoc.IH by blast
    let ?v = "if ps_flags s (''trans_'' @ py_lower (arg_name m)) then cb_trans else cb_no_trans"
    have "py_seq (map set_trans_local (ms @ [m])) s = PyOk (s\<lparr>ps_trans := t(''trans'' @ arg_name m := ?v)\<rparr>)"
      using t(1) by (simp add: py_seq_append set_trans_local_def)
    moreover have "\<forall>m'\<in>set (ms @ [m]). (t(''trans'' @ arg_name m := ?v)) (''trans'' @ arg_name m')
          = (if ps_flags s (''trans_'' @ py_lower (arg_name m')) then cb_trans else cb_no_trans)"
      using t(2) by auto
    ultimately show ?case by blast
  qed
  then show ?thesis by (fastforce simp: trans_setup_def)
qed

lemma alloc_totalD:
  "alloc_total prt \<Longrightarrow> pr_empty prt ds tc \<noteq> Inl e"
  "alloc_total prt \<Longrightarrow> pr_zeros prt ds tc \<noteq> Inl e"
  "alloc_total prt \<Longrightarrow> pr_copy prt a \<noteq> Inl e"
  by (metis alloc_total_def sum.disc(1))+

lemma gemv_refines:
  assumes "inputs_given gemv_op pin" and "alloc_total prt"
  shows "abs_prestep (py_prefix gemv_op prt pin) = Some (spec_prestep gemv_op pin)"
proof -
  obtain t where t: "py_seq (trans_setup gemv_op) (py_init pin) = PyOk ((py_init pin)\<lparr>ps_trans := t\<rparr>)"
    "t ''transA'' = spec_trans pin ''A''"
    using trans_setup_effect [of gemv_op "py_init pin"]
    by (auto simp: gemv_op_def make_ops_def op_sel_defs arg_ctor_defs spec_trans_def py_init_def)
  obtain a where a: "pi_arrays pin ''A'' = Some a" "ga_nd a = 2"
    using assms(1) by (auto simp: inputs_given_def gemv_op_def make_ops_def op_sel_defs arg_ctor_defs)
  show ?thesis
    unfolding py_prefix_def py_seq_append t(1)
    using a t(2) alloc_totalD [OF assms(2)]
    by (auto simp: gemv_op_stmts(2,3) py_ensure_output_gemv_def alloc_output_def copy_output_def arr_def
        py_init_def spec_prestep_def shape2_def op_dims_def arg_ctor_defs Let_def
        split: option.split sum.split)
qed

lemma gemm_refines:
  assumes "inputs_given gemm_op pin" and "alloc_total prt"
  shows "abs_prestep (py_prefix gemm_op prt pin) = Some (spec_prestep gemm_op pin)"
proof -
  obtain t where t: "py_seq (trans_setup gemm_op) (py_init pin) = PyOk ((py_init pin)\<lparr>ps_trans := t\<rparr>)"
    "t ''transA'' = spec_trans pin ''A''" "t ''transB'' = spec_trans pin ''B''"
    using trans_setup_effect [of gemm_op "py_init pin"]
    by (auto simp: gemm_op_def make_ops_def op_sel_defs arg_ctor_defs spec_trans_def py_init_def)
  obtain a b where ab: "pi_arrays pin ''A'' = Some a" "ga_nd a = 2" "pi_arrays pin ''B'' = Some b" "ga_nd b = 2"
    using assms(1) by (auto simp: inputs_given_def gemm_op_def make_ops_def op_sel_defs arg_ctor_defs)
  show ?thesis
    unfolding py_prefix_def py_seq_append t(1)
    using ab t(2,3) alloc_totalD [OF assms(2)]
    by (auto simp: gemm_op_stmts(2,3) py_ensure_output_gemm_def alloc_output_def copy_output_def arr_def
        py_init_def spec_prestep_def shape2_def op_dims_def arg_ctor_defs Let_def
        split: option.split sum.split)
qed

lemma ger_refines:
  assumes "inputs_given ger_op pin" and "alloc_total prt"
  shows "abs_prestep (py_prefix ger_op prt pin) = Some (spec_prestep ger_op pin)"
proof -
  obtain x y where xy: "pi_arrays pin ''X'' = Some x" "pi_arrays pin ''Y'' = Some y"
    using assms(1) by (auto simp: inputs_given_def ger_op_def make_ops_def op_sel_defs arg_ctor_defs)
  show ?thesis
    unfolding py_prefix_def
    using xy alloc_totalD [OF assms(2)]
    by (auto simp: ger_op_stmts py_ensure_output_ger_def alloc_output_def copy_output_def arr_def
        py_init_def spec_prestep_def arg_ctor_defs Let_def split: option.split sum.split)
qed

text \<open>
  C15.  The binding implements the description's pre-step: for every
  operation of the table, supplied inputs and allocations that succeed, the
  effect of the statements before the C call on the output, abstracted from
  their events, is the one the contract prescribes (\<open>spec_prestep\<close>).
\<close>

theorem py_prestep_refines:
  assumes "op \<in> set make_ops" and "inputs_given op pin" and "alloc_total prt"
  shows "abs_prestep (py_prefix op prt pin) = Some (spec_prestep op pin)"
  using assms gemv_refines gemm_refines ger_refines by (auto simp: make_ops_eq)

section \<open>The usage error\<close>

text \<open>
  C11.  The usage error of the description: when \<^verbatim>\<open>gemv\<close> or
  \<^verbatim>\<open>gemm\<close> is called without its output, with \<^verbatim>\<open>beta\<close> other than
  zero and with its input matrices of rank 2, it raises \<^verbatim>\<open>ValueError\<close>
  before allocating, copying or calling anything.
\<close>

theorem py_op_beta_usage_error:
  assumes "op = gemv_op \<or> op = gemm_op"
    and "\<forall>m\<in>set (matrix_args op). \<not> arg_isoutput m \<longrightarrow> (\<exists>a. pi_arrays pin (arg_name m) = Some a \<and> ga_nd a = 2)"
    and "\<forall>a\<in>set (array_args op). arg_isoutput a \<longrightarrow> pi_arrays pin (arg_name a) = None"
    and "pi_scalars pin ''beta'' \<noteq> 0"
  shows "\<exists>msg. py_op op prt pin = (Inl (ValueError msg), [])"
  using assms(1)
proof
  assume op: "op = gemv_op"
  have "matrix_args gemv_op = [matrix ''A'' False]"
    "array_args gemv_op = [matrix ''A'' False, vector ''X'' False, vector ''Y'' True]"
    by (simp_all add: gemv_op_def make_ops_def op_sel_defs arg_ctor_defs)
  with assms(2,3) op obtain a where "pi_arrays pin ''A'' = Some a" "ga_nd a = 2" "pi_arrays pin ''Y'' = None"
    by (auto simp: arg_ctor_defs)
  then show ?thesis using assms(4) op
    by (simp add: py_op_prefix gemv_op_stmts py_ensure_output_gemv_def set_trans_local_def py_init_def
        arr_def Let_def)
next
  assume op: "op = gemm_op"
  have "matrix_args gemm_op = [matrix ''A'' False, matrix ''B'' False, matrix ''C'' True]"
    "array_args gemm_op = [matrix ''A'' False, matrix ''B'' False, matrix ''C'' True]"
    by (simp_all add: gemm_op_def make_ops_def op_sel_defs arg_ctor_defs)
  with assms(2,3) op obtain a b where "pi_arrays pin ''A'' = Some a" "ga_nd a = 2"
    "pi_arrays pin ''B'' = Some b" "ga_nd b = 2" "pi_arrays pin ''C'' = None"
    by (auto simp: arg_ctor_defs)
  then show ?thesis using assms(4) op
    by (simp add: py_op_prefix gemm_op_stmts py_ensure_output_gemm_def set_trans_local_def py_init_def
        arr_def Let_def)
qed

end
