(* ===== verification/Blas_Binding_Scenarios.thy ===== *)
theory Blas_Binding_Scenarios
  imports Blas_Scenarios Blas_Binding
begin

text \<open>
  Concrete calls of the Python functions \<^verbatim>\<open>gemv\<close>, \<^verbatim>\<open>gemm\<close> and
  \<^verbatim>\<open>ger\<close> that \<^verbatim>\<open>BLAS_PYX_TMPL\<close> generates, taken from the testable
  behaviours of the description, run through the binding and the C function
  by the simplifier; and the witnesses of the binding's theorems.
\<close>

section \<open>A Python runtime\<close>

text \<open>
  Allocation returns a fresh row-major array of the requested shape at handle
  200 (\<^verbatim>\<open>pygpu_empty\<close>) or 300 (\<^verbatim>\<open>pygpu_zeros\<close>) and refuses more
  than two dimensions; a copy is the same array at handle 400.  The C runtime
  is \<open>rt_ex\<close>.
\<close>

definition fresh_array :: "nat \<Rightarrow> nat list \<Rightarrow> ga_typecode \<Rightarrow> gpuarray" where
  "fresh_array d ds tc =
     (let e = int (gpuarray_get_elsize tc) in
      \<lparr>ga_data = d, ga_offset = 0, ga_nd = length ds, ga_dimensions = ds,
       ga_strides = (case ds of [m, n] \<Rightarrow> [e * int n, e] | _ \<Rightarrow> map (\<lambda>_. e) ds),
       ga_c_contiguous = True, ga_f_contiguous = (length ds \<le> 1), ga_aligned = True,
       ga_typecode = tc\<rparr>)"

definition py_alloc :: "nat \<Rightarrow> nat list \<Rightarrow> ga_typecode \<Rightarrow> py_exc + gpuarray" where
  "py_alloc d ds tc =
     (if length ds \<le> 2 then Inr (fresh_array d ds tc) else Inl (GpuArrayException GA_MEMORY_ERROR))"

definition prt_ex :: py_runtime where
  "prt_ex = \<lparr>pr_empty = py_alloc 200, pr_zeros = py_alloc 300,
             pr_copy = (\<lambda>a. Inr (a\<lparr>ga_data := 400\<rparr>)), pr_c = rt_ex\<rparr>"

definition py_call_with :: "(string \<times> gpuarray) list \<Rightarrow> string list \<Rightarrow> real \<Rightarrow> py_in" where
  "py_call_with arrs flags beta =
     \<lparr>pi_arrays = map_of arrs, pi_scalars = (\<lambda>x. if x = ''alpha'' then 1 else if x = ''beta'' then beta else 0),
      pi_flags = (\<lambda>x. x \<in> set flags)\<rparr>"

text \<open>\<^verbatim>\<open>A\<close> (3,4) row-major, \<^verbatim>\<open>X\<close> of length 4, \<^verbatim>\<open>Y\<close> omitted.\<close>

definition gemv_py_in :: "real \<Rightarrow> py_in" where
  "gemv_py_in beta = py_call_with
     [(''A'', mk_array 1 [3, 4] [16, 4] True False), (''X'', mk_array 2 [4] [4] True True)] [] beta"

text \<open>\<^verbatim>\<open>A\<close> (2,3), \<^verbatim>\<open>B\<close> (4,3) with \<^verbatim>\<open>trans_b=True\<close>, \<^verbatim>\<open>C\<close> omitted.\<close>

definition gemm_py_in :: py_in where
  "gemm_py_in = py_call_with
     [(''A'', mk_array 1 [2, 3] [12, 4] True False), (''B'', mk_array 2 [4, 3] [12, 4] True False)]
     [''trans_b''] 0"

text \<open>\<^verbatim>\<open>X\<close> of length 5, \<^verbatim>\<open>Y\<close> of length 7, \<^verbatim>\<open>A\<close> omitted or (5,6).\<close>

definition ger_py_in :: "(string \<times> gpuarray) list \<Rightarrow> py_in" where
  "ger_py_in extra = py_call_with
     ([(''X'', mk_array 1 [5] [4] True True), (''Y'', mk_array 2 [7] [4] True True)] @ extra) [] 0"

text \<open>\<^verbatim>\<open>gemv\<close> with a supplied \<^verbatim>\<open>Y\<close> of length 3 and \<^verbatim>\<open>beta = 1\<close>.\<close>

definition gemv_py_in_y :: py_in where
  "gemv_py_in_y = py_call_with
     [(''A'', mk_array 1 [3, 4] [16, 4] True False), (''X'', mk_array 2 [4] [4] True True),
      (''Y'', mk_array 3 [3] [4] True True)] [] 1"

text \<open>A runtime whose allocations never fail, for the contract's preconditions.\<close>

definition prt_total :: py_runtime where
  "prt_total = prt_ex\<lparr>pr_empty := (\<lambda>ds tc. Inr (fresh_array 200 ds tc)),
                      pr_zeros := (\<lambda>ds tc. Inr (fresh_array 300 ds tc))\<rparr>"

declare gemv_py_in_y_def [blas_defs] prt_total_def [blas_defs] fresh_array_def [blas_defs] py_alloc_def [blas_defs] prt_ex_def [blas_defs]
  py_call_with_def [blas_defs] gemv_py_in_def [blas_defs] gemm_py_in_def [blas_defs]
  ger_py_in_def [blas_defs]

section \<open>Runs\<close>

text \<open>
  \<^verbatim>\<open>gemv\<close> with \<^verbatim>\<open>A\<close> (3,4) row-major, \<^verbatim>\<open>X\<close> of length 4, no
  \<^verbatim>\<open>Y\<close> and \<^verbatim>\<open>beta = 0\<close>: \<^verbatim>\<open>Y\<close> is allocated with length 3 before
  anything else, the call succeeds and returns it.
\<close>

lemma gemv_py_alloc_run:
  "fst (py_op gemv_op prt_ex (gemv_py_in 0)) = Inr [fresh_array 200 [3] GA_FLOAT]
   \<and> take 1 (snd (py_op gemv_op prt_ex (gemv_py_in 0))) = [Py_empty ''Y'' [3]]"
  by (simp add: blas_defs Let_def)

text \<open>
  The same call with \<^verbatim>\<open>beta = 1\<close> raises the usage error
  \<^verbatim>\<open>ValueError\<close> and has no effect.
\<close>

lemma gemv_py_beta_run:
  "py_op gemv_op prt_ex (gemv_py_in 1) = (Inl (ValueError ''Y not provided and beta != 0''), [])"
  by (simp add: blas_defs Let_def)

text \<open>
  \<^verbatim>\<open>gemm\<close> with \<^verbatim>\<open>A\<close> (2,3), \<^verbatim>\<open>B\<close> (4,3) and
  \<^verbatim>\<open>trans_b=True\<close>, no \<^verbatim>\<open>C\<close>: \<^verbatim>\<open>C\<close> is allocated with shape (2,4)
  and the call succeeds.
\<close>

lemma gemm_py_alloc_run:
  "fst (py_op gemm_op prt_ex gemm_py_in) = Inr [fresh_array 200 [2, 4] GA_FLOAT]
   \<and> take 1 (snd (py_op gemm_op prt_ex gemm_py_in)) = [Py_empty ''C'' [2, 4]]"
  by (simp add: blas_defs Let_def)

text \<open>
  \<^verbatim>\<open>ger\<close> with \<^verbatim>\<open>X\<close> of length 5, \<^verbatim>\<open>Y\<close> of length 7, no
  \<^verbatim>\<open>A\<close>: \<^verbatim>\<open>A\<close> is allocated zero-filled (\<^verbatim>\<open>pygpu_zeros\<close>) with
  shape (5,7) and the call succeeds.
\<close>

lemma ger_py_zeros_run:
  "fst (py_op ger_op prt_ex (ger_py_in [])) = Inr [fresh_array 300 [5, 7] GA_FLOAT]
   \<and> take 1 (snd (py_op ger_op prt_ex (ger_py_in []))) = [Py_zeros ''A'' [5, 7]]"
  by (simp add: blas_defs Let_def)

text \<open>
  \<^verbatim>\<open>ger\<close> with a supplied \<^verbatim>\<open>A\<close> of shape (5,6) raises
  \<^verbatim>\<open>GpuArrayException\<close> with \<^verbatim>\<open>GA_VALUE_ERROR\<close>; the binding copied
  \<^verbatim>\<open>A\<close> first, so the caller's array is not touched.
\<close>

lemma ger_py_dims_error_run:
  "fst (py_op ger_op prt_ex (ger_py_in [(''A'', mk_array 3 [5, 6] [24, 4] True False)]))
     = Inl (GpuArrayException GA_VALUE_ERROR)
   \<and> take 1 (snd (py_op ger_op prt_ex (ger_py_in [(''A'', mk_array 3 [5, 6] [24, 4] True False)])))
     = [Py_copy ''A'']"
  by (simp add: blas_defs Let_def)

section \<open>Witnesses\<close>

lemma indices_length: "idx \<in> set (indices ds) \<Longrightarrow> length idx = length ds"
  by (simp add: indices_def in_set_product_lists_length)

lemma fresh_array_ok: "length ds \<le> 2 \<Longrightarrow> alloc_ok (fresh_array d ds tc) ds tc"
proof -
  assume "length ds \<le> 2"
  then consider "ds = []" | n where "ds = [n]" | m n where "ds = [m, n]"
    by (cases ds; cases "tl ds"; auto)
  then show ?thesis
  proof cases
    case 1
    then show ?thesis
      by (auto simp: alloc_ok_def fresh_array_def wf_gpuarray_def c_layout_def f_layout_def
          indices_def elem_dist_def lin_c_def lin_f_def GpuArray_ISONESEGMENT_def Let_def)
  next
    case 2
    have "length idx = 1 \<Longrightarrow> \<exists>i. idx = [i]" for idx :: "nat list"
      by (cases idx) auto
    then show ?thesis using 2 indices_length [of _ ds]
      by (fastforce simp: alloc_ok_def fresh_array_def wf_gpuarray_def c_layout_def f_layout_def
          elem_dist_def lin_c_def lin_f_def GpuArray_ISONESEGMENT_def Let_def)
  next
    case 3
    let ?e = "int (gpuarray_get_elsize tc)"
    have "elem_dist [?e * int n, ?e] idx = int (gpuarray_get_elsize tc * lin_c [m, n] idx)"
      if "idx \<in> set (indices [m, n])" for idx
    proof -
      have "length idx = 2" using indices_length [OF that] by simp
      then obtain i j where "idx = [i, j]" by (cases idx; cases "tl idx") auto
      then show ?thesis by (simp add: elem_dist_def lin_c_def algebra_simps)
    qed
    then show ?thesis using 3
      by (simp add: alloc_ok_def fresh_array_def wf_gpuarray_def c_layout_def
          GpuArray_ISONESEGMENT_def Let_def)
  qed
qed

lemma prt_ex_alloc_contract: "alloc_contract prt_ex"
  by (simp add: alloc_contract_def prt_ex_def py_alloc_def fresh_array_ok)

theorem py_op_beta_usage_error_witness:
  "list_all (\<lambda>m. arg_isoutput m \<or> (\<exists>a. pi_arrays (gemv_py_in 1) (arg_name m) = Some a \<and> ga_nd a = 2))
     (matrix_args gemv_op)
   \<and> list_all (\<lambda>a. \<not> arg_isoutput a \<or> pi_arrays (gemv_py_in 1) (arg_name a) = None) (array_args gemv_op)
   \<and> pi_scalars (gemv_py_in 1) ''beta'' \<noteq> 0
   \<and> (\<exists>msg. py_op gemv_op prt_ex (gemv_py_in 1) = (Inl (ValueError msg), []))"
proof -
  have h2: "\<forall>m\<in>set (matrix_args gemv_op). \<not> arg_isoutput m \<longrightarrow>
      (\<exists>a. pi_arrays (gemv_py_in 1) (arg_name m) = Some a \<and> ga_nd a = 2)"
    by (simp add: blas_defs)
  have h3: "\<forall>a\<in>set (array_args gemv_op). arg_isoutput a \<longrightarrow> pi_arrays (gemv_py_in 1) (arg_name a) = None"
    by (simp add: blas_defs)
  have h4: "pi_scalars (gemv_py_in 1) ''beta'' \<noteq> 0" by (simp add: blas_defs)
  show ?thesis
    using py_op_beta_usage_error [of gemv_op "gemv_py_in 1" prt_ex, OF _ h2 h3 h4] h2 h3 h4
    by (auto simp: list_all_iff)
qed

theorem py_op_allocated_output_ok_witness:
  "gemv_op \<in> set make_ops \<and> alloc_contract prt_ex \<and> vector ''Y'' True \<in> set (array_args gemv_op)
   \<and> pi_arrays (gemv_py_in 0) ''Y'' = None
   \<and> py_calls (snd (py_op gemv_op prt_ex (gemv_py_in 0))) \<noteq> []
   \<and> list_all (\<lambda>(ci, err, tr). output_passes gemv_op ci (vector ''Y'' True))
       (py_calls (snd (py_op gemv_op prt_ex (gemv_py_in 0))))"
proof -
  have h1: "gemv_op \<in> set make_ops" by (simp add: make_ops_eq)
  have h3: "vector ''Y'' True \<in> set (array_args gemv_op)" by (simp add: blas_defs)
  have h4: "arg_isoutput (vector ''Y'' True)" by (simp add: blas_defs)
  have h5: "pi_arrays (gemv_py_in 0) (arg_name (vector ''Y'' True)) = None" by (simp add: blas_defs)
  have run: "py_calls (snd (py_op gemv_op prt_ex (gemv_py_in 0))) \<noteq> []" by (simp add: blas_defs Let_def)
  have "output_passes gemv_op ci (vector ''Y'' True)"
    if "(ci, err, tr) \<in> set (py_calls (snd (py_op gemv_op prt_ex (gemv_py_in 0))))" for ci err tr
    using py_op_allocated_output_ok [OF h1 prt_ex_alloc_contract h3 h4 h5 that] .
  then show ?thesis using h1 h3 h5 run prt_ex_alloc_contract
    by (auto simp: list_all_iff vector_def array_arg_def)
qed

theorem py_op_copy_before_mutate_witness:
  "gemv_op \<in> set make_ops \<and> vector ''Y'' True \<in> set (array_args gemv_op)
   \<and> pi_arrays gemv_py_in_y ''Y'' = Some (mk_array 3 [3] [4] True True)
   \<and> \<not> pi_flags gemv_py_in_y ''overwrite_y''
   \<and> py_calls (snd (py_op gemv_op prt_ex gemv_py_in_y)) \<noteq> []
   \<and> list_all (\<lambda>(ci, err, tr). \<exists>c. pr_copy prt_ex (mk_array 3 [3] [4] True True) = Inr c
          \<and> in_arrays ci ''Y'' = c \<and> (\<forall>bc\<in>set (calls_of tr). kernel_buffer gemv_op bc ''Y'' = Some (ga_data c)))
       (py_calls (snd (py_op gemv_op prt_ex gemv_py_in_y)))"
proof -
  have h1: "gemv_op \<in> set make_ops" by (simp add: make_ops_eq)
  have h2: "vector ''Y'' True \<in> set (array_args gemv_op)" by (simp add: blas_defs)
  have h3: "arg_isoutput (vector ''Y'' True)" by (simp add: blas_defs)
  have h4: "pi_arrays gemv_py_in_y (arg_name (vector ''Y'' True)) = Some (mk_array 3 [3] [4] True True)"
    by (simp add: blas_defs)
  have h5: "\<not> pi_flags gemv_py_in_y (''overwrite_'' @ py_lower (arg_name (vector ''Y'' True)))"
    by (simp add: blas_defs)
  have run: "py_calls (snd (py_op gemv_op prt_ex gemv_py_in_y)) \<noteq> []" by (simp add: blas_defs Let_def)
  have "\<exists>c. pr_copy prt_ex (mk_array 3 [3] [4] True True) = Inr c \<and> in_arrays ci ''Y'' = c
          \<and> (\<forall>bc\<in>set (calls_of tr). kernel_buffer gemv_op bc ''Y'' = Some (ga_data c))"
    if "(ci, err, tr) \<in> set (py_calls (snd (py_op gemv_op prt_ex gemv_py_in_y)))" for ci err tr
    using py_op_copy_before_mutate [OF h1 h2 h3 h4 h5 that] by (simp add: vector_def array_arg_def)
  then show ?thesis using h1 h2 h4 h5 run
    by (auto simp: list_all_iff vector_def array_arg_def)
qed

theorem py_calls_result_witness:
  "py_calls (snd (py_op gemv_op prt_ex (gemv_py_in 0))) \<noteq> []
   \<and> list_all (\<lambda>(ci, err, tr). fst (py_op gemv_op prt_ex (gemv_py_in 0))
          = (if err = GA_NO_ERROR
             then Inr (map (\<lambda>a. in_arrays ci (arg_name a)) (filter arg_isoutput (array_args gemv_op)))
             else Inl (GpuArrayException err)))
       (py_calls (snd (py_op gemv_op prt_ex (gemv_py_in 0))))"
proof -
  have run: "py_calls (snd (py_op gemv_op prt_ex (gemv_py_in 0))) \<noteq> []" by (simp add: blas_defs Let_def)
  show ?thesis using run py_calls_result [of _ _ _ gemv_op prt_ex "gemv_py_in 0"]
    by (auto simp: list_all_iff)
qed

theorem py_prestep_refines_witness:
  "gemv_op \<in> set make_ops \<and> inputs_given gemv_op (gemv_py_in 0) \<and> alloc_total prt_total
   \<and> abs_prestep (py_prefix gemv_op prt_total (gemv_py_in 0)) = Some (spec_prestep gemv_op (gemv_py_in 0))
   \<and> spec_prestep gemv_op (gemv_py_in 0) = Allocate [3] False"
proof -
  have h1: "gemv_op \<in> set make_ops" by (simp add: make_ops_eq)
  have h2: "inputs_given gemv_op (gemv_py_in 0)" by (simp add: blas_defs)
  have h3: "alloc_total prt_total" by (simp add: alloc_total_def prt_total_def prt_ex_def)
  have "spec_prestep gemv_op (gemv_py_in 0) = Allocate [3] False" by (simp add: blas_defs Let_def)
  then show ?thesis using py_prestep_refines [OF h1 h2 h3] h1 h2 h3 by simp
qed

end
