(* ===== verification/Blas_Emit.thy ===== *)
theory Blas_Emit
  imports Blas_Desc
begin

text \<open>
  The multi-surface emitter of \<^verbatim>\<open>src/gen_blas.py\<close>: the renderers of each
  argument class (\<^verbatim>\<open>format_as_arg\<close>, \<^verbatim>\<open>format_simple_arg\<close>,
  \<^verbatim>\<open>format_simple_call\<close>, \<^verbatim>\<open>format_as_call\<close>,
  \<^verbatim>\<open>format_as_callarg\<close>, \<^verbatim>\<open>format_pyarg\<close>), the list renderers of
  \<^verbatim>\<open>BlasOp\<close>, and the template lines that put them into the five artefacts:
  the backend table of \<^verbatim>\<open>BUFFERBLAS_TMPL\<close>, the per-type functions and the
  table initializer of \<^verbatim>\<open>GENERIC_TMPL\<close>, the dispatch call of
  \<^verbatim>\<open>ARRAYBLAS_TMPL\<close>, the prototype of \<^verbatim>\<open>GpuArray_r<op>\<close> in
  \<^verbatim>\<open>BLAS_TMPL\<close>, and in \<^verbatim>\<open>BLAS_PYX_TMPL\<close> its \<^verbatim>\<open>extern\<close>
  declaration, the wrapper \<^verbatim>\<open>pygpu_blas_r<op>\<close>, the Python signatures
  and the names the Python bodies use.  The lemmas show the artefacts agree:
  the dispatch call has the arity of the table's prototype exactly when the
  operation has a matrix, the generic layer defines the functions the table
  declares, the table entries are named injectively, the Python signatures
  are well formed and read back to the descriptor's parameters, the C and
  Cython declarations of \<^verbatim>\<open>GpuArray_r<op>\<close> and the wrapper's call agree
  position by position, and the Python bodies use only bound names.
\<close>

section \<open>Argument renderers\<close>

text \<open>
  The class attributes of \<^verbatim>\<open>ScalarArg\<close>'s subclasses: \<^verbatim>\<open>tf_macro\<close> and,
  for \<^verbatim>\<open>size\<close>, \<^verbatim>\<open>inc\<close> and \<^verbatim>\<open>trans\<close>, the fixed \<^verbatim>\<open>ctype\<close>.
\<close>

definition tf_macro :: "arg_class \<Rightarrow> string" where
  "tf_macro c = (case c of ScalarC \<Rightarrow> ''SCAL'' | SizeC \<Rightarrow> ''SZ'' | IncC \<Rightarrow> [] | _ \<Rightarrow> ''TRANS'')"

definition class_ctype :: "arg_class \<Rightarrow> string" where
  "class_ctype c = (case c of SizeC \<Rightarrow> ''size_t'' | IncC \<Rightarrow> ''int'' | _ \<Rightarrow> ''cb_transpose'')"

definition const_prefix :: "argument \<Rightarrow> string" where
  "const_prefix a = (if arg_const a then ''const '' else [])"

text \<open>
  \<^verbatim>\<open>format_as_arg(ctype)\<close>: \<^verbatim>\<open>scalar\<close> declares the given C type,
  the other scalar classes their own, an array a buffer handle and an offset.
\<close>

definition format_as_arg :: "string \<Rightarrow> argument \<Rightarrow> string" where
  "format_as_arg ctype a =
     (case arg_cls a of
        ScalarC \<Rightarrow> const_prefix a @ ctype @ '' '' @ arg_name a
      | MatrixC \<Rightarrow> ''gpudata *'' @ arg_name a @ '', size_t off'' @ arg_name a
      | VectorC \<Rightarrow> ''gpudata *'' @ arg_name a @ '', size_t off'' @ arg_name a
      | c \<Rightarrow> const_prefix a @ class_ctype c @ '' '' @ arg_name a)"

text \<open>
  \<^verbatim>\<open>format_simple_arg(ctype, arraytype)\<close>: \<^verbatim>\<open>format_as_arg\<close> for the
  scalar classes (the class-body alias), the array type and name for arrays.
\<close>

definition format_simple_arg :: "string \<Rightarrow> string \<Rightarrow> argument \<Rightarrow> string" where
  "format_simple_arg ctype arraytype a =
     (if isarray a then arraytype @ arg_name a else format_as_arg ctype a)"

text \<open>
  Python's \<^verbatim>\<open>pat % (name,)\<close> for a pattern with one \<^verbatim>\<open>%s\<close> and no other
  conversion: the first \<^verbatim>\<open>%s\<close> is replaced by the name.
\<close>

fun py_percent_s :: "string \<Rightarrow> string \<Rightarrow> string" where
  "py_percent_s (c # d # cs) v =
     (if c = CHR ''%'' \<and> d = CHR ''s'' then v @ cs else c # py_percent_s (d # cs) v)"
| "py_percent_s cs v = cs"

definition format_simple_call :: "string \<Rightarrow> argument \<Rightarrow> string" where
  "format_simple_call arraypat a =
     (if isarray a then py_percent_s arraypat (arg_name a) else arg_name a)"

definition format_as_call :: "argument \<Rightarrow> string" where
  "format_as_call a =
     (if isarray a then ''ARRAY('' @ arg_name a @ '', dtype)''
      else tf_macro (arg_cls a) @ ''('' @ arg_name a @ '')'')"

text \<open>
  \<^verbatim>\<open>format_as_callarg(ctype)\<close>: the increment class reads the vector
  named by the last character of its own name, \<^verbatim>\<open>self.name[-1]\<close>.  The
  text is that of a non-empty name; the \<^verbatim>\<open>IndexError\<close> Python raises on an
  empty one is modelled in \<open>Blas_Driver\<close> (\<open>callarg_exc\<close>).
\<close>

definition format_as_callarg :: "string \<Rightarrow> argument \<Rightarrow> string" where
  "format_as_callarg ctype a =
     (case arg_cls a of
        ScalarC \<Rightarrow> ''('' @ ctype @ '')'' @ arg_name a
      | SizeC \<Rightarrow> py_lower (arg_name a)
      | IncC \<Rightarrow> [last (arg_name a)] @ ''p->strides[0] / elsize''
      | TransC \<Rightarrow> arg_name a
      | _ \<Rightarrow> arg_name a @ ''p->data, '' @ arg_name a @ ''p->offset / elsize'')"

text \<open>
  \<^verbatim>\<open>format_pyarg()\<close> exists on \<^verbatim>\<open>scalar\<close> and on the array classes only;
  on the others the attribute lookup raises, which is \<open>None\<close> here.
\<close>

definition pydef_suffix :: "argument \<Rightarrow> string" where
  "pydef_suffix a = (case arg_pydef a of None \<Rightarrow> [] | Some d \<Rightarrow> ''='' @ d)"

definition format_pyarg :: "argument \<Rightarrow> string option" where
  "format_pyarg a =
     (case arg_cls a of
        ScalarC \<Rightarrow> Some (''double '' @ arg_name a @ pydef_suffix a)
      | MatrixC \<Rightarrow> Some (''GpuArray '' @ arg_name a @ pydef_suffix a)
      | VectorC \<Rightarrow> Some (''GpuArray '' @ arg_name a @ pydef_suffix a)
      | _ \<Rightarrow> None)"

section \<open>Operation renderers\<close>

definition format_arguments :: "string \<Rightarrow> blas_op \<Rightarrow> string" where
  "format_arguments ctype op =
     (if has_order op then ''cb_order order, '' else [])
     @ py_join '', '' (map (format_as_arg ctype) (op_arguments op))"

definition format_blas_args :: "string \<Rightarrow> blas_op \<Rightarrow> string" where
  "format_blas_args ctype op = py_join '', '' (map (format_as_callarg ctype) (op_arguments op))"

definition format_call_args :: "blas_op \<Rightarrow> string" where
  "format_call_args op =
     (if has_order op then ''ORDER '' else []) @ py_join '', '' (map format_as_call (op_arguments op))"

definition format_simple_args :: "string \<Rightarrow> string \<Rightarrow> blas_op \<Rightarrow> string" where
  "format_simple_args ctype arraytype op =
     py_join '', '' (map (format_simple_arg ctype arraytype) (simple_args op))"

definition format_simple_call_op :: "string \<Rightarrow> blas_op \<Rightarrow> string" where
  "format_simple_call_op arraypat op = py_join '', '' (map (format_simple_call arraypat) (simple_args op))"

text \<open>
  \<^verbatim>\<open>format_pyargs()\<close>: the Python parameters of the array and scalar
  arguments, then one \<^verbatim>\<open>trans_x=False\<close> per transpose argument (named by
  the last character of its name) and one \<^verbatim>\<open>overwrite_x=False\<close> per output
  array.  It raises when a selected argument has no \<^verbatim>\<open>format_pyarg\<close>
  (\<open>None\<close>); the \<^verbatim>\<open>IndexError\<close> of \<^verbatim>\<open>t.name[-1]\<close> on an empty
  transpose name is modelled in \<open>Blas_Driver\<close> (\<open>pyargs_exc\<close>).
\<close>

definition format_pyargs :: "blas_op \<Rightarrow> string option" where
  "format_pyargs op =
     map_option (\<lambda>l. py_join '', ''
        (l @ map (\<lambda>t. ''trans_'' @ py_lower [last (arg_name t)] @ ''=False'') (args_per_class op TransC)
           @ map (\<lambda>a. ''overwrite_'' @ py_lower (arg_name a) @ ''=False'')
                 (filter arg_isoutput (array_args op))))
       (those (map format_pyarg (py_args op)))"

section \<open>Template lines\<close>

text \<open>
  The parameter list of a backend table entry in \<^verbatim>\<open>BUFFERBLAS_TMPL\<close>,
  \<^verbatim>\<open>int (*${type.c}${op.name})(${op.format_arguments(type.name)});\<close>, and the
  argument list of the dispatch through that entry in \<^verbatim>\<open>ARRAYBLAS_TMPL\<close>,
  \<^verbatim>\<open>blas->s${op.name}(o, ${op.format_blas_args('float')})\<close>.
\<close>

definition vtable_params :: "dtype \<Rightarrow> blas_op \<Rightarrow> string" where
  "vtable_params t op = format_arguments (dt_name t) op"

definition dispatch_args :: "string \<Rightarrow> blas_op \<Rightarrow> string" where
  "dispatch_args ctype op = ''o, '' @ format_blas_args ctype op"

text \<open>
  The number of parameters of a C parameter or argument list: none of the
  rendered items nests a comma inside parentheses, so it is one more than the
  number of commas.
\<close>

definition c_arity :: "string \<Rightarrow> nat" where
  "c_arity s = Suc (count_list s (CHR '',''))"

declare tf_macro_def [blas_defs] class_ctype_def [blas_defs] const_prefix_def [blas_defs]
  format_as_arg_def [blas_defs] format_simple_arg_def [blas_defs] format_simple_call_def [blas_defs]
  format_as_call_def [blas_defs] format_as_callarg_def [blas_defs] pydef_suffix_def [blas_defs]
  format_pyarg_def [blas_defs] format_arguments_def [blas_defs] format_blas_args_def [blas_defs]
  format_call_args_def [blas_defs] format_simple_args_def [blas_defs]
  format_simple_call_op_def [blas_defs] format_pyargs_def [blas_defs]
  vtable_params_def [blas_defs] dispatch_args_def [blas_defs] c_arity_def [blas_defs]

text \<open>
  The backend table.  \<^verbatim>\<open>BUFFERBLAS_TMPL\<close> declares the struct fields
  \<^verbatim>\<open>setup\<close>, \<^verbatim>\<open>teardown\<close>, one entry \<^verbatim>\<open>${type.c}${op.name}\<close> per
  operation and type with the prototype \<^verbatim>\<open>op.format_arguments(type.name)\<close>,
  and the two batched entries.  \<^verbatim>\<open>GENERIC_TMPL\<close> defines each per-type
  function through the macro \<^verbatim>\<open>OP(dtype, typec, TYPEC)\<close>, whose
  parameter list is \<^verbatim>\<open>op.format_arguments('dtype')\<close> with the macro
  parameter \<^verbatim>\<open>dtype\<close> replaced by the type name when the macro is
  instantiated, and lists the same names in the table initializer.
\<close>

definition buffer_entries :: "blas_op list \<Rightarrow> (string \<times> string) list" where
  "buffer_entries ops =
     concat (map (\<lambda>op. map (\<lambda>t. (dt_c t @ op_name op, format_arguments (dt_name t) op)) (op_types op)) ops)"

definition buffer_fields :: "blas_op list \<Rightarrow> string list" where
  "buffer_fields ops = [''setup'', ''teardown''] @ map fst (buffer_entries ops) @ [''sgemmBatch'', ''dgemmBatch'']"

text \<open>
  Macro-parameter replacement of the C preprocessor: every identifier token
  that names a parameter is replaced by that parameter's argument, all
  parameters at once; other tokens are kept.
\<close>

definition ident_char :: "char \<Rightarrow> bool" where
  "ident_char c =
     (let k = (of_char c :: nat) in
      (48 \<le> k \<and> k \<le> 57) \<or> (65 \<le> k \<and> k \<le> 90) \<or> (97 \<le> k \<and> k \<le> 122) \<or> k = 95)"

function subst_idents :: "(string \<rightharpoonup> string) \<Rightarrow> string \<Rightarrow> string" where
  "subst_idents \<sigma> [] = []"
| "subst_idents \<sigma> (c # cs) =
     (if ident_char c
      then (let w = c # takeWhile ident_char cs in
            (case \<sigma> w of Some v \<Rightarrow> v | None \<Rightarrow> w) @ subst_idents \<sigma> (dropWhile ident_char cs))
      else c # subst_idents \<sigma> cs)"
  by pat_completeness auto
termination
  by (relation "measure (\<lambda>(\<sigma>, s). length s)") (auto simp: le_imp_less_Suc length_dropWhile_le)

text \<open>
  The per-operation macro of \<^verbatim>\<open>GENERIC_TMPL\<close>,
  \<^verbatim>\<open>#define OP(dtype, typec, TYPEC)\<close> (line 435), instantiated as
  \<^verbatim>\<open>OP(${type.name}, ${type.c}, ${type.c.upper()})\<close> (line 460): the
  parameters and the arguments of one instantiation.
\<close>

definition generic_op_params :: "string list" where
  "generic_op_params = [''dtype'', ''typec'', ''TYPEC'']"

definition op_macro_args :: "dtype \<Rightarrow> (string \<times> string) list" where
  "op_macro_args t = zip generic_op_params [dt_name t, dt_c t, py_upper (dt_c t)]"

text \<open>
  The function each instantiation defines, \<^verbatim>\<open>static int typec ## ${op.name}(${op.format_arguments('dtype')})\<close>
  (line 436): its name and its parameter list after the replacement of the
  three macro parameters.
\<close>

definition generic_funcs :: "blas_op list \<Rightarrow> (string \<times> string) list" where
  "generic_funcs ops =
     concat (map (\<lambda>op. map (\<lambda>t. (dt_c t @ op_name op,
                                  subst_idents (map_of (op_macro_args t)) (format_arguments ''dtype'' op)))
                           (op_types op)) ops)"

definition generic_init :: "blas_op list \<Rightarrow> string list" where
  "generic_init ops =
     [''setup'', ''teardown''] @ concat (map (\<lambda>op. map (\<lambda>t. dt_c t @ op_name op) (op_types op)) ops)
     @ [''sgemmBatch'', ''dgemmBatch'']"

definition c_ident :: "string \<Rightarrow> bool" where
  "c_ident s \<longleftrightarrow> s \<noteq> [] \<and> list_all ident_char s"

declare buffer_entries_def [blas_defs] buffer_fields_def [blas_defs] ident_char_def [blas_defs]
  generic_funcs_def [blas_defs] generic_init_def [blas_defs]

text \<open>
  The Python signature \<^verbatim>\<open>def ${op.name}(${op.format_pyargs()}):\<close> read
  back: its items (Python's \<^verbatim>\<open>str.split(', ')\<close>), the name each
  item declares (the word before any default), and whether it has a default.
  Python rejects a signature that repeats a name or puts a parameter without
  default after one with a default.
\<close>

fun py_split :: "string \<Rightarrow> string list" where
  "py_split [] = [[]]"
| "py_split (c # cs) =
     (if c = CHR '','' \<and> cs \<noteq> [] \<and> hd cs = CHR '' '' then [] # py_split (tl cs)
      else (case py_split cs of w # ws \<Rightarrow> (c # w) # ws | [] \<Rightarrow> [[c]]))"

definition py_param_name :: "string \<Rightarrow> string" where
  "py_param_name item =
     rev (takeWhile (\<lambda>c. c \<noteq> CHR '' '') (rev (takeWhile (\<lambda>c. c \<noteq> CHR ''='') item)))"

definition py_has_default :: "string \<Rightarrow> bool" where
  "py_has_default item \<longleftrightarrow> CHR ''='' \<in> set item"

definition py_sig_ok :: "string list \<Rightarrow> bool" where
  "py_sig_ok items \<longleftrightarrow> distinct (map py_param_name items) \<and> sorted (map py_has_default items)"

declare py_param_name_def [blas_defs] py_has_default_def [blas_defs] py_sig_ok_def [blas_defs]

section \<open>Prototypes and calls of \<^verbatim>\<open>GpuArray_r<op>\<close>\<close>

text \<open>
  The parameter lists of the declarations of \<^verbatim>\<open>GpuArray_r<op>\<close> as items:
  the public header (\<^verbatim>\<open>BLAS_TMPL\<close>, lines 545-546; the definition in
  \<^verbatim>\<open>ARRAYBLAS_TMPL\<close>, lines 568-569, renders the same list), the Cython
  \<^verbatim>\<open>cdef extern\<close> declaration (lines 692-693) and the wrapper
  \<^verbatim>\<open>pygpu_blas_r<op>\<close> (lines 697-698); the arguments of the wrapper's
  call of \<^verbatim>\<open>GpuArray_r<op>\<close> (line 700) and of the Python function's call of
  the wrapper (line 733); the transpose locals the Python function declares
  (lines 709-713) and the options it reads (lines 716-722).  A parameter item
  is read back by its last word without pointer stars, and is a pointer when
  it contains a star.
\<close>

definition blas_h_params :: "blas_op \<Rightarrow> string list" where
  "blas_h_params op = py_split (format_simple_args ''double'' ''GpuArray *'' op) @ [''int nocopy'']"

definition pyx_extern_params :: "blas_op \<Rightarrow> string list" where
  "pyx_extern_params op = py_split (format_simple_args ''double'' ''_GpuArray *'' op) @ [''int nocopy'']"

definition pygpu_wrapper_params :: "blas_op \<Rightarrow> string list" where
  "pygpu_wrapper_params op = py_split (format_simple_args ''double'' ''GpuArray '' op) @ [''bint nocopy'']"

definition pygpu_call_args :: "blas_op \<Rightarrow> string list" where
  "pygpu_call_args op = py_split (format_simple_call_op ''&%s.ga'' op) @ [''nocopy'']"

definition trans_locals :: "blas_op \<Rightarrow> string list" where
  "trans_locals op = map (\<lambda>m. ''trans'' @ arg_name m) (filter (\<lambda>m. \<not> arg_isoutput m) (matrix_args op))"

definition trans_flags_read :: "blas_op \<Rightarrow> string list" where
  "trans_flags_read op =
     map (\<lambda>m. ''trans_'' @ py_lower (arg_name m)) (filter (\<lambda>m. \<not> arg_isoutput m) (matrix_args op))"

definition def_call_args :: "blas_op \<Rightarrow> string list" where
  "def_call_args op = py_split (format_simple_call_op ''%s'' op) @ [''0'']"

definition c_param_name :: "string \<Rightarrow> string" where
  "c_param_name item = dropWhile (\<lambda>c. c = CHR ''*'') (py_param_name item)"

definition ptr_param :: "string \<Rightarrow> bool" where
  "ptr_param item \<longleftrightarrow> CHR ''*'' \<in> set item"

definition call_fits :: "string \<Rightarrow> string \<Rightarrow> bool" where
  "call_fits arg param \<longleftrightarrow>
     (if ptr_param param then arg = ''&'' @ c_param_name param @ ''.ga'' else arg = c_param_name param)"

section \<open>Conditions on descriptors\<close>

text \<open>
  What the theorems below ask of a descriptor's names: no comma (the
  renderers join with commas), C identifiers other than the macro parameter,
  one-letter distinct type prefixes, and for the Python signature words with
  no comma, blank or equals sign.  The expected Python parameter list is
  the simplified surface's arguments, one \<^verbatim>\<open>trans_\<close> option per transpose
  argument and one \<^verbatim>\<open>overwrite_\<close> option per output array.
\<close>

definition comma_free :: "string \<Rightarrow> bool" where
  "comma_free s \<longleftrightarrow> CHR '','' \<notin> set s"

definition c_names_ok :: "blas_op \<Rightarrow> bool" where
  "c_names_ok op \<longleftrightarrow> (\<forall>a\<in>set (op_arguments op). c_ident (arg_name a) \<and> arg_name a \<noteq> ''dtype'')"

definition macro_names_ok :: "blas_op \<Rightarrow> bool" where
  "macro_names_ok op \<longleftrightarrow>
     (\<forall>a\<in>set (op_arguments op). c_ident (arg_name a) \<and> arg_name a \<notin> set generic_op_params)"

definition entry_names :: "blas_op list \<Rightarrow> string list" where
  "entry_names ops = concat (map (\<lambda>op. map (\<lambda>t. dt_c t @ op_name op) (op_types op)) ops)"

definition letters_ok :: "blas_op \<Rightarrow> bool" where
  "letters_ok op \<longleftrightarrow>
     distinct (map dt_c (op_types op)) \<and> (\<forall>t\<in>set (op_types op). length (dt_c t) = 1)"

definition plain_word :: "string \<Rightarrow> bool" where
  "plain_word s \<longleftrightarrow> CHR '','' \<notin> set s \<and> CHR '' '' \<notin> set s \<and> CHR ''='' \<notin> set s"

definition names_plain :: "blas_op \<Rightarrow> bool" where
  "names_plain op \<longleftrightarrow> (\<forall>a\<in>set (op_arguments op).
     plain_word (arg_name a) \<and> arg_name a \<noteq> [] \<and> (\<forall>d. arg_pydef a = Some d \<longrightarrow> comma_free d))"

definition py_param_names :: "blas_op \<Rightarrow> string list" where
  "py_param_names op =
     map arg_name (py_args op)
     @ map (\<lambda>t. ''trans_'' @ py_lower [last (arg_name t)]) (args_per_class op TransC)
     @ map (\<lambda>a. ''overwrite_'' @ py_lower (arg_name a)) (filter arg_isoutput (array_args op))"

definition pyarg_text :: "argument \<Rightarrow> string" where
  "pyarg_text a = (if arg_cls a = ScalarC then ''double'' else ''GpuArray'') @ CHR '' '' # arg_name a @ pydef_suffix a"

abbreviation pyarg_items :: "blas_op \<Rightarrow> string list" where
  "pyarg_items op \<equiv>
     map pyarg_text (py_args op)
     @ map (\<lambda>t. ''trans_'' @ py_lower [last (arg_name t)] @ ''=False'') (args_per_class op TransC)
     @ map (\<lambda>a. ''overwrite_'' @ py_lower (arg_name a) @ ''=False'') (filter arg_isoutput (array_args op))"

section \<open>Arity of the dispatch call\<close>

lemma count_list_py_join_comma:
  "count_list (py_join '', '' xs) (CHR '','')
     = sum_list (map (\<lambda>x. count_list x (CHR '','')) xs) + (length xs - 1)"
  by (induction "'', ''" xs rule: py_join.induct) simp_all

lemma lower_char_comma: "lower_char c = CHR '','' \<Longrightarrow> c = CHR '',''"
proof (rule ccontr)
  assume eq: "lower_char c = CHR '',''" and ne: "c \<noteq> CHR '',''"
  let ?k = "of_char c :: nat"
  have up: "65 \<le> ?k \<and> ?k \<le> 90" using eq ne by (auto simp: lower_char_def Let_def split: if_splits)
  then have "char_of (?k + 32) = CHR '',''" using eq by (simp add: lower_char_def Let_def)
  then have "(of_char (char_of (?k + 32) :: char) :: nat) = 44" by simp
  moreover have "(of_char (char_of (?k + 32) :: char) :: nat) = ?k + 32"
    using up by (simp add: of_char_of)
  ultimately show False using up by simp
qed

lemma lower_char_comma_iff: "lower_char c = CHR '','' \<longleftrightarrow> c = CHR '',''"
proof
  show "c = CHR '','' \<Longrightarrow> lower_char c = CHR '',''" by (simp add: lower_char_def)
qed (rule lower_char_comma)

lemma count_list_py_lower_comma:
  "count_list (py_lower s) (CHR '','') = count_list s (CHR '','')"
  by (induction s) (simp_all add: py_lower_def lower_char_comma_iff)

lemma count_list_comma_free [simp]: "comma_free s \<Longrightarrow> count_list s (CHR '','') = 0"
  by (simp add: comma_free_def count_list_0_iff)

lemma comma_free_last: "comma_free s \<Longrightarrow> s \<noteq> [] \<Longrightarrow> last s \<noteq> CHR '',''"
  using last_in_set by (fastforce simp: comma_free_def)

lemma format_as_arg_commas:
  "comma_free ctype \<Longrightarrow> comma_free (arg_name a) \<Longrightarrow>
   count_list (format_as_arg ctype a) (CHR '','') = (if isarray a then 1 else 0)"
  by (cases "arg_cls a") (simp_all add: format_as_arg_def isarray_def const_prefix_def class_ctype_def)

lemma format_as_callarg_commas:
  "comma_free ctype \<Longrightarrow> comma_free (arg_name a) \<Longrightarrow> arg_name a \<noteq> [] \<Longrightarrow>
   count_list (format_as_callarg ctype a) (CHR '','') = (if isarray a then 1 else 0)"
  by (cases "arg_cls a")
     (simp_all add: format_as_callarg_def isarray_def count_list_py_lower_comma comma_free_last)

lemma sum_list_map_cong_set:
  "(\<And>x. x \<in> set xs \<Longrightarrow> f x = g x) \<Longrightarrow> sum_list (map f xs) = sum_list (map g xs)"
  by (metis map_cong)

lemma format_arguments_commas:
  assumes "comma_free ctype" and "\<forall>a\<in>set (op_arguments op). comma_free (arg_name a)"
  shows "count_list (format_arguments ctype op) (CHR '','')
           = (if has_order op then 1 else 0)
             + sum_list (map (\<lambda>a. if isarray a then 1 else 0) (op_arguments op))
             + (length (op_arguments op) - 1)"
proof -
  have "sum_list (map (\<lambda>x. count_list x (CHR '','')) (map (format_as_arg ctype) (op_arguments op)))
          = sum_list (map (\<lambda>a. if isarray a then 1 else 0) (op_arguments op))"
    unfolding map_map comp_def using assms by (intro sum_list_map_cong_set) (simp add: format_as_arg_commas)
  then show ?thesis by (simp add: format_arguments_def count_list_py_join_comma)
qed

lemma dispatch_args_commas:
  assumes "comma_free ctype" and "\<forall>a\<in>set (op_arguments op). comma_free (arg_name a) \<and> arg_name a \<noteq> []"
  shows "count_list (dispatch_args ctype op) (CHR '','')
           = 1 + sum_list (map (\<lambda>a. if isarray a then 1 else 0) (op_arguments op))
             + (length (op_arguments op) - 1)"
proof -
  have "sum_list (map (\<lambda>x. count_list x (CHR '','')) (map (format_as_callarg ctype) (op_arguments op)))
          = sum_list (map (\<lambda>a. if isarray a then 1 else 0) (op_arguments op))"
    unfolding map_map comp_def using assms by (intro sum_list_map_cong_set) (simp add: format_as_callarg_commas)
  then show ?thesis by (simp add: dispatch_args_def format_blas_args_def count_list_py_join_comma)
qed

text \<open>
  C7.  The dispatch in \<^verbatim>\<open>GpuArray_r<op>\<close> calls a table entry with the
  arity of the entry's prototype exactly when the operation has a matrix
  argument: the prototype declares \<^verbatim>\<open>cb_order order\<close> only then, while
  the call always passes \<^verbatim>\<open>o\<close>.  This holds for every descriptor whose
  argument names are non-empty and contain no comma, and every element type.
\<close>

theorem dispatch_arity:
  assumes "comma_free (dt_name t)" and "comma_free ctype"
    and "\<forall>a\<in>set (op_arguments op). comma_free (arg_name a) \<and> arg_name a \<noteq> []"
  shows "c_arity (vtable_params t op) = c_arity (dispatch_args ctype op) \<longleftrightarrow> has_order op"
  using format_arguments_commas [OF assms(1)] dispatch_args_commas [OF assms(2,3)] assms(3)
  by (simp add: c_arity_def vtable_params_def)

section \<open>Macro instantiation of the per-type functions\<close>

lemma takeWhile_ident_boundary:
  "s2 = [] \<or> \<not> ident_char (hd s2) \<Longrightarrow>
   takeWhile ident_char (cs @ s2) = takeWhile ident_char cs"
  by (induction cs) (cases s2; auto)+

lemma dropWhile_ident_boundary:
  "s2 = [] \<or> \<not> ident_char (hd s2) \<Longrightarrow>
   dropWhile ident_char (cs @ s2) = dropWhile ident_char cs @ s2"
  by (induction cs) (cases s2; auto)+

text \<open>A token boundary before \<open>s2\<close> lets the replacement work on each side alone.\<close>

lemma subst_idents_append:
  "s2 = [] \<or> \<not> ident_char (hd s2) \<Longrightarrow>
   subst_idents \<sigma> (s1 @ s2) = subst_idents \<sigma> s1 @ subst_idents \<sigma> s2"
proof (induction \<sigma> s1 rule: subst_idents.induct)
  case (1 \<sigma>)
  then show ?case by simp
next
  case (2 \<sigma> c cs)
  then show ?case
    by (simp add: takeWhile_ident_boundary dropWhile_ident_boundary Let_def)
qed

lemma subst_idents_token:
  "c_ident w \<Longrightarrow> s = [] \<or> \<not> ident_char (hd s) \<Longrightarrow>
   subst_idents \<sigma> (w @ s) = (case \<sigma> w of Some v \<Rightarrow> v | None \<Rightarrow> w) @ subst_idents \<sigma> s"
proof -
  assume w: "c_ident w" and s: "s = [] \<or> \<not> ident_char (hd s)"
  then obtain c cs where wc: "w = c # cs" and ids: "ident_char c" "list_all ident_char cs"
    by (cases w) (auto simp: c_ident_def)
  then have "takeWhile ident_char cs = cs" "dropWhile ident_char cs = []"
    by (simp_all add: list_all_iff)
  moreover have "takeWhile ident_char s = []" "dropWhile ident_char s = s"
    using s by (cases s; simp)+
  ultimately show ?thesis using wc ids by (simp add: Let_def split: option.split)
qed

lemma subst_idents_nonident [simp]:
  "\<not> ident_char c \<Longrightarrow> subst_idents \<sigma> (c # s) = c # subst_idents \<sigma> s"
  by simp

lemma subst_idents_py_join:
  "subst_idents \<sigma> (py_join '', '' xs) = py_join '', '' (map (subst_idents \<sigma>) xs)"
proof (induction "'', ''" xs rule: py_join.induct)
  case (3 a b ys)
  then show ?case by (simp add: subst_idents_append ident_char_def)
qed simp_all

lemma c_ident_whiles:
  "c_ident w \<Longrightarrow> takeWhile ident_char w = w \<and> dropWhile ident_char w = []"
  by (simp add: c_ident_def list_all_iff)

lemma op_macro_args_lookup:
  "map_of (op_macro_args t) x =
     (if x = ''dtype'' then Some (dt_name t) else if x = ''typec'' then Some (dt_c t)
      else if x = ''TYPEC'' then Some (py_upper (dt_c t)) else None)"
  by (simp add: op_macro_args_def generic_op_params_def)

text \<open>
  A parameter list rendered for the macro parameter \<^verbatim>\<open>dtype\<close> becomes,
  after the replacement, the list rendered for the instantiation's type, when
  no argument is named after a macro parameter.
\<close>

lemma subst_format_as_arg:
  assumes "c_ident (arg_name a)" and "arg_name a \<notin> set generic_op_params"
  shows "subst_idents (map_of (op_macro_args t)) (format_as_arg ''dtype'' a) = format_as_arg (dt_name t) a"
proof -
  let ?\<sigma> = "map_of (op_macro_args t)"
  have none: "?\<sigma> (arg_name a) = None"
    using assms(2) by (simp add: op_macro_args_lookup generic_op_params_def)
  have tok: "subst_idents ?\<sigma> (arg_name a @ s) = arg_name a @ subst_idents ?\<sigma> s"
    if "s = [] \<or> \<not> ident_char (hd s)" for s
    using subst_idents_token [OF assms(1) that, of ?\<sigma>] none by simp
  have off: "subst_idents ?\<sigma> (''off'' @ arg_name a) = ''off'' @ arg_name a"
    using assms(1) by (simp add: Let_def c_ident_whiles ident_char_def takeWhile_append dropWhile_append
                                 c_ident_def list_all_iff op_macro_args_lookup)
  show ?thesis
    using assms tok [of "[]"] tok [of "'', size_t off'' @ arg_name a"] off
    by (cases "arg_cls a")
       (simp_all add: format_as_arg_def const_prefix_def class_ctype_def ident_char_def Let_def
                      op_macro_args_lookup)
qed

lemma subst_format_arguments:
  assumes "macro_names_ok op"
  shows "subst_idents (map_of (op_macro_args t)) (format_arguments ''dtype'' op) = format_arguments (dt_name t) op"
proof -
  have eq: "map (subst_idents (map_of (op_macro_args t)) \<circ> format_as_arg ''dtype'') (op_arguments op)
          = map (format_as_arg (dt_name t)) (op_arguments op)"
    using assms by (simp add: macro_names_ok_def subst_format_as_arg cong: map_cong)
  show ?thesis
    by (simp add: format_arguments_def subst_idents_py_join ident_char_def Let_def eq op_macro_args_lookup)
qed

lemma generic_init_fields: "generic_init ops = buffer_fields ops"
  by (simp add: generic_init_def buffer_fields_def buffer_entries_def map_concat comp_def)

text \<open>
  C8.  The function the per-operation macro of \<^verbatim>\<open>GENERIC_TMPL\<close> defines
  for each type has exactly the parameter list that \<^verbatim>\<open>BUFFERBLAS_TMPL\<close>
  declares for the table slot of that name, in the table's order: replacing
  the macro parameters \<^verbatim>\<open>dtype\<close>, \<^verbatim>\<open>typec\<close> and \<^verbatim>\<open>TYPEC\<close> of
  \<^verbatim>\<open>format_arguments('dtype')\<close> by the type's name, letter and upper-case
  letter gives \<^verbatim>\<open>format_arguments(type.name)\<close>.  This holds for every
  descriptor table whose argument names are C identifiers other than the three
  macro parameters.
\<close>

theorem generic_table_agrees:
  assumes "\<forall>op\<in>set ops. macro_names_ok op"
  shows "generic_funcs ops = buffer_entries ops"
  using assms by (simp add: generic_funcs_def buffer_entries_def subst_format_arguments cong: map_cong)

section \<open>Names of the table entries\<close>

lemma buffer_fields_entry_names:
  "buffer_fields ops = [''setup'', ''teardown''] @ entry_names ops @ [''sgemmBatch'', ''dgemmBatch'']"
  by (simp add: buffer_fields_def buffer_entries_def entry_names_def map_concat comp_def)

lemma one_letter_append_eq:
  "length c = 1 \<Longrightarrow> length c' = 1 \<Longrightarrow> c @ n = c' @ n' \<longleftrightarrow> c = c' \<and> n = n'"
  by (auto simp: append_eq_append_conv)

lemma entry_names_set:
  "x \<in> set (entry_names ops) \<Longrightarrow> \<forall>op\<in>set ops. letters_ok op \<Longrightarrow>
   \<exists>op\<in>set ops. drop 1 x = op_name op"
  by (auto simp: entry_names_def letters_ok_def)

lemma entry_names_distinct:
  "distinct (map op_name ops) \<Longrightarrow> \<forall>op\<in>set ops. letters_ok op \<Longrightarrow> distinct (entry_names ops)"
proof (induction ops)
  case Nil
  then show ?case by (simp add: entry_names_def)
next
  case (Cons op ops)
  have lo: "letters_ok op" using Cons.prems by simp
  have d1: "distinct (map (\<lambda>t. dt_c t @ op_name op) (op_types op))"
    using lo by (auto simp: letters_ok_def distinct_map inj_on_def one_letter_append_eq)
  have "drop 1 x \<noteq> op_name op" if "x \<in> set (entry_names ops)" for x
    using entry_names_set [OF that] Cons.prems by auto
  then have disj: "set (map (\<lambda>t. dt_c t @ op_name op) (op_types op)) \<inter> set (entry_names ops) = {}"
    using lo by (fastforce simp: letters_ok_def)
  have "entry_names (op # ops) = map (\<lambda>t. dt_c t @ op_name op) (op_types op) @ entry_names ops"
    by (simp add: entry_names_def)
  then show ?case using d1 disj Cons by simp
qed

text \<open>
  C9.  The fields of the backend table struct are pairwise distinct, so the
  struct compiles and each per-type entry \<^verbatim>\<open><type letter><op name>\<close> names
  one (operation, type) pair: for every table whose operation names are
  distinct, whose types per operation have distinct one-letter codes, and whose
  operation names are none of \<^verbatim>\<open>etup\<close>, \<^verbatim>\<open>eardown\<close>,
  \<^verbatim>\<open>gemmBatch\<close> (which would collide with the fixed fields).
\<close>

theorem buffer_fields_distinct:
  assumes "distinct (map op_name ops)" and "\<forall>op\<in>set ops. letters_ok op"
    and "\<forall>op\<in>set ops. op_name op \<notin> {''etup'', ''eardown'', ''gemmBatch''}"
  shows "distinct (buffer_fields ops)"
proof -
  have "drop 1 x \<notin> {''etup'', ''eardown'', ''gemmBatch''}" if "x \<in> set (entry_names ops)" for x
    using entry_names_set [OF that assms(2)] assms(3) by auto
  then have "x \<notin> {''setup'', ''teardown'', ''sgemmBatch'', ''dgemmBatch''}"
    if "x \<in> set (entry_names ops)" for x
    using that by fastforce
  then show ?thesis
    using entry_names_distinct [OF assms(1,2)] by (auto simp: buffer_fields_entry_names)
qed

section \<open>The Python signatures\<close>

lemma format_pyarg_Some:
  "isarray a \<or> arg_cls a = ScalarC \<Longrightarrow> \<exists>y. format_pyarg a = Some y"
  by (cases "arg_cls a") (simp_all add: format_pyarg_def isarray_def)

lemma those_Some_iff: "those xs \<noteq> None \<longleftrightarrow> (\<forall>x\<in>set xs. x \<noteq> None)"
  by (induction xs) (auto split: option.splits)

text \<open>
  C10.  Rendering the Python signature never fails on a missing method:
  \<^verbatim>\<open>format_pyargs\<close> calls \<^verbatim>\<open>format_pyarg\<close> only on the arguments
  \<^verbatim>\<open>py_args\<close> selects, and each of them has that method, for every
  descriptor.  (Its other raising expression, \<^verbatim>\<open>t.name[-1]\<close> on a
  transpose argument with an empty name, is modelled in \<open>Blas_Driver\<close>.)
\<close>

theorem format_pyargs_total: "\<exists>s. format_pyargs op = Some s"
proof -
  have "those (map format_pyarg (py_args op)) \<noteq> None"
    unfolding those_Some_iff by (auto simp: py_args_def format_pyarg_Some)
  then obtain l where "those (map format_pyarg (py_args op)) = Some l" by auto
  then show ?thesis by (simp add: format_pyargs_def)
qed

text \<open>
  The three Python signatures the binding template emits are valid
  Python: no parameter name repeats and every parameter after one with a
  default has a default.
\<close>

theorem make_ops_py_signatures_ok:
  "list_all (\<lambda>op. \<exists>s. format_pyargs op = Some s \<and> py_sig_ok (py_split s)) make_ops"
  by (simp add: blas_defs Let_def)

section \<open>Reading the Python signature back\<close>

lemma py_split_append_comma:
  "comma_free x \<Longrightarrow> py_split (x @ CHR '','' # CHR '' '' # rest) = x # py_split rest"
proof (induction x)
  case Nil
  then show ?case by simp
next
  case (Cons c cs)
  then show ?case by (auto simp: comma_free_def)
qed

lemma py_split_comma_free: "comma_free x \<Longrightarrow> py_split x = [x]"
proof (induction x)
  case (Cons c cs)
  then show ?case by (auto simp: comma_free_def)
qed simp

lemma py_split_py_join:
  "xs \<noteq> [] \<Longrightarrow> list_all comma_free xs \<Longrightarrow> py_split (py_join '', '' xs) = xs"
proof (induction "'', ''" xs rule: py_join.induct)
  case (2 x)
  then show ?case by (simp add: py_split_comma_free)
next
  case (3 x y ys)
  then show ?case by (simp add: py_split_append_comma)
qed simp

lemma lower_char_fixed:
  assumes nd: "\<not> (97 \<le> (of_char d :: nat) \<and> (of_char d :: nat) \<le> 122)"
    and nu: "\<not> (65 \<le> (of_char d :: nat) \<and> (of_char d :: nat) \<le> 90)"
  shows "lower_char c = d \<longleftrightarrow> c = d"
proof
  assume eq: "lower_char c = d"
  show "c = d"
  proof (rule ccontr)
    assume "c \<noteq> d"
    then have up: "65 \<le> (of_char c :: nat) \<and> (of_char c :: nat) \<le> 90" and "char_of (of_char c + 32 :: nat) = d"
      using eq by (auto simp: lower_char_def Let_def split: if_splits)
    then have "(of_char d :: nat) = of_char c + 32" using up by (auto simp: of_char_of)
    then show False using nd up by simp
  qed
next
  assume "c = d"
  with nu show "lower_char c = d" by (auto simp: lower_char_def Let_def)
qed

lemma lower_char_punct:
  "lower_char c = CHR '' '' \<longleftrightarrow> c = CHR '' ''" "lower_char c = CHR ''='' \<longleftrightarrow> c = CHR ''=''"
  by (simp_all add: lower_char_fixed)

lemma plain_word_py_lower: "plain_word (py_lower s) \<longleftrightarrow> plain_word s"
  by (auto simp: plain_word_def py_lower_def image_iff eq_commute [of _ "lower_char _"]
                 lower_char_comma_iff lower_char_punct)

lemma those_map_Some: "(\<And>x. x \<in> set xs \<Longrightarrow> f x = Some (g x)) \<Longrightarrow> those (map f xs) = Some (map g xs)"
  by (induction xs) auto

lemma format_pyargs_eq:
  "format_pyargs op = Some (py_join '', ''
      (map pyarg_text (py_args op)
       @ map (\<lambda>t. ''trans_'' @ py_lower [last (arg_name t)] @ ''=False'') (args_per_class op TransC)
       @ map (\<lambda>a. ''overwrite_'' @ py_lower (arg_name a) @ ''=False'') (filter arg_isoutput (array_args op))))"
proof -
  have "those (map format_pyarg (py_args op)) = Some (map pyarg_text (py_args op))"
    by (rule those_map_Some) (auto simp: py_args_def format_pyarg_def pyarg_text_def isarray_def)
  then show ?thesis by (simp add: format_pyargs_def)
qed

lemma takeWhile_not_in: "c \<notin> set w \<Longrightarrow> takeWhile (\<lambda>x. x \<noteq> c) (w @ rest) = w @ takeWhile (\<lambda>x. x \<noteq> c) rest"
  by (induction w) auto

lemma pydef_suffix_eq: "takeWhile (\<lambda>x. x \<noteq> CHR ''='') (pydef_suffix a) = []"
  by (simp add: pydef_suffix_def split: option.split)

lemma py_param_name_word:
  "plain_word w \<Longrightarrow> takeWhile (\<lambda>x. x \<noteq> CHR ''='') rest = [] \<Longrightarrow> py_param_name (w @ rest) = w"
proof -
  assume w: "plain_word w" and r: "takeWhile (\<lambda>x. x \<noteq> CHR ''='') rest = []"
  have "takeWhile (\<lambda>x. x \<noteq> CHR ''='') (w @ rest) = w"
    using w r by (simp add: takeWhile_not_in plain_word_def)
  moreover have "takeWhile (\<lambda>x. x \<noteq> CHR '' '') (rev w) = rev w"
    using w by (auto simp: plain_word_def takeWhile_eq_all_conv)
  ultimately show ?thesis by (simp only: py_param_name_def rev_rev_ident)
qed

lemma py_param_name_typed:
  "CHR ''='' \<notin> set ty \<Longrightarrow> plain_word n \<Longrightarrow> py_param_name (ty @ CHR '' '' # n @ pydef_suffix a) = n"
proof -
  assume ty: "CHR ''='' \<notin> set ty" and n: "plain_word n"
  have "takeWhile (\<lambda>x. x \<noteq> CHR ''='') (ty @ CHR '' '' # n @ pydef_suffix a) = ty @ CHR '' '' # n"
    using ty n by (simp add: takeWhile_not_in plain_word_def pydef_suffix_eq)
  moreover have "takeWhile (\<lambda>x. x \<noteq> CHR '' '') (rev n @ CHR '' '' # rev ty) = rev n"
    using n by (simp add: takeWhile_not_in plain_word_def)
  ultimately show ?thesis by (simp add: py_param_name_def)
qed

lemma py_has_default_typed:
  "CHR ''='' \<notin> set ty \<Longrightarrow> plain_word n \<Longrightarrow>
   py_has_default (ty @ CHR '' '' # n @ pydef_suffix a) \<longleftrightarrow> arg_pydef a \<noteq> None"
  by (cases "arg_pydef a") (auto simp: py_has_default_def plain_word_def pydef_suffix_def)

lemma plain_word_flag: "plain_word n \<Longrightarrow> n \<noteq> [] \<Longrightarrow> plain_word (''trans_'' @ py_lower [last n])"
  "plain_word n \<Longrightarrow> plain_word (''overwrite_'' @ py_lower n)"
  by (auto simp: plain_word_py_lower[of "[last n]", unfolded plain_word_def]
                 plain_word_py_lower[of n, unfolded plain_word_def] plain_word_def dest: last_in_set)

lemma pyarg_text_comma_free:
  "plain_word (arg_name a) \<Longrightarrow> (\<forall>d. arg_pydef a = Some d \<longrightarrow> comma_free d) \<Longrightarrow> comma_free (pyarg_text a)"
  by (cases "arg_pydef a") (auto simp: pyarg_text_def pydef_suffix_def comma_free_def plain_word_def)

lemma plain_word_comma_free: "plain_word w \<Longrightarrow> comma_free (w @ ''=False'')"
  by (simp add: plain_word_def comma_free_def)

lemma py_param_name_flag: "plain_word w \<Longrightarrow> py_param_name (w @ ''=False'') = w"
  by (rule py_param_name_word) simp_all

lemma flag_comma_free:
  "plain_word n \<Longrightarrow> n \<noteq> [] \<Longrightarrow> comma_free (''trans_'' @ py_lower [last n] @ ''=False'')"
  "plain_word n \<Longrightarrow> comma_free (''overwrite_'' @ py_lower n @ ''=False'')"
  using plain_word_comma_free[OF plain_word_flag(1)] plain_word_comma_free[OF plain_word_flag(2)] by simp_all

lemma map_param_name_flags:
  "\<forall>x\<in>set xs. plain_word (f x) \<Longrightarrow> map (\<lambda>x. py_param_name (f x @ ''=False'')) xs = map f xs"
  by (induction xs) (simp_all add: py_param_name_flag)

lemma names_plainD:
  assumes "names_plain op"
  shows "a \<in> set (py_args op) \<Longrightarrow> plain_word (arg_name a) \<and> (\<forall>d. arg_pydef a = Some d \<longrightarrow> comma_free d)"
    and "t \<in> set (args_per_class op TransC) \<Longrightarrow> plain_word (arg_name t) \<and> arg_name t \<noteq> []"
    and "b \<in> set (filter arg_isoutput (array_args op)) \<Longrightarrow> plain_word (arg_name b)"
  using assms by (auto simp: names_plain_def py_args_def args_per_class_def array_args_def)

lemma pyarg_items_comma_free: "names_plain op \<Longrightarrow> list_all comma_free (pyarg_items op)"
  using names_plainD [of op] flag_comma_free
  by (auto simp: list_all_iff pyarg_text_comma_free)

lemma pyarg_items_names: "names_plain op \<Longrightarrow> map py_param_name (pyarg_items op) = py_param_names op"
proof -
  assume ok: "names_plain op"
  have n1: "map (\<lambda>a. py_param_name (pyarg_text a)) (py_args op) = map arg_name (py_args op)"
    using names_plainD(1) [OF ok] by (simp add: pyarg_text_def py_param_name_typed)
  have n2: "\<forall>t\<in>set (args_per_class op TransC). plain_word (''trans_'' @ py_lower [last (arg_name t)])"
    using names_plainD(2) [OF ok] plain_word_flag(1) by blast
  have n3: "\<forall>a\<in>set (filter arg_isoutput (array_args op)). plain_word (''overwrite_'' @ py_lower (arg_name a))"
    using names_plainD(3) [OF ok] plain_word_flag(2) by blast
  show ?thesis
    using n1 map_param_name_flags [OF n2] map_param_name_flags [OF n3]
    by (simp add: py_param_names_def)
qed

lemma map_has_default_flags:
  "map (\<lambda>x. py_has_default (f x @ ''=False'')) xs = replicate (length xs) True"
  by (simp add: py_has_default_def map_replicate_const)

lemma pyarg_items_defaults:
  "names_plain op \<Longrightarrow> map py_has_default (pyarg_items op) =
     map (\<lambda>a. arg_pydef a \<noteq> None) (py_args op)
     @ replicate (length (args_per_class op TransC) + length (filter arg_isoutput (array_args op))) True"
proof -
  assume ok: "names_plain op"
  have "map (\<lambda>a. py_has_default (pyarg_text a)) (py_args op) = map (\<lambda>a. arg_pydef a \<noteq> None) (py_args op)"
    using names_plainD(1) [OF ok] by (simp add: pyarg_text_def py_has_default_typed)
  then show ?thesis
    unfolding map_append map_map comp_def append_assoc [symmetric] map_has_default_flags replicate_add
    by simp
qed

text \<open>
  C17.  Reading the rendered Python signature back gives the parameters the
  descriptor asks for: split at \<^verbatim>\<open>, \<close>, the items declare, in order,
  the arguments of \<^verbatim>\<open>py_args\<close>, one \<^verbatim>\<open>trans_<letter>\<close> option per
  transpose argument and one \<^verbatim>\<open>overwrite_<name>\<close> option per output array;
  an argument has a default exactly when its descriptor gives one, and every
  option has one.  This holds for every descriptor whose names are plain
  words and whose defaults contain no comma.
\<close>

theorem format_pyargs_read_back:
  assumes ok: "names_plain op" and ne: "py_args op \<noteq> []"
  shows "\<exists>s. format_pyargs op = Some s
           \<and> map py_param_name (py_split s) = py_param_names op
           \<and> map py_has_default (py_split s) =
                 map (\<lambda>a. arg_pydef a \<noteq> None) (py_args op)
                 @ replicate (length (args_per_class op TransC)
                              + length (filter arg_isoutput (array_args op))) True"
proof -
  have "py_split (py_join '', '' (pyarg_items op)) = pyarg_items op"
    using ne pyarg_items_comma_free [OF ok] by (simp add: py_split_py_join)
  then show ?thesis
    using format_pyargs_eq pyarg_items_names [OF ok] pyarg_items_defaults [OF ok] by simp
qed

section \<open>Prototypes agree across the artefacts\<close>

lemma c_ident_chars:
  "c_ident n \<Longrightarrow> CHR '','' \<notin> set n \<and> CHR '' '' \<notin> set n \<and> CHR ''='' \<notin> set n \<and> CHR ''*'' \<notin> set n"
  by (auto simp: c_ident_def list_all_iff ident_char_def Let_def)

lemma c_ident_plain: "c_ident n \<Longrightarrow> plain_word n"
  using c_ident_chars by (simp add: plain_word_def)

lemma py_param_name_last:
  assumes "CHR ''='' \<notin> set ty" and "CHR '' '' \<notin> set w" and "CHR ''='' \<notin> set w"
  shows "py_param_name (ty @ CHR '' '' # w) = w"
proof -
  have t1: "takeWhile (\<lambda>c. c \<noteq> CHR ''='') (ty @ CHR '' '' # w) = ty @ CHR '' '' # w"
    using assms by (auto simp: takeWhile_eq_all_conv)
  have t2: "takeWhile (\<lambda>c. c \<noteq> CHR '' '') (rev (ty @ CHR '' '' # w)) = rev w"
    using assms(2) by (simp add: takeWhile_not_in)
  show ?thesis unfolding py_param_name_def t1 t2 by simp
qed

lemma c_param_name_decl:
  assumes "CHR ''='' \<notin> set ty" and "c_ident n" and "set pfx \<subseteq> {CHR ''*''}"
  shows "c_param_name (ty @ CHR '' '' # pfx @ n) = n"
proof -
  have n: "CHR '' '' \<notin> set n" "CHR ''='' \<notin> set n" "CHR ''*'' \<notin> set n" "n \<noteq> []"
    using c_ident_chars [OF assms(2)] assms(2) by (simp_all add: c_ident_def)
  have "py_param_name (ty @ CHR '' '' # pfx @ n) = pfx @ n"
    using assms(1,3) n by (intro py_param_name_last) auto
  moreover have "dropWhile (\<lambda>c. c = CHR ''*'') (pfx @ n) = n"
    using assms(3) n by (cases n) (auto simp: dropWhile_append)
  ultimately show ?thesis by (simp add: c_param_name_def)
qed

lemma c_param_name_arrays:
  "c_ident n \<Longrightarrow> c_param_name (''GpuArray *'' @ n) = n \<and> c_param_name (''_GpuArray *'' @ n) = n
     \<and> c_param_name (''GpuArray '' @ n) = n"
  using c_param_name_decl [of "''GpuArray''" n "''*''"] c_param_name_decl [of "''_GpuArray''" n "''*''"]
    c_param_name_decl [of "''GpuArray''" n "[]"]
  by simp

lemma simple_arg_shape:
  "a \<in> set (simple_args op) \<Longrightarrow> format_simple_arg ''double'' arrty a =
     (if isarray a then arrty @ arg_name a
      else (const_prefix a @ (if arg_cls a = ScalarC then ''double'' else ''cb_transpose'')) @ CHR '' '' # arg_name a)"
  by (cases "arg_cls a") (auto simp: simple_args_def format_simple_arg_def format_as_arg_def isarray_def class_ctype_def)

lemma simple_arg_read:
  assumes "a \<in> set (simple_args op)" and "c_ident (arg_name a)"
  shows "c_param_name (format_simple_arg ''double'' ''GpuArray *'' a) = arg_name a"
    and "c_param_name (format_simple_arg ''double'' ''_GpuArray *'' a) = arg_name a"
    and "c_param_name (format_simple_arg ''double'' ''GpuArray '' a) = arg_name a"
    and "ptr_param (format_simple_arg ''double'' ''GpuArray *'' a) \<longleftrightarrow> isarray a"
    and "ptr_param (format_simple_arg ''double'' ''_GpuArray *'' a) \<longleftrightarrow> isarray a"
    and "CHR '','' \<notin> set arrty \<Longrightarrow> comma_free (format_simple_arg ''double'' arrty a)"
proof -
  have scal: "c_param_name ((const_prefix a @ ty) @ CHR '' '' # arg_name a) = arg_name a"
    if "CHR ''='' \<notin> set ty" for ty
    using c_param_name_decl [of "const_prefix a @ ty" "arg_name a" "[]"] that assms(2)
    by (simp add: const_prefix_def)
  show "c_param_name (format_simple_arg ''double'' ''GpuArray *'' a) = arg_name a"
    "c_param_name (format_simple_arg ''double'' ''_GpuArray *'' a) = arg_name a"
    "c_param_name (format_simple_arg ''double'' ''GpuArray '' a) = arg_name a"
    using c_param_name_arrays [OF assms(2)] scal [of "''double''"] scal [of "''cb_transpose''"]
    by (simp_all add: simple_arg_shape [OF assms(1)])
  show "ptr_param (format_simple_arg ''double'' ''GpuArray *'' a) \<longleftrightarrow> isarray a"
    "ptr_param (format_simple_arg ''double'' ''_GpuArray *'' a) \<longleftrightarrow> isarray a"
    using c_ident_chars [OF assms(2)]
    by (simp_all add: simple_arg_shape [OF assms(1)] ptr_param_def const_prefix_def)
  show "CHR '','' \<notin> set arrty \<Longrightarrow> comma_free (format_simple_arg ''double'' arrty a)"
    using c_ident_chars [OF assms(2)]
    by (simp add: simple_arg_shape [OF assms(1)] comma_free_def const_prefix_def)
qed

lemma simple_call_read:
  "format_simple_call ''&%s.ga'' a = (if isarray a then ''&'' @ arg_name a @ ''.ga'' else arg_name a)"
  "format_simple_call ''%s'' a = arg_name a"
  by (simp_all add: format_simple_call_def)

lemma c_names_ok_simple: "c_names_ok op \<Longrightarrow> a \<in> set (simple_args op) \<Longrightarrow> c_ident (arg_name a)"
  by (simp add: c_names_ok_def simple_args_def)

lemma simple_items:
  assumes "c_names_ok op" and "simple_args op \<noteq> []" and "CHR '','' \<notin> set arrty"
  shows "py_split (format_simple_args ''double'' arrty op) = map (format_simple_arg ''double'' arrty) (simple_args op)"
proof -
  have "list_all comma_free (map (format_simple_arg ''double'' arrty) (simple_args op))"
    using assms(1,3) by (auto simp: list_all_iff intro: simple_arg_read(6) c_names_ok_simple)
  then show ?thesis using assms(2) by (simp add: format_simple_args_def py_split_py_join)
qed

lemma simple_calls:
  assumes "c_names_ok op" and "simple_args op \<noteq> []" and "pat = ''&%s.ga'' \<or> pat = ''%s''"
  shows "py_split (format_simple_call_op pat op) = map (format_simple_call pat) (simple_args op)"
proof -
  have "list_all comma_free (map (format_simple_call pat) (simple_args op))"
    using assms(1,3) c_ident_chars
    by (auto simp: list_all_iff simple_call_read comma_free_def split: if_split_asm dest!: c_names_ok_simple)
  then show ?thesis using assms(2) by (simp add: format_simple_call_op_def py_split_py_join)
qed

text \<open>
  C21.  The C header and the Cython \<^verbatim>\<open>extern\<close> declaration of
  \<^verbatim>\<open>GpuArray_r<op>\<close> declare the same parameters in the same order: the
  names of the simplified surface (\<^verbatim>\<open>simple_args\<close>) then
  \<^verbatim>\<open>nocopy\<close>, with a pointer exactly at the array arguments, for every
  descriptor whose argument names are C identifiers.
\<close>

theorem gpuarray_r_decls_agree:
  assumes "c_names_ok op" and "simple_args op \<noteq> []"
  shows "map c_param_name (blas_h_params op) = map arg_name (simple_args op) @ [''nocopy'']
   \<and> map c_param_name (pyx_extern_params op) = map arg_name (simple_args op) @ [''nocopy'']
   \<and> map ptr_param (blas_h_params op) = map isarray (simple_args op) @ [False]
   \<and> map ptr_param (pyx_extern_params op) = map isarray (simple_args op) @ [False]"
proof -
  have r: "\<And>a. a \<in> set (simple_args op) \<Longrightarrow> c_ident (arg_name a)"
    using assms(1) by (rule c_names_ok_simple)
  have n: "c_param_name ''int nocopy'' = ''nocopy''" "\<not> ptr_param ''int nocopy''"
    by (simp_all add: c_param_name_def py_param_name_def ptr_param_def)
  show ?thesis
    using assms n r by (simp add: blas_h_params_def pyx_extern_params_def simple_items simple_arg_read cong: map_cong)
qed

text \<open>
  C22.  The wrapper \<^verbatim>\<open>pygpu_blas_r<op>\<close> calls \<^verbatim>\<open>GpuArray_r<op>\<close>
  with one argument per declared parameter, in order: the address of the
  \<^verbatim>\<open>.ga\<close> struct of its own parameter of that name where the declaration
  has a pointer, the parameter itself elsewhere, and \<^verbatim>\<open>nocopy\<close> last;
  the wrapper's parameters carry the same names.
\<close>

theorem pygpu_call_fits:
  assumes "c_names_ok op" and "simple_args op \<noteq> []"
  shows "list_all2 call_fits (pygpu_call_args op) (pyx_extern_params op)
   \<and> map c_param_name (pygpu_wrapper_params op) = map c_param_name (pyx_extern_params op)"
proof -
  have r: "\<And>a. a \<in> set (simple_args op) \<Longrightarrow> c_ident (arg_name a)"
    using assms(1) by (rule c_names_ok_simple)
  have n: "c_param_name ''int nocopy'' = ''nocopy''" "c_param_name ''bint nocopy'' = ''nocopy''"
    "\<not> ptr_param ''int nocopy''"
    by (simp_all add: c_param_name_def py_param_name_def ptr_param_def)
  have fits: "list_all2 call_fits (map (format_simple_call ''&%s.ga'') (simple_args op))
                 (map (format_simple_arg ''double'' ''_GpuArray *'') (simple_args op))"
    using r by (auto simp: list.rel_map call_fits_def simple_call_read simple_arg_read
                    intro!: list.rel_refl_strong)
  show ?thesis
    using assms n r fits
    by (simp add: pygpu_call_args_def pyx_extern_params_def pygpu_wrapper_params_def simple_items
        simple_calls simple_arg_read call_fits_def list_all2_appendI cong: map_cong)
qed

text \<open>
  For the three operations of the table, every name the Python function
  passes to \<^verbatim>\<open>pygpu_blas_r<op>\<close> is one of its parameters or one of the
  transpose locals it declares, every \<^verbatim>\<open>trans_<m>\<close> option it reads is a
  parameter of its signature, and the call has the wrapper's arity.
\<close>

theorem make_ops_def_names_bound:
  "list_all (\<lambda>op. list_all (\<lambda>x. x \<in> set (py_param_names op) \<or> x \<in> set (trans_locals op) \<or> x = ''0'')
                          (def_call_args op)
                  \<and> list_all (\<lambda>x. x \<in> set (py_param_names op)) (trans_flags_read op)
                  \<and> length (def_call_args op) = length (pygpu_wrapper_params op)) make_ops"
  by (simp add: blas_defs Let_def def_call_args_def trans_locals_def trans_flags_read_def
      py_param_names_def pygpu_wrapper_params_def del: set_filter set_map)

section \<open>Witnesses\<close>

text \<open>
  The arity theorem on the table's \<^verbatim>\<open>gemv\<close> and on a descriptor with
  vectors only, shaped like a level-1 \<^verbatim>\<open>axpy\<close>: for the latter the
  generated dispatch would pass \<^verbatim>\<open>o\<close> to an entry that declares no order.
\<close>

theorem dispatch_arity_witness:
  "comma_free (dt_name float) \<and> comma_free ''float''
   \<and> list_all (\<lambda>a. comma_free (arg_name a) \<and> arg_name a \<noteq> []) (op_arguments gemv_op)
   \<and> c_arity (vtable_params float gemv_op) = c_arity (dispatch_args ''float'' gemv_op)
   \<and> c_arity (vtable_params float
        \<lparr>op_name = ''axpy'', op_types = [float, double],
         op_arguments = [size_arg ''N'', scalar ''alpha'' None, vector ''X'' False, inc ''incX'',
                         vector ''Y'' True, inc ''incY''],
         op_check_dims = Check_dims_ger, op_setup_order = Setup_order_ger, op_py_decls = [],
         op_py_ensure_output = Py_ensure_output_ger\<rparr>)
     \<noteq> c_arity (dispatch_args ''float''
        \<lparr>op_name = ''axpy'', op_types = [float, double],
         op_arguments = [size_arg ''N'', scalar ''alpha'' None, vector ''X'' False, inc ''incX'',
                         vector ''Y'' True, inc ''incY''],
         op_check_dims = Check_dims_ger, op_setup_order = Setup_order_ger, op_py_decls = [],
         op_py_ensure_output = Py_ensure_output_ger\<rparr>)"
proof -
  define axpy where "axpy =
        \<lparr>op_name = ''axpy'', op_types = [float, double],
         op_arguments = [size_arg ''N'', scalar ''alpha'' None, vector ''X'' False, inc ''incX'',
                         vector ''Y'' True, inc ''incY''],
         op_check_dims = Check_dims_ger, op_setup_order = Setup_order_ger, op_py_decls = [],
         op_py_ensure_output = Py_ensure_output_ger\<rparr>"
  have f: "comma_free (dt_name float)" "comma_free ''float''"
    by (simp_all add: comma_free_def float_def)
  have g: "\<forall>a\<in>set (op_arguments gemv_op). comma_free (arg_name a) \<and> arg_name a \<noteq> []"
    by (simp add: blas_defs comma_free_def)
  have x: "\<forall>a\<in>set (op_arguments axpy). comma_free (arg_name a) \<and> arg_name a \<noteq> []"
    by (simp add: axpy_def blas_defs comma_free_def)
  have "has_order gemv_op" "\<not> has_order axpy" by (simp_all add: axpy_def blas_defs)
  then show ?thesis
    using dispatch_arity [OF f g] dispatch_arity [OF f x] f g
    by (simp add: axpy_def list_all_iff)
qed

theorem generic_table_agrees_witness:
  "list_all macro_names_ok make_ops \<and> generic_funcs make_ops = buffer_entries make_ops"
proof -
  have h: "\<forall>op\<in>set make_ops. macro_names_ok op"
    by (simp add: make_ops_def macro_names_ok_def c_ident_def generic_op_params_def blas_defs)
  show ?thesis using generic_table_agrees [OF h] h by (simp add: list_all_iff)
qed

theorem buffer_fields_distinct_witness:
  "distinct (map op_name make_ops) \<and> list_all letters_ok make_ops
   \<and> list_all (\<lambda>op. op_name op \<notin> {''etup'', ''eardown'', ''gemmBatch''}) make_ops
   \<and> distinct (buffer_fields make_ops)"
proof -
  have h1: "distinct (map op_name make_ops)" by (simp add: blas_defs)
  have h2: "\<forall>op\<in>set make_ops. letters_ok op" by (simp add: make_ops_def letters_ok_def blas_defs)
  have h3: "\<forall>op\<in>set make_ops. op_name op \<notin> {''etup'', ''eardown'', ''gemmBatch''}"
    by (simp add: make_ops_def)
  show ?thesis using buffer_fields_distinct [OF h1 h2 h3] h1 h2 h3 by (simp add: list_all_iff)
qed

theorem format_pyargs_read_back_witness:
  "names_plain gemv_op \<and> py_args gemv_op \<noteq> []
   \<and> (\<exists>s. format_pyargs gemv_op = Some s
        \<and> map py_param_name (py_split s) = [''alpha'', ''A'', ''X'', ''beta'', ''Y'', ''trans_a'', ''overwrite_y'']
        \<and> map py_has_default (py_split s) = [False, False, False, True, True, True, True])"
proof -
  have h: "names_plain gemv_op" "py_args gemv_op \<noteq> []"
    by (simp_all add: names_plain_def plain_word_def comma_free_def blas_defs)
  have e: "py_param_names gemv_op = [''alpha'', ''A'', ''X'', ''beta'', ''Y'', ''trans_a'', ''overwrite_y'']"
    "map (\<lambda>a. arg_pydef a \<noteq> None) (py_args gemv_op)
       @ replicate (length (args_per_class gemv_op TransC) + length (filter arg_isoutput (array_args gemv_op))) True
     = [False, False, False, True, True, True, True]"
    by (simp_all add: py_param_names_def blas_defs py_lower_def lower_char_def)
  show ?thesis using format_pyargs_read_back [OF h] h e by simp
qed
theorem gpuarray_r_decls_agree_witness:
  "c_names_ok gemv_op \<and> simple_args gemv_op \<noteq> []
   \<and> map c_param_name (pyx_extern_params gemv_op) = [''transA'', ''alpha'', ''A'', ''X'', ''beta'', ''Y'', ''nocopy'']
   \<and> map ptr_param (pyx_extern_params gemv_op) = [False, False, True, True, False, True, False]"
proof -
  have h: "c_names_ok gemv_op" "simple_args gemv_op \<noteq> []"
    by (simp_all add: c_names_ok_def c_ident_def blas_defs)
  show ?thesis using gpuarray_r_decls_agree [OF h] h by (simp add: blas_defs)
qed

theorem pygpu_call_fits_witness:
  "c_names_ok gemv_op \<and> simple_args gemv_op \<noteq> []
   \<and> pygpu_call_args gemv_op = [''transA'', ''alpha'', ''&A.ga'', ''&X.ga'', ''beta'', ''&Y.ga'', ''nocopy'']
   \<and> list_all2 call_fits (pygpu_call_args gemv_op) (pyx_extern_params gemv_op)"
proof -
  have h: "c_names_ok gemv_op" "simple_args gemv_op \<noteq> []"
    by (simp_all add: c_names_ok_def c_ident_def blas_defs)
  have e: "pygpu_call_args gemv_op = [''transA'', ''alpha'', ''&A.ga'', ''&X.ga'', ''beta'', ''&Y.ga'', ''nocopy'']"
    by (simp add: pygpu_call_args_def format_simple_call_op_def format_simple_call_def blas_defs)
  show ?thesis using pygpu_call_fits [OF h] h e by simp
qed

end
