(* ===== verification/Blas_Generic.thy ===== *)
theory Blas_Generic
  imports Blas_Emit
begin

text \<open>
  The preprocessor prelude of \<^verbatim>\<open>GENERIC_TMPL\<close> (lines 385-429).  A
  backend source file defines some macros and includes the generated file,
  whose prelude stops compilation when a required macro is missing and gives
  every optional macro a default unless the backend defined it.  The macro
  definitions in force are a map from names to object-like or function-like
  macros; their expansion is modelled token by token in \<open>Blas_Cpp\<close>.
\<close>

section \<open>Macros and the template's prelude\<close>

datatype macro = ObjM string | FunM "string list" string

type_synonym macro_env = "string \<rightharpoonup> macro"

text \<open>\<^verbatim>\<open>#if !defined(FETCH_CONTEXT) || ... #error\<close>.\<close>

definition generic_required :: "string list" where
  "generic_required = [''FETCH_CONTEXT'', ''PREFIX'', ''ARRAY'', ''POST_CALL'']"

text \<open>\<^verbatim>\<open>#ifndef X\<close> / \<^verbatim>\<open>#define X d\<close> / \<^verbatim>\<open>#endif\<close>.\<close>

definition define_default :: "string \<Rightarrow> macro \<Rightarrow> macro_env \<Rightarrow> macro_env" where
  "define_default x d env = (case env x of None \<Rightarrow> env(x \<mapsto> d) | Some _ \<Rightarrow> env)"

text \<open>
  The \<^verbatim>\<open>#ifdef ORDER\<close> block: a backend that defines \<^verbatim>\<open>ORDER\<close> gets empty
  defaults for \<^verbatim>\<open>PREP_ORDER_<OP>\<close> and \<^verbatim>\<open>HANDLE_ORDER_<OP>\<close> of every
  operation; otherwise \<^verbatim>\<open>ORDER\<close> is defined empty.
\<close>

definition order_defaults :: "blas_op list \<Rightarrow> macro_env \<Rightarrow> macro_env" where
  "order_defaults ops env =
     (if env ''ORDER'' \<noteq> None
      then fold (\<lambda>op e. define_default (''HANDLE_ORDER_'' @ py_upper (op_name op)) (ObjM [])
                          (define_default (''PREP_ORDER_'' @ py_upper (op_name op)) (ObjM []) e)) ops env
      else env(''ORDER'' \<mapsto> ObjM []))"

text \<open>The hook names that block defaults, two per operation.\<close>

definition order_hook_names :: "blas_op list \<Rightarrow> string list" where
  "order_hook_names ops =
     concat (map (\<lambda>op. [''PREP_ORDER_'' @ py_upper (op_name op), ''HANDLE_ORDER_'' @ py_upper (op_name op)]) ops)"

text \<open>The defaults of \<^verbatim>\<open>INIT_ARGS\<close> to \<^verbatim>\<open>FUNC_FINI\<close>, in the template's order.\<close>

definition generic_macro_defaults :: "(string \<times> macro) list" where
  "generic_macro_defaults =
     [(''INIT_ARGS'', ObjM []), (''TRAIL_ARGS'', ObjM []), (''SZ'', FunM [''a''] ''a''),
      (''TRANS'', FunM [''t''] ''t''), (''SCAL'', FunM [''s''] ''s''),
      (''FUNC_INIT'', ObjM []), (''FUNC_FINI'', ObjM [])]"

definition generic_prelude :: "blas_op list \<Rightarrow> macro_env \<Rightarrow> string + macro_env" where
  "generic_prelude ops env =
     (if \<not> list_all (\<lambda>m. env m \<noteq> None) generic_required
      then Inl ''required macros not defined''
      else Inr (fold (\<lambda>(x, d). define_default x d) generic_macro_defaults (order_defaults ops env)))"

section \<open>The prelude\<close>

text \<open>
  A \<^verbatim>\<open>#ifndef\<close> default never replaces a definition: the macros a backend
  defines before the include are in force after the prelude.  The prelude
  fails exactly when a required macro is missing.
\<close>

lemma define_default_keeps: "e y = Some d \<Longrightarrow> define_default x d' e y = Some d"
  by (auto simp: define_default_def split: option.split)

lemma fold_define_default:
  "fold (\<lambda>(x, d). define_default x d) ds e y = (case e y of None \<Rightarrow> map_of ds y | Some d \<Rightarrow> Some d)"
proof (induction ds arbitrary: e)
  case (Cons xd ds)
  obtain x d where "xd = (x, d)" by fastforce
  then show ?case using Cons.IH [of "define_default x d e"]
    by (auto simp: define_default_def split: option.splits)
qed (simp split: option.split)

lemma order_defaults_keeps: "e y = Some d \<Longrightarrow> order_defaults ops e y = Some d"
proof -
  assume e: "e y = Some d"
  have "fold (\<lambda>op e. define_default (''HANDLE_ORDER_'' @ py_upper (op_name op)) (ObjM [])
          (define_default (''PREP_ORDER_'' @ py_upper (op_name op)) (ObjM []) e)) ops e' y = Some d"
    if "e' y = Some d" for e'
    using that by (induction ops arbitrary: e') (simp_all add: define_default_keeps)
  then show ?thesis using e by (auto simp: order_defaults_def)
qed

lemma define_default_other: "y \<noteq> x \<Longrightarrow> define_default x d e y = e y"
  by (simp add: define_default_def split: option.split)

lemma order_hooks_other:
  "y \<notin> set (order_hook_names ops) \<Longrightarrow>
   fold (\<lambda>op e. define_default (''HANDLE_ORDER_'' @ py_upper (op_name op)) (ObjM [])
          (define_default (''PREP_ORDER_'' @ py_upper (op_name op)) (ObjM []) e)) ops e y = e y"
  by (induction ops arbitrary: e) (simp_all add: order_hook_names_def define_default_other)

lemma order_defaults_other:
  "y \<noteq> ''ORDER'' \<Longrightarrow> y \<notin> set (order_hook_names ops) \<Longrightarrow> order_defaults ops e y = e y"
  using order_hooks_other [of y ops e] by (simp add: order_defaults_def)

lemma not_order_hook:
  "(\<nexists>x. y = ''PREP_ORDER_'' @ x) \<Longrightarrow> (\<nexists>x. y = ''HANDLE_ORDER_'' @ x) \<Longrightarrow> y \<notin> set (order_hook_names ops)"
  by (auto simp: order_hook_names_def)

lemma order_defaults_ORDER:
  "order_defaults ops e ''ORDER'' = (if e ''ORDER'' = None then Some (ObjM []) else e ''ORDER'')"
proof (cases "e ''ORDER'' = None")
  case False
  have "''ORDER'' \<notin> set (order_hook_names ops)" by (rule not_order_hook) auto
  then show ?thesis using False order_hooks_other [of "''ORDER''" ops e] by (simp add: order_defaults_def)
qed (simp add: order_defaults_def)

lemma generic_prelude_keeps:
  "generic_prelude ops env = Inr env' \<Longrightarrow> env y = Some d \<Longrightarrow> env' y = Some d"
  by (auto simp: generic_prelude_def fold_define_default order_defaults_keeps split: if_splits)

lemma generic_prelude_error:
  "(\<exists>e. generic_prelude ops env = Inl e) \<longleftrightarrow> \<not> list_all (\<lambda>m. env m \<noteq> None) generic_required"
  by (simp add: generic_prelude_def)

end
