(* ===== verification/Blas_Cpp.thy ===== *)
theory Blas_Cpp
  imports Blas_Generic "HOL-Library.Monad_Syntax"
begin

text \<open>
  The C preprocessor at the level of tokens, as \<^verbatim>\<open>GENERIC_TMPL\<close> relies on
  it, and the template's own macros: \<^verbatim>\<open>__GLUE\<close> and
  \<^verbatim>\<open>__GLUE_INT\<close> (lines 431-432), the per-operation macro
  \<^verbatim>\<open>OP(dtype, typec, TYPEC)\<close> (lines 435-457) and its instantiation for
  every type (lines 459-461).  Unlike the one-pass expander of
  \<^verbatim>\<open>Blas_Generic\<close>, expansion here follows the C standard (6.10.3):
  the arguments of a function-like macro are fully expanded before they are
  substituted, except where the parameter is an operand of \<^verbatim>\<open>##\<close>;
  \<^verbatim>\<open>##\<close> pastes two tokens into one; and the result of a replacement is
  rescanned with the replaced macro disabled, so that a macro is never
  expanded inside its own expansion.  Rescanning is a
  \<^verbatim>\<open>partial_function (option)\<close>: \<open>None\<close> is a scan that does not end,
  \<open>Some None\<close> a preprocessing error, \<open>Some (Some ts)\<close> the expanded
  tokens.  The theory proves that the scan ends for every finite macro table,
  and that the forwarding call of line 448 reaches the backend entry named by
  the backend's \<^verbatim>\<open>PREFIX\<close> followed by the operation's name.
\<close>

section \<open>Tokens and token macros\<close>

text \<open>
  Preprocessing tokens: identifiers (numbers lex as identifiers, which the
  template's texts never paste), identifiers painted as never to be replaced
  (the name of a macro met while that macro is disabled, 6.10.3.4), single
  punctuation characters, the
  \<^verbatim>\<open>##\<close> operator of a macro body, and two markers the expander uses
  internally: the placemarker of an empty argument pasted by
  \<^verbatim>\<open>##\<close>, and the separator between the arguments of one invocation
  while they are expanded together.
\<close>

datatype ptok = Ident string | Painted string | Punct char | Paste | Placemarker | ArgSep

definition pp_blank :: "char \<Rightarrow> bool" where
  "pp_blank c \<longleftrightarrow> c = CHR '' '' \<or> c = CHR 0x09 \<or> c = CHR 0x0A"

function pp_lex :: "string \<Rightarrow> ptok list" where
  "pp_lex [] = []"
| "pp_lex (c # cs) =
     (if ident_char c then Ident (c # takeWhile ident_char cs) # pp_lex (dropWhile ident_char cs)
      else if pp_blank c then pp_lex cs
      else if c = CHR ''#'' \<and> cs \<noteq> [] \<and> hd cs = CHR ''#'' then Paste # pp_lex (tl cs)
      else Punct c # pp_lex cs)"
  by pat_completeness auto
termination
  by (relation "measure length") (auto simp: le_imp_less_Suc length_dropWhile_le)

text \<open>
  A \<^verbatim>\<open>#define\<close> stores its replacement list as tokens: the macros of the
  textual model are lexed once.
\<close>

datatype cmacro = CObj "ptok list" | CFun "string list" "ptok list"

type_synonym cmacro_env = "string \<rightharpoonup> cmacro"

primrec cmacro_of :: "macro \<Rightarrow> cmacro" where
  "cmacro_of (ObjM b) = CObj (pp_lex b)"
| "cmacro_of (FunM ps b) = CFun ps (pp_lex b)"

definition cpp_env :: "macro_env \<Rightarrow> cmacro_env" where
  "cpp_env env = (\<lambda>x. map_option cmacro_of (env x))"

section \<open>Invocations\<close>

text \<open>
  The arguments of an invocation run to the parenthesis that closes its
  opening one and are split at the commas outside nested parentheses;
  \<open>None\<close> is an unterminated invocation.
\<close>

fun pp_args :: "nat \<Rightarrow> ptok list \<Rightarrow> ptok list list \<Rightarrow> ptok list \<Rightarrow> (ptok list list \<times> ptok list) option" where
  "pp_args d cur acc [] = None"
| "pp_args d cur acc (t # ts) =
     (if t = Punct CHR '')'' then
        (if d = 0 then Some (acc @ [cur], ts) else pp_args (d - 1) (cur @ [t]) acc ts)
      else if t = Punct CHR ''('' then pp_args (Suc d) (cur @ [t]) acc ts
      else if t = Punct CHR '','' \<and> d = 0 then pp_args d [] (acc @ [cur]) ts
      else pp_args d (cur @ [t]) acc ts)"

text \<open>The number of arguments must be the number of parameters; \<open>F()\<close> has one empty argument.\<close>

definition pp_arity :: "string list \<Rightarrow> ptok list list \<Rightarrow> bool" where
  "pp_arity ps args \<longleftrightarrow> (if ps = [] then args = [[]] else length args = length ps)"

text \<open>
  Substitution of the parameters: an operand of \<^verbatim>\<open>##\<close> is replaced by
  its argument as written (a placemarker when the argument is empty), any
  other occurrence by its fully expanded argument.  Only the arguments whose
  parameter occurs outside \<^verbatim>\<open>##\<close> are expanded.
\<close>

fun next_paste :: "ptok list \<Rightarrow> bool" where
  "next_paste (Paste # _) = True"
| "next_paste _ = False"

fun pp_subst :: "(string \<rightharpoonup> ptok list) \<Rightarrow> (string \<rightharpoonup> ptok list) \<Rightarrow> bool \<Rightarrow> ptok list \<Rightarrow> ptok list" where
  "pp_subst raw ex pp [] = []"
| "pp_subst raw ex pp (Ident x # ts) =
     (case raw x of
        Some a \<Rightarrow> (if pp \<or> next_paste ts then (if a = [] then [Placemarker] else a)
                  else (case ex x of Some e \<Rightarrow> e | None \<Rightarrow> a))
      | None \<Rightarrow> [Ident x]) @ pp_subst raw ex False ts"
| "pp_subst raw ex pp (t # ts) = t # pp_subst raw ex (t = Paste) ts"

fun pp_plain_uses :: "bool \<Rightarrow> ptok list \<Rightarrow> string list" where
  "pp_plain_uses pp [] = []"
| "pp_plain_uses pp (Ident x # ts) = (if pp \<or> next_paste ts then [] else [x]) @ pp_plain_uses False ts"
| "pp_plain_uses pp (t # ts) = pp_plain_uses (t = Paste) ts"

text \<open>
  Pasting joins the last token before \<^verbatim>\<open>##\<close> with the first after it.
  Two identifiers, painted or not, give a new identifier and a placemarker
  gives the other
  operand; any other pair does not form one token of the template's
  texts and is reported as an error, as compilers reject an invalid paste.
\<close>

fun tok_name :: "ptok \<Rightarrow> string option" where
  "tok_name (Ident a) = Some a"
| "tok_name (Painted a) = Some a"
| "tok_name _ = None"

fun pp_paste_tok :: "ptok \<Rightarrow> ptok \<Rightarrow> ptok option" where
  "pp_paste_tok Placemarker b = Some b"
| "pp_paste_tok a Placemarker = Some a"
| "pp_paste_tok a b =
     (case (tok_name a, tok_name b) of (Some x, Some y) \<Rightarrow> Some (Ident (x @ y)) | _ \<Rightarrow> None)"

fun pp_paste :: "ptok list \<Rightarrow> ptok list option" where
  "pp_paste (a # Paste # b # ts) =
     (case pp_paste_tok a b of None \<Rightarrow> None | Some c \<Rightarrow> pp_paste (c # ts))"
| "pp_paste (Paste # ts) = None"
| "pp_paste (a # ts) = map_option (Cons a) (pp_paste ts)"
| "pp_paste [] = Some []"

definition pp_replace :: "string list \<Rightarrow> ptok list \<Rightarrow> ptok list list \<Rightarrow> ptok list list \<Rightarrow> ptok list option" where
  "pp_replace ps b args es =
     map_option (filter (\<lambda>t. t \<noteq> Placemarker))
       (pp_paste (pp_subst (map_of (zip ps args)) (map_of (zip ps es)) False b))"

text \<open>
  The arguments of one invocation are expanded by one scan of their
  concatenation with separators between them, and split again afterwards:
  an argument's parentheses are balanced, so no invocation spans two
  arguments.
\<close>

definition pp_prescan :: "string list \<Rightarrow> ptok list \<Rightarrow> ptok list list \<Rightarrow> ptok list list" where
  "pp_prescan ps b args =
     map (\<lambda>(p, a). if p \<in> set (pp_plain_uses False b) then a else []) (zip ps args)"

fun pp_join_sep :: "ptok list list \<Rightarrow> ptok list" where
  "pp_join_sep [] = []"
| "pp_join_sep [a] = a"
| "pp_join_sep (a # as) = a @ ArgSep # pp_join_sep as"

fun pp_split_sep :: "ptok list \<Rightarrow> ptok list list" where
  "pp_split_sep [] = [[]]"
| "pp_split_sep (t # ts) =
     (if t = ArgSep then [] # pp_split_sep ts
      else (case pp_split_sep ts of a # as \<Rightarrow> (t # a) # as | [] \<Rightarrow> [[t]]))"

text \<open>
  What the scan does at a token: keep it (not a macro, or a function-like
  macro name not followed by a parenthesis), paint it (a macro that is
  disabled, or a painted token), fail, or replace an
  object-like macro or a function-like invocation, whose arguments and the
  text after whose closing parenthesis are returned.
\<close>

datatype pp_action =
  PKeep | PPaint string | PFail | PObj string "ptok list"
| PCall string "string list" "ptok list" "ptok list list" "ptok list"

definition pp_classify :: "cmacro_env \<Rightarrow> string set \<Rightarrow> ptok \<Rightarrow> ptok list \<Rightarrow> pp_action" where
  "pp_classify env D t ts =
     (case t of
        Ident x \<Rightarrow>
          (case env x of
             None \<Rightarrow> PKeep
           | Some m \<Rightarrow>
               (if x \<in> D then PPaint x else
                (case m of
                   CObj b \<Rightarrow> PObj x b
                 | CFun ps b \<Rightarrow>
                     (case ts of
                        Punct c # ts' \<Rightarrow>
                          (if c = CHR ''('' then
                             (case pp_args 0 [] [] ts' of
                                None \<Rightarrow> PFail
                              | Some (args, rest) \<Rightarrow> if pp_arity ps args then PCall x ps b args rest else PFail)
                           else PKeep)
                      | _ \<Rightarrow> PKeep))))
      | _ \<Rightarrow> PKeep)"

definition pp_cat :: "ptok list option \<Rightarrow> ptok list option \<Rightarrow> ptok list option" where
  "pp_cat r s = do { a \<leftarrow> r; b \<leftarrow> s; Some (a @ b) }"

section \<open>Rescanning\<close>

text \<open>
  The scan of a text with the macros in \<open>D\<close> disabled.  A replacement is
  rescanned with its macro added to \<open>D\<close>; the text after it is scanned in
  the enclosing context.  The name of a disabled macro is painted, so that
  no later rescan, of a body into which an expanded argument is substituted
  for instance, replaces it.  The C standard rescans a replacement together with
  the rest of the file; the two agree unless a replacement ends with the name
  of a function-like macro whose argument list follows the invocation, which
  no text of the template does.
\<close>

partial_function (option) pp_scan :: "cmacro_env \<Rightarrow> string set \<Rightarrow> ptok list \<Rightarrow> ptok list option option" where
  "pp_scan env D ts =
     (case ts of
        [] \<Rightarrow> Some (Some [])
      | t # ts' \<Rightarrow>
          (case pp_classify env D t ts' of
             PKeep \<Rightarrow> do { s \<leftarrow> pp_scan env D ts'; Some (map_option (Cons t) s) }
           | PPaint x \<Rightarrow> do { s \<leftarrow> pp_scan env D ts'; Some (map_option (Cons (Painted x)) s) }
           | PFail \<Rightarrow> Some None
           | PObj x b \<Rightarrow> do { r \<leftarrow> pp_scan env (insert x D) b; s \<leftarrow> pp_scan env D ts'; Some (pp_cat r s) }
           | PCall x ps b args rest \<Rightarrow> do {
               e \<leftarrow> pp_scan env D (pp_join_sep (pp_prescan ps b args));
               (case e of
                  None \<Rightarrow> Some None
                | Some es \<Rightarrow>
                    (case pp_replace ps b args (pp_split_sep es) of
                       None \<Rightarrow> Some None
                     | Some b' \<Rightarrow> do { r \<leftarrow> pp_scan env (insert x D) b';
                                      s \<leftarrow> pp_scan env D rest; Some (pp_cat r s) })) }))"

declare pp_scan.simps [code]

section \<open>The template's own macros\<close>

text \<open>
  \<^verbatim>\<open>#define __GLUE(part1, part2) __GLUE_INT(part1, part2)\<close> and
  \<^verbatim>\<open>#define __GLUE_INT(part1, part2) part1 ## part2\<close>.
\<close>

definition generic_glue :: "macro_env \<Rightarrow> macro_env" where
  "generic_glue env =
     env(''__GLUE'' \<mapsto> FunM [''part1'', ''part2''] ''__GLUE_INT(part1, part2)'',
         ''__GLUE_INT'' \<mapsto> FunM [''part1'', ''part2''] ''part1 ## part2'')"

text \<open>
  The per-operation macro \<^verbatim>\<open>${op.name.upper()}(dtype, typec, TYPEC)\<close>:
  its parameters, the callee of its forwarding call (line 448) and its body
  (lines 436-457, the line continuations and indentation dropped).  Mako
  evaluates \<^verbatim>\<open>op.array_args()[0]\<close> while rendering, which raises
  \<^verbatim>\<open>IndexError\<close> for an operation without array arguments.
\<close>

definition generic_call_head :: "blas_op \<Rightarrow> string" where
  "generic_call_head op = ''__GLUE(PREFIX(typec, TYPEC), '' @ op_name op @ '')''"

definition generic_op_body :: "blas_op \<Rightarrow> string option" where
  "generic_op_body op =
     (case array_args op of
        [] \<Rightarrow> None
      | a0 # _ \<Rightarrow> Some
          (''static int typec ## '' @ op_name op @ ''('' @ format_arguments ''dtype'' op @ '') { ''
           @ ''FETCH_CONTEXT('' @ arg_name a0 @ ''); FUNC_DECLS; ''
           @ ''PREP_ORDER_'' @ py_upper (op_name op) @ ''; HANDLE_ORDER_'' @ py_upper (op_name op)
           @ ''; FUNC_INIT; ''
           @ concat (map (\<lambda>a. ''ARRAY_INIT('' @ arg_name a @ ''); '') (array_args op))
           @ ''PRE_CALL '' @ generic_call_head op @ ''(INIT_ARGS '' @ format_call_args op @ '' TRAIL_ARGS); ''
           @ ''POST_CALL; ''
           @ concat (map (\<lambda>a. ''ARRAY_FINI('' @ arg_name a @ ''); '') (array_args op))
           @ ''FUNC_FINI; return GA_NO_ERROR; }''))"

text \<open>
  The macros in force where the template instantiates its operations: the
  prelude's (\<^verbatim>\<open>Blas_Generic\<close>), then the two glue macros and one
  macro per operation, each \<^verbatim>\<open>#define\<close> replacing an earlier definition
  of its name.  A rendering error stops the generation before any
  preprocessing.
\<close>

definition generic_op_defs :: "blas_op list \<Rightarrow> (string \<times> macro) list option" where
  "generic_op_defs ops =
     those (map (\<lambda>op. map_option (\<lambda>b. (py_upper (op_name op), FunM generic_op_params b))
                                 (generic_op_body op)) ops)"

definition generic_env :: "blas_op list \<Rightarrow> macro_env \<Rightarrow> string + macro_env" where
  "generic_env ops env =
     (case generic_op_defs ops of
        None \<Rightarrow> Inl ''IndexError: list index out of range''
      | Some ds \<Rightarrow>
          (case generic_prelude ops env of
             Inl e \<Rightarrow> Inl e
           | Inr e \<Rightarrow> Inr (fold (\<lambda>(x, m) e. e(x \<mapsto> m)) ds (generic_glue e))))"

text \<open>
  The instantiations \<^verbatim>\<open>${op.name.upper()}(${type.name}, ${type.c},
  ${type.c.upper()})\<close> (lines 459-461), and the arguments one of them binds
  to the macro's parameters.
\<close>

definition generic_instance :: "dtype \<Rightarrow> blas_op \<Rightarrow> string" where
  "generic_instance t op =
     py_upper (op_name op) @ ''('' @ dt_name t @ '', '' @ dt_c t @ '', '' @ py_upper (dt_c t) @ '')''"

definition generic_instances :: "blas_op list \<Rightarrow> string" where
  "generic_instances ops =
     concat (map (\<lambda>op. concat (map (\<lambda>t. generic_instance t op @ '' '') (op_types op))) ops)"

definition generic_inst_args :: "dtype \<Rightarrow> ptok list list" where
  "generic_inst_args t = [[Ident (dt_name t)], [Ident (dt_c t)], [Ident (py_upper (dt_c t))]]"

text \<open>The declaration of the table the generated file initializes (line 464).\<close>

definition generic_table_decl :: string where
  "generic_table_decl = ''GPUARRAY_LOCAL gpuarray_blas_ops __GLUE(NAME, _ops) = {''"

text \<open>
  A backend in the style of the CUDA one: its \<^verbatim>\<open>PREFIX\<close> names the
  cuBLAS entries (\<^verbatim>\<open>cublasSgemv\<close>), and it defines only the macros the
  prelude requires.
\<close>

definition backend_cublas :: macro_env where
  "backend_cublas =
     [''FETCH_CONTEXT'' \<mapsto> FunM [''A''] ''cuda_context *ctx = (A)->ctx'',
      ''PREFIX'' \<mapsto> FunM [''typec'', ''TYPEC''] ''cublas ## TYPEC'',
      ''ARRAY'' \<mapsto> FunM [''a'', ''dtype''] ''(dtype *)a'', ''POST_CALL'' \<mapsto> ObjM []]"


section \<open>The measure of rescanning\<close>

text \<open>
  Every recursive call of \<open>pp_scan\<close> either disables one more macro of the
  table or scans a shorter text: the first component of the measure is the
  number of macros still enabled, the second the length of the text; an
  argument list counts its tokens and one separator per argument.
\<close>

definition pp_size :: "ptok list list \<Rightarrow> nat" where
  "pp_size as = length (concat as) + length as"

definition pp_scan_rel :: "cmacro_env \<Rightarrow> ((string set \<times> ptok list) \<times> (string set \<times> ptok list)) set" where
  "pp_scan_rel env = inv_image (less_than <*lex*> less_than) (\<lambda>(D, ts). (card (dom env - D), length ts))"


section \<open>Termination of rescanning\<close>

lemma pp_size_simps [simp]:
  "pp_size [] = 0" "pp_size (a # as) = Suc (length a + pp_size as)"
  "pp_size (as @ bs) = pp_size as + pp_size bs"
  by (simp_all add: pp_size_def)

lemma pp_args_size:
  "pp_args d cur acc ts = Some (args, rest) \<Longrightarrow>
   pp_size args + length rest \<le> pp_size acc + Suc (length cur) + length ts"
proof (induction d cur acc ts rule: pp_args.induct)
  case (2 d cur acc t ts)
  then show ?case
    by (simp split: if_splits) fastforce+
qed simp

lemma pp_join_sep_length: "length (pp_join_sep as) \<le> pp_size as"
  by (induction as rule: pp_join_sep.induct) auto

lemma pp_prescan_size: "pp_size (pp_prescan ps b args) \<le> pp_size args"
proof -
  have "pp_size (map (\<lambda>(p, a). if p \<in> U then a else []) (zip ps args)) \<le> pp_size args" for U :: "string set" and ps
  proof (induction ps args rule: list_induct2')
    case (4 p ps a args)
    then show ?case by simp
  qed simp_all
  then show ?thesis by (simp add: pp_prescan_def)
qed

lemma pp_classify_PObj: "pp_classify env D t ts = PObj x b \<Longrightarrow> x \<in> dom env \<and> x \<notin> D"
  by (auto simp: pp_classify_def split: ptok.splits if_splits option.splits cmacro.splits
           list.splits prod.splits)

lemma pp_classify_PCall:
  assumes "pp_classify env D t ts = PCall x ps b args rest"
  shows "x \<in> dom env \<and> x \<notin> D \<and> length (pp_join_sep (pp_prescan ps b args)) < Suc (length ts)
         \<and> length rest < Suc (length ts)"
proof -
  obtain ts' where x: "t = Ident x" "x \<notin> D" "env x = Some (CFun ps b)" "ts = Punct CHR ''('' # ts'"
      and a: "pp_args 0 [] [] ts' = Some (args, rest)" "pp_arity ps args"
    using assms by (auto simp: pp_classify_def split: ptok.splits if_splits option.splits
                        cmacro.splits list.splits prod.splits)
  have "args \<noteq> []" using a(2) by (auto simp: pp_arity_def split: if_splits)
  then have "0 < pp_size args" by (cases args) auto
  moreover have "pp_size args + length rest \<le> Suc (length ts')" using pp_args_size [OF a(1)] by simp
  moreover have "length (pp_join_sep (pp_prescan ps b args)) \<le> pp_size args"
    using pp_join_sep_length pp_prescan_size order_trans by blast
  ultimately show ?thesis using x by auto
qed

lemma wf_pp_scan_rel: "wf (pp_scan_rel env)"
  by (auto simp: pp_scan_rel_def)

lemma pp_scan_rel_shorter: "length ts' < length ts \<Longrightarrow> ((D, ts'), (D, ts)) \<in> pp_scan_rel env"
  by (simp add: pp_scan_rel_def)

lemma pp_scan_rel_insert:
  assumes "finite (dom env)" "x \<in> dom env" "x \<notin> D"
  shows "((insert x D, b), (D, ts)) \<in> pp_scan_rel env"
proof -
  have "dom env - insert x D = (dom env - D) - {x}" by auto
  moreover have "x \<in> dom env - D" using assms by simp
  then have "card ((dom env - D) - {x}) < card (dom env - D)"
    by (rule card_Diff1_less [rotated]) (use assms(1) in simp)
  ultimately have "card (dom env - insert x D) < card (dom env - D)" by simp
  then show ?thesis by (simp add: pp_scan_rel_def)
qed

text \<open>
  The scan of any text with any set of disabled macros returns, for a finite
  macro table: well-founded induction on the measure above.
\<close>

lemma pp_scan_defined:
  assumes fin: "finite (dom env)"
  shows "pp_scan env D ts \<noteq> None"
proof (induction "(D, ts)" arbitrary: D ts rule: wf_induct_rule [OF wf_pp_scan_rel [of env]])
  case (1 D ts)
  have short: "pp_scan env D ts' \<noteq> None" if "length ts' < length ts" for ts'
    using 1 pp_scan_rel_shorter [OF that] by blast
  have ins: "pp_scan env (insert x D) b \<noteq> None" if "x \<in> dom env" "x \<notin> D" for x b
    using 1 pp_scan_rel_insert [OF fin that] by blast
  show ?case
  proof (cases ts)
    case Nil
    then show ?thesis by (simp add: pp_scan.simps)
  next
    case (Cons t ts')
    obtain s where s: "pp_scan env D ts' = Some s" using short Cons by fastforce
    show ?thesis
    proof (cases "pp_classify env D t ts'")
      case (PObj x b)
      obtain r where "pp_scan env (insert x D) b = Some r"
        using ins pp_classify_PObj [OF PObj] by blast
      then show ?thesis using Cons PObj s by (subst pp_scan.simps) simp
    next
      case (PCall x ps b args rest)
      note c = pp_classify_PCall [OF PCall]
      obtain e where e: "pp_scan env D (pp_join_sep (pp_prescan ps b args)) = Some e"
        using short Cons c by fastforce
      obtain s' where s': "pp_scan env D rest = Some s'" using short Cons c by fastforce
      show ?thesis
      proof (cases "e \<bind> (\<lambda>es. pp_replace ps b args (pp_split_sep es))")
        case None
        then show ?thesis using Cons PCall e by (subst pp_scan.simps) (auto split: option.splits)
      next
        case (Some b')
        obtain r where "pp_scan env (insert x D) b' = Some r" using ins c by blast
        then show ?thesis using Cons PCall e s' Some by (subst pp_scan.simps) (auto split: option.splits)
      qed
    qed (use Cons s in \<open>subst pp_scan.simps, simp\<close>)+
  qed
qed

section \<open>Steps of the scan\<close>

text \<open>The unfolding of the scan at a token, and the text after an invocation.\<close>

lemma pp_scan_Nil [simp]: "pp_scan env D [] = Some (Some [])"
  by (subst pp_scan.simps) simp

lemma pp_scan_Cons:
  "pp_scan env D (t # ts) =
     (case pp_classify env D t ts of
        PKeep \<Rightarrow> do { s \<leftarrow> pp_scan env D ts; Some (map_option (Cons t) s) }
      | PPaint x \<Rightarrow> do { s \<leftarrow> pp_scan env D ts; Some (map_option (Cons (Painted x)) s) }
      | PFail \<Rightarrow> Some None
      | PObj x b \<Rightarrow> do { r \<leftarrow> pp_scan env (insert x D) b; s \<leftarrow> pp_scan env D ts; Some (pp_cat r s) }
      | PCall x ps b args rest \<Rightarrow> do {
          e \<leftarrow> pp_scan env D (pp_join_sep (pp_prescan ps b args));
          (case e of
             None \<Rightarrow> Some None
           | Some es \<Rightarrow>
               (case pp_replace ps b args (pp_split_sep es) of
                  None \<Rightarrow> Some None
                | Some b' \<Rightarrow> do { r \<leftarrow> pp_scan env (insert x D) b';
                                 s \<leftarrow> pp_scan env D rest; Some (pp_cat r s) })) })"
  by (subst pp_scan.simps) simp

lemma pp_cat_simps [simp]:
  "pp_cat (Some a) (Some b) = Some (a @ b)" "pp_cat None s = None" "pp_cat r None = None"
  "pp_cat r (Some []) = r"
  by (simp_all add: pp_cat_def split: option.splits)

lemma pp_args_app:
  "pp_args d cur acc ts = Some (args, rest) \<Longrightarrow> pp_args d cur acc (ts @ ys) = Some (args, rest @ ys)"
  by (induction d cur acc ts rule: pp_args.induct) (auto split: if_splits)

lemma pp_classify_call_app:
  "pp_classify env D t ts = PCall x ps b args rest \<Longrightarrow>
   pp_classify env D t (ts @ ys) = PCall x ps b args (rest @ ys)"
  by (auto simp: pp_classify_def pp_args_app split: ptok.splits if_splits option.splits
           cmacro.splits list.splits prod.splits)

text \<open>An invocation is replaced independently of the text that follows it.\<close>

lemma pp_scan_call_app:
  assumes "pp_classify env D t ts = PCall x ps b args []" and "pp_scan env D ys = Some s"
  shows "pp_scan env D (t # ts @ ys) = map_option (\<lambda>v. pp_cat v s) (pp_scan env D (t # ts))"
  using pp_classify_call_app [OF assms(1), of ys] assms
  by (simp add: pp_scan_Cons) (auto simp: pp_cat_def split: option.splits Option.bind_splits)

text \<open>
  Painting: with \<^verbatim>\<open>#define z z+1\<close> and \<^verbatim>\<open>#define F(a) a\<close>, the
  argument of \<^verbatim>\<open>F(z)\<close> expands to \<^verbatim>\<open>z+1\<close> with \<^verbatim>\<open>z\<close>
  painted, and the rescan of \<^verbatim>\<open>F\<close>'s body leaves it alone.
\<close>

lemma pp_scan_blue_paint:
  "pp_scan [''z'' \<mapsto> CObj (pp_lex ''z+1''), ''F'' \<mapsto> CFun [''a''] (pp_lex ''a'')] {} (pp_lex ''F(z)'')
   = Some (Some [Painted ''z'', Punct CHR ''+'', Ident ''1''])"
  by code_simp

section \<open>Token pasting through \<^verbatim>\<open>__GLUE\<close>\<close>

lemma glue_bodies:
  "pp_lex ''__GLUE_INT(part1, part2)'' =
     [Ident ''__GLUE_INT'', Punct CHR ''('', Ident ''part1'', Punct CHR '','', Ident ''part2'', Punct CHR '')'']"
  "pp_lex ''part1 ## part2'' = [Ident ''part1'', Paste, Ident ''part2'']"
  by (simp_all add: ident_char_def pp_blank_def)

lemma glue_paste:
  assumes E: "E ''__GLUE_INT'' = Some (CFun [''part1'', ''part2''] [Ident ''part1'', Paste, Ident ''part2''])"
      and D: "''__GLUE_INT'' \<notin> D" and pn: "E (pfx @ n) = None"
  shows "pp_scan E D [Ident ''__GLUE_INT'', Punct CHR ''('', Ident pfx, Punct CHR '','', Ident n, Punct CHR '')'']
         = Some (Some [Ident (pfx @ n)])"
  using E D pn
  by (simp add: pp_scan_Cons pp_classify_def pp_arity_def pp_prescan_def pp_replace_def)

text \<open>
  Pasting the invocation \<^verbatim>\<open>PREFIX(c, C)\<close> directly to a name fails: its
  last token is a parenthesis.  This is why the template pastes through
  \<^verbatim>\<open>__GLUE\<close>, whose arguments are expanded before \<^verbatim>\<open>__GLUE_INT\<close>
  pastes them.
\<close>

lemma glue_direct_paste_error:
  assumes "E ''__GLUE_INT'' = Some (CFun [''part1'', ''part2''] [Ident ''part1'', Paste, Ident ''part2''])"
      and "''__GLUE_INT'' \<notin> D"
  shows "pp_scan E D [Ident ''__GLUE_INT'', Punct CHR ''('', Ident ''PREFIX'', Punct CHR ''('', Ident c,
            Punct CHR '','', Ident C, Punct CHR '')'', Punct CHR '','', Ident n, Punct CHR '')''] = Some None"
  using assms by (simp add: pp_scan_Cons pp_classify_def pp_arity_def pp_prescan_def pp_replace_def)

lemma glue_expands:
  assumes E: "E ''__GLUE'' = Some (CFun [''part1'', ''part2'']
                   [Ident ''__GLUE_INT'', Punct CHR ''('', Ident ''part1'', Punct CHR '','', Ident ''part2'', Punct CHR '')''])"
             "E ''__GLUE_INT'' = Some (CFun [''part1'', ''part2''] [Ident ''part1'', Paste, Ident ''part2''])"
      and D: "''__GLUE'' \<notin> D" "''__GLUE_INT'' \<notin> D"
      and P: "E ''PREFIX'' = Some (CFun [p1, p2] pb)" "''PREFIX'' \<notin> D"
      and hyp: "pp_scan E D [Ident ''PREFIX'', Punct CHR ''('', Ident c, Punct CHR '','', Ident C, Punct CHR '')'']
                = Some (Some [Ident pfx])"
      and n: "E n = None" and pn: "E (pfx @ n) = None"
  shows "pp_scan E D [Ident ''__GLUE'', Punct CHR ''('', Ident ''PREFIX'', Punct CHR ''('', Ident c,
            Punct CHR '','', Ident C, Punct CHR '')'', Punct CHR '','', Ident n, Punct CHR '')'']
         = Some (Some [Ident (pfx @ n)])"
proof -
  have clP: "pp_classify E D (Ident ''PREFIX'') [Punct CHR ''('', Ident c, Punct CHR '','', Ident C, Punct CHR '')'']
             = PCall ''PREFIX'' [p1, p2] pb [[Ident c], [Ident C]] []"
    using P by (simp add: pp_classify_def pp_arity_def)
  have s0: "pp_scan E D [ArgSep, Ident n] = Some (Some [ArgSep, Ident n])"
    using n by (simp add: pp_scan_Cons pp_classify_def)
  have s1: "pp_scan E D ([Ident ''PREFIX'', Punct CHR ''('', Ident c, Punct CHR '','', Ident C, Punct CHR '')'',
                          ArgSep, Ident n]) = Some (Some [Ident pfx, ArgSep, Ident n])"
    using pp_scan_call_app [OF clP s0] hyp by simp
  have s2: "pp_scan E (insert ''__GLUE'' D)
              [Ident ''__GLUE_INT'', Punct CHR ''('', Ident pfx, Punct CHR '','', Ident n, Punct CHR '')'']
            = Some (Some [Ident (pfx @ n)])"
    using glue_paste [OF E(2) _ pn] D(2) by simp
  show ?thesis
    using E D s1 s2 by (simp add: pp_scan_Cons pp_classify_def pp_arity_def pp_prescan_def pp_replace_def)
qed

declare pp_lex.simps(2) [simp del]

section \<open>The macros in force\<close>


lemma finite_dom_define_default: "finite (dom e) \<Longrightarrow> finite (dom (define_default x d e))"
  by (simp add: define_default_def split: option.splits)

lemma finite_dom_fold_define_default:
  "finite (dom e) \<Longrightarrow> finite (dom (fold (\<lambda>(x, d). define_default x d) ds e))"
  by (induction ds arbitrary: e) (auto simp: finite_dom_define_default)

lemma finite_dom_order_defaults: "finite (dom e) \<Longrightarrow> finite (dom (order_defaults ops e))"
proof -
  have "finite (dom e) \<Longrightarrow> finite (dom (fold (\<lambda>op e. define_default (''HANDLE_ORDER_'' @ py_upper (op_name op)) (ObjM [])
                          (define_default (''PREP_ORDER_'' @ py_upper (op_name op)) (ObjM []) e)) ops e))" for e
    by (induction ops arbitrary: e) (auto simp: finite_dom_define_default)
  then show "finite (dom e) \<Longrightarrow> ?thesis" by (simp add: order_defaults_def)
qed

lemma finite_dom_fold_upd: "finite (dom e) \<Longrightarrow> finite (dom (fold (\<lambda>(x, m) e. e(x \<mapsto> m)) ds e))"
  by (induction ds arbitrary: e) auto

lemma fold_upd_other:
  "x \<notin> set (map fst ds) \<Longrightarrow> fold (\<lambda>(x, m) e. e(x \<mapsto> m)) ds e x = e x"
  by (induction ds arbitrary: e) auto

lemma generic_op_defs_names:
  "generic_op_defs ops = Some ds \<Longrightarrow> map fst ds = map (\<lambda>op. py_upper (op_name op)) ops"
  by (induction ops arbitrary: ds) (auto simp: generic_op_defs_def split: option.splits)

lemma generic_env_cases:
  assumes "generic_env ops env = Inr E"
  obtains e ds where "generic_prelude ops env = Inr e" "generic_op_defs ops = Some ds"
    "E = fold (\<lambda>(x, m) e. e(x \<mapsto> m)) ds (generic_glue e)"
  using assms by (auto simp: generic_env_def split: option.splits sum.splits)

lemma generic_env_finite:
  assumes "generic_env ops env = Inr E" "finite (dom env)"
  shows "finite (dom (cpp_env E))"
proof -
  obtain e ds where e: "generic_prelude ops env = Inr e" "E = fold (\<lambda>(x, m) e. e(x \<mapsto> m)) ds (generic_glue e)"
    by (rule generic_env_cases [OF assms(1)])
  have "e = fold (\<lambda>(x, d). define_default x d) generic_macro_defaults (order_defaults ops env)"
    using e(1) by (simp add: generic_prelude_def split: if_splits)
  then have "finite (dom e)"
    using assms(2) by (simp add: finite_dom_order_defaults finite_dom_fold_define_default)
  then have "finite (dom E)" unfolding e(2) by (intro finite_dom_fold_upd) (simp add: generic_glue_def)
  moreover have "dom (cpp_env E) = dom E" by (auto simp: cpp_env_def)
  ultimately show ?thesis by simp
qed

lemma generic_env_other:
  assumes "generic_env ops env = Inr E" "x \<notin> set (map (\<lambda>op. py_upper (op_name op)) ops)"
  shows "\<exists>e. generic_prelude ops env = Inr e \<and> E x = generic_glue e x"
proof -
  obtain e ds where e: "generic_prelude ops env = Inr e" "generic_op_defs ops = Some ds"
    "E = fold (\<lambda>(x, m) e. e(x \<mapsto> m)) ds (generic_glue e)"
    by (rule generic_env_cases [OF assms(1)])
  have "x \<notin> set (map fst ds)"
    using assms(2) generic_op_defs_names [OF e(2)] by metis
  then have "E x = generic_glue e x"
    using e(3) fold_upd_other by simp
  then show ?thesis using e(1) by blast
qed

lemma generic_prelude_other:
  assumes "generic_prelude ops env = Inr e" "x \<notin> set (map fst generic_macro_defaults)"
      and "x \<notin> set (order_hook_names ops)" "x \<noteq> ''ORDER''"
  shows "e x = env x"
proof -
  have "e = fold (\<lambda>(x, d). define_default x d) generic_macro_defaults (order_defaults ops env)"
    using assms(1) by (simp add: generic_prelude_def split: if_splits)
  moreover have "map_of generic_macro_defaults x = None" using assms(2) by (simp add: map_of_eq_None_iff)
  ultimately show ?thesis
    using order_defaults_other [of x ops env] assms(3,4) by (simp add: fold_define_default split: option.splits)
qed

lemma generic_op_defs_some:
  "list_all (\<lambda>op. array_args op \<noteq> []) ops \<Longrightarrow> \<exists>ds. generic_op_defs ops = Some ds"
  by (induction ops) (auto simp: generic_op_defs_def generic_op_body_def split: list.splits)

lemma generic_env_backend:
  assumes "generic_env ops env = Inr E" "x \<notin> set (map (\<lambda>op. py_upper (op_name op)) ops)"
      and "x \<notin> {''__GLUE'', ''__GLUE_INT'', ''ORDER''}" "x \<notin> set (map fst generic_macro_defaults)"
      and "x \<notin> set (order_hook_names ops)"
  shows "E x = env x"
  using generic_env_other [OF assms(1,2)] generic_prelude_other [of ops env _ x] assms(3-5)
  by (auto simp: generic_glue_def)

lemma generic_env_cublas: "\<exists>E. generic_env make_ops backend_cublas = Inr E"
proof -
  have "list_all (\<lambda>op. array_args op \<noteq> []) make_ops"
    by (simp add: make_ops_def array_args_def blas_defs)
  then obtain ds where "generic_op_defs make_ops = Some ds" using generic_op_defs_some by blast
  moreover have "list_all (\<lambda>m. backend_cublas m \<noteq> None) generic_required"
    by (simp add: backend_cublas_def generic_required_def)
  ultimately show ?thesis by (simp add: generic_env_def generic_prelude_def)
qed

text \<open>
  Preprocessing the generated file terminates: for every backend that
  defines finitely many macros and passes the prelude's check, the C
  preprocessor's rescanning of the per-type instantiations of the template's
  operation macros (lines 459-461) returns, with an expansion or an error,
  whatever the backend's macros are, self-referential ones included.
\<close>

theorem generic_expansion_terminates:
  assumes "finite (dom env)" and "generic_env ops env = Inr E"
  shows "\<exists>r. pp_scan (cpp_env E) {} (pp_lex (generic_instances ops)) = Some r"
  using pp_scan_defined [OF generic_env_finite [OF assms(2,1)]] by blast

text \<open>The template's instantiation for the CUDA-style backend preprocesses to an end.\<close>

theorem generic_expansion_terminates_witness:
  "\<exists>E. generic_env make_ops backend_cublas = Inr E \<and>
       (\<exists>r. pp_scan (cpp_env E) {} (pp_lex (generic_instances make_ops)) = Some r)"
proof -
  obtain E where E: "generic_env make_ops backend_cublas = Inr E" using generic_env_cublas by blast
  have "finite (dom backend_cublas)" by (simp add: backend_cublas_def)
  then show ?thesis using generic_expansion_terminates [OF _ E] E by blast
qed

lemma make_ops_macro_names:
  "map (\<lambda>op. py_upper (op_name op)) make_ops = [''GEMV'', ''GEMM'', ''GER'']"
  by (simp add: make_ops_def blas_defs)

lemma generic_env_glue:
  assumes "generic_env make_ops env = Inr E"
  shows "cpp_env E ''__GLUE'' = Some (CFun [''part1'', ''part2'']
           [Ident ''__GLUE_INT'', Punct CHR ''('', Ident ''part1'', Punct CHR '','', Ident ''part2'', Punct CHR '')''])"
    and "cpp_env E ''__GLUE_INT'' = Some (CFun [''part1'', ''part2''] [Ident ''part1'', Paste, Ident ''part2''])"
proof -
  have "''__GLUE'' \<notin> set (map (\<lambda>op. py_upper (op_name op)) make_ops)"
       "''__GLUE_INT'' \<notin> set (map (\<lambda>op. py_upper (op_name op)) make_ops)"
    unfolding make_ops_macro_names by simp_all
  then obtain e e' where "E ''__GLUE'' = generic_glue e ''__GLUE''" "E ''__GLUE_INT'' = generic_glue e' ''__GLUE_INT''"
    using generic_env_other [OF assms] by metis
  then show "cpp_env E ''__GLUE'' = Some (CFun [''part1'', ''part2'']
           [Ident ''__GLUE_INT'', Punct CHR ''('', Ident ''part1'', Punct CHR '','', Ident ''part2'', Punct CHR '')''])"
    and "cpp_env E ''__GLUE_INT'' = Some (CFun [''part1'', ''part2''] [Ident ''part1'', Paste, Ident ''part2''])"
    by (simp_all add: cpp_env_def generic_glue_def glue_bodies)
qed

section \<open>The forwarding call\<close>

lemma pp_lex_word:
  assumes "c_ident w" and "s = [] \<or> \<not> ident_char (hd s)"
  shows "pp_lex (w @ s) = Ident w # pp_lex s"
proof -
  obtain c cs where w: "w = c # cs" "ident_char c" "list_all ident_char cs"
    using assms(1) by (cases w) (auto simp: c_ident_def)
  then have "takeWhile ident_char (cs @ s) = cs" "dropWhile ident_char (cs @ s) = s"
    using takeWhile_ident_boundary [OF assms(2), of cs] dropWhile_ident_boundary [OF assms(2), of cs]
    by (simp_all add: list_all_iff)
  with w(2) show ?thesis unfolding w(1) by (simp add: pp_lex.simps(2))
qed

lemma make_ops_names: "map op_name make_ops = [''gemv'', ''gemm'', ''ger'']"
  by (simp add: make_ops_def)

lemma call_head_lex:
  assumes "c_ident (op_name op)"
  shows "pp_lex (generic_call_head op) =
           [Ident ''__GLUE'', Punct CHR ''('', Ident ''PREFIX'', Punct CHR ''('', Ident ''typec'',
            Punct CHR '','', Ident ''TYPEC'', Punct CHR '')'', Punct CHR '','', Ident (op_name op),
            Punct CHR '')'']"
  using pp_lex_word [OF assms, of "'')''"]
  by (simp add: generic_call_head_def pp_lex.simps(2) ident_char_def pp_blank_def)

text \<open>
  C16.  The forwarding call reaches the backend's entry: in the body of the
  macro of every operation of the table, instantiated for a type, the callee
  \<^verbatim>\<open>__GLUE(PREFIX(typec, TYPEC), op)\<close> of line 448 expands to the single
  identifier formed by the expansion of the backend's
  \<^verbatim>\<open>PREFIX(c, C)\<close> followed by the operation's name, for every backend
  whose two-parameter \<^verbatim>\<open>PREFIX\<close> expands to one identifier and that does
  not define the operation's name or the entry's name as macros.
\<close>

theorem generic_call_reaches_entry:
  assumes E: "generic_env make_ops env = Inr E" and op: "op \<in> set make_ops"
      and P: "env ''PREFIX'' = Some (FunM [p1, p2] pb)"
      and pfx: "pp_scan (cpp_env E) {py_upper (op_name op)}
                  [Ident ''PREFIX'', Punct CHR ''('', Ident (dt_c t), Punct CHR '','',
                   Ident (py_upper (dt_c t)), Punct CHR '')''] = Some (Some [Ident pfx])"
      and n: "E (op_name op) = None" and pn: "E (pfx @ op_name op) = None"
  shows "pp_scan (cpp_env E) {py_upper (op_name op)}
           (pp_subst (map_of (zip generic_op_params (generic_inst_args t)))
                     (map_of (zip generic_op_params (generic_inst_args t))) False
                     (pp_lex (generic_call_head op)))
         = Some (Some [Ident (pfx @ op_name op)])"
proof -
  have "op_name op \<in> set (map op_name make_ops)" "py_upper (op_name op) \<in> set (map (\<lambda>op. py_upper (op_name op)) make_ops)"
    using op by simp_all
  then have nm: "op_name op \<in> {''gemv'', ''gemm'', ''ger''}" "py_upper (op_name op) \<in> {''GEMV'', ''GEMM'', ''GER''}"
    unfolding make_ops_names make_ops_macro_names by simp_all
  have ci: "c_ident (op_name op)" using nm(1) by (auto simp: c_ident_def ident_char_def)
  have np: "op_name op \<noteq> ''dtype'' \<and> op_name op \<noteq> ''typec'' \<and> op_name op \<noteq> ''TYPEC''" using nm(1) by auto
  have D: "''__GLUE'' \<notin> {py_upper (op_name op)}" "''__GLUE_INT'' \<notin> {py_upper (op_name op)}"
          "''PREFIX'' \<notin> {py_upper (op_name op)}"
    using nm(2) by auto
  obtain e where e: "generic_prelude make_ops env = Inr e" "E ''PREFIX'' = generic_glue e ''PREFIX''"
    using generic_env_other [OF E, of "''PREFIX''"] unfolding make_ops_macro_names by auto
  have cP: "cpp_env E ''PREFIX'' = Some (CFun [p1, p2] (pp_lex pb))"
    using e generic_prelude_keeps [OF e(1) P] by (simp add: cpp_env_def generic_glue_def)
  have tok: "pp_subst (map_of (zip generic_op_params (generic_inst_args t)))
                     (map_of (zip generic_op_params (generic_inst_args t))) False
                     (pp_lex (generic_call_head op)) =
             [Ident ''__GLUE'', Punct CHR ''('', Ident ''PREFIX'', Punct CHR ''('', Ident (dt_c t),
              Punct CHR '','', Ident (py_upper (dt_c t)), Punct CHR '')'', Punct CHR '','', Ident (op_name op),
              Punct CHR '')'']"
    using np by (simp add: call_head_lex [OF ci] generic_op_params_def generic_inst_args_def)
  have "cpp_env E (op_name op) = None" "cpp_env E (pfx @ op_name op) = None"
    using n pn by (simp_all add: cpp_env_def)
  then show ?thesis
    unfolding tok using glue_expands [OF generic_env_glue [OF E] D(1,2) cP D(3) pfx] by blast
qed

text \<open>
  With \<^verbatim>\<open>#define PREFIX(typec, TYPEC) cublas ## TYPEC\<close>, the callee of
  \<^verbatim>\<open>GEMV(float, s, S)\<close> is \<^verbatim>\<open>cublasSgemv\<close>.
\<close>

theorem generic_call_reaches_entry_witness:
  "\<exists>E. generic_env make_ops backend_cublas = Inr E \<and>
       pp_scan (cpp_env E) {''GEMV''}
         (pp_subst (map_of (zip generic_op_params (generic_inst_args float)))
                   (map_of (zip generic_op_params (generic_inst_args float))) False
                   (pp_lex (generic_call_head gemv_op)))
       = Some (Some [Ident ''cublasSgemv''])"
proof -
  obtain E where E: "generic_env make_ops backend_cublas = Inr E" using generic_env_cublas by blast
  have names: "map (\<lambda>op. py_upper (op_name op)) make_ops = [''GEMV'', ''GEMM'', ''GER'']"
              "order_hook_names make_ops = [''PREP_ORDER_GEMV'', ''HANDLE_ORDER_GEMV'', ''PREP_ORDER_GEMM'',
                 ''HANDLE_ORDER_GEMM'', ''PREP_ORDER_GER'', ''HANDLE_ORDER_GER'']"
    by (simp_all add: make_ops_macro_names order_hook_names_def make_ops_def blas_defs)
  have look: "E x = backend_cublas x"
    if "x \<in> {''PREFIX'', ''cublasS'', ''gemv'', ''cublasSgemv''}" for x
    using generic_env_backend [OF E, of x] that unfolding names
    by (auto simp: generic_macro_defaults_def)
  have op: "gemv_op \<in> set make_ops" "py_upper (op_name gemv_op) = ''GEMV''" "op_name gemv_op = ''gemv''"
    by (simp_all add: gemv_op_def make_ops_def blas_defs)
  have pfx: "pp_scan (cpp_env E) {''GEMV''}
               [Ident ''PREFIX'', Punct CHR ''('', Ident (dt_c float), Punct CHR '','',
                Ident (py_upper (dt_c float)), Punct CHR '')''] = Some (Some [Ident ''cublasS''])"
    using look
    by (simp add: pp_scan_Cons pp_classify_def pp_arity_def pp_prescan_def pp_replace_def cpp_env_def
                  backend_cublas_def float_def blas_defs pp_lex.simps(2) pp_blank_def)
  show ?thesis
    using generic_call_reaches_entry [OF E op(1), of "''typec''" "''TYPEC''" "''cublas ## TYPEC''" float "''cublasS''"]
          E pfx look op(2,3)
    by (simp add: backend_cublas_def)
qed

section \<open>A complete instantiation\<close>

text \<open>
  The expansion of \<^verbatim>\<open>GEMV(float, s, S)\<close> for the CUDA-style backend
  defines \<^verbatim>\<open>static int sgemv(\<close>, the entry the table initializer lists,
  and calls \<^verbatim>\<open>cublasSgemv\<close>.  It also keeps \<^verbatim>\<open>FUNC_DECLS\<close> as
  an identifier: the prelude's check (line 386) accepts a backend without
  \<^verbatim>\<open>FUNC_DECLS\<close>, \<^verbatim>\<open>PRE_CALL\<close>, \<^verbatim>\<open>ARRAY_INIT\<close>,
  \<^verbatim>\<open>ARRAY_FINI\<close> or, when it does not define \<^verbatim>\<open>ORDER\<close>, the
  order hooks, although the body uses them and the template gives them no
  default; the compiler then meets the bare names.
\<close>

lemma gemv_float_expansion:
  "(case generic_env make_ops backend_cublas of
      Inr E \<Rightarrow> (case pp_scan (cpp_env E) {} (pp_lex (generic_instance float gemv_op)) of
                 Some (Some r) \<Rightarrow> take 4 r = [Ident ''static'', Ident ''int'', Ident ''sgemv'', Punct CHR ''('']
                    \<and> Ident ''FUNC_DECLS'' \<in> set r \<and> Ident ''cublasSgemv'' \<in> set r
               | _ \<Rightarrow> False)
    | Inl _ \<Rightarrow> False)"
  by code_simp

text \<open>
  The table's name pastes \<^verbatim>\<open>NAME\<close> to \<^verbatim>\<open>_ops\<close>; the prelude
  neither requires nor defaults \<^verbatim>\<open>NAME\<close>, and a backend without it gets
  a table named \<^verbatim>\<open>NAME_ops\<close>.
\<close>

lemma generic_table_name:
  "(case generic_env make_ops backend_cublas of
      Inr E \<Rightarrow> pp_scan (cpp_env E) {} (pp_lex generic_table_decl)
    | Inl _ \<Rightarrow> None) =
   Some (Some [Ident ''GPUARRAY_LOCAL'', Ident ''gpuarray_blas_ops'', Ident ''NAME_ops'',
               Punct CHR ''='', Punct CHR ''{''])"
  "(case generic_env make_ops (backend_cublas(''NAME'' \<mapsto> ObjM ''cuda'')) of
      Inr E \<Rightarrow> pp_scan (cpp_env E) {} (pp_lex generic_table_decl)
    | Inl _ \<Rightarrow> None) =
   Some (Some [Ident ''GPUARRAY_LOCAL'', Ident ''gpuarray_blas_ops'', Ident ''cuda_ops'',
               Punct CHR ''='', Punct CHR ''{''])"
  by code_simp+

section \<open>The function each instantiation defines\<close>

text \<open>
  Lookups in the macros in force, the lexing of an instantiation and of the
  head of the operation macro's body, and the pasting of \<^verbatim>\<open>typec ## op\<close>.
\<close>

lemma those_map_in:
  "those (map f xs) = Some ys \<Longrightarrow> x \<in> set xs \<Longrightarrow> \<exists>y. f x = Some y \<and> y \<in> set ys"
  by (induction xs arbitrary: ys) (auto split: option.splits)

lemma fold_upd_map_add: "fold (\<lambda>(x, m) e. e(x \<mapsto> m)) ds e = e ++ map_of (rev ds)"
  by (simp add: map_add_map_of_foldr foldr_conv_fold)

lemma fold_upd_in:
  "distinct (map fst ds) \<Longrightarrow> (k, v) \<in> set ds \<Longrightarrow> fold (\<lambda>(x, m) e. e(x \<mapsto> m)) ds e k = Some v"
  using map_of_is_SomeI [of "rev ds" k v] by (simp add: fold_upd_map_add rev_map [symmetric])

lemma generic_op_body_head:
  "generic_op_body op = Some b \<Longrightarrow> \<exists>rest. b = ''static int typec ## '' @ op_name op @ ''('' @ rest"
  by (auto simp: generic_op_body_def split: list.splits)

lemma generic_env_op:
  assumes E: "generic_env ops env = Inr E" and op: "op \<in> set ops"
      and d: "distinct (map (\<lambda>op. py_upper (op_name op)) ops)"
  shows "\<exists>b. generic_op_body op = Some b \<and> E (py_upper (op_name op)) = Some (FunM generic_op_params b)"
proof -
  obtain e ds where e: "generic_op_defs ops = Some ds" "E = fold (\<lambda>(x, m) e. e(x \<mapsto> m)) ds (generic_glue e)"
    using generic_env_cases [OF E] by metis
  obtain y where y: "map_option (\<lambda>b. (py_upper (op_name op), FunM generic_op_params b)) (generic_op_body op) = Some y"
      "y \<in> set ds"
    using those_map_in [OF e(1) [unfolded generic_op_defs_def] op] by blast
  then obtain b where b: "generic_op_body op = Some b" "y = (py_upper (op_name op), FunM generic_op_params b)" by auto
  have "distinct (map fst ds)" using d generic_op_defs_names [OF e(1)] by simp
  then show ?thesis using fold_upd_in y(2) b e(2) by auto
qed

lemma pp_paste_punct:
  "pp_paste (Punct ch # X) = Some Y \<Longrightarrow> \<exists>Z. Y = Punct ch # Z"
proof (induction "length X" arbitrary: X Y rule: less_induct)
  case less
  show ?case
  proof (cases X)
    case (Cons x X')
    show ?thesis
    proof (cases "x = Paste \<and> X' \<noteq> []")
      case True
      then obtain b ts where X: "X = Paste # b # ts" using Cons by (cases X') auto
      show ?thesis
      proof (cases "b = Placemarker")
        case True
        then have "pp_paste (Punct ch # ts) = Some Y" using less(2) X by simp
        then show ?thesis using less(1) [of ts Y] X by simp
      next
        case False
        then show ?thesis using less(2) X by (cases b) auto
      qed
    next
      case False
      then show ?thesis using less Cons by (cases x; cases X') auto
    qed
  qed (use less in auto)
qed

lemma pp_lex_instance:
  assumes "c_ident u" "c_ident dn" "c_ident c" "c_ident C"
  shows "pp_lex (u @ ''('' @ dn @ '', '' @ c @ '', '' @ C @ '')'') =
           [Ident u, Punct CHR ''('', Ident dn, Punct CHR '','', Ident c, Punct CHR '','', Ident C,
            Punct CHR '')'']"
  using assms by (simp add: pp_lex_word pp_lex.simps(2) ident_char_def pp_blank_def)

lemma pp_lex_op_body:
  assumes "c_ident n"
  shows "pp_lex (''static int typec ## '' @ n @ ''('' @ rest) =
           [Ident ''static'', Ident ''int'', Ident ''typec'', Paste, Ident n, Punct CHR ''('']
           @ pp_lex rest"
  using assms by (simp add: pp_lex_word pp_lex.simps(2) ident_char_def pp_blank_def)

lemma pp_replace_op_head:
  assumes "n \<notin> set generic_op_params" and "length args = 3" and "args ! 1 = [Ident c]"
      and "pp_replace generic_op_params ([Ident ''static'', Ident ''int'', Ident ''typec'', Paste, Ident n,
             Punct CHR ''(''] @ L) args es = Some b'"
  shows "\<exists>Z. b' = [Ident ''static'', Ident ''int'', Ident (c @ n), Punct CHR ''(''] @ Z"
proof -
  obtain a0 a1 a2 where "args = [a0, a1, a2]"
    using assms(2) by (auto simp: numeral_3_eq_3 length_Suc_conv)
  with assms(3) have args: "args = [a0, [Ident c], a2]" by simp
  let ?raw = "map_of (zip generic_op_params args)" and ?ex = "map_of (zip generic_op_params es)"
  have sub: "pp_subst ?raw ?ex False ([Ident ''static'', Ident ''int'', Ident ''typec'', Paste, Ident n,
          Punct CHR ''(''] @ L) =
        [Ident ''static'', Ident ''int'', Ident c, Paste, Ident n, Punct CHR ''(''] @ pp_subst ?raw ?ex False L"
    using assms(1) by (simp add: args generic_op_params_def)
  then obtain Y where "pp_paste (Punct CHR ''('' # pp_subst ?raw ?ex False L) = Some Y"
      "b' = filter (\<lambda>t. t \<noteq> Placemarker) ([Ident ''static'', Ident ''int'', Ident (c @ n)] @ Y)"
    using assms(4) [unfolded pp_replace_def sub] by (auto split: option.splits)
  moreover obtain Z where "Y = Punct CHR ''('' # Z" using pp_paste_punct calculation(1) by blast
  ultimately show ?thesis by auto
qed

lemma pp_classify_keep:
  "E x = None \<Longrightarrow> pp_classify E D (Ident x) ts = PKeep" "pp_classify E D (Punct ch) ts = PKeep"
  by (simp_all add: pp_classify_def)

lemma pp_scan_keep_prefix:
  assumes "E ''static'' = None" "E ''int'' = None" "E cn = None"
      and "pp_scan E D ([Ident ''static'', Ident ''int'', Ident cn, Punct CHR ''(''] @ Z) = Some (Some r)"
  shows "take 4 r = [Ident ''static'', Ident ''int'', Ident cn, Punct CHR ''('']"
  using assms by (auto simp: pp_scan_Cons pp_classify_keep split: Option.bind_splits)

lemma instance_expansion_head:
  assumes Eop: "E u = Some (CFun generic_op_params (pp_lex (''static int typec ## '' @ n @ ''('' @ rest)))"
      and ci: "c_ident u" "c_ident dn" "c_ident c" "c_ident C" "c_ident n"
      and np: "n \<notin> set generic_op_params"
      and keep: "E ''static'' = None" "E ''int'' = None" "E (c @ n) = None"
      and res: "pp_scan E {} (pp_lex (u @ ''('' @ dn @ '', '' @ c @ '', '' @ C @ '')'')) = Some (Some r)"
  shows "take 4 r = [Ident ''static'', Ident ''int'', Ident (c @ n), Punct CHR ''('']"
proof -
  define b where "b = [Ident ''static'', Ident ''int'', Ident ''typec'', Paste, Ident n, Punct CHR ''('']
                       @ pp_lex rest"
  define args where "args = [[Ident dn], [Ident c], [Ident C]]"
  have cl: "pp_classify E {} (Ident u) [Punct CHR ''('', Ident dn, Punct CHR '','', Ident c, Punct CHR '','',
              Ident C, Punct CHR '')''] = PCall u generic_op_params b args []"
    using Eop [unfolded pp_lex_op_body [OF ci(5)]]
    by (simp add: pp_classify_def pp_arity_def generic_op_params_def b_def args_def)
  obtain es b' r1 where
      b': "pp_replace generic_op_params b args (pp_split_sep es) = Some b'"
      and r1: "pp_scan E {u} b' = Some (Some r1)" and r: "r = r1"
    using res unfolding pp_lex_instance [OF ci(1-4)] pp_scan_Cons cl
    by (auto simp: pp_cat_def split: option.splits Option.bind_splits)
  obtain Z where "b' = [Ident ''static'', Ident ''int'', Ident (c @ n), Punct CHR ''(''] @ Z"
    using pp_replace_op_head [OF np _ _ b' [unfolded b_def]] by (auto simp: args_def)
  then show ?thesis using pp_scan_keep_prefix [OF keep] r1 r by simp
qed

lemma make_ops_types: "op \<in> set make_ops \<Longrightarrow> op_types op = [float, double]"
  by (auto simp: make_ops_def)

text \<open>
  C6.  Every instantiation defines the entry the table lists: for every
  operation of the table, every type it supports and every backend that
  passes the prelude's check and does not define \<^verbatim>\<open>static\<close>,
  \<^verbatim>\<open>int\<close> or the entry's name as macros, whenever preprocessing
  \<^verbatim>\<open>${op.name.upper()}(${type.name}, ${type.c}, ${type.c.upper()})\<close>
  succeeds, its output begins with \<^verbatim>\<open>static int <c><op>(\<close>, the
  pasting of the type letter to the operation name, and that name is one of
  the entries the table initializer lists (line 469).
\<close>

theorem generic_instance_defines_entry:
  assumes E: "generic_env make_ops env = Inr E" and op: "op \<in> set make_ops" and t: "t \<in> set (op_types op)"
      and keep: "E ''static'' = None" "E ''int'' = None" "E (dt_c t @ op_name op) = None"
      and res: "pp_scan (cpp_env E) {} (pp_lex (generic_instance t op)) = Some (Some r)"
  shows "take 4 r = [Ident ''static'', Ident ''int'', Ident (dt_c t @ op_name op), Punct CHR ''('']
         \<and> dt_c t @ op_name op \<in> set (generic_init make_ops)"
proof -
  have "distinct (map (\<lambda>op. py_upper (op_name op)) make_ops)" by (simp add: make_ops_macro_names)
  then obtain b where b: "generic_op_body op = Some b"
      "E (py_upper (op_name op)) = Some (FunM generic_op_params b)"
    using generic_env_op [OF E op] by blast
  obtain rest where rest: "b = ''static int typec ## '' @ op_name op @ ''('' @ rest"
    using generic_op_body_head [OF b(1)] by blast
  have "op_name op \<in> set (map op_name make_ops)" using op by simp
  then have nm: "op_name op \<in> {''gemv'', ''gemm'', ''ger''}" unfolding make_ops_names by simp
  have tt: "t \<in> {float, double}" using t make_ops_types [OF op] by simp
  have ci: "c_ident (py_upper (op_name op))" "c_ident (dt_name t)" "c_ident (dt_c t)"
           "c_ident (py_upper (dt_c t))" "c_ident (op_name op)"
    using nm tt by (auto simp: c_ident_def ident_char_def float_def double_def blas_defs)
  have np: "op_name op \<notin> set generic_op_params" using nm by (auto simp: generic_op_params_def)
  have "take 4 r = [Ident ''static'', Ident ''int'', Ident (dt_c t @ op_name op), Punct CHR ''('']"
    using instance_expansion_head [OF _ ci np, of "cpp_env E" rest]
          b(2) rest keep res [unfolded generic_instance_def]
    by (simp add: cpp_env_def)
  moreover have "dt_c t @ op_name op \<in> set (generic_init make_ops)"
    using op t by (auto simp: generic_init_def)
  ultimately show ?thesis ..
qed

text \<open>For the CUDA-style backend, \<^verbatim>\<open>GEMV(float, s, S)\<close> defines \<^verbatim>\<open>sgemv\<close>.\<close>

theorem generic_instance_defines_entry_witness:
  "\<exists>E r. generic_env make_ops backend_cublas = Inr E
     \<and> pp_scan (cpp_env E) {} (pp_lex (generic_instance float gemv_op)) = Some (Some r)
     \<and> take 4 r = [Ident ''static'', Ident ''int'', Ident ''sgemv'', Punct CHR ''('']
     \<and> ''sgemv'' \<in> set (generic_init make_ops)"
proof -
  obtain E where E: "generic_env make_ops backend_cublas = Inr E" using generic_env_cublas by blast
  obtain r where r: "pp_scan (cpp_env E) {} (pp_lex (generic_instance float gemv_op)) = Some (Some r)"
    using gemv_float_expansion E by (auto split: option.splits)
  have names: "map (\<lambda>op. py_upper (op_name op)) make_ops = [''GEMV'', ''GEMM'', ''GER'']"
              "order_hook_names make_ops = [''PREP_ORDER_GEMV'', ''HANDLE_ORDER_GEMV'', ''PREP_ORDER_GEMM'',
                 ''HANDLE_ORDER_GEMM'', ''PREP_ORDER_GER'', ''HANDLE_ORDER_GER'']"
    by (simp_all add: make_ops_macro_names order_hook_names_def make_ops_def blas_defs)
  have look: "E x = None" if "x \<in> {''static'', ''int'', ''sgemv''}" for x
    using generic_env_backend [OF E, of x] that unfolding names
    by (auto simp: generic_macro_defaults_def backend_cublas_def)
  have op: "gemv_op \<in> set make_ops" "float \<in> set (op_types gemv_op)" "dt_c float @ op_name gemv_op = ''sgemv''"
    by (simp_all add: gemv_op_def make_ops_def float_def)
  show ?thesis
    using generic_instance_defines_entry [OF E op(1,2) _ _ _ r] look op(3) E r by auto
qed

end
