(* ===== verification/Blas_Driver.thy ===== *)
theory Blas_Driver
  imports Blas_Cpp
begin

text \<open>
  The generator's driver (lines 747-772): it renders the five templates for
  the table, in order, inside one \<^verbatim>\<open>try\<close>; an exception prints Mako's
  error report and exits with status 1; otherwise the five texts are written
  to their files, in order.  The texts are modelled by the other theories; here
  a rendering is the sequence of the expressions that can raise, in the order
  Mako evaluates them, and the rendering raises the exception of the first
  one that does.  They are the indexing \<^verbatim>\<open>op.array_args()[0]\<close>
  (\<^verbatim>\<open>GENERIC_TMPL\<close> line 437, \<^verbatim>\<open>ARRAYBLAS_TMPL\<close> line 582,
  \<^verbatim>\<open>BLAS_PYX_TMPL\<close> line 702), the \<^verbatim>\<open>self.name[-1]\<close> of
  \<^verbatim>\<open>inc.format_as_callarg\<close> (line 91, reached through
  \<^verbatim>\<open>format_blas_args\<close> twice per operation at lines 661 and 663), the
  \<^verbatim>\<open>t.name[-1]\<close> of \<^verbatim>\<open>format_pyargs\<close> (line 191, reached at line
  708) and the assertion that an operation has an output array (line 739, in
  the loop of line 707 after the signature of the same operation).  The
  loop of line 696 runs before the loop of line 707.
\<close>

datatype template = GENERIC_TMPL | BUFFERBLAS_TMPL | BLAS_TMPL | ARRAYBLAS_TMPL | BLAS_PYX_TMPL

datatype render_exc = IndexError | AssertionError

text \<open>Python's \<^verbatim>\<open>xs[i]\<close> on a list or a string, negative indices counting from the end.\<close>

definition py_index :: "'a list \<Rightarrow> int \<Rightarrow> render_exc + 'a" where
  "py_index xs i =
     (let n = int (length xs); j = (if i < 0 then i + n else i) in
      if 0 \<le> j \<and> j < n then Inr (xs ! nat j) else Inl IndexError)"

definition raised :: "render_exc + 'a \<Rightarrow> render_exc option" where
  "raised r = (case r of Inl e \<Rightarrow> Some e | Inr _ \<Rightarrow> None)"

text \<open>The exception of the first expression that raises.\<close>

fun first_exc :: "render_exc option list \<Rightarrow> render_exc option" where
  "first_exc [] = None"
| "first_exc (e # es) = (case e of Some x \<Rightarrow> Some x | None \<Rightarrow> first_exc es)"

definition first_array_exc :: "blas_op \<Rightarrow> render_exc option" where
  "first_array_exc op = raised (py_index (array_args op) 0)"

definition callarg_exc :: "argument \<Rightarrow> render_exc option" where
  "callarg_exc a = (if arg_cls a = IncC then raised (py_index (arg_name a) (-1)) else None)"

definition blas_args_exc :: "blas_op \<Rightarrow> render_exc option" where
  "blas_args_exc op = first_exc (map callarg_exc (op_arguments op))"

definition pyargs_exc :: "blas_op \<Rightarrow> render_exc option" where
  "pyargs_exc op = first_exc (map (\<lambda>t. raised (py_index (arg_name t) (-1))) (args_per_class op TransC))"

definition outas_exc :: "blas_op \<Rightarrow> render_exc option" where
  "outas_exc op = (if filter arg_isoutput (array_args op) = [] then Some AssertionError else None)"

text \<open>
  The raising expressions of each template, in evaluation order.  For
  \<^verbatim>\<open>GENERIC_TMPL\<close> they are those of the per-operation macro bodies
  (\<open>generic_op_defs\<close>); the two header templates evaluate nothing that
  raises.
\<close>

definition template_excs :: "template \<Rightarrow> blas_op list \<Rightarrow> render_exc option list" where
  "template_excs t ops =
     (case t of
        GENERIC_TMPL \<Rightarrow> [case generic_op_defs ops of None \<Rightarrow> Some IndexError | Some _ \<Rightarrow> None]
      | ARRAYBLAS_TMPL \<Rightarrow> concat (map (\<lambda>op. [first_array_exc op, blas_args_exc op, blas_args_exc op]) ops)
      | BLAS_PYX_TMPL \<Rightarrow> map first_array_exc ops @ concat (map (\<lambda>op. [pyargs_exc op, outas_exc op]) ops)
      | _ \<Rightarrow> [])"

definition render_error :: "template \<Rightarrow> blas_op list \<Rightarrow> render_exc option" where
  "render_error t ops = first_exc (template_excs t ops)"

text \<open>Lines 750-754 and 759-772: each template and the file its text is written to.\<close>

definition gen_outputs :: "(template \<times> string) list" where
  "gen_outputs =
     [(GENERIC_TMPL, ''src/generic_blas.inc.c''), (BUFFERBLAS_TMPL, ''src/gpuarray/buffer_blas.h''),
      (BLAS_TMPL, ''src/gpuarray/blas.h''), (ARRAYBLAS_TMPL, ''src/gpuarray_array_blas.c''),
      (BLAS_PYX_TMPL, ''pygpu/blas.pyx'')]"

datatype gen_event = Rendered template | PrintedError render_exc | Exited nat | Wrote string template

text \<open>The \<^verbatim>\<open>try\<close> block: the renderings up to the first exception.\<close>

fun gen_render :: "blas_op list \<Rightarrow> template list \<Rightarrow> gen_event list \<times> render_exc option" where
  "gen_render ops [] = ([], None)"
| "gen_render ops (t # ts) =
     (case render_error t ops of
        Some e \<Rightarrow> ([], Some e)
      | None \<Rightarrow> (let (ev, r) = gen_render ops ts in (Rendered t # ev, r)))"

definition gen_main :: "blas_op list \<Rightarrow> gen_event list" where
  "gen_main ops =
     (let (ev, r) = gen_render ops (map fst gen_outputs) in
      case r of
        Some e \<Rightarrow> ev @ [PrintedError e, Exited 1]
      | None \<Rightarrow> ev @ map (\<lambda>(t, p). Wrote p t) gen_outputs)"

text \<open>
  The names the two generated headers declare: the enumerations and the
  table struct of \<^verbatim>\<open>BUFFERBLAS_TMPL\<close> (lines 489-523) and the functions
  and per-type aliases of \<^verbatim>\<open>BLAS_TMPL\<close> (lines 544-550); and the names the
  Cython binding declares as taken from them (lines 684-694).  A header
  \<^verbatim>\<open>gpuarray/h\<close> is the file \<^verbatim>\<open>src/gpuarray/h\<close> of the
  distribution, whose \<^verbatim>\<open>src\<close> directory is on the include path.
\<close>

definition bufferblas_decls :: "string list" where
  "bufferblas_decls =
     [''cb_order'', ''cb_row'', ''cb_column'', ''cb_c'', ''cb_fortran'', ''cb_side'', ''cb_left'',
      ''cb_right'', ''cb_transpose'', ''cb_no_trans'', ''cb_trans'', ''cb_conj_trans'', ''cb_uplo'',
      ''cb_upper'', ''cb_lower'', ''gpuarray_blas_ops'']"

definition blas_h_decls :: "blas_op list \<Rightarrow> string list" where
  "blas_h_decls ops =
     concat (map (\<lambda>op. (''GpuArray_r'' @ op_name op)
                        # map (\<lambda>t. ''GpuArray_'' @ dt_c t @ op_name op) (op_types op)) ops)"

definition header_decls :: "template \<Rightarrow> blas_op list \<Rightarrow> string list" where
  "header_decls t ops =
     (case t of BUFFERBLAS_TMPL \<Rightarrow> bufferblas_decls | BLAS_TMPL \<Rightarrow> blas_h_decls ops | _ \<Rightarrow> [])"

definition pyx_externs :: "blas_op list \<Rightarrow> (string \<times> string list) list" where
  "pyx_externs ops =
     [(''gpuarray/buffer_blas.h'', [''cb_transpose'', ''cb_no_trans'', ''cb_trans'', ''cb_conj_trans'']),
      (''gpuarray/blas.h'', map (\<lambda>op. ''GpuArray_r'' @ op_name op) ops)]"

text \<open>
  What an operation must satisfy for each raising expression to succeed: an
  array argument, an output array, and non-empty names for its increment and
  transpose arguments.
\<close>

definition has_arrays :: "blas_op \<Rightarrow> bool" where
  "has_arrays op \<longleftrightarrow> array_args op \<noteq> []"

definition has_output :: "blas_op \<Rightarrow> bool" where
  "has_output op \<longleftrightarrow> filter arg_isoutput (array_args op) \<noteq> []"

definition names_nonempty :: "blas_op \<Rightarrow> arg_class \<Rightarrow> bool" where
  "names_nonempty op c \<longleftrightarrow> list_all (\<lambda>a. arg_name a \<noteq> []) (args_per_class op c)"

section \<open>What each template raises\<close>

lemma first_exc_append: "first_exc (xs @ ys) = (case first_exc xs of None \<Rightarrow> first_exc ys | e \<Rightarrow> e)"
  by (induction xs) (auto split: option.split)

lemma first_exc_None: "first_exc xs = None \<longleftrightarrow> list_all (\<lambda>e. e = None) xs"
  by (induction xs) (auto split: option.split)

lemma first_exc_same: "list_all (\<lambda>e. e = None \<or> e = Some x) xs \<Longrightarrow>
  first_exc xs = (if list_all (\<lambda>e. e = None) xs then None else Some x)"
  by (induction xs) auto

lemma py_index_last: "raised (py_index xs (-1)) = (if xs = [] then Some IndexError else None)"
  by (simp add: py_index_def raised_def Let_def)

lemma first_array_exc_eq: "first_array_exc op = (if has_arrays op then None else Some IndexError)"
  by (simp add: first_array_exc_def py_index_def raised_def has_arrays_def)

lemma blas_args_exc_eq: "blas_args_exc op = (if names_nonempty op IncC then None else Some IndexError)"
proof -
  have "list_all (\<lambda>e. e = None \<or> e = Some IndexError) (map callarg_exc (op_arguments op))"
    by (auto simp: list_all_iff callarg_exc_def py_index_last)
  moreover have "list_all (\<lambda>e. e = None) (map callarg_exc (op_arguments op)) \<longleftrightarrow> names_nonempty op IncC"
    by (auto simp: list_all_iff callarg_exc_def py_index_last names_nonempty_def args_per_class_def)
  ultimately show ?thesis by (simp add: blas_args_exc_def first_exc_same)
qed

lemma pyargs_exc_eq: "pyargs_exc op = (if names_nonempty op TransC then None else Some IndexError)"
proof -
  have "list_all (\<lambda>e. e = None \<or> e = Some IndexError)
          (map (\<lambda>t. raised (py_index (arg_name t) (-1))) (args_per_class op TransC))"
    by (auto simp: list_all_iff py_index_last)
  moreover have "list_all (\<lambda>e. e = None) (map (\<lambda>t. raised (py_index (arg_name t) (-1))) (args_per_class op TransC))
                 \<longleftrightarrow> names_nonempty op TransC"
    by (auto simp: list_all_iff py_index_last names_nonempty_def)
  ultimately show ?thesis by (simp add: pyargs_exc_def first_exc_same)
qed

lemma generic_op_defs_None: "generic_op_defs ops = None \<longleftrightarrow> \<not> list_all has_arrays ops"
  by (induction ops) (auto simp: generic_op_defs_def generic_op_body_def has_arrays_def split: list.splits)

lemma render_error_generic:
  "render_error GENERIC_TMPL ops = (if list_all has_arrays ops then None else Some IndexError)"
  using generic_op_defs_None [of ops] by (auto simp: render_error_def template_excs_def split: option.split)

lemma render_error_headers:
  "render_error BUFFERBLAS_TMPL ops = None" "render_error BLAS_TMPL ops = None"
  by (simp_all add: render_error_def template_excs_def)

lemma render_error_arrayblas:
  "render_error ARRAYBLAS_TMPL ops =
     (if list_all (\<lambda>op. has_arrays op \<and> names_nonempty op IncC) ops then None else Some IndexError)"
  by (induction ops)
     (auto simp: render_error_def template_excs_def first_exc_append first_array_exc_eq blas_args_exc_eq)

text \<open>
  With every operation holding an array, \<^verbatim>\<open>BLAS_PYX_TMPL\<close> raises for the
  first operation whose signature or assertion fails, and it raises what that
  operation's signature raises before its assertion.
\<close>

lemma pyx_loop_exc:
  "first_exc (concat (map (\<lambda>op. [pyargs_exc op, outas_exc op]) ops)) =
     (case find (\<lambda>op. \<not> (names_nonempty op TransC \<and> has_output op)) ops of
        None \<Rightarrow> None
      | Some op \<Rightarrow> Some (if names_nonempty op TransC then AssertionError else IndexError))"
  by (induction ops) (auto simp: first_exc_append pyargs_exc_eq outas_exc_def has_output_def)

lemma render_error_pyx:
  assumes "list_all has_arrays ops"
  shows "render_error BLAS_PYX_TMPL ops =
     (case find (\<lambda>op. \<not> (names_nonempty op TransC \<and> has_output op)) ops of
        None \<Rightarrow> None
      | Some op \<Rightarrow> Some (if names_nonempty op TransC then AssertionError else IndexError))"
proof -
  have "first_exc (map first_array_exc ops) = None"
    using assms by (simp add: first_exc_None list_all_iff first_array_exc_eq)
  then show ?thesis by (simp add: render_error_def template_excs_def first_exc_append pyx_loop_exc)
qed

section \<open>What the driver writes\<close>

lemma gen_main_templates:
  "gen_main ops =
     (let (ev, r) = gen_render ops [GENERIC_TMPL, BUFFERBLAS_TMPL, BLAS_TMPL, ARRAYBLAS_TMPL, BLAS_PYX_TMPL] in
      case r of
        Some e \<Rightarrow> ev @ [PrintedError e, Exited 1]
      | None \<Rightarrow> ev @ map (\<lambda>(t, p). Wrote p t) gen_outputs)"
  by (simp add: gen_main_def gen_outputs_def)

text \<open>
  C5.  Generation writes all five artefacts or none, and fails exactly where
  a template evaluates an expression that raises: when an operation has no
  array argument, the first template already raises \<^verbatim>\<open>IndexError\<close>;
  otherwise, when an increment argument has an empty name,
  \<^verbatim>\<open>ARRAYBLAS_TMPL\<close> raises \<^verbatim>\<open>IndexError\<close> after three templates;
  otherwise \<^verbatim>\<open>BLAS_PYX_TMPL\<close> raises for the first operation that has a
  transpose argument with an empty name (\<^verbatim>\<open>IndexError\<close>) or no output
  array (\<^verbatim>\<open>AssertionError\<close>), after four templates; when nothing raises,
  the five texts are rendered and then written in order.  After an exception
  the error is reported, the process exits with status 1 and no file is
  written.
\<close>

theorem gen_main_all_or_nothing:
  "gen_main ops =
     (if \<not> list_all has_arrays ops then [PrintedError IndexError, Exited 1]
      else if \<not> list_all (\<lambda>op. names_nonempty op IncC) ops
      then map Rendered [GENERIC_TMPL, BUFFERBLAS_TMPL, BLAS_TMPL] @ [PrintedError IndexError, Exited 1]
      else (case find (\<lambda>op. \<not> (names_nonempty op TransC \<and> has_output op)) ops of
              None \<Rightarrow> map (Rendered \<circ> fst) gen_outputs @ map (\<lambda>(t, p). Wrote p t) gen_outputs
            | Some op \<Rightarrow> map Rendered [GENERIC_TMPL, BUFFERBLAS_TMPL, BLAS_TMPL, ARRAYBLAS_TMPL]
                         @ [PrintedError (if names_nonempty op TransC then AssertionError else IndexError),
                            Exited 1]))"
proof (cases "list_all has_arrays ops")
  case False
  then show ?thesis by (simp add: gen_main_templates render_error_generic)
next
  case arrs: True
  have ab: "render_error ARRAYBLAS_TMPL ops =
              (if list_all (\<lambda>op. names_nonempty op IncC) ops then None else Some IndexError)"
    using arrs by (simp add: render_error_arrayblas list_all_iff)
  show ?thesis
    using arrs ab render_error_pyx [OF arrs]
    by (simp add: gen_main_templates render_error_generic render_error_headers gen_outputs_def
             split: option.split)
qed

lemma gen_main_make_ops:
  "gen_main make_ops =
     map (Rendered \<circ> fst) gen_outputs @ map (\<lambda>(t, p). Wrote p t) gen_outputs"
proof -
  have ok: "list_all has_arrays make_ops" "list_all (\<lambda>op. names_nonempty op IncC) make_ops"
    "find (\<lambda>op. \<not> (names_nonempty op TransC \<and> has_output op)) make_ops = None"
    by (simp_all add: has_arrays_def has_output_def names_nonempty_def make_ops_def blas_defs)
  have "render_error ARRAYBLAS_TMPL make_ops = None"
    using ok(1,2) by (simp add: render_error_arrayblas list_all_iff)
  then show ?thesis
    using ok(1) render_error_pyx [OF ok(1)] ok(3)
    by (simp add: gen_main_templates render_error_generic render_error_headers gen_outputs_def)
qed

theorem gen_main_all_or_nothing_witness:
  "gen_main [gemv_op\<lparr>op_arguments := trans_arg [] # tl (op_arguments gemv_op)\<rparr>]
     = map Rendered [GENERIC_TMPL, BUFFERBLAS_TMPL, BLAS_TMPL, ARRAYBLAS_TMPL] @ [PrintedError IndexError, Exited 1]"
  using gen_main_all_or_nothing [of "[gemv_op\<lparr>op_arguments := trans_arg [] # tl (op_arguments gemv_op)\<rparr>]"]
  by (simp add: has_arrays_def has_output_def names_nonempty_def blas_defs)

text \<open>
  Every name the Cython binding declares as taken from a generated header is
  declared by the template the driver writes to that header's file, for every
  descriptor table.
\<close>

lemma pyx_externs_declared:
  "list_all (\<lambda>(h, names). \<exists>t. (t, ''src/'' @ h) \<in> set gen_outputs \<and> set names \<subseteq> set (header_decls t ops))
     (pyx_externs ops)"
proof -
  have "(BUFFERBLAS_TMPL, ''src/'' @ ''gpuarray/buffer_blas.h'') \<in> set gen_outputs
        \<and> set [''cb_transpose'', ''cb_no_trans'', ''cb_trans'', ''cb_conj_trans'']
            \<subseteq> set (header_decls BUFFERBLAS_TMPL ops)"
    by (simp add: gen_outputs_def header_decls_def bufferblas_decls_def)
  moreover have "(BLAS_TMPL, ''src/'' @ ''gpuarray/blas.h'') \<in> set gen_outputs
        \<and> set (map (\<lambda>op. ''GpuArray_r'' @ op_name op) ops) \<subseteq> set (header_decls BLAS_TMPL ops)"
    by (auto simp: gen_outputs_def header_decls_def blas_h_decls_def)
  ultimately show ?thesis
    unfolding pyx_externs_def by (simp only: list.pred_inject prod.case) blast
qed

end
