(* ===== verification/Spec2Isabelle.thy ===== *)
theory Spec2Isabelle
  imports Blas_Binding_Scenarios Blas_Driver
begin

text \<open>
  \<^bold>\<open>A verification model of the BLAS binding generator \<^verbatim>\<open>src/gen_blas.py\<close>.\<close>

  \<^bold>\<open>The program.\<close>  \<^verbatim>\<open>gen_blas.py\<close> holds a declarative table of three BLAS
  operations (\<^verbatim>\<open>make_ops\<close>: \<^verbatim>\<open>gemv\<close>, \<^verbatim>\<open>gemm\<close>, \<^verbatim>\<open>ger\<close>), each an
  ordered list of typed arguments (classes \<^verbatim>\<open>scalar\<close>, \<^verbatim>\<open>size\<close>,
  \<^verbatim>\<open>inc\<close>, \<^verbatim>\<open>trans\<close>, \<^verbatim>\<open>matrix\<close>, \<^verbatim>\<open>vector\<close>) with three C or Cython
  code fragments (\<^verbatim>\<open>check_dims_*\<close>, \<^verbatim>\<open>setup_order_*\<close>,
  \<^verbatim>\<open>py_ensure_output_*\<close>).  Five Mako templates render the table into five
  coupled artefacts: the per-backend specialisation layer (\<^verbatim>\<open>GENERIC_TMPL\<close>),
  the backend operation table (\<^verbatim>\<open>BUFFERBLAS_TMPL\<close>), the public header
  (\<^verbatim>\<open>BLAS_TMPL\<close>), the validating C implementation \<^verbatim>\<open>GpuArray_r<op>\<close>
  (\<^verbatim>\<open>ARRAYBLAS_TMPL\<close>) and the Python binding (\<^verbatim>\<open>BLAS_PYX_TMPL\<close>).  The
  generated C calls into an array runtime (\<^verbatim>\<open>GpuArray\<close> structs, copies,
  contexts, backend tables) that is not part of the generator.

  \<^bold>\<open>Theories and what they model.\<close>
  \<^item> \<open>Blas_Prelude\<close>: Python string operations (\<^verbatim>\<open>join\<close>, \<^verbatim>\<open>lower\<close>,
    \<^verbatim>\<open>upper\<close>), the C conversions \<^verbatim>\<open>ssize_t\<close> to \<^verbatim>\<open>size_t\<close> to
    \<^verbatim>\<open>int\<close> written out modulo \<open>2^64\<close> and \<open>2^32\<close>, shared list
    lemmas, and the evaluation collection \<open>blas_defs\<close>.
  \<^item> \<open>Blas_Desc\<close>: the type registry (\<^verbatim>\<open>Dtype\<close>, \<^verbatim>\<open>float\<close>,
    \<^verbatim>\<open>double\<close>) as record \<open>dtype\<close>; the argument classes as datatype
    \<open>arg_class\<close> and record \<open>argument\<close> with one constructor function per
    Python class; \<^verbatim>\<open>BlasOp\<close> as record \<open>blas_op\<close> with its selections
    (\<open>has_order\<close>, \<open>matrix_args\<close>, \<open>array_args\<close>, \<open>size_args\<close>,
    \<open>simple_args\<close>, \<open>py_args\<close>); the table \<open>make_ops\<close> with the module
    constants \<open>py_decls_<op>\<close> it refers to.
  \<^item> \<open>GpuArray\<close>: the runtime, modelled from the description since its code is
    not in the repository: typecodes, error codes, the enumerations
    \<^verbatim>\<open>cb_order\<close>, \<^verbatim>\<open>cb_side\<close>, \<^verbatim>\<open>cb_transpose\<close>, \<^verbatim>\<open>cb_uplo\<close>
    (as \<^verbatim>\<open>BUFFERBLAS_TMPL\<close> emits them, lines 489-512),
    the \<^verbatim>\<open>GpuArray\<close> struct with the flags the pipeline tests, what the
    contiguity flags promise about strides, the values passed to a backend entry,
    the record \<open>runtime\<close> of the external calls, the contract of
    \<^verbatim>\<open>GpuArray_copy\<close>, and the BLAS addressing convention by which an
    entry reads a matrix from a buffer, an order, a leading dimension and a
    transpose flag (\<open>blas_view_ok\<close>), and a vector from a buffer offset and
    an increment (\<open>blas_vec_index\<close>, \<open>vec_view_ok\<close>); \<open>elem_aligned\<close>
    is what the alignment flag stands for (offset and strides in whole
    elements).
  \<^item> \<open>Blas_Pipeline\<close>: \<^verbatim>\<open>GpuArray_r<op>\<close> of \<^verbatim>\<open>ARRAYBLAS_TMPL\<close>
    (lines 567-674) with the fragments it splices in (lines 202-365).  The C
    body is a list of statements over record \<open>rstate\<close> (the pointers
    \<^verbatim>\<open>Ap\<close>, \<^verbatim>\<open>Xp\<close>, the \<^verbatim>\<open>size_t\<close> locals, the transpose
    parameters, \<^verbatim>\<open>o\<close>, \<^verbatim>\<open>elsize\<close>, \<^verbatim>\<open>ctx\<close>) run by \<open>seq\<close>; each
    statement continues, jumps to \<^verbatim>\<open>cleanup:\<close> (\<open>Goto\<close>) or returns
    directly (\<open>Return\<close>), so the early returns that skip the cleanup are
    explicit.  Effects on the runtime are a trace of events (copy made, copy
    cleared, backend setup, kernel call).  \<open>GpuArray_r\<close> is the whole function;
    \<open>body\<close> is its statement list: \<open>pre_checks\<close> (lines 584-609), one
    \<open>ensure_contig\<close> per array argument (611-645), \<open>prepare_call\<close>
    (647-658) and \<open>blas_invoke\<close> (660-663); \<open>cleanup\<close> is lines 665-672.
  \<^item> \<open>Blas_Call\<close>: what the backend entry receives when the run reaches
    the call (\<open>reach_call\<close>): the view of each matrix and vector under the
    BLAS addressing conventions, the assignment of every argument, and the
    increments with their C conversions.
  \<^item> \<open>Blas_Scenarios\<close>: concrete calls from the description's testable
    behaviours, evaluated by the simplifier, and the witnesses.
  \<^item> \<open>Blas_Emit\<close>: the emitter.  The renderers of each argument class
    (\<^verbatim>\<open>format_as_arg\<close>, \<^verbatim>\<open>format_simple_arg\<close>,
    \<^verbatim>\<open>format_simple_call\<close>, \<^verbatim>\<open>format_as_call\<close>,
    \<^verbatim>\<open>format_as_callarg\<close>, \<^verbatim>\<open>format_pyarg\<close>, lines 42-130) as
    one function each by case on the class; the list renderers of
    \<^verbatim>\<open>BlasOp\<close> (lines 169-193); and the template lines that combine them:
    the backend table struct of \<^verbatim>\<open>BUFFERBLAS_TMPL\<close>
    (\<open>buffer_entries\<close>, \<open>buffer_fields\<close>), the per-type functions of
    \<^verbatim>\<open>GENERIC_TMPL\<close> with the C preprocessor's simultaneous replacement
    of the macro parameters \<^verbatim>\<open>dtype\<close>, \<^verbatim>\<open>typec\<close>, \<^verbatim>\<open>TYPEC\<close>
    (\<open>subst_idents\<close>, \<open>generic_op_params\<close>, \<open>op_macro_args\<close>,
    \<open>generic_funcs\<close>) and
    its initializer (\<open>generic_init\<close>), the dispatch call of
    \<^verbatim>\<open>ARRAYBLAS_TMPL\<close> (\<open>dispatch_args\<close>), and the Python signature
    of \<^verbatim>\<open>BLAS_PYX_TMPL\<close> read back with Python's \<^verbatim>\<open>str.split\<close>
    (\<open>py_split\<close>, \<open>py_param_name\<close>, \<open>py_has_default\<close>); the
    parameter lists of \<^verbatim>\<open>GpuArray_r<op>\<close> in the public header
    (\<open>blas_h_params\<close>) and the Cython \<^verbatim>\<open>extern\<close>
    (\<open>pyx_extern_params\<close>), the wrapper \<^verbatim>\<open>pygpu_blas_r<op>\<close>
    (\<open>pygpu_wrapper_params\<close>, \<open>pygpu_call_args\<close>) and the names the
    Python function declares, reads and passes (\<open>trans_locals\<close>,
    \<open>trans_flags_read\<close>, \<open>def_call_args\<close>).
  \<^item> \<open>Blas_Generic\<close>: the prelude of \<^verbatim>\<open>GENERIC_TMPL\<close> (lines
    385-429).  The macros in force are a map \<open>macro_env\<close> from names to
    object-like or function-like definitions (datatype \<open>macro\<close>); the
    prelude (\<open>generic_prelude\<close>) is the \<^verbatim>\<open>#error\<close> check of the
    required macros (\<open>generic_required\<close>), the \<^verbatim>\<open>#ifdef ORDER\<close> block
    (\<open>order_defaults\<close>) and the \<^verbatim>\<open>#ifndef\<close> defaults
    (\<open>define_default\<close>, \<open>generic_macro_defaults\<close>), with the error as
    \<open>Inl\<close>.
  \<^item> \<open>Blas_Cpp\<close>: the C preprocessor on tokens (datatype \<open>ptok\<close>, lexer
    \<open>pp_lex\<close>, token macros \<open>cmacro\<close>) with nested argument lists
    (\<open>pp_args\<close>), argument pre-expansion except for \<^verbatim>\<open>##\<close> operands
    (\<open>pp_prescan\<close>, \<open>pp_subst\<close>), token pasting (\<open>pp_paste\<close>) and
    rescanning with the replaced macro disabled (\<open>pp_scan\<close>, a
    \<^verbatim>\<open>partial_function (option)\<close> whose \<open>None\<close> is a scan that does not
    end and whose \<open>Some None\<close> is a preprocessing error); and the rest of
    \<^verbatim>\<open>GENERIC_TMPL\<close>: the glue macros (\<open>generic_glue\<close>, lines
    431-432), the per-operation macro (\<open>generic_op_body\<close>,
    \<open>generic_op_defs\<close>, lines 434-457, with Mako's \<^verbatim>\<open>IndexError\<close>
    for an operation without arrays), the macros in force at the
    instantiations (\<open>generic_env\<close>) and the instantiations themselves
    (\<open>generic_instance\<close>, \<open>generic_instances\<close>, lines 459-461), and the
    declaration of the table the file initializes (\<open>generic_table_decl\<close>,
    line 464).
  \<^item> \<open>Blas_Driver\<close>: the generator's driver (lines 747-772) as a trace of
    events (\<open>gen_event\<close>): the five renderings inside one \<^verbatim>\<open>try\<close>
    (\<open>gen_render\<close>), what each template raises while rendering, as the
    list of its raising expressions in Mako's evaluation order
    (\<open>template_excs\<close>, \<open>render_error\<close>: Python's indexing
    \<open>py_index\<close> in \<^verbatim>\<open>op.array_args()[0]\<close> and in the
    \<^verbatim>\<open>name[-1]\<close> of \<^verbatim>\<open>inc.format_as_callarg\<close> and
    \<^verbatim>\<open>format_pyargs\<close>, and the assertion that an operation has an
    output), the error report with exit status 1, and the five file writes
    (\<open>gen_outputs\<close>, \<open>gen_main\<close>); and the names the two generated
    headers declare (\<open>header_decls\<close>) against the Cython
    \<^verbatim>\<open>cdef extern from\<close> blocks that take names from them
    (\<open>pyx_externs\<close>, lines 684-694).
  \<^item> \<open>Blas_Binding\<close>: the high-level Python function \<^verbatim>\<open>def <op>(...)\<close> of
    \<^verbatim>\<open>BLAS_PYX_TMPL\<close> (lines 707-743) with the \<^verbatim>\<open>py_ensure_output_*\<close>
    fragments it splices in (lines 234-246, 326-344, 369-375) and the wrapper
    \<^verbatim>\<open>pygpu_blas_r<op>\<close> (lines 696-705).  Its locals are record
    \<open>pstate\<close> (the array parameters, the \<^verbatim>\<open>overwrite_*\<close> and
    \<^verbatim>\<open>trans_*\<close> flags, the \<^verbatim>\<open>cb_transpose\<close> locals, the
    \<^verbatim>\<open>shape\<close> list, and the effects so far); each statement continues or
    raises (\<open>py_flow\<close>, Python exceptions as datatype \<open>py_exc\<close>), run by
    \<open>py_seq\<close>.  \<open>py_op\<close> is the whole function: the transpose setup
    (\<open>trans_setup\<close>), the output fragment (\<open>py_ensure_output\<close>), the
    copy of each output not to be overwritten (\<open>output_copies\<close>) and the
    call of \<open>GpuArray_r\<close> through \<open>pygpu_blas_r\<close>, whose error raises
    \<^verbatim>\<open>GpuArrayException\<close>.  The pygpu allocation and copy functions are
    the fields of record \<open>py_runtime\<close>, with the contract
    \<open>alloc_contract\<close>.  An abstract specification of the statements before
    the call (\<open>spec_prestep\<close>: usage error, allocate with a shape, copy the
    output, or work in place) is what \<open>abs_prestep\<close> reads off a run.
  \<^item> \<open>Blas_Binding_Scenarios\<close>: concrete calls of the Python functions
    and the witnesses of the binding theorems.

  \<^bold>\<open>What is proved.\<close>  For every descriptor and every behaviour of the
  runtime: each fallback copy is released exactly once on every path
  (\<open>GpuArray_r_no_leak\<close>); with \<^verbatim>\<open>nocopy\<close> no copy is ever made
  (\<open>GpuArray_r_nocopy_no_alloc\<close>); a failed check before the contiguity loop
  returns its error with no effect on the runtime
  (\<open>GpuArray_r_check_error\<close>), the checks being stated against the
  operation table of the description (\<open>dims_spec\<close>, \<open>check_error\<close>), so
  the kernel is called only on validated arguments.
  For the table's operations and a runtime whose copies meet their contract,
  a call whose checks pass and whose runtime lookups succeed reaches the kernel
  (\<open>GpuArray_r_progress\<close>), so the layout-error branch of the order fragments
  is dead code.  The negotiated call is right: with well-formed inputs,
  whenever the kernel is called, each matrix of the order fragment is passed
  with an order, leading dimension and transpose flag under which the BLAS
  addressing convention (\<open>blas_offset\<close>, \<open>blas_elem\<close> in \<open>GpuArray\<close>)
  reads, at every index of \<open>op(X)\<close>, the element of the caller's
  \<open>X\<close> under the caller's transpose, also where the flag was inverted
  because the matrix's layout disagrees with the chosen order
  (\<open>negotiated_call_view\<close>); and no argument of that call is an
  unassigned C local (\<open>kernel_args_assigned\<close>).  The vectors are right
  too: with inputs whose offsets and strides are whole elements and whose
  vector strides fit an \<^verbatim>\<open>int\<close> in elements, each increment is paired
  with its vector's buffer, the element size passed is the vector's, and the
  offset in elements with the increment reach every element of the vector
  by the BLAS vector convention, also where a vector read backwards was
  replaced by its packed copy (\<open>negotiated_vector_view\<close>).  After every prefix of the statements and after the cleanup,
  the state satisfies \<open>run_inv\<close>: copy events are the copied names, only
  inputs are copied, only copies are cleared, and uncopied names still point
  to the caller's arrays (\<open>GpuArray_r_run_inv\<close>).  The increment
  \<^verbatim>\<open>Xp->strides[0] / elsize\<close>, divided as \<^verbatim>\<open>size_t\<close> and narrowed to
  \<^verbatim>\<open>int\<close>, is the stride in elements whenever that fits an \<^verbatim>\<open>int\<close>
  (\<open>callarg_inc\<close>), and wraps to a negative increment for a positive
  stride of \<open>2^31\<close> elements or more: such a vector passes every check,
  is not copied, and reaches the kernel with the increment
  \<open>k - 2^32\<close> (\<open>kernel_inc_wraps\<close>); the code has no bound on strides.

  For the emitter, over every descriptor table meeting the naming conditions
  the C and Python languages impose: the dispatch through the backend table
  has the prototype's arity exactly when the operation has a matrix
  (\<open>dispatch_arity\<close>; a matrix-free descriptor would pass \<^verbatim>\<open>o\<close>
  once too often); the functions the generic layer's per-operation macro
  defines have, slot by slot, the prototypes the struct declares, once the
  three macro parameters are replaced (\<open>generic_table_agrees\<close>); the struct's fields are distinct
  (\<open>buffer_fields_distinct\<close>); the Python signature renderer never raises
  (\<open>format_pyargs_total\<close>: no argument it renders lacks
  \<^verbatim>\<open>format_pyarg\<close>).  Splitting a rendered
  signature gives back the \<^verbatim>\<open>py_args\<close> names, then one \<^verbatim>\<open>trans_\<close>
  option per transpose argument and one \<^verbatim>\<open>overwrite_\<close> option per output,
  with defaults where the descriptor gives them (\<open>format_pyargs_read_back\<close>).
  The public header and the Cython \<^verbatim>\<open>extern\<close> declaration of
  \<^verbatim>\<open>GpuArray_r<op>\<close> declare the same parameters, pointers at the same
  places (\<open>gpuarray_r_decls_agree\<close>); the wrapper \<^verbatim>\<open>pygpu_blas_r<op>\<close>
  passes \<^verbatim>\<open>&X.ga\<close> exactly at the pointer parameters and its own
  same-named parameters elsewhere (\<open>pygpu_call_fits\<close>); and for the table,
  the Python functions use only names they bind
  (\<open>make_ops_def_names_bound\<close>), which rests on each transpose argument
  being named after an input matrix.  In the generic layer the prelude keeps
  the backend's definitions and fails exactly when a required macro is
  missing (\<open>generic_prelude_keeps\<close>, \<open>generic_prelude_error\<close>).  Under the C preprocessor's rescanning,
  preprocessing the instantiations ends for every backend with finitely
  many macros that passes the check, self-referential macros included
  (\<open>generic_expansion_terminates\<close>); and the callee
  \<^verbatim>\<open>__GLUE(PREFIX(typec, TYPEC), op)\<close> of the forwarding call expands,
  for every operation and type, to the one identifier the backend's
  \<^verbatim>\<open>PREFIX\<close> gives followed by the operation's name
  (\<open>generic_call_reaches_entry\<close>; \<^verbatim>\<open>cublasSgemv\<close> for a
  CUDA-style backend), which pasting the invocation directly would not
  (\<open>glue_direct_paste_error\<close>).  Every instantiation whose
  preprocessing succeeds defines \<^verbatim>\<open>static int <c><op>(\<close>, an entry the
  table initializer lists (\<open>generic_instance_defines_entry\<close>), which is
  the description's naming rule derived through \<^verbatim>\<open>typec ## op\<close>.  The
  complete expansion of \<^verbatim>\<open>GEMV(float, s, S)\<close> for that backend shows
  that the prelude's check does not cover every macro the body needs
  (\<open>gemv_float_expansion\<close>), nor \<^verbatim>\<open>NAME\<close>, without which the table is
  named \<^verbatim>\<open>NAME_ops\<close> (\<open>generic_table_name\<close>).  The driver writes the
  five artefacts, in order, exactly when no template raises: every
  operation has an array argument and an output array and its increment and
  transpose arguments have non-empty names; otherwise it renders the
  templates before the first that raises, reports that template's first
  exception, writes nothing and exits with status 1
  (\<open>gen_main_all_or_nothing\<close>, from the per-template lemmas
  \<open>render_error_generic\<close>, \<open>render_error_arrayblas\<close>,
  \<open>render_error_pyx\<close>), so a failed generation never
  leaves mutually inconsistent artefacts behind; and every name the Cython
  binding takes from a generated header is declared by the template written
  to that header (\<open>pyx_externs_declared\<close>).

  For the Python binding, for every operation of the table and every pygpu
  runtime: \<^verbatim>\<open>gemv\<close> or \<^verbatim>\<open>gemm\<close> without an output and with a nonzero
  \<^verbatim>\<open>beta\<close> raises \<^verbatim>\<open>ValueError\<close> with no effect
  (\<open>py_op_beta_usage_error\<close>); an output the binding allocates has the
  shape, rank and element type the C checks demand
  (\<open>py_op_allocated_output_ok\<close>); an output not to be overwritten is
  copied before the call and the kernel receives the copy's buffer, never the
  caller's (\<open>py_op_copy_before_mutate\<close>); at most one C call is made, on
  the arrays the statements prepared (\<open>py_calls_result\<close>); and the
  statements before the call refine \<open>spec_prestep\<close> when the inputs have
  the ranks the fragments read and allocations succeed
  (\<open>py_prestep_refines\<close>).

  \<^bold>\<open>Modelling choices.\<close>  Scalars are reals: the \<^verbatim>\<open>(float)\<close> cast of the
  single-precision entry is not modelled.  Dimensions and offsets are
  \<open>nat\<close> (\<^verbatim>\<open>size_t\<close> values that do not overflow in the pipeline); strides
  are \<open>int\<close> (\<^verbatim>\<open>ssize_t\<close>), and the increment forwarded to the backend is
  computed with the C conversions written out; the element size of the
  increment theorems is any power of two up to \<open>2^32\<close>, covering the
  4 and 8 bytes of \<^verbatim>\<open>float\<close> and \<^verbatim>\<open>double\<close>.  No fuel is needed: every
  loop of the generator, of the generated C and of the Python function runs
  over a finite argument list; \<open>subst_idents\<close> and \<open>pp_lex\<close>,
  the recursions that are not structural,
  have termination proofs by the length of their input.  The one computation
  that need not end is the C preprocessor's rescanning, since the backend's
  macros are arbitrary; it is a \<^verbatim>\<open>partial_function (option)\<close> rather than
  fuel, and its termination for finite macro tables is a theorem, by
  well-founded induction on the number of macros not yet disabled and the
  length of the text (\<open>pp_scan_rel\<close>).  \<open>pp_scan\<close>
  rescans a replacement on its own rather than with the rest of the file,
  which differs only when a replacement ends with a function-like macro's
  name whose arguments follow, as no text of the template does.  Pasting
  forms identifiers only; other pastes are errors.
  The texts of \<^verbatim>\<open>format_as_callarg\<close> and \<^verbatim>\<open>format_pyargs\<close> take
  the last character of a name with HOL's \<open>last\<close>, which is the text of
  every non-empty name; the \<^verbatim>\<open>IndexError\<close> of an empty name is
  modelled, with the other exceptions of rendering, in \<open>Blas_Driver\<close>.
  A read of a Python list out of range (\<^verbatim>\<open>dimensions[0]\<close> of a rank-0
  array in \<^verbatim>\<open>py_ensure_output_ger\<close>) is left unspecified, as HOL's
  \<open>nth\<close> leaves it.

  \<^bold>\<open>Plan for the remaining components.\<close>  The \<^verbatim>\<open>cimport\<close> list
  of \<^verbatim>\<open>BLAS_PYX_TMPL\<close> (lines 679-681) against the runtime names the
  binding calls, once the binding's statements are read as text.

  \<^bold>\<open>Not modelled.\<close>  The Mako templating itself (text stamping: the
  theories model the texts the properties are about, not every character of
  the five files), the file system behind the driver's writes, the runtime's
  allocator and the numeric kernels, the statement
  macros a backend supplies to \<^verbatim>\<open>GENERIC_TMPL\<close>
  (\<^verbatim>\<open>FETCH_CONTEXT\<close>, \<^verbatim>\<open>FUNC_DECLS\<close>, \<^verbatim>\<open>ARRAY_INIT\<close>,
  \<^verbatim>\<open>PRE_CALL\<close>, \<^verbatim>\<open>POST_CALL\<close>: their bodies are not in the
  repository, so they are parameters of the theorems and example backends
  instantiate them), the stringizing operator \<^verbatim>\<open>#\<close> and conditional
  directives inside the expander (the template uses neither in a macro
  body), the include guards and \<^verbatim>\<open>extern "C"\<close>
  blocks and \<^verbatim>\<open>#include\<close> lines of the headers, the Cython import
  lines (lines 678-681), and the batched
  \<^verbatim>\<open>sgemmBatch\<close>/\<^verbatim>\<open>dgemmBatch\<close> entries passed through unchanged.
\<close>

end
